(* ===== verification/Prelude.thy ===== *)
theory Prelude
  imports Main "HOL-Library.Word" "HOL-Library.Monad_Syntax"
begin

text \<open>
  Shared vocabulary of the development: the machine integer types of the
  AArch64 target (LP64, little endian, plain \<open>char\<close> unsigned), byte memory,
  unaligned little-endian accesses (\<open>include/kernel/util.h\<close>), C strings in
  memory, and a small calculus of partial and total correctness for
  computations that may not return (\<open>None\<close> is "does not return").
\<close>

unbundle bit_operations_syntax

section \<open>Machine types\<close>

type_synonym byte = "8 word"
type_synonym u16 = "16 word"
type_synonym u32 = "32 word"
type_synonym u64 = "64 word"

text \<open>A C \<open>int\<close> is kept as its 32 bits and read with \<^const>\<open>sint\<close> where the code compares it.\<close>

type_synonym i32 = "32 word"
type_synonym addr = "64 word"
type_synonym mem = "addr \<Rightarrow> byte"

text \<open>
  Rewrite rules of partial (\<open>wlp\<close>) and total (\<open>wp\<close>) correctness,
  introduction rules that follow the shape of a program (\<open>wlp_intros\<close>), rules for
  what an operation leaves unchanged (\<open>frame_rules\<close>), and the register addresses.
\<close>

named_theorems wlp_rules
named_theorems wp_rules
named_theorems wlp_intros
named_theorems frame_rules
named_theorems reg_defs

section \<open>Correctness of computations that may not return\<close>

text \<open>
  \<open>wlp m Q\<close>: if \<open>m\<close> returns, its result satisfies \<open>Q\<close>.
  \<open>wp m Q\<close>: \<open>m\<close> returns and its result satisfies \<open>Q\<close>.
\<close>

definition wlp :: "'a option \<Rightarrow> ('a \<Rightarrow> bool) \<Rightarrow> bool" where
  "wlp m Q \<longleftrightarrow> (\<forall>x. m = Some x \<longrightarrow> Q x)"

definition wp :: "'a option \<Rightarrow> ('a \<Rightarrow> bool) \<Rightarrow> bool" where
  "wp m Q \<longleftrightarrow> (\<exists>x. m = Some x \<and> Q x)"

lemma wlp_Some [simp, wlp_rules]: "wlp (Some x) Q = Q x"
  by (simp add: wlp_def)

lemma wlp_None [simp, wlp_rules]: "wlp None Q"
  by (simp add: wlp_def)

lemma wlp_bind [wlp_rules]: "wlp (Option.bind m f) Q = wlp m (\<lambda>x. wlp (f x) Q)"
  by (cases m) simp_all

lemma wlp_if [wlp_rules]: "wlp (if b then m else m') Q = ((b \<longrightarrow> wlp m Q) \<and> (\<not> b \<longrightarrow> wlp m' Q))"
  by simp

lemma wlp_case_prod [wlp_rules]:
  "wlp (case p of (a, b) \<Rightarrow> f a b) Q = (\<forall>a b. p = (a, b) \<longrightarrow> wlp (f a b) Q)"
  by (cases p) simp

lemma wlp_bindI: "wlp m R \<Longrightarrow> (\<And>x. R x \<Longrightarrow> wlp (f x) Q) \<Longrightarrow> wlp (Option.bind m f) Q"
  by (cases m) simp_all

lemma wlp_bind_pairI [wlp_intros]:
  "wlp m (\<lambda>(x, t). R x t) \<Longrightarrow> (\<And>x t. R x t \<Longrightarrow> wlp (f x t) Q) \<Longrightarrow>
   wlp (Option.bind m (\<lambda>(x, t). f x t)) Q"
  by (cases m) auto

lemma wlp_bind_tripleI [wlp_intros]:
  "wlp m (\<lambda>(x, y, t). R x y t) \<Longrightarrow> (\<And>x y t. R x y t \<Longrightarrow> wlp (f x y t) Q) \<Longrightarrow>
   wlp (Option.bind m (\<lambda>(x, y, t). f x y t)) Q"
  by (cases m) auto

lemma wlp_ifI [wlp_intros]:
  "(b \<Longrightarrow> wlp m Q) \<Longrightarrow> (\<not> b \<Longrightarrow> wlp m' Q) \<Longrightarrow> wlp (if b then m else m') Q"
  by simp

lemma wlp_letI: "(\<And>x. x = e \<Longrightarrow> wlp (f x) Q) \<Longrightarrow> wlp (let x = e in f x) Q"
  by simp

lemma wlpI: "(\<And>x. m = Some x \<Longrightarrow> Q x) \<Longrightarrow> wlp m Q"
  by (simp add: wlp_def)

lemma wlpD: "wlp m Q \<Longrightarrow> m = Some x \<Longrightarrow> Q x"
  by (simp add: wlp_def)

lemma wlp_mono: "wlp m P \<Longrightarrow> (\<And>x. P x \<Longrightarrow> Q x) \<Longrightarrow> wlp m Q"
  by (simp add: wlp_def)

lemma wlp_conj: "wlp m P \<Longrightarrow> wlp m Q \<Longrightarrow> wlp m (\<lambda>x. P x \<and> Q x)"
  by (simp add: wlp_def)

lemma wlp_True [simp]: "wlp m (\<lambda>x. True)"
  by (simp add: wlp_def)

lemma wlp_any: "wlp m (\<lambda>x. True)" "wlp m' (\<lambda>(x, t). True)"
  by (simp_all add: wlp_def)

lemma wp_Some [simp, wp_rules]: "wp (Some x) Q = Q x"
  by (simp add: wp_def)

lemma wp_None [simp, wp_rules]: "wp None Q = False"
  by (simp add: wp_def)

lemma wp_bind [wp_rules]: "wp (Option.bind m f) Q = wp m (\<lambda>x. wp (f x) Q)"
  by (cases m) simp_all

lemma wpD: "wp m Q \<Longrightarrow> \<exists>x. m = Some x \<and> Q x"
  by (simp add: wp_def)

lemma wp_wlp: "wp m Q \<Longrightarrow> wlp m Q"
  by (auto simp: wp_def wlp_def)

lemma wp_mono: "wp m P \<Longrightarrow> (\<And>x. P x \<Longrightarrow> Q x) \<Longrightarrow> wp m Q"
  by (auto simp: wp_def)

lemma bind_Some_iff:
  "Option.bind m f = Some y \<longleftrightarrow> (\<exists>x. m = Some x \<and> f x = Some y)"
  by (cases m) simp_all

section \<open>Regions of the 64-bit address space\<close>

text \<open>
  The \<open>n\<close> bytes from \<open>p\<close>, wrapping at the end of the address space: an
  address is inside when its distance from \<open>p\<close> is below \<open>n\<close>.
\<close>

definition in_region :: "addr \<Rightarrow> u64 \<Rightarrow> addr \<Rightarrow> bool" where
  "in_region p n a \<longleftrightarrow> a - p < n"

definition disjoint_regions :: "addr \<Rightarrow> u64 \<Rightarrow> addr \<Rightarrow> u64 \<Rightarrow> bool" where
  "disjoint_regions p n q k \<longleftrightarrow> (\<forall>a. \<not> (in_region p n a \<and> in_region q k a))"

lemma in_region_0 [simp]: "\<not> in_region p 0 a"
  by (simp add: in_region_def)

lemma word_less_step:
  fixes x k :: "'a::len word"
  assumes "0 < k"
  shows "x < k \<longleftrightarrow> x = 0 \<or> x - 1 < k - 1"
proof (cases "x = 0")
  case True
  with assms show ?thesis by simp
next
  case False
  with assms have "0 < unat x" "0 < unat k"
    by (simp_all add: unat_gt_0 word_neq_0_conv)
  moreover from assms have "k \<noteq> 0" by auto
  ultimately show ?thesis
    using False by (auto simp: word_less_nat_alt unat_minus_one)
qed

text \<open>The measure of the loops \<open>while (i < n) i++\<close> and \<open>while (n-- > 0)\<close>.\<close>

lemma count_down_less:
  fixes i n :: "'a::len word"
  assumes "i < n"
  shows "unat (n - (i + 1)) < unat (n - i)"
proof -
  have "n - i \<noteq> 0" using assms by auto
  moreover have "n - (i + 1) = n - i - 1" by simp
  ultimately show ?thesis
    by (metis unat_minus_one diff_less unat_gt_0 zero_less_one)
qed

lemma word_less_Suc_unat:
  fixes i n :: "'a::len word"
  assumes "i < n"
  shows "unat (i + 1) = Suc (unat i)"
proof -
  from assms have "Suc (unat i) \<le> unat n" by (simp add: word_less_nat_alt)
  also have "unat n < 2 ^ LENGTH('a)" by simp
  finally show ?thesis by (simp add: unat_word_ariths)
qed

lemma unat_ucast_up:
  "LENGTH('a::len) \<le> LENGTH('b::len) \<Longrightarrow> unat (ucast (x :: 'a word) :: 'b word) = unat x"
  by (simp add: unsigned_ucast_eq)
    (metis take_bit_nat_eq_self unsigned_less less_le_trans power_increasing one_le_numeral)

lemma in_region_step:
  assumes "i < n"
  shows "in_region p (n - i) a \<longleftrightarrow> a = p \<or> in_region (p + 1) (n - (i + 1)) a"
proof -
  from assms have "0 < n - i"
    by (metis less_iff_diff_less_0 right_minus_eq word_gt_0 less_irrefl)
  then have "a - p < n - i \<longleftrightarrow> a - p = 0 \<or> a - p - 1 < n - i - 1"
    by (rule word_less_step)
  then show ?thesis
    by (simp add: in_region_def algebra_simps)
qed

lemma in_region_self: "in_region p n p \<longleftrightarrow> 0 < n"
  by (simp add: in_region_def)

lemma disjoint_regionsD:
  "disjoint_regions p n q k \<Longrightarrow> in_region p n a \<Longrightarrow> \<not> in_region q k a"
  by (auto simp: disjoint_regions_def)

section \<open>Little-endian accesses (include/kernel/util.h)\<close>

definition write_word :: "u32 \<Rightarrow> addr \<Rightarrow> addr \<Rightarrow> mem \<Rightarrow> mem" where
  "write_word val buf offset m =
     (let m = m(buf + offset + 0 := ucast (val AND 0xff));
          m = m(buf + offset + 1 := ucast (drop_bit 8 val AND 0xff));
          m = m(buf + offset + 2 := ucast (drop_bit 16 val AND 0xff))
      in m(buf + offset + 3 := ucast (drop_bit 24 val AND 0xff)))"

definition write_halfword :: "u16 \<Rightarrow> addr \<Rightarrow> addr \<Rightarrow> mem \<Rightarrow> mem" where
  "write_halfword val buf offset m =
     (let m = m(buf + offset + 0 := ucast (val AND 0xff))
      in m(buf + offset + 1 := ucast (drop_bit 8 val AND 0xff)))"

definition write_byte :: "byte \<Rightarrow> addr \<Rightarrow> addr \<Rightarrow> mem \<Rightarrow> mem" where
  "write_byte b buf offset m = m(buf + offset := b)"

definition read_word :: "mem \<Rightarrow> addr \<Rightarrow> addr \<Rightarrow> u32" where
  "read_word m buf offset =
     (let b0 = ucast (m (buf + offset + 0)) AND 0xff;
          b1 = ucast (m (buf + offset + 1)) AND 0xff;
          b2 = ucast (m (buf + offset + 2)) AND 0xff;
          b3 = ucast (m (buf + offset + 3)) AND 0xff
      in b0 OR push_bit 8 b1 OR push_bit 16 b2 OR push_bit 24 b3)"

definition read_wordbe :: "mem \<Rightarrow> addr \<Rightarrow> addr \<Rightarrow> u32" where
  "read_wordbe m buf offset =
     (let b0 = ucast (m (buf + offset + 0)) AND 0xff;
          b1 = ucast (m (buf + offset + 1)) AND 0xff;
          b2 = ucast (m (buf + offset + 2)) AND 0xff;
          b3 = ucast (m (buf + offset + 3)) AND 0xff
      in b3 OR push_bit 8 b2 OR push_bit 16 b1 OR push_bit 24 b0)"

definition read_halfword :: "mem \<Rightarrow> addr \<Rightarrow> addr \<Rightarrow> u16" where
  "read_halfword m buf offset =
     (let b0 = ucast (m (buf + offset + 0)) AND 0xff;
          b1 = ucast (m (buf + offset + 1)) AND 0xff
      in b0 OR push_bit 8 b1)"

definition read_byte :: "mem \<Rightarrow> addr \<Rightarrow> addr \<Rightarrow> byte" where
  "read_byte m buf offset = m (buf + offset)"

text \<open>
  \<open>byte_swap\<close>: the builtin under \<open>__GNUC__\<close> computes what the portable
  fallback of the same header spells out, which is what is written here.
\<close>

definition byte_swap :: "u32 \<Rightarrow> u32" where
  "byte_swap w =
     (let b0 = w AND 0xff;
          b1 = drop_bit 8 w AND 0xff;
          b2 = drop_bit 16 w AND 0xff;
          b3 = drop_bit 24 w AND 0xff
      in push_bit 24 b0 OR push_bit 16 b1 OR push_bit 8 b2 OR b3)"

text \<open>A \<open>uint32_t\<close> object in RAM, as the little-endian core loads and stores it.\<close>

abbreviation load32 :: "mem \<Rightarrow> addr \<Rightarrow> u32" where
  "load32 m a \<equiv> read_word m a 0"

abbreviation store32 :: "mem \<Rightarrow> addr \<Rightarrow> u32 \<Rightarrow> mem" where
  "store32 m a v \<equiv> write_word v a 0 m"

lemma byte_mask: "(0xff :: u32) = mask 8"
  by (simp add: mask_eq_exp_minus_1)

lemma word_of_bytes:
  fixes v :: u32
  shows "(ucast (ucast (v AND 0xff) :: byte) AND 0xff :: u32) OR
     push_bit 8 (ucast (ucast (drop_bit 8 v AND 0xff) :: byte) AND 0xff) OR
     push_bit 16 (ucast (ucast (drop_bit 16 v AND 0xff) :: byte) AND 0xff) OR
     push_bit 24 (ucast (ucast (drop_bit 24 v AND 0xff) :: byte) AND 0xff) = v"
  unfolding byte_mask
proof (rule bit_word_eqI)
  fix n
  assume "n < LENGTH(32)"
  then show "bit ((ucast (ucast (v AND mask 8) :: byte) AND mask 8 :: u32) OR
     push_bit 8 (ucast (ucast (drop_bit 8 v AND mask 8) :: byte) AND mask 8) OR
     push_bit 16 (ucast (ucast (drop_bit 16 v AND mask 8) :: byte) AND mask 8) OR
     push_bit 24 (ucast (ucast (drop_bit 24 v AND mask 8) :: byte) AND mask 8)) n = bit v n"
    by (cases "n < 8"; cases "n < 16"; cases "n < 24") (auto simp: bit_simps)
qed

lemma read_word_write_word [simp]:
  "read_word (write_word v buf offset m) buf offset = v"
proof -
  have ne: "a + 1 \<noteq> a" "a + 2 \<noteq> a" "a + 3 \<noteq> a" "a + 2 \<noteq> a + 1" "a + 3 \<noteq> a + 1" "a + 3 \<noteq> a + 2"
    "a \<noteq> a + 1" "a \<noteq> a + 2" "a \<noteq> a + 3" "a + 1 \<noteq> a + 2" "a + 1 \<noteq> a + 3" "a + 2 \<noteq> a + 3"
    for a :: addr
    by simp_all
  show ?thesis
    using word_of_bytes [of v]
    by (simp add: read_word_def write_word_def Let_def ne)
qed

lemma write_word_outside:
  assumes "\<not> in_region (buf + offset) 4 a"
  shows "write_word v buf offset m a = m a"
proof -
  have "a \<noteq> buf + offset + k" if "k < 4" for k
  proof
    assume "a = buf + offset + k"
    with assms that show False by (simp add: in_region_def)
  qed
  from this [of 0] this [of 1] this [of 2] this [of 3] show ?thesis
    by (simp add: write_word_def)
qed

lemma read_word_cong:
  assumes "\<And>a. in_region (buf + offset) 4 a \<Longrightarrow> m' a = m a"
  shows "read_word m' buf offset = read_word m buf offset"
proof -
  have "m' (buf + offset + k) = m (buf + offset + k)" if "k < 4" for k
    using assms that by (simp add: in_region_def)
  from this [of 0] this [of 1] this [of 2] this [of 3] show ?thesis
    by (simp add: read_word_def)
qed

text \<open>Reading the big-endian word at the same address is reading it and swapping its bytes.\<close>

lemma read_wordbe_swap: "read_wordbe m buf offset = byte_swap (read_word m buf offset)"
proof -
  let ?w = "read_word m buf offset"
  let ?b = "\<lambda>k. ucast (m (buf + offset + k)) AND mask 8 :: u32"
  have byte: "drop_bit (8 * k) ?w AND mask 8 = ?b (of_nat k)" if "k < 4" for k
  proof (rule bit_word_eqI)
    fix n
    from that consider "k = 0" | "k = 1" | "k = 2" | "k = 3" by fastforce
    then show "bit (drop_bit (8 * k) ?w AND mask 8) n = bit (?b (of_nat k)) n"
      by cases (cases "n < 8"; simp add: bit_simps byte_mask read_word_def Let_def)+
  qed
  from byte [of 0] byte [of 1] byte [of 2] byte [of 3] show ?thesis
    by (simp add: read_wordbe_def byte_swap_def byte_mask)
       (simp add: or.assoc or.commute or.left_commute)
qed

section \<open>C strings in memory\<close>

text \<open>\<open>cstr m p xs\<close>: the bytes \<open>xs\<close>, none of them zero, and then a zero byte are at \<open>p\<close>.\<close>

fun cstr :: "mem \<Rightarrow> addr \<Rightarrow> byte list \<Rightarrow> bool" where
  "cstr m p [] \<longleftrightarrow> m p = 0"
| "cstr m p (x # xs) \<longleftrightarrow> x \<noteq> 0 \<and> m p = x \<and> cstr m (p + 1) xs"

text \<open>\<open>poke m p xs\<close>: the memory after storing the bytes \<open>xs\<close> from \<open>p\<close> on, in order.\<close>

fun poke :: "mem \<Rightarrow> addr \<Rightarrow> byte list \<Rightarrow> mem" where
  "poke m p [] = m"
| "poke m p (x # xs) = poke (m(p := x)) (p + 1) xs"

fun bytes_at :: "mem \<Rightarrow> addr \<Rightarrow> nat \<Rightarrow> byte list" where
  "bytes_at m p 0 = []"
| "bytes_at m p (Suc n) = m p # bytes_at m (p + 1) n"

lemma length_bytes_at [simp]: "length (bytes_at m p n) = n"
  by (induction n arbitrary: p) auto

lemma nth_bytes_at: "i < n \<Longrightarrow> bytes_at m p n ! i = m (p + of_nat i)"
  by (induction n arbitrary: p i) (auto simp: nth_Cons add.assoc split: nat.splits)

lemma cstr_unique: "cstr m p xs \<Longrightarrow> cstr m p ys \<Longrightarrow> xs = ys"
proof (induction xs arbitrary: p ys)
  case Nil
  then show ?case by (cases ys) auto
next
  case (Cons x xs)
  then show ?case by (cases ys) auto
qed

lemma cstr_append:
  "cstr m p (xs @ ys) \<longleftrightarrow>
   (\<forall>i < length xs. xs ! i \<noteq> 0 \<and> m (p + of_nat i) = xs ! i) \<and> cstr m (p + of_nat (length xs)) ys"
proof (induction xs arbitrary: p)
  case Nil
  then show ?case by simp
next
  case (Cons x xs)
  then show ?case
    by (auto simp: add.assoc less_Suc_eq_0_disj)
qed

lemma cstr_nth:
  assumes "cstr m p xs"
  shows "i < length xs \<Longrightarrow> m (p + of_nat i) = xs ! i" and "0 \<notin> set xs"
    and "m (p + of_nat (length xs)) = 0"
  using assms cstr_append [of m p xs "[]"] by (auto simp: in_set_conv_nth)

lemma cstr_nonzero: "cstr m p xs \<Longrightarrow> x \<in> set xs \<Longrightarrow> x \<noteq> 0"
  using cstr_nth(2) by blast

end
