(* ===== verification/Machine.thy ===== *)
theory Machine
  imports Prelude
begin

text \<open>
  The machine the kernel runs on: RAM, the memory-mapped registers and what the
  drivers rely on without defining it themselves. RAM is a total map from 64-bit
  addresses to bytes (the kernel runs with the MMU off). Everything behind the
  peripheral bus is the opaque component \<open>khw\<close> of the state: a device may
  answer a register access in any way and may change RAM (the VideoCore does,
  when it answers a mailbox message). The \<open>platform\<close> record carries those
  parameters: the two bus accesses of \<open>src/boot/boot.S\<close>, the allocator
  of \<open>src/mm/malloc.c\<close>, the diagnostic \<open>printf\<close> of
  \<open>src/kernel/printf.c\<close>, the address at which the compiler places the
  automatic, 16-byte aligned \<open>mailbuffer\<close> arrays of the SD driver, and the
  addresses of the automatic variables that other drivers pass by reference, by name.
\<close>

section \<open>Kernel state\<close>

text \<open>The frame buffer region, and the descriptor of the graphical console.\<close>

record mem_info =
  base_addr :: u32
  mem_size :: u32

record console_info =
  fg_color :: u32
  bg_color :: u32
  fg_reset_color :: u32
  bg_reset_color :: u32
  cons_col :: u32
  cons_row :: u32
  cons_cols :: u32
  cons_rows :: u32
  cons_enabled :: byte

record 'h kstate =
  kmem :: mem
  khw :: 'h
  errno :: u64
  timer_base :: u32
  hci_ver :: u32
  capabilities_0 :: u32
  capabilities_1 :: u32
  uart0_putc_enabled :: bool
  uart1_putc_enabled :: bool
  console_putc_enabled :: bool
  framebuf :: mem_info
  framebuf_enabled :: byte
  console_descriptor :: console_info

record 'h platform =
  bus_get32 :: "addr \<Rightarrow> 'h kstate \<Rightarrow> u32 \<times> 'h kstate"
  bus_put32 :: "addr \<Rightarrow> u32 \<Rightarrow> 'h kstate \<Rightarrow> 'h kstate"
  libc_malloc :: "u64 \<Rightarrow> 'h kstate \<Rightarrow> addr \<times> 'h kstate"
  libc_free :: "addr \<Rightarrow> 'h kstate \<Rightarrow> 'h kstate"
  diag_printf :: "string \<Rightarrow> u64 list \<Rightarrow> 'h kstate \<Rightarrow> 'h kstate"
  mailbuffer_addr :: addr
  local_addr :: "string \<Rightarrow> addr"

text \<open>The kernel state with RAM \<open>m\<close>, devices \<open>h\<close>, timer base \<open>tb\<close> and zeroed variables.\<close>

abbreviation kernel_state :: "mem \<Rightarrow> 'h \<Rightarrow> u32 \<Rightarrow> 'h kstate" where
  "kernel_state m h tb \<equiv> \<lparr>kmem = m, khw = h, errno = 0, timer_base = tb,
     hci_ver = 0, capabilities_0 = 0, capabilities_1 = 0,
     uart0_putc_enabled = False, uart1_putc_enabled = False, console_putc_enabled = False,
     framebuf = \<lparr>base_addr = 0, mem_size = 0\<rparr>, framebuf_enabled = 0,
     console_descriptor = \<lparr>fg_color = 0, bg_color = 0, fg_reset_color = 0, bg_reset_color = 0,
       cons_col = 0, cons_row = 0, cons_cols = 0, cons_rows = 0, cons_enabled = 0\<rparr>\<rparr>"

section \<open>Register accesses\<close>

text \<open>\<open>GET32\<close> and \<open>PUT32\<close>: one 32-bit load or store on the bus.\<close>

definition GET32 :: "'h platform \<Rightarrow> addr \<Rightarrow> 'h kstate \<Rightarrow> (u32 \<times> 'h kstate) option" where
  "GET32 Pl a s = Some (bus_get32 Pl a s)"

definition PUT32 :: "'h platform \<Rightarrow> addr \<Rightarrow> u32 \<Rightarrow> 'h kstate \<Rightarrow> 'h kstate option" where
  "PUT32 Pl a x s = Some (bus_put32 Pl a x s)"

definition malloc :: "'h platform \<Rightarrow> u64 \<Rightarrow> 'h kstate \<Rightarrow> (addr \<times> 'h kstate) option" where
  "malloc Pl n s = Some (libc_malloc Pl n s)"

definition free :: "'h platform \<Rightarrow> addr \<Rightarrow> 'h kstate \<Rightarrow> 'h kstate option" where
  "free Pl p s = Some (libc_free Pl p s)"

definition kprintf :: "'h platform \<Rightarrow> string \<Rightarrow> u64 list \<Rightarrow> 'h kstate \<Rightarrow> 'h kstate option" where
  "kprintf Pl fmt args s = Some (diag_printf Pl fmt args s)"

text \<open>A diagnostic line: the format with a newline at its end.\<close>

definition kprintln :: "'h platform \<Rightarrow> string \<Rightarrow> u64 list \<Rightarrow> 'h kstate \<Rightarrow> 'h kstate option" where
  "kprintln Pl fmt args s = kprintf Pl (fmt @ [CHR 0x0A]) args s"

definition MMIO_BASE :: addr where
  "MMIO_BASE = 0x3F000000"

definition mmio_write :: "'h platform \<Rightarrow> addr \<Rightarrow> u32 \<Rightarrow> 'h kstate \<Rightarrow> 'h kstate option" where
  "mmio_write Pl r data s = PUT32 Pl (r + MMIO_BASE) data s"

definition mmio_read :: "'h platform \<Rightarrow> addr \<Rightarrow> 'h kstate \<Rightarrow> (u32 \<times> 'h kstate) option" where
  "mmio_read Pl r s = GET32 Pl (r + MMIO_BASE) s"

section \<open>Error numbers\<close>

text \<open>
  \<open>include/errno.h\<close> defines the usual positive numbers as an enumeration and
  then includes \<open>include/asm/errno.h\<close>, whose macros replace eight of the names by
  negative numbers. The values below are the ones the C sources see.
\<close>

definition EPERM :: u64 where "EPERM = 1"
definition EIO :: u64 where "EIO = 5"
definition E2BIG :: u64 where "E2BIG = 7"
definition ENOSYS :: u64 where "ENOSYS = 38"
definition ENOMEM :: u64 where "ENOMEM = -1"
definition EINVAL :: u64 where "EINVAL = -2"
definition ENOENT :: u64 where "ENOENT = -3"
definition ENOTDIR :: u64 where "ENOTDIR = -4"

section \<open>Confinement\<close>

text \<open>
  \<open>frame W s t\<close>: from \<open>s\<close> to \<open>t\<close>, RAM has changed only inside
  \<open>W\<close> and the timer has not been moved.
  \<open>confined W Pl\<close>: everything behind the bus, the allocator and the diagnostics
  change RAM only inside \<open>W\<close>, which also contains the blocks of up to 4096 bytes
  (the drivers ask for 184 at most) that the allocator hands out, the null block too
  when it fails: the drivers do not test for it.
\<close>

definition frame :: "addr set \<Rightarrow> 'h kstate \<Rightarrow> 'h kstate \<Rightarrow> bool" where
  "frame W s t \<longleftrightarrow> (\<forall>a. a \<notin> W \<longrightarrow> kmem t a = kmem s a) \<and> timer_base t = timer_base s"

definition block_in :: "addr set \<Rightarrow> addr \<Rightarrow> u64 \<Rightarrow> bool" where
  "block_in W p n \<longleftrightarrow> (\<forall>a. in_region p n a \<longrightarrow> a \<in> W)"

definition confined :: "addr set \<Rightarrow> 'h platform \<Rightarrow> bool" where
  "confined W Pl \<longleftrightarrow>
     (\<forall>a s. frame W s (snd (bus_get32 Pl a s))) \<and>
     (\<forall>a x s. frame W s (bus_put32 Pl a x s)) \<and>
     (\<forall>n s. frame W s (snd (libc_malloc Pl n s)) \<and>
        (n \<le> 0x1000 \<longrightarrow> block_in W (fst (libc_malloc Pl n s)) n)) \<and>
     (\<forall>p s. frame W s (libc_free Pl p s)) \<and>
     (\<forall>f as s. frame W s (diag_printf Pl f as s))"

lemma frame_refl [simp, intro]: "frame W s s"
  by (simp add: frame_def)

lemma frame_trans [trans]: "frame W s t \<Longrightarrow> frame W t u \<Longrightarrow> frame W s u"
  by (simp add: frame_def)

lemma frame_mono: "frame W s t \<Longrightarrow> W \<subseteq> V \<Longrightarrow> frame V s t"
  by (auto simp: frame_def)

lemma frameD: "frame W s t \<Longrightarrow> a \<notin> W \<Longrightarrow> kmem t a = kmem s a"
  by (simp add: frame_def)

lemma frame_update [simp]:
  "frame W s (t\<lparr>errno := e\<rparr>) = frame W s t"
  "frame W s (t\<lparr>hci_ver := v\<rparr>) = frame W s t"
  "frame W s (t\<lparr>capabilities_0 := v\<rparr>) = frame W s t"
  "frame W s (t\<lparr>capabilities_1 := v\<rparr>) = frame W s t"
  "frame W s (t\<lparr>uart0_putc_enabled := b\<rparr>) = frame W s t"
  "frame W s (t\<lparr>uart1_putc_enabled := b\<rparr>) = frame W s t"
  "frame W s (t\<lparr>console_putc_enabled := b\<rparr>) = frame W s t"
  "frame W s (t\<lparr>framebuf := fb\<rparr>) = frame W s t"
  "frame W s (t\<lparr>framebuf_enabled := n\<rparr>) = frame W s t"
  "frame W s (t\<lparr>console_descriptor := cd\<rparr>) = frame W s t"
  by (simp_all add: frame_def)

lemma block_in_mono: "block_in W p n \<Longrightarrow> W \<subseteq> V \<Longrightarrow> block_in V p n"
  by (auto simp: block_in_def)

lemma block_in_take: "block_in W p n \<Longrightarrow> m \<le> n \<Longrightarrow> block_in W p m"
  by (auto simp: block_in_def in_region_def)

lemma block_in_drop:
  assumes "block_in W p n" "m \<le> n"
  shows "block_in W (p + m) (n - m)"
  unfolding block_in_def
proof (intro allI impI)
  fix a
  assume "in_region (p + m) (n - m) a"
  then have a: "unat (a - (p + m)) < unat n - unat m"
    using assms(2) by (simp add: in_region_def word_less_nat_alt unat_sub word_le_nat_alt)
  have "unat (m + (a - (p + m))) = unat m + unat (a - (p + m))"
    using a unsigned_less [of n, where ?'a = nat] by (subst unat_plus_if') auto
  then have "unat (a - p) < unat n" using a by simp
  with assms(1) show "a \<in> W" by (simp add: block_in_def in_region_def word_less_nat_alt)
qed

lemma confined_mono: "confined W Pl \<Longrightarrow> W \<subseteq> V \<Longrightarrow> confined V Pl"
  unfolding confined_def by (meson frame_mono block_in_mono)

lemma frame_write_word:
  assumes "frame W s0 s" "block_in W (buf + offset) 4"
  shows "frame W s0 (s\<lparr>kmem := write_word v buf offset (kmem s)\<rparr>)"
proof -
  have "write_word v buf offset (kmem s) a = kmem s a" if "a \<notin> W" for a
    using that assms(2) by (intro write_word_outside) (auto simp: block_in_def)
  with assms(1) show ?thesis by (simp add: frame_def)
qed

lemma GET32_frame [frame_rules]:
  "confined W Pl \<Longrightarrow> frame W s0 s \<Longrightarrow> wlp (GET32 Pl a s) (\<lambda>(x, t). frame W s0 t)"
  by (auto simp: GET32_def confined_def split: prod.splits) (metis frame_trans snd_conv)

lemma PUT32_frame [frame_rules]:
  "confined W Pl \<Longrightarrow> frame W s0 s \<Longrightarrow> wlp (PUT32 Pl a x s) (\<lambda>t. frame W s0 t)"
  by (auto simp: PUT32_def confined_def intro: frame_trans)

lemma malloc_frame [frame_rules]:
  "confined W Pl \<Longrightarrow> frame W s0 s \<Longrightarrow> n \<le> 0x1000 \<Longrightarrow>
   wlp (malloc Pl n s) (\<lambda>(p, t). frame W s0 t \<and> block_in W p n)"
  by (auto simp: malloc_def confined_def split: prod.splits) (metis frame_trans snd_conv, metis fst_conv)

lemma free_frame [frame_rules]:
  "confined W Pl \<Longrightarrow> frame W s0 s \<Longrightarrow> wlp (free Pl p s) (\<lambda>t. frame W s0 t)"
  by (auto simp: free_def confined_def intro: frame_trans)

lemma kprintf_frame [frame_rules]:
  "confined W Pl \<Longrightarrow> frame W s0 s \<Longrightarrow> wlp (kprintf Pl f as s) (\<lambda>t. frame W s0 t)"
  by (auto simp: kprintf_def confined_def intro: frame_trans)

lemma kprintln_frame [frame_rules]:
  "confined W Pl \<Longrightarrow> frame W s0 s \<Longrightarrow> wlp (kprintln Pl f as s) (\<lambda>t. frame W s0 t)"
  unfolding kprintln_def by (rule kprintf_frame)

end
