(* ===== verification/Timer.thy ===== *)
theory Timer
  imports Machine
begin

text \<open>
  The system timer of \<open>src/kernel/timer.c\<close>: registering a deadline,
  testing it against the free-running 32-bit counter, the busy wait
  \<open>usleep\<close>, and the polling macro \<open>TIMEOUT_WAIT\<close> of
  \<open>include/kernel/timer.h\<close>. A busy wait is a partial function: \<open>None\<close>
  is a wait that never ends.
\<close>

section \<open>Deadlines\<close>

definition TIMER_BASE :: u32 where "TIMER_BASE = 0x00003000"
definition TIMER_CLO :: u32 where "TIMER_CLO = 0x4"

record timer_wait =
  trigger_value :: u32
  rollover :: i32

definition timer_set_base :: "u32 \<Rightarrow> 'h kstate \<Rightarrow> 'h kstate" where
  "timer_set_base base s = s\<lparr>timer_base := base\<rparr>"

definition read_clo :: "'h platform \<Rightarrow> 'h kstate \<Rightarrow> (u32 \<times> 'h kstate) option" where
  "read_clo Pl s = mmio_read Pl (ucast (timer_base s + TIMER_CLO)) s"

definition register_timer :: "'h platform \<Rightarrow> i32 \<Rightarrow> 'h kstate \<Rightarrow> (timer_wait \<times> 'h kstate) option" where
  "register_timer Pl usec s =
     (if sint usec < 0 then
        Some (\<lparr>trigger_value = 0, rollover = 0\<rparr>, s\<lparr>errno := EINVAL\<rparr>)
      else do {
        (cur_timer, s) \<leftarrow> read_clo Pl s;
        let trig = (if cur_timer = 0 then 0 else cur_timer + usec);
        Some (\<lparr>trigger_value = trig, rollover = (if trig > cur_timer then 0 else 1)\<rparr>, s)
      })"

text \<open>
  \<open>compare_timer\<close> receives the deadline by value: the assignment to
  \<open>tw.rollover\<close> in the source changes a copy and is not visible to the caller.
\<close>

definition compare_timer :: "'h platform \<Rightarrow> timer_wait \<Rightarrow> 'h kstate \<Rightarrow> (bool \<times> 'h kstate) option" where
  "compare_timer Pl tw s = do {
     (cur_timer, s) \<leftarrow> read_clo Pl s;
     if trigger_value tw = 0 then Some (True, s)
     else if cur_timer < trigger_value tw then
       (let tw = (if rollover tw \<noteq> 0 then tw\<lparr>rollover := 0\<rparr> else tw)
        in Some (False, s))
     else if rollover tw = 0 then Some (True, s)
     else Some (False, s)
   }"

section \<open>Waiting\<close>

partial_function (option) wait_timer :: "'h platform \<Rightarrow> timer_wait \<Rightarrow> 'h kstate \<Rightarrow> 'h kstate option" where
  "wait_timer Pl tw s = do {
     (expired, s) \<leftarrow> compare_timer Pl tw s;
     if \<not> expired then wait_timer Pl tw s else Some s
   }"

definition usleep :: "'h platform \<Rightarrow> i32 \<Rightarrow> 'h kstate \<Rightarrow> 'h kstate option" where
  "usleep Pl usec s = do {
     (tw, s) \<leftarrow> register_timer Pl usec s;
     wait_timer Pl tw s
   }"

partial_function (option) poll_until ::
    "'h platform \<Rightarrow> ('h kstate \<Rightarrow> (bool \<times> 'h kstate) option) \<Rightarrow> timer_wait \<Rightarrow> 'h kstate \<Rightarrow> 'h kstate option" where
  "poll_until Pl stop_if_true tw s = do {
     (stop, s) \<leftarrow> stop_if_true s;
     if stop then Some s
     else do {
       (expired, s) \<leftarrow> compare_timer Pl tw s;
       if \<not> expired then poll_until Pl stop_if_true tw s else Some s
     }
   }"

definition TIMEOUT_WAIT ::
    "'h platform \<Rightarrow> ('h kstate \<Rightarrow> (bool \<times> 'h kstate) option) \<Rightarrow> i32 \<Rightarrow> 'h kstate \<Rightarrow> 'h kstate option" where
  "TIMEOUT_WAIT Pl stop_if_true usec s = do {
     (tw, s) \<leftarrow> register_timer Pl usec s;
     poll_until Pl stop_if_true tw s
   }"

declare wait_timer.simps [code] poll_until.simps [code]

declare wait_timer.simps [simp del] poll_until.simps [simp del]

section \<open>Rules for waits\<close>

text \<open>The address of the counter register, and the values that successive reads of it return.\<close>

definition clo_reg :: "'h kstate \<Rightarrow> addr" where
  "clo_reg s = ucast (timer_base s + TIMER_CLO) + MMIO_BASE"

lemma read_clo_eq: "read_clo Pl s = Some (bus_get32 Pl (clo_reg s) s)"
  by (simp add: read_clo_def mmio_read_def GET32_def clo_reg_def)

fun nth_clo :: "'h platform \<Rightarrow> nat \<Rightarrow> 'h kstate \<Rightarrow> u32" where
  "nth_clo Pl 0 s = fst (bus_get32 Pl (clo_reg s) s)"
| "nth_clo Pl (Suc k) s = nth_clo Pl k (snd (bus_get32 Pl (clo_reg s) s))"

lemma compare_timer_eq:
  "compare_timer Pl tw s =
     (let r = bus_get32 Pl (clo_reg s) s
      in Some (trigger_value tw = 0 \<or> (trigger_value tw \<le> fst r \<and> rollover tw = 0), snd r))"
  by (auto simp: compare_timer_def read_clo_eq Let_def not_less split: prod.splits)

lemma read_clo_frame [frame_rules]:
  "confined W Pl \<Longrightarrow> frame W s0 s \<Longrightarrow> wlp (read_clo Pl s) (\<lambda>(x, t). frame W s0 t)"
  unfolding read_clo_def mmio_read_def by (rule frame_rules)

lemma compare_timer_frame [frame_rules]:
  "confined W Pl \<Longrightarrow> frame W s0 s \<Longrightarrow> wlp (compare_timer Pl tw s) (\<lambda>(b, t). frame W s0 t)"
  unfolding compare_timer_def by (rule wlp_intros frame_rules | assumption | simp add: Let_def)+

lemma register_timer_frame [frame_rules]:
  "confined W Pl \<Longrightarrow> frame W s0 s \<Longrightarrow> wlp (register_timer Pl usec s) (\<lambda>(tw, t). frame W s0 t)"
  unfolding register_timer_def Let_def by (rule wlp_intros frame_rules | assumption | simp)+

lemma wait_timer_invariant:
  assumes step: "\<And>s. I s \<Longrightarrow> wlp (compare_timer Pl tw s) (\<lambda>(b, t). I t)"
    and "I s"
  shows "wlp (wait_timer Pl tw s) I"
proof (rule wlpI)
  fix t
  assume ret: "wait_timer Pl tw s = Some t"
  have "Pl = Pl \<longrightarrow> tw = tw \<longrightarrow> I s \<longrightarrow> I t"
    apply (rule wait_timer.raw_induct
        [where P = "\<lambda>Pl' tw' s t. Pl' = Pl \<longrightarrow> tw' = tw \<longrightarrow> I s \<longrightarrow> I t", OF _ ret])
    apply (clarsimp simp: bind_Some_iff)
    apply (drule step)
    apply (auto simp: wlp_def split: if_splits)
    done
  with \<open>I s\<close> show "I t" by blast
qed

lemma poll_until_invariant:
  assumes stop: "\<And>s. I s \<Longrightarrow> wlp (c s) (\<lambda>(b, t). I t)"
    and cmp: "\<And>s. I s \<Longrightarrow> wlp (compare_timer Pl tw s) (\<lambda>(b, t). I t)"
    and "I s"
  shows "wlp (poll_until Pl c tw s) I"
proof (rule wlpI)
  fix t
  assume ret: "poll_until Pl c tw s = Some t"
  have "Pl = Pl \<longrightarrow> c = c \<longrightarrow> tw = tw \<longrightarrow> I s \<longrightarrow> I t"
    apply (rule poll_until.raw_induct
        [where P = "\<lambda>Pl' c' tw' s t. Pl' = Pl \<longrightarrow> c' = c \<longrightarrow> tw' = tw \<longrightarrow> I s \<longrightarrow> I t", OF _ ret])
    apply (clarsimp simp: bind_Some_iff)
    apply (drule stop, drule (1) wlpD)
    apply (auto simp: bind_Some_iff split: if_split_asm)
     apply (drule cmp, drule (1) wlpD, simp)+
    done
  with \<open>I s\<close> show "I t" by blast
qed

lemma usleep_frame [frame_rules]:
  assumes "confined W Pl" "frame W s0 s"
  shows "wlp (usleep Pl usec s) (\<lambda>t. frame W s0 t)"
  unfolding usleep_def
  by (rule wlp_intros wait_timer_invariant frame_rules assms | assumption)+

lemma TIMEOUT_WAIT_frame [frame_rules]:
  assumes "confined W Pl" "frame W s0 s"
    and "\<And>s. frame W s0 s \<Longrightarrow> wlp (c s) (\<lambda>(b, t). frame W s0 t)"
  shows "wlp (TIMEOUT_WAIT Pl c usec s) (\<lambda>t. frame W s0 t)"
  unfolding TIMEOUT_WAIT_def
  by (rule wlp_intros poll_until_invariant frame_rules assms | assumption)+

section \<open>Properties of the waits\<close>

text \<open>The deadline is taken from the first read of the counter.\<close>

lemma register_timer_eq:
  assumes "0 \<le> sint usec"
  shows "register_timer Pl usec s =
     (let (c, s') = bus_get32 Pl (clo_reg s) s;
          trig = (if c = 0 then 0 else c + usec)
      in Some (\<lparr>trigger_value = trig, rollover = (if trig > c then 0 else 1)\<rparr>, s'))"
  using assms by (simp add: register_timer_def read_clo_eq Let_def split: prod.splits)

lemma wait_timer_reached:
  assumes "trigger_value tw \<noteq> 0"
  shows "wlp (wait_timer Pl tw s)
     (\<lambda>t. rollover tw = 0 \<and>
        (\<exists>u. trigger_value tw \<le> fst (bus_get32 Pl (clo_reg u) u) \<and> t = snd (bus_get32 Pl (clo_reg u) u)))"
proof (rule wlpI)
  fix t
  let ?Q = "\<lambda>Pl tw t. rollover tw = 0 \<and>
     (\<exists>u. trigger_value tw \<le> fst (bus_get32 Pl (clo_reg u) u) \<and> t = snd (bus_get32 Pl (clo_reg u) u))"
  assume ret: "wait_timer Pl tw s = Some t"
  have "trigger_value tw \<noteq> 0 \<longrightarrow> ?Q Pl tw t"
    apply (rule wait_timer.raw_induct
        [where P = "\<lambda>Pl tw s t. trigger_value tw \<noteq> 0 \<longrightarrow> ?Q Pl tw t", OF _ ret])
    apply (auto simp: bind_Some_iff compare_timer_eq Let_def split: if_splits)
    done
  with assms show "?Q Pl tw t" by blast
qed

lemma wait_timer_rollover_stuck:
  assumes "trigger_value tw \<noteq> 0" "rollover tw \<noteq> 0"
  shows "wait_timer Pl tw s = None"
  using wait_timer_reached [OF assms(1), of Pl s] assms(2) by (auto simp: wlp_def)

lemma wait_timer_returns:
  assumes "rollover tw = 0" "trigger_value tw \<le> nth_clo Pl k s"
  shows "\<exists>t. wait_timer Pl tw s = Some t"
  using assms(2)
proof (induction k arbitrary: s)
  case 0
  with assms(1) show ?case
    by (subst wait_timer.simps) (simp add: compare_timer_eq Let_def)
next
  case (Suc k)
  then show ?case
    by (subst wait_timer.simps) (auto simp: compare_timer_eq Let_def)
qed

text \<open>
  A platform whose registers all read a counter that advances by \<open>step\<close> on
  every read; used to show that the hypotheses below can hold.
\<close>

definition tick_platform :: "u32 \<Rightarrow> u32 platform" where
  "tick_platform step = \<lparr>
     bus_get32 = (\<lambda>a s. (khw s, s\<lparr>khw := khw s + step\<rparr>)),
     bus_put32 = (\<lambda>a x s. s),
     libc_malloc = (\<lambda>n s. (0, s)),
     libc_free = (\<lambda>p s. s),
     diag_printf = (\<lambda>f as s. s),
     mailbuffer_addr = 0x6FE0, local_addr = (\<lambda>_. 0x5000)\<rparr>"

definition tick_state :: "u32 \<Rightarrow> u32 kstate" where
  "tick_state c = kernel_state ((\<lambda>_. 0)) c TIMER_BASE"

text \<open>
  C18: \<open>usleep\<close> waits long enough. If the counter read when the wait starts is
  \<open>c0\<close> (not 0) and \<open>c0 + usec\<close> does not wrap to 0, then a wait that returns
  does so only after a read of the counter that has reached \<open>c0 + usec\<close>, and
  this deadline did not wrap around the 32-bit counter.
\<close>

theorem usleep_elapsed:
  assumes "0 \<le> sint usec" "c0 = fst (bus_get32 Pl (clo_reg s) s)" "c0 \<noteq> 0" "c0 + usec \<noteq> 0"
    and "usleep Pl usec s = Some t"
  shows "c0 < c0 + usec \<and>
     (\<exists>u. c0 + usec \<le> fst (bus_get32 Pl (clo_reg u) u) \<and> t = snd (bus_get32 Pl (clo_reg u) u))"
proof -
  let ?tw = "\<lparr>trigger_value = c0 + usec, rollover = (if c0 + usec > c0 then 0 else 1 :: i32)\<rparr>"
  have "wlp (wait_timer Pl ?tw (snd (bus_get32 Pl (clo_reg s) s)))
     (\<lambda>t. rollover ?tw = 0 \<and>
        (\<exists>u. trigger_value ?tw \<le> fst (bus_get32 Pl (clo_reg u) u) \<and> t = snd (bus_get32 Pl (clo_reg u) u)))"
    by (rule wait_timer_reached) (use assms in simp)
  moreover have "wait_timer Pl ?tw (snd (bus_get32 Pl (clo_reg s) s)) = Some t"
    using assms by (auto simp: usleep_def register_timer_eq Let_def split: prod.splits)
  ultimately show ?thesis
    by (simp add: wlp_def split: if_splits)
qed

theorem usleep_elapsed_witness:
  "usleep (tick_platform 400) 1000 (tick_state 7) = Some (tick_state 1607) \<and>
   (\<exists>u. (1007 :: u32) \<le> fst (bus_get32 (tick_platform 400) (clo_reg u) u))"
proof -
  have r: "usleep (tick_platform 400) 1000 (tick_state 7) = Some (tick_state 1607)"
    by (simp add: usleep_def register_timer_eq compare_timer_eq wait_timer.simps
        tick_platform_def tick_state_def)
  have "7 = fst (bus_get32 (tick_platform 400) (clo_reg (tick_state 7)) (tick_state 7))"
    by (simp add: tick_platform_def tick_state_def)
  from usleep_elapsed [OF _ this _ _ r] r show ?thesis by auto
qed

text \<open>
  C17: \<open>usleep\<close> returns: if the deadline does not wrap and some later read of the
  counter has reached it, the wait ends (total correctness of the busy loop).
\<close>

theorem usleep_returns:
  assumes "0 \<le> sint usec" "nth_clo Pl 0 s \<noteq> 0" "nth_clo Pl 0 s < nth_clo Pl 0 s + usec"
    and "nth_clo Pl 0 s + usec \<le> nth_clo Pl (Suc k) s"
  shows "\<exists>t. usleep Pl usec s = Some t"
  using assms
  by (auto simp: usleep_def register_timer_eq Let_def split: prod.splits intro!: wait_timer_returns [of _ _ k])

theorem usleep_returns_witness:
  "\<exists>t. usleep (tick_platform 400) 1000 (tick_state 7) = Some t"
  by (rule usleep_returns [where k = 2])
     (simp_all add: numeral_eq_Suc, simp_all add: tick_platform_def tick_state_def)

text \<open>
  C19: a deadline that wraps around the counter is never reached. The rollover flag
  is cleared only in \<open>compare_timer\<close>'s own copy of the deadline, so for every
  platform, whatever the counter does, \<open>usleep\<close> never returns when
  \<open>c0 + usec\<close> wraps to a nonzero value, and in particular for \<open>usec = 0\<close>.
\<close>

theorem usleep_rollover_never_returns:
  assumes "0 \<le> sint usec" "nth_clo Pl 0 s \<noteq> 0" "nth_clo Pl 0 s + usec \<noteq> 0"
    and "nth_clo Pl 0 s + usec \<le> nth_clo Pl 0 s"
  shows "usleep Pl usec s = None"
  using assms
  by (auto simp: usleep_def register_timer_eq Let_def not_less [symmetric] split: prod.splits
      intro!: wait_timer_rollover_stuck)

theorem usleep_rollover_never_returns_witness:
  "usleep (tick_platform 400) 1000 (tick_state 0xFFFFFF00) = None"
  by (rule usleep_rollover_never_returns) (simp_all add: tick_platform_def tick_state_def)

end
