(* ===== verification/CString.thy ===== *)
theory CString
  imports Prelude "HOL-Library.Sublist" "HOL-Library.List_Lexorder"
begin

text \<open>
  The memory and string routines of \<open>src/libc/string.c\<close>, over byte memory.
  Every pointer is a 64-bit address, so overlap and aliasing are visible. Loops
  bounded by a counter are total functions; loops that stop only at a byte of
  memory are partial (\<open>None\<close>: the loop never stops). A routine the source
  leaves as a stub is translated as the stub.
\<close>

section \<open>Bit search\<close>

partial_function (option) ffs_loop :: "i32 \<Rightarrow> nat \<Rightarrow> nat option" where
  "ffs_loop i pos = (if i AND push_bit pos 1 = 0 then ffs_loop i (pos + 1) else Some pos)"

definition ffs :: "i32 \<Rightarrow> i32 option" where
  "ffs i = (if i = 0 then Some 0 else do { pos \<leftarrow> ffs_loop i 0; Some (of_nat pos + 1) })"

section \<open>Case-insensitive comparison\<close>

definition fold_case :: "byte \<Rightarrow> byte" where
  "fold_case c = (if 0x41 \<le> c \<and> c \<le> 0x5A then c + 0x20 else c)"

partial_function (option) strcasecmp :: "mem \<Rightarrow> addr \<Rightarrow> addr \<Rightarrow> int option" where
  "strcasecmp m s1 s2 =
     (if m s1 \<noteq> 0 then
        (let a = fold_case (m s1); b = fold_case (m s2)
         in if a < b then Some (-1)
            else if a > b then Some 1
            else strcasecmp m (s1 + 1) (s2 + 1))
      else Some 0)"

function strncasecmp_loop :: "mem \<Rightarrow> addr \<Rightarrow> addr \<Rightarrow> u64 \<Rightarrow> u64 \<Rightarrow> int" where
  "strncasecmp_loop m s1 s2 n i =
     (if m s1 \<noteq> 0 \<and> i < n then
        (let a = fold_case (m s1); b = fold_case (m s2)
         in if a < b then -1
            else if a > b then 1
            else strncasecmp_loop m (s1 + 1) (s2 + 1) n (i + 1))
      else 0)"
  by pat_completeness auto
termination
  by (relation "measure (\<lambda>(m, s1, s2, n, i). unat (n - i))")
    (simp_all add: count_down_less)

definition strncasecmp :: "mem \<Rightarrow> addr \<Rightarrow> addr \<Rightarrow> u64 \<Rightarrow> int" where
  "strncasecmp m s1 s2 n = strncasecmp_loop m s1 s2 n 0"

section \<open>Memory blocks\<close>

text \<open>\<open>memccpy\<close> as written: the loop tests the bytes of the destination.\<close>

function memccpy_loop :: "mem \<Rightarrow> addr \<Rightarrow> addr \<Rightarrow> i32 \<Rightarrow> u64 \<Rightarrow> u64 \<Rightarrow> mem" where
  "memccpy_loop m d s c n i =
     (if m d \<noteq> 0 \<and> i < n \<and> ucast (m d) \<noteq> c
      then memccpy_loop (m(d := m s)) (d + 1) (s + 1) c n (i + 1) else m)"
  by pat_completeness auto
termination
  by (relation "measure (\<lambda>(m, d, s, c, n, i). unat (n - i))") (simp_all add: count_down_less)

definition memccpy :: "addr \<Rightarrow> addr \<Rightarrow> i32 \<Rightarrow> u64 \<Rightarrow> mem \<Rightarrow> addr \<times> mem" where
  "memccpy dest src c n m = (dest, memccpy_loop m dest src c n 0)"

definition memchr :: "mem \<Rightarrow> addr \<Rightarrow> i32 \<Rightarrow> u64 \<Rightarrow> addr" where
  "memchr m s c n = 0"

function memcmp_loop :: "mem \<Rightarrow> addr \<Rightarrow> addr \<Rightarrow> u64 \<Rightarrow> u64 \<Rightarrow> int" where
  "memcmp_loop m b1 b2 n i =
     (if i < n \<and> m b1 = m b2 then
        (if m b1 < m b2 then -1
         else if m b1 > m b2 then 1
         else memcmp_loop m (b1 + 1) (b2 + 1) n (i + 1))
      else 0)"
  by pat_completeness auto
termination
  by (relation "measure (\<lambda>(m, b1, b2, n, i). unat (n - i))") (simp_all add: count_down_less)

definition memcmp :: "mem \<Rightarrow> addr \<Rightarrow> addr \<Rightarrow> u64 \<Rightarrow> int" where
  "memcmp m s1 s2 n = memcmp_loop m s1 s2 n 0"

function memcpy_loop :: "u64 \<Rightarrow> u64 \<Rightarrow> addr \<Rightarrow> addr \<Rightarrow> mem \<Rightarrow> mem" where
  "memcpy_loop i n d s m =
     (if i < n then memcpy_loop (i + 1) n (d + 1) (s + 1) (m(d := m s)) else m)"
  by pat_completeness auto
termination
  by (relation "measure (\<lambda>(i, n, d, s, m). unat (n - i))") (simp_all add: count_down_less)

definition memcpy :: "addr \<Rightarrow> addr \<Rightarrow> u64 \<Rightarrow> mem \<Rightarrow> addr \<times> mem" where
  "memcpy dest src n m = (dest, memcpy_loop 0 n dest src m)"

text \<open>
  \<open>qmemcpy\<close> of \<open>include/kernel/util.h\<close>; \<open>quick_memcpy\<close>, which is declared there and
  defined nowhere, is the parameter \<open>quick\<close>.
\<close>

definition qmemcpy ::
    "(addr \<Rightarrow> addr \<Rightarrow> u64 \<Rightarrow> mem \<Rightarrow> addr \<times> mem) \<Rightarrow> addr \<Rightarrow> addr \<Rightarrow> u64 \<Rightarrow> mem \<Rightarrow> addr \<times> mem" where
  "qmemcpy quick dest src n m =
     (if dest AND 0xf = 0 \<and> src AND 0xf = 0 \<and> n AND 0xf = 0 then quick dest src n m
      else memcpy dest src n m)"

definition memmove :: "addr \<Rightarrow> addr \<Rightarrow> u64 \<Rightarrow> mem \<Rightarrow> addr \<times> mem" where
  "memmove dest src n m =
     (if dest + n > src then (dest, snd (memcpy dest src n m))
      else if src + n > dest then
        (let m = snd (memcpy (dest - (src - dest)) dest (n - (dest - src)) m);
             m = snd (memcpy dest src (dest - src) m)
         in (dest, m))
      else (dest, m))"

function memset_loop :: "addr \<Rightarrow> i32 \<Rightarrow> u64 \<Rightarrow> mem \<Rightarrow> mem" where
  "memset_loop p c n m =
     (if n > 0 then memset_loop (p + 1) c (n - 1) (m(p := ucast c)) else m)"
  by pat_completeness auto
termination
  by (relation "measure (\<lambda>(p, c, n, m). unat n)") (simp_all add: unat_minus_one word_neq_0_conv unat_gt_0)

definition memset :: "addr \<Rightarrow> i32 \<Rightarrow> u64 \<Rightarrow> mem \<Rightarrow> addr \<times> mem" where
  "memset s c n m = (if sint c > 0xff then (0, m) else (s, memset_loop s c n m))"

section \<open>Strings\<close>

definition stpcpy :: "addr \<Rightarrow> addr \<Rightarrow> mem \<Rightarrow> addr \<times> mem" where
  "stpcpy dest src m = (0, m)"

definition stpncpy :: "addr \<Rightarrow> addr \<Rightarrow> u64 \<Rightarrow> mem \<Rightarrow> addr \<times> mem" where
  "stpncpy dest src n m = (0, m)"

definition strcat :: "addr \<Rightarrow> addr \<Rightarrow> mem \<Rightarrow> addr \<times> mem" where
  "strcat dest src m = (0, m)"

definition strchr :: "mem \<Rightarrow> addr \<Rightarrow> i32 \<Rightarrow> addr" where
  "strchr m s c = 0"

partial_function (option) strcmp :: "mem \<Rightarrow> addr \<Rightarrow> addr \<Rightarrow> int option" where
  "strcmp m s1 s2 =
     (if m s1 \<noteq> 0 \<or> m s2 \<noteq> 0 then
        (if m s1 < m s2 then Some (-1)
         else if m s1 > m s2 then Some 1
         else strcmp m (s1 + 1) (s2 + 1))
      else Some 0)"

definition strcoll :: "mem \<Rightarrow> addr \<Rightarrow> addr \<Rightarrow> int option" where
  "strcoll m s1 s2 = strcmp m s1 s2"

partial_function (option) strcpy_loop :: "addr \<Rightarrow> addr \<Rightarrow> mem \<Rightarrow> mem option" where
  "strcpy_loop ptr src m =
     (if m src \<noteq> 0 then strcpy_loop (ptr + 1) (src + 1) (m(ptr := m src)) else Some m)"

definition strcpy :: "addr \<Rightarrow> addr \<Rightarrow> mem \<Rightarrow> (addr \<times> mem) option" where
  "strcpy dest src m = do { m \<leftarrow> strcpy_loop dest src m; Some (dest, m) }"

definition strcspn :: "mem \<Rightarrow> addr \<Rightarrow> addr \<Rightarrow> u64" where
  "strcspn m s reject = 0"

partial_function (option) strlen_loop :: "mem \<Rightarrow> addr \<Rightarrow> u64 \<Rightarrow> u64 option" where
  "strlen_loop m s i = (if m s \<noteq> 0 then strlen_loop m (s + 1) (i + 1) else Some i)"

definition strlen :: "mem \<Rightarrow> addr \<Rightarrow> u64 option" where
  "strlen m s = strlen_loop m s 0"

definition strncat :: "addr \<Rightarrow> addr \<Rightarrow> u64 \<Rightarrow> mem \<Rightarrow> addr \<times> mem" where
  "strncat dest src n m = (0, m)"

function strncpy_loop :: "addr \<Rightarrow> addr \<Rightarrow> u64 \<Rightarrow> u64 \<Rightarrow> mem \<Rightarrow> mem" where
  "strncpy_loop ptr src n i m =
     (if m src \<noteq> 0 \<and> i < n
      then strncpy_loop (ptr + 1) (src + 1) n (i + 1) (m(ptr := m src)) else m)"
  by pat_completeness auto
termination
  by (relation "measure (\<lambda>(p, s, n, i, m). unat (n - i))") (simp_all add: count_down_less)

definition strncpy :: "addr \<Rightarrow> addr \<Rightarrow> u64 \<Rightarrow> mem \<Rightarrow> addr \<times> mem" where
  "strncpy dest src n m = (dest, strncpy_loop dest src n 0 m)"

definition strndup :: "mem \<Rightarrow> addr \<Rightarrow> u64 \<Rightarrow> addr" where
  "strndup m s n = 0"

text \<open>\<open>i++ < n\<close> advances \<open>i\<close> also when the comparison fails.\<close>

function strnlen_loop :: "mem \<Rightarrow> addr \<Rightarrow> u64 \<Rightarrow> u64 \<Rightarrow> u64" where
  "strnlen_loop m s n i =
     (if m s \<noteq> 0 then (if i < n then strnlen_loop m (s + 1) n (i + 1) else i + 1) else i)"
  by pat_completeness auto
termination
  by (relation "measure (\<lambda>(m, s, n, i). unat (n - i))") (simp_all add: count_down_less)

definition strnlen :: "mem \<Rightarrow> addr \<Rightarrow> u64 \<Rightarrow> u64" where
  "strnlen m s n = strnlen_loop m s n 0"

definition strpbrk :: "mem \<Rightarrow> addr \<Rightarrow> addr \<Rightarrow> addr" where
  "strpbrk m s accept = 0"

definition strrchr :: "mem \<Rightarrow> addr \<Rightarrow> i32 \<Rightarrow> addr" where
  "strrchr m s c = 0"

definition strsignal :: "i32 \<Rightarrow> addr" where
  "strsignal sig = 0"

definition strspn :: "mem \<Rightarrow> addr \<Rightarrow> addr \<Rightarrow> u64" where
  "strspn m s accept = 0"

definition strstr :: "mem \<Rightarrow> addr \<Rightarrow> addr \<Rightarrow> addr" where
  "strstr m haystack needle = 0"

section \<open>Tokens\<close>

text \<open>The index is a C \<open>int\<close>, sign-extended when it is added to a pointer.\<close>

partial_function (option) tok_match :: "mem \<Rightarrow> addr \<Rightarrow> addr \<Rightarrow> i32 \<Rightarrow> i32 option" where
  "tok_match m tok delim i =
     (if m (tok + scast i) = m (delim + scast i) then tok_match m tok delim (i + 1) else Some i)"

text \<open>\<open>Some None\<close>: the end of the string was reached without a delimiter.\<close>

partial_function (option) tok_find :: "mem \<Rightarrow> addr \<Rightarrow> addr \<Rightarrow> addr option option" where
  "tok_find m tok delim =
     (if m tok = 0 then Some None
      else do {
        i \<leftarrow> tok_match m tok delim 0;
        if m (delim + scast i) = 0 then Some (Some tok)
        else tok_find m (tok + 1) delim
      })"

partial_function (option) tok_clear :: "addr \<Rightarrow> addr \<Rightarrow> i32 \<Rightarrow> mem \<Rightarrow> (i32 \<times> mem) option" where
  "tok_clear tok delim i m =
     (if m (delim + scast i) \<noteq> 0 then tok_clear tok delim (i + 1) (m(tok + scast i := 0))
      else Some (i, m))"

text \<open>
  \<open>strtok_r str delim saveptr m\<close>: \<open>saveptr\<close> is \<open>None\<close> for a null
  pointer and otherwise the value it points to. The result is the token, the value
  left behind \<open>saveptr\<close> and the memory.
\<close>

definition strtok_r :: "addr \<Rightarrow> addr \<Rightarrow> addr option \<Rightarrow> mem \<Rightarrow> (addr \<times> addr option \<times> mem) option" where
  "strtok_r str delim saveptr m =
     (case saveptr of
        None \<Rightarrow> Some (0, None, m)
      | Some saved \<Rightarrow>
          (let str = (if str = 0 then saved else str)
           in if str = 0 then Some (0, Some saved, m)
              else do {
                found \<leftarrow> tok_find m str delim;
                case found of
                  None \<Rightarrow> Some (0, Some saved, m)
                | Some tok \<Rightarrow> do {
                    (i, m) \<leftarrow> tok_clear tok delim 0 m;
                    Some (str, Some (tok + scast i), m)
                  }
              }))"

text \<open>\<open>strtok\<close> keeps the position of the last call in a static variable.\<close>

definition strtok :: "addr \<Rightarrow> addr \<Rightarrow> addr \<Rightarrow> mem \<Rightarrow> (addr \<times> addr \<times> mem) option" where
  "strtok str delim strtok_last_call m =
     (let str = (if str = 0 then strtok_last_call else str)
      in if str = 0 then Some (0, strtok_last_call, m)
         else do {
           found \<leftarrow> tok_find m str delim;
           case found of
             None \<Rightarrow> Some (0, strtok_last_call, m)
           | Some tok \<Rightarrow> do {
               (i, m) \<leftarrow> tok_clear tok delim 0 m;
               Some (str, tok + scast i, m)
             }
         })"

definition strxfrm :: "addr \<Rightarrow> addr \<Rightarrow> u64 \<Rightarrow> mem \<Rightarrow> u64 \<times> mem" where
  "strxfrm dest src n m = (0, m)"

function str_from_wchar_loop :: "addr \<Rightarrow> addr \<Rightarrow> u64 \<Rightarrow> u64 \<Rightarrow> mem \<Rightarrow> u64 \<times> addr \<times> mem" where
  "str_from_wchar_loop dest ptr n x m =
     (if m ptr \<noteq> 0 then
        (if x < n then str_from_wchar_loop (dest + 1) (ptr + 2) n (x + 1) (m(dest := m ptr))
         else (x + 1, dest, m))
      else (x, dest, m))"
  by pat_completeness auto
termination
  by (relation "measure (\<lambda>(d, p, n, x, m). unat (n - x))") (simp_all add: count_down_less)

definition str_from_wchar :: "addr \<Rightarrow> addr \<Rightarrow> u64 \<Rightarrow> mem \<Rightarrow> u64 \<times> mem" where
  "str_from_wchar dest src n m =
     (let (x, d, m) = str_from_wchar_loop dest src n 0 m in (x, m(d := 0)))"

declare ffs_loop.simps [code] strcasecmp.simps [code] strcmp.simps [code]
  strcpy_loop.simps [code] strlen_loop.simps [code] tok_match.simps [code]
  tok_find.simps [code] tok_clear.simps [code]

declare strncasecmp_loop.simps [simp del] memccpy_loop.simps [simp del]
  memcmp_loop.simps [simp del] memcpy_loop.simps [simp del] memset_loop.simps [simp del]
  strncpy_loop.simps [simp del] strnlen_loop.simps [simp del] str_from_wchar_loop.simps [simp del]

section \<open>Memory blocks: correctness\<close>

lemma word_diff_step:
  fixes d s k :: u64
  assumes "k \<noteq> 0" "k \<le> d - s"
  shows "k - 1 \<le> (d + 1) - (s + 1)" "d - s \<noteq> 0"
proof -
  from assms(1) have "k - 1 \<le> k" by (simp add: word_sub_le_iff word_le_sub1 word_gt_0)
  with assms(2) show "k - 1 \<le> (d + 1) - (s + 1)" by simp
  from assms show "d - s \<noteq> 0" by auto
qed

lemma memcpy_loop_spec:
  "i \<le> n \<Longrightarrow> n - i \<le> d - s \<or> d = s \<Longrightarrow>
   memcpy_loop i n d s m = (\<lambda>a. if in_region d (n - i) a then m (s + (a - d)) else m a)"
proof (induction i n d s m rule: memcpy_loop.induct)
  case (1 i n d s m)
  show ?case
  proof (cases "i < n")
    case False
    with 1 have "i = n" by simp
    then show ?thesis by (simp add: memcpy_loop.simps)
  next
    case True
    let ?m = "m(d := m s)"
    from True have k0: "n - i \<noteq> 0" by auto
    from True have le: "i + 1 \<le> n" by (simp add: inc_le)
    have sep: "n - (i + 1) \<le> (d + 1) - (s + 1) \<or> d + 1 = s + 1"
      using "1.prems"(2) word_diff_step(1) [OF k0, of d s] by (auto simp: algebra_simps)
    have IH: "memcpy_loop (i + 1) n (d + 1) (s + 1) ?m =
        (\<lambda>a. if in_region (d + 1) (n - (i + 1)) a then ?m (s + 1 + (a - (d + 1))) else ?m a)"
      using "1.IH" [OF True le sep] .
    have "(if in_region (d + 1) (n - (i + 1)) a then ?m (s + 1 + (a - (d + 1))) else ?m a) =
        (if in_region d (n - i) a then m (s + (a - d)) else m a)" for a
    proof (cases "a = d")
      case True
      moreover have "\<not> d - (d + 1) < n - (i + 1)"
        by (simp add: not_less)
      ultimately show ?thesis
        using in_region_step [OF \<open>i < n\<close>, of d a] by (simp add: in_region_def)
    next
      case False
      have "s + (a - d) \<noteq> d" if "in_region d (n - i) a" "d \<noteq> s"
      proof
        assume "s + (a - d) = d"
        then have "a - d = d - s" by (simp add: algebra_simps)
        with that "1.prems"(2) show False by (auto simp: in_region_def)
      qed
      with False in_region_step [OF \<open>i < n\<close>, of d a] show ?thesis
        by (auto simp: algebra_simps)
    qed
    with IH True show ?thesis
      by (subst memcpy_loop.simps) simp
  qed
qed

lemma memset_loop_spec:
  "memset_loop p c n m = (\<lambda>a. if in_region p n a then ucast c else m a)"
proof (induction p c n m rule: memset_loop.induct)
  case (1 p c n m)
  show ?case
  proof (cases "n > 0")
    case False
    then show ?thesis by (simp add: memset_loop.simps word_gt_0)
  next
    case True
    from in_region_step [OF True, of p]
    have "in_region p n a \<longleftrightarrow> a = p \<or> in_region (p + 1) (n - 1) a" for a by simp
    moreover have "memset_loop (p + 1) c (n - 1) (m(p := ucast c)) =
        (\<lambda>a. if in_region (p + 1) (n - 1) a then ucast c else (m(p := ucast c)) a)"
      using "1.IH" [OF True] .
    ultimately show ?thesis
      using True by (subst memset_loop.simps) (auto simp: fun_eq_iff)
  qed
qed

text \<open>
  \<open>memcpy\<close> copies: unless the destination starts strictly inside the
  source block, the \<open>n\<close> destination bytes are the \<open>n\<close> source bytes of the
  memory before the call, every other byte is unchanged, and the destination is
  returned. (Addresses wrap; the statement covers blocks across the end of the
  address space.)
\<close>

theorem memcpy_copies:
  assumes "n \<le> dest - src \<or> dest = src"
  shows "memcpy dest src n m =
     (dest, \<lambda>a. if in_region dest n a then m (src + (a - dest)) else m a)"
  using assms memcpy_loop_spec [of 0 n dest src m] by (simp add: memcpy_def)

theorem memcpy_copies_witness:
  "(3 :: u64) \<le> 200 - 100 \<and> snd (memcpy 200 100 3 (\<lambda>a. ucast a)) 202 = 102"
proof -
  have h: "(3 :: u64) \<le> 200 - 100 \<or> (200 :: addr) = 100" by simp
  show ?thesis by (simp add: memcpy_copies [OF h] in_region_def)
qed

text \<open>A fast copy that is only right on aligned blocks is enough for \<open>qmemcpy\<close> to be \<open>memcpy\<close>.\<close>

lemma qmemcpy_copies:
  assumes "\<And>dest src n m. dest AND 0xf = 0 \<Longrightarrow> src AND 0xf = 0 \<Longrightarrow> n AND 0xf = 0 \<Longrightarrow>
      quick dest src n m = memcpy dest src n m"
  shows "qmemcpy quick = memcpy"
  using assms by (simp add: qmemcpy_def fun_eq_iff)

text \<open>
  \<open>memset\<close> fills exactly the \<open>n\<close> bytes from \<open>s\<close> with the low
  byte of \<open>c\<close> when \<open>c\<close> is at most 255, and otherwise returns null and
  writes nothing.
\<close>

theorem memset_fills:
  "memset s c n m =
     (if sint c \<le> 255 then (s, \<lambda>a. if in_region s n a then ucast c else m a) else (0, m))"
  by (simp add: memset_def memset_loop_spec not_le)

text \<open>
  \<open>memmove\<close> is right when the destination ends above the source and does not
  start strictly inside it, which is when its first branch copies forwards safely.
\<close>

theorem memmove_forward_safe:
  assumes "dest + n > src" "n \<le> dest - src \<or> dest = src"
  shows "memmove dest src n m =
     (dest, \<lambda>a. if in_region dest n a then m (src + (a - dest)) else m a)"
  using assms by (simp add: memmove_def memcpy_copies)

theorem memmove_forward_safe_witness:
  "memmove 200 100 3 (\<lambda>a. ucast a) =
   (200, \<lambda>a. if in_region 200 3 a then ucast (100 + (a - 200)) else ucast a)"
  by (rule memmove_forward_safe) simp_all

section \<open>Strings: correctness\<close>

lemma strlen_loop_cstr: "cstr m p xs \<Longrightarrow> strlen_loop m p i = Some (i + of_nat (length xs))"
proof (induction xs arbitrary: p i)
  case Nil
  then show ?case by (simp add: strlen_loop.simps)
next
  case (Cons x xs)
  then show ?case by (subst strlen_loop.simps) (auto simp: algebra_simps)
qed

text \<open>
  \<open>strlen\<close> returns, and returns the length, of every terminated string.\<close>

theorem strlen_length:
  assumes "cstr m p xs"
  shows "strlen m p = Some (of_nat (length xs))"
  using strlen_loop_cstr [OF assms, of 0] by (simp add: strlen_def)

theorem strlen_length_witness:
  "strlen (poke (\<lambda>_. 0) 100 [0x6C, 0x73]) 100 = Some 2"
proof -
  have "cstr (poke (\<lambda>_. 0) 100 [0x6C, 0x73]) 100 [0x6C, 0x73]" by simp
  from strlen_length [OF this] show ?thesis by simp
qed

text \<open>
  C20: \<open>strcmp\<close> returns on every two terminated strings, and its result is the
  lexicographic order of their bytes read as unsigned: 0 exactly for equal strings,
  \<open>-1\<close> when the first is smaller, \<open>1\<close> when it is greater.
\<close>

theorem strcmp_lexicographic:
  assumes "cstr m p xs" "cstr m q ys"
  shows "strcmp m p q = Some (if xs = ys then 0 else if xs < ys then -1 else 1)"
  using assms
proof (induction xs arbitrary: p q ys)
  case Nil
  then show ?case
    by (cases ys) (simp_all add: strcmp.simps [of m p q] word_gt_0)
next
  case (Cons x xs)
  show ?case
  proof (cases ys)
    case Nil
    with Cons.prems show ?thesis
      by (simp add: strcmp.simps [of m p q] word_gt_0)
  next
    case (Cons y zs)
    with Cons.prems Cons.IH [of "p + 1" "q + 1" zs] show ?thesis
      by (auto simp: strcmp.simps [of m p q])
  qed
qed

theorem strcmp_lexicographic_witness:
  "strcmp (poke (poke (\<lambda>_. 0) 100 [0x61]) 200 [0x61, 0x62]) 100 200 = Some (-1)"
proof -
  let ?m = "poke (poke (\<lambda>_. 0) 100 [0x61]) 200 [0x61, 0x62]"
  have "cstr ?m 100 [0x61]" "cstr ?m 200 [0x61, 0x62]" by simp_all
  from strcmp_lexicographic [OF this] show ?thesis by simp
qed

text \<open>
  \<open>strcasecmp\<close> compares only up to the end of its first argument: on
  terminated strings it returns, and returns 0 exactly when the first string is a
  prefix of the second up to ASCII case. (A C library's \<open>strcasecmp\<close> returns 0
  for equal strings only.)
\<close>

theorem strcasecmp_prefix:
  assumes "cstr m p xs" "cstr m q ys"
  shows "\<exists>r. strcasecmp m p q = Some r \<and>
     (r = 0 \<longleftrightarrow> prefix (map fold_case xs) (map fold_case ys))"
  using assms
proof (induction xs arbitrary: p q ys)
  case Nil
  then show ?case by (simp add: strcasecmp.simps)
next
  case (Cons x xs)
  have pos: "fold_case x \<noteq> 0" if "x \<noteq> 0" for x
  proof
    assume z: "fold_case x = 0"
    with that have x: "x \<le> 0x5A" "x + 0x20 = 0"
      by (auto simp: fold_case_def split: if_splits)
    from x(2) have "x = - 0x20" by (simp add: eq_neg_iff_add_eq_0)
    with x(1) show False by simp
  qed
  have z0: "fold_case 0 = 0" by (simp add: fold_case_def)
  show ?case
  proof (cases ys)
    case Nil
    with Cons.prems pos [of x] z0 show ?thesis
      by (auto simp: strcasecmp.simps [of m p q] Let_def word_gt_0)
  next
    case (Cons y zs)
    with Cons.prems Cons.IH [of "p + 1" "q + 1" zs] show ?thesis
      by (auto simp: strcasecmp.simps [of m p q] Let_def)
  qed
qed

theorem strcasecmp_prefix_witness:
  "\<exists>r. strcasecmp (poke (poke (\<lambda>_. 0) 100 [0x6C]) 200 [0x4C, 0x53]) 100 200 = Some r \<and> r = 0"
proof -
  let ?m = "poke (poke (\<lambda>_. 0) 100 [0x6C]) 200 [0x4C, 0x53]"
  have "cstr ?m 100 [0x6C]" "cstr ?m 200 [0x4C, 0x53]" by simp_all
  from strcasecmp_prefix [OF this] show ?thesis by (simp add: fold_case_def)
qed

section \<open>Copying and measuring: correctness\<close>

lemma cstr_cong:
  "(\<And>i. i \<le> length xs \<Longrightarrow> m' (p + of_nat i) = m (p + of_nat i)) \<Longrightarrow> cstr m' p xs = cstr m p xs"
proof (induction xs arbitrary: p)
  case Nil
  from Nil [of 0] show ?case by simp
next
  case (Cons x xs)
  from Cons.prems [of 0] have "m' p = m p" by simp
  moreover have "cstr m' (p + 1) xs = cstr m (p + 1) xs"
  proof (rule Cons.IH)
    fix i
    assume "i \<le> length xs"
    with Cons.prems [of "Suc i"] show "m' (p + 1 + of_nat i) = m (p + 1 + of_nat i)"
      by (simp add: add.assoc)
  qed
  ultimately show ?case by simp
qed

text \<open>No byte of a copy to \<open>d\<close> lands on a byte of the source that is still to be read.\<close>

definition copy_safe :: "addr \<Rightarrow> addr \<Rightarrow> nat \<Rightarrow> nat \<Rightarrow> bool" where
  "copy_safe d p k n \<longleftrightarrow> (\<forall>i\<le>n. \<forall>j<i. d + of_nat j \<noteq> p + of_nat (k * i))"

lemma copy_safe_upt:
  "copy_safe d p k n \<longleftrightarrow>
   list_all (\<lambda>i. list_all (\<lambda>j. d + of_nat j \<noteq> p + of_nat (k * i)) [0..<i]) [0..<Suc n]"
  by (simp only: copy_safe_def list_all_iff set_upt Ball_def atLeastLessThan_iff less_Suc_eq_le) simp

lemma copy_safe_head:
  assumes "copy_safe d p k (Suc n)" "i \<le> n"
  shows "p + of_nat k + of_nat (k * i) \<noteq> d"
proof -
  from assms have "d + of_nat 0 \<noteq> p + of_nat (k * Suc i)"
    by (simp only: copy_safe_def) (metis Suc_le_mono zero_less_Suc)
  then show ?thesis by (simp add: algebra_simps)
qed

lemma copy_safe_step:
  assumes "copy_safe d p k (Suc n)"
  shows "copy_safe (d + 1) (p + of_nat k) k n"
  unfolding copy_safe_def
proof (intro allI impI)
  fix i j :: nat
  assume "i \<le> n" "j < i"
  with assms have "d + of_nat (Suc j) \<noteq> p + of_nat (k * Suc i)"
    by (simp only: copy_safe_def) (metis Suc_le_mono Suc_less_eq)
  then show "d + 1 + of_nat j \<noteq> p + of_nat k + of_nat (k * i)"
    by (simp add: algebra_simps)
qed

lemma strcpy_loop_poke:
  "cstr m p xs \<Longrightarrow> copy_safe d p 1 (length xs) \<Longrightarrow> strcpy_loop d p m = Some (poke m d xs)"
proof (induction xs arbitrary: d p m)
  case Nil
  then show ?case by (simp add: strcpy_loop.simps)
next
  case (Cons x xs)
  have "cstr (m(d := x)) (p + 1) xs = cstr m (p + 1) xs"
  proof (rule cstr_cong)
    fix i
    assume "i \<le> length xs"
    with copy_safe_head [of d p 1 "length xs" i] Cons.prems(2)
    show "(m(d := x)) (p + 1 + of_nat i) = m (p + 1 + of_nat i)" by simp
  qed
  with Cons.prems copy_safe_step [of d p 1 "length xs"]
  have "strcpy_loop (d + 1) (p + 1) (m(d := x)) = Some (poke (m(d := x)) (d + 1) xs)"
    by (intro Cons.IH) (simp_all del: fun_upd_apply)
  with Cons.prems show ?case
    by (subst strcpy_loop.simps) (simp del: fun_upd_apply)
qed

text \<open>
  \<open>strcpy\<close> returns and stores exactly the bytes of the source string: the
  terminating zero is not stored (a C library's \<open>strcpy\<close> stores it), so
  the byte after the copy is the one that was there.
\<close>

theorem strcpy_without_terminator:
  assumes "cstr m src xs" "copy_safe dest src 1 (length xs)"
  shows "strcpy dest src m = Some (dest, poke m dest xs)"
  using strcpy_loop_poke [OF assms] by (simp add: strcpy_def)

theorem strcpy_without_terminator_witness:
  "\<exists>m'. strcpy 200 100 (poke (\<lambda>_. 9) 100 [0x6C, 0x73, 0]) = Some (200, m') \<and>
     m' 200 = 0x6C \<and> m' 201 = 0x73 \<and> m' 202 = 9"
proof -
  let ?m = "poke (\<lambda>_. 9) 100 [0x6C, 0x73, 0]"
  have c: "cstr ?m 100 [0x6C, 0x73]" by simp
  have "copy_safe 200 100 1 (length [0x6C, 0x73 :: byte])"
    by (simp add: copy_safe_upt upt_rec)
  from strcpy_without_terminator [OF c this] show ?thesis by simp
qed

lemma strnlen_loop_cstr:
  "cstr m p xs \<Longrightarrow> i \<le> n \<Longrightarrow>
   strnlen_loop m p n i = (if unat i + length xs \<le> unat n then i + of_nat (length xs) else n + 1)"
proof (induction xs arbitrary: p i)
  case Nil
  then show ?case by (simp add: strnlen_loop.simps word_le_nat_alt)
next
  case (Cons x xs)
  show ?case
  proof (cases "i < n")
    case True
    then have "i + 1 \<le> n" by (simp add: inc_le)
    with Cons.prems Cons.IH [of "p + 1" "i + 1"] True word_less_Suc_unat [OF True] show ?thesis
      by (subst strnlen_loop.simps) (simp add: algebra_simps)
  next
    case False
    with Cons.prems have "i = n" by simp
    with Cons.prems show ?thesis
      by (subst strnlen_loop.simps) auto
  qed
qed

text \<open>
  \<open>strnlen\<close> is the length of the string when that is at most the limit; a longer
  string is reported one above the limit (a C library's \<open>strnlen\<close> returns
  the limit).
\<close>

theorem strnlen_limit:
  assumes "cstr m p xs"
  shows "strnlen m p n = (if length xs \<le> unat n then of_nat (length xs) else n + 1)"
  using strnlen_loop_cstr [OF assms, of 0 n] by (simp add: strnlen_def)

theorem strnlen_limit_witness:
  "strnlen (poke (\<lambda>_. 0) 100 [0x61, 0x62, 0x63]) 100 1 = 2"
proof -
  have "cstr (poke (\<lambda>_. 0) 100 [0x61, 0x62, 0x63]) 100 [0x61, 0x62, 0x63]" by simp
  from strnlen_limit [OF this, of 1] show ?thesis by simp
qed

section \<open>Bit search, comparison and overlapping moves: correctness\<close>

lemma ffs_loop_least:
  assumes "bit i k" "\<forall>j<k. \<not> bit i j" "n \<le> k"
  shows "ffs_loop i n = Some k"
  using assms(3)
proof (induction "k - n" arbitrary: n)
  case 0
  with assms show ?case
    by (subst ffs_loop.simps) (auto simp: and_exp_eq_0_iff_not_bit push_bit_eq_mult)
next
  case (Suc d)
  then have "n < k" by simp
  with assms(2) have "i AND push_bit n 1 = 0"
    by (simp add: and_exp_eq_0_iff_not_bit push_bit_eq_mult)
  with Suc show ?case
    by (subst ffs_loop.simps) simp
qed

text \<open>
  \<open>ffs\<close> returns on every argument: 0 for zero, and otherwise one plus the index
  of the lowest bit that is set.
\<close>

theorem ffs_lowest_bit:
  "ffs i = Some (if i = 0 then 0 else of_nat (LEAST k. bit i k) + 1)"
proof (cases "i = 0")
  case False
  then obtain k where "bit i k" by (auto simp: bit_eq_iff)
  then have "bit i (LEAST k. bit i k)" by (rule LeastI)
  moreover have "\<forall>j<(LEAST k. bit i k). \<not> bit i j" by (auto dest: not_less_Least)
  ultimately have "ffs_loop i 0 = Some (LEAST k. bit i k)" by (rule ffs_loop_least) simp
  with False show ?thesis by (simp add: ffs_def)
qed (simp add: ffs_def)

lemma memcmp_loop_zero: "memcmp_loop m b1 b2 n i = 0"
proof (induction m b1 b2 n i rule: memcmp_loop.induct)
  case (1 m b1 b2 n i)
  then show ?case by (subst memcmp_loop.simps) auto
qed

text \<open>
  \<open>memcmp\<close> returns 0 for every two blocks: its loop runs only while the bytes are
  equal, so the comparisons inside it never find a difference.
\<close>

theorem memcmp_always_equal: "memcmp m s1 s2 n = 0"
  by (simp add: memcmp_def memcmp_loop_zero)

lemma add_wraps_below:
  fixes x k :: "'a::len word"
  assumes "- k \<le> x" "k \<noteq> 0"
  shows "x + k < k"
proof -
  from assms(2) have "0 < unat k" by (simp add: unat_gt_0 word_neq_0_conv)
  then have "unat (- k) = 2 ^ LENGTH('a) - unat k"
    using unat_sub_if' [of 0 k] by (simp add: word_size)
  with assms(1) have "2 ^ LENGTH('a) \<le> unat x + unat k" by (simp add: word_le_nat_alt)
  have "unat x < 2 ^ LENGTH('a)" "unat k < 2 ^ LENGTH('a)" by simp_all
  then have "unat x + unat k - 2 ^ LENGTH('a) < 2 ^ LENGTH('a)" by linarith
  with \<open>2 ^ LENGTH('a) \<le> unat x + unat k\<close>
  have "(unat x + unat k) mod 2 ^ LENGTH('a) = unat x + unat k - 2 ^ LENGTH('a)"
    by (simp only: le_mod_geq mod_less)
  moreover have "unat x + unat k - 2 ^ LENGTH('a) < unat k"
    using \<open>unat x < 2 ^ LENGTH('a)\<close> \<open>0 < unat k\<close> by linarith
  ultimately show ?thesis
    by (simp add: word_less_nat_alt unat_word_ariths)
qed

text \<open>
  Moving a block down in memory destroys the bytes around it. When the destination
  block ends at or below the source and the source does not wrap, the last branch of
  \<open>memmove\<close> copies \<open>dest - src\<close> bytes, nearly the whole address space: every
  byte outside the block that the first copy wrote, and outside the \<open>src - dest\<close> bytes
  below the destination, becomes the byte \<open>src - dest\<close> above it.
\<close>

theorem memmove_down_destroys:
  assumes "dest + n \<le> src" "dest < src" "dest < src + n" "n + (src - dest) \<le> dest - src"
    and "\<not> in_region (dest - (src - dest)) (src - dest) a"
    and "\<not> in_region (dest - (src - dest)) (n + (src - dest)) (src + (a - dest))"
  shows "snd (memmove dest src n m) a = m (a + (src - dest))"
proof -
  let ?m = "snd (memcpy (dest - (src - dest)) dest (n - (dest - src)) m)"
  have "n - (dest - src) \<le> (dest - (src - dest)) - dest"
    using assms(4) by (simp add: algebra_simps)
  then have m: "?m b = m b" if "\<not> in_region (dest - (src - dest)) (n + (src - dest)) b" for b
    using that by (simp add: memcpy_copies algebra_simps)
  have "in_region dest (dest - src) a"
  proof (rule ccontr)
    assume "\<not> in_region dest (dest - src) a"
    then have "- (src - dest) \<le> a - dest" by (simp add: in_region_def)
    moreover have "src - dest \<noteq> 0" using assms(2) by auto
    ultimately have "a - dest + (src - dest) < src - dest"
      by (intro add_wraps_below)
    with assms(5) show False by (simp add: in_region_def algebra_simps)
  qed
  then have "snd (memcpy dest src (dest - src) ?m) a = ?m (src + (a - dest))"
    by (simp add: memcpy_copies)
  moreover from assms(1,3) have "\<not> src < dest + n" "dest < src + n" by auto
  ultimately show ?thesis
    using m [OF assms(6)] by (simp add: memmove_def algebra_simps)
qed

theorem memmove_down_destroys_witness:
  "snd (memmove 100 200 4 (\<lambda>a. ucast a)) 250 = 350 - 256"
  by (subst memmove_down_destroys) (simp_all add: in_region_def)

section \<open>Wide strings and tokens: correctness\<close>

text \<open>\<open>wstr m p xs\<close>: the low bytes of the 16-bit units from \<open>p\<close> up to the first whose low byte is 0.\<close>

fun wstr :: "mem \<Rightarrow> addr \<Rightarrow> byte list \<Rightarrow> bool" where
  "wstr m p [] \<longleftrightarrow> m p = 0"
| "wstr m p (x # xs) \<longleftrightarrow> x \<noteq> 0 \<and> m p = x \<and> wstr m (p + 2) xs"

lemma wstr_cong:
  "(\<And>i. i \<le> length xs \<Longrightarrow> m' (p + of_nat (2 * i)) = m (p + of_nat (2 * i))) \<Longrightarrow> wstr m' p xs = wstr m p xs"
proof (induction xs arbitrary: p)
  case Nil
  from Nil [of 0] show ?case by simp
next
  case (Cons x xs)
  from Cons.prems [of 0] have "m' p = m p" by simp
  moreover have "wstr m' (p + 2) xs = wstr m (p + 2) xs"
  proof (rule Cons.IH)
    fix i
    assume "i \<le> length xs"
    with Cons.prems [of "Suc i"] show "m' (p + 2 + of_nat (2 * i)) = m (p + 2 + of_nat (2 * i))"
      by (simp add: algebra_simps)
  qed
  ultimately show ?case by simp
qed

lemma str_from_wchar_loop_poke:
  "wstr m p xs \<Longrightarrow> copy_safe d p 2 (length xs) \<Longrightarrow> x \<le> n \<Longrightarrow>
   str_from_wchar_loop d p n x m =
     (let k = (if unat x + length xs \<le> unat n then length xs else unat (n - x))
      in (if unat x + length xs \<le> unat n then x + of_nat (length xs) else n + 1,
          d + of_nat k, poke m d (take k xs)))"
proof (induction xs arbitrary: d p x m)
  case Nil
  then show ?case by (simp add: str_from_wchar_loop.simps word_le_nat_alt)
next
  case (Cons y xs)
  show ?case
  proof (cases "x < n")
    case False
    with Cons.prems have "x = n" by simp
    with Cons.prems show ?thesis
      by (subst str_from_wchar_loop.simps) (auto simp: Let_def)
  next
    case True
    have "wstr (m(d := y)) (p + 2) xs = wstr m (p + 2) xs"
    proof (rule wstr_cong)
      fix i
      assume "i \<le> length xs"
      with copy_safe_head [of d p 2 "length xs" i] Cons.prems(2)
      show "(m(d := y)) (p + 2 + of_nat (2 * i)) = m (p + 2 + of_nat (2 * i))" by simp
    qed
    moreover from True have "x + 1 \<le> n" by (simp add: inc_le)
    moreover have "unat (n - x) = Suc (unat (n - (x + 1)))"
    proof -
      from True have "n - x \<noteq> 0" by auto
      then have "unat (n - x - 1) = unat (n - x) - 1" "0 < unat (n - x)"
        by (simp_all add: unat_minus_one unat_gt_0 word_neq_0_conv)
      then show ?thesis by (simp add: algebra_simps)
    qed
    ultimately show ?thesis
      using Cons.prems copy_safe_step [of d p 2 "length xs"] True word_less_Suc_unat [OF True]
        Cons.IH [of "m(d := y)" "p + 2" "d + 1" "x + 1"]
      by (subst str_from_wchar_loop.simps) (simp add: Let_def algebra_simps del: fun_upd_apply)
  qed
qed

text \<open>
  \<open>str_from_wchar\<close> narrows a wide string to its low bytes and terminates it, and it
  stores at most \<open>n\<close> bytes and a zero. It returns the number of bytes
  stored when the whole string fits, and otherwise \<open>n + 1\<close>, one more than it stored.
\<close>

theorem str_from_wchar_narrows:
  assumes "wstr m src xs" "copy_safe dest src 2 (length xs)"
  shows "str_from_wchar dest src n m =
     (if length xs \<le> unat n then of_nat (length xs) else n + 1,
      (poke m dest (take (unat n) xs))(dest + of_nat (min (unat n) (length xs)) := 0))"
  using str_from_wchar_loop_poke [OF assms, of 0 n]
  by (auto simp: str_from_wchar_def Let_def min_def)

theorem str_from_wchar_narrows_witness:
  "fst (str_from_wchar 200 100 1 (poke (\<lambda>_. 0) 100 [0x61, 0, 0x62, 0])) = 2"
proof -
  let ?m = "poke (\<lambda>_. 0) 100 [0x61, 0, 0x62, 0]"
  have w: "wstr ?m 100 [0x61, 0x62]" by simp
  have "copy_safe 200 100 2 (length [0x61, 0x62 :: byte])"
    by (simp add: copy_safe_upt upt_rec)
  from str_from_wchar_narrows [OF w this, of 1] show ?thesis by simp
qed

lemma tok_find_skip:
  "\<lbrakk>\<forall>x\<in>set xs. x \<noteq> 0 \<and> x \<noteq> c; \<forall>i<length xs. m (p + of_nat i) = xs ! i;
    cstr m delim [c]; tok_find m (p + of_nat (length xs)) delim = r\<rbrakk> \<Longrightarrow> tok_find m p delim = r"
proof (induction xs arbitrary: p)
  case (Cons x xs)
  from Cons.prems(1,3) Cons.prems(2) [rule_format, of 0]
  have "m p \<noteq> 0" "m p \<noteq> c" "c \<noteq> 0" "m delim = c" by simp_all
  moreover from this have "tok_match m p delim 0 = Some 0"
    by (subst tok_match.simps) simp
  ultimately have step: "tok_find m p delim = tok_find m (p + 1) delim"
    by (simp add: tok_find.simps [of m p delim])
  have "m (p + 1 + of_nat i) = xs ! i" if "i < length xs" for i
    using Cons.prems(2) [rule_format, of "Suc i"] that by (simp add: add.assoc)
  then have "\<forall>i<length xs. m (p + 1 + of_nat i) = xs ! i" by blast
  moreover have "\<forall>x\<in>set xs. x \<noteq> 0 \<and> x \<noteq> c" using Cons.prems(1) by simp
  moreover have "tok_find m (p + 1 + of_nat (length xs)) delim = r"
    using Cons.prems(4) by (simp add: add.assoc)
  ultimately have "tok_find m (p + 1) delim = r"
    using Cons.IH Cons.prems(3) by blast
  with step show ?case by simp
qed simp

lemma tok_find_here:
  assumes "cstr m delim [c]" "m p = c" "m (p + 1) \<noteq> 0"
  shows "tok_find m p delim = Some (Some p)"
proof -
  from assms have "tok_match m p delim 0 = Some 1"
    by (simp add: tok_match.simps)
  with assms show ?thesis by (subst tok_find.simps) simp
qed

lemma tok_clear_one:
  assumes "cstr m delim [c]" "delim \<noteq> p" "delim + 1 \<noteq> p"
  shows "tok_clear p delim 0 m = Some (1, m(p := 0))"
  using assms by (simp add: tok_clear.simps)

text \<open>
  \<open>strtok_r\<close> with a one-byte delimiter splits off the first token: on a string
  whose first delimiter is followed by at least one more byte it returns the start of
  the string, terminates the token there, and leaves the position after the delimiter
  for the next call. (The token may be empty: a run of delimiters is not skipped.)
\<close>

theorem strtok_r_splits:
  assumes "cstr m p (xs @ c # ys)" "c \<notin> set xs" "ys \<noteq> []" "p \<noteq> 0" "cstr m delim [c]"
    and "delim \<noteq> p + of_nat (length xs)" "delim + 1 \<noteq> p + of_nat (length xs)"
    and "length xs < 2 ^ 64"
  shows "\<exists>m'. strtok_r p delim (Some saved) m = Some (p, Some (p + of_nat (length xs) + 1), m') \<and>
     cstr m' p xs \<and> (\<forall>a. a \<noteq> p + of_nat (length xs) \<longrightarrow> m' a = m a)"
proof -
  let ?q = "p + of_nat (length xs) :: addr"
  from assms(1) have pre: "\<forall>i<length xs. m (p + of_nat i) = xs ! i" "\<forall>x\<in>set xs. x \<noteq> 0"
    and q: "m ?q = c" "cstr m (?q + 1) ys"
    by (auto simp: cstr_append in_set_conv_nth)
  from q assms(3) have "m (?q + 1) \<noteq> 0" by (cases ys) auto
  with q assms(5) have "tok_find m ?q delim = Some (Some ?q)" by (intro tok_find_here)
  then have "tok_find m p delim = Some (Some ?q)"
    using pre assms(2,5) by (intro tok_find_skip [of xs c m p delim]) auto
  moreover have "tok_clear ?q delim 0 m = Some (1, m(?q := 0))"
    using assms(5-7) by (rule tok_clear_one)
  moreover have "cstr (m(?q := 0)) p (xs @ [])"
    unfolding cstr_append
  proof (intro conjI allI impI)
    fix i
    assume i: "i < length xs"
    with pre show "xs ! i \<noteq> 0" by auto
    from i assms(8) have "(of_nat i :: u64) \<noteq> of_nat (length xs)"
      by (simp add: word_of_nat_eq_iff take_bit_nat_eq_self)
    with i pre show "(m(?q := 0)) (p + of_nat i) = xs ! i" by simp
  qed simp
  ultimately show ?thesis
    using assms(4) by (simp add: strtok_r_def)
qed

theorem strtok_r_splits_witness:
  "\<exists>m'. strtok_r 100 200 (Some 0)
      (poke (poke (\<lambda>_. 0) 100 [0x61, 0x62, 0x20, 0x63]) 200 [0x20]) = Some (100, Some 103, m') \<and>
     cstr m' 100 [0x61, 0x62]"
proof -
  let ?m = "poke (poke (\<lambda>_. 0) 100 [0x61, 0x62, 0x20, 0x63]) 200 [0x20]"
  have "cstr ?m 100 ([0x61, 0x62] @ 0x20 # [0x63])" "cstr ?m 200 [0x20]" by simp_all
  from strtok_r_splits [OF this(1) _ _ _ this(2), of 0] show ?thesis by auto
qed

end
