(* ===== verification/Heap.thy ===== *)
theory Heap
  imports Prelude
begin

text \<open>
  The two primitive allocators of \<open>src/mm/heap.c\<close>: \<open>alloc_buf\<close>
  hands out 512-byte aligned buffers above the heap, \<open>sbrk\<close> moves the program
  break that \<open>malloc\<close> grows. The addresses of the linker symbols \<open>_start\<close>
  and \<open>__end\<close> are parameters.
\<close>

record heap_state =
  cur_brk :: u64
  cur_buf :: u64

definition MAX_BRK :: "addr \<Rightarrow> u64" where
  "MAX_BRK start = (start - 0x8000) + 0xf0000"

definition MAX_BUF :: u64 where "MAX_BUF = 0x100000"

definition heap_init :: "addr \<Rightarrow> heap_state" where
  "heap_init start = \<lparr>cur_brk = 0, cur_buf = MAX_BRK start\<rparr>"

definition alloc_buf :: "u64 \<Rightarrow> heap_state \<Rightarrow> addr \<times> heap_state" where
  "alloc_buf nbytes h =
     (let old_buf = cur_buf h;
          h = h\<lparr>cur_buf := cur_buf h + nbytes\<rparr>
      in if cur_buf h > MAX_BUF then (0, h\<lparr>cur_buf := old_buf\<rparr>)
         else
           (let h = (if cur_buf h AND 0x1ff \<noteq> 0
                     then (let h = h\<lparr>cur_buf := cur_buf h AND NOT 0x1ff\<rparr>
                           in h\<lparr>cur_buf := cur_buf h + 0x200\<rparr>)
                     else h)
            in (old_buf, h)))"

definition sbrk :: "addr \<Rightarrow> addr \<Rightarrow> u64 \<Rightarrow> heap_state \<Rightarrow> addr \<times> heap_state" where
  "sbrk start end_sym increment h =
     (let h = (if cur_brk h = 0 then
                 (let h = h\<lparr>cur_brk := end_sym\<rparr>
                  in if cur_brk h AND 0xfff \<noteq> 0
                     then (let h = h\<lparr>cur_brk := cur_brk h AND NOT 0xfff\<rparr>
                           in h\<lparr>cur_brk := cur_brk h + 0x1000\<rparr>)
                     else h)
               else h);
          old_brk = cur_brk h;
          h = h\<lparr>cur_brk := cur_brk h + increment\<rparr>
      in if cur_brk h \<ge> MAX_BRK start then (-1, h\<lparr>cur_brk := old_brk\<rparr>)
         else (old_brk, h))"

section \<open>Rounding up\<close>

text \<open>\<open>align_up b x\<close>: the next multiple of \<open>2 ^ b\<close>, as both routines compute it.\<close>

definition align_up :: "nat \<Rightarrow> u64 \<Rightarrow> u64" where
  "align_up b x = (if x AND mask b \<noteq> 0 then (x AND NOT (mask b)) + push_bit b 1 else x)"

lemma and_not_mask: "(x :: u64) AND NOT (mask b) = x - take_bit b x"
proof -
  have "(x AND NOT (mask b)) + take_bit b x = (x AND NOT (mask b)) OR take_bit b x"
    by (rule disjunctive_add) (auto simp: bit_simps)
  also have "\<dots> = x" by (rule bit_word_eqI) (auto simp: bit_simps)
  finally show ?thesis by (simp add: eq_diff_eq)
qed

lemma unat_take_bit_mod: "unat (take_bit b (x :: u64)) = unat x mod 2 ^ b"
  by (simp only: unsigned_take_bit_eq) (simp add: take_bit_eq_mod)

lemma unat_align_up:
  assumes "b < 64" "unat x + 2 ^ b \<le> 2 ^ 64"
  shows "unat (align_up b x) =
     unat x - unat x mod 2 ^ b + (if unat x mod 2 ^ b = 0 then 0 else 2 ^ b)"
proof (cases "take_bit b x = 0")
  case True
  then have "unat x mod 2 ^ b = 0" by (metis unat_take_bit_mod unsigned_0)
  with True show ?thesis by (simp add: align_up_def take_bit_eq_mask)
next
  case False
  then have r: "unat x mod 2 ^ b \<noteq> 0" by (metis unat_take_bit_mod unat_eq_0)
  have le: "take_bit b x \<le> x"
    by (simp add: word_le_nat_alt unat_take_bit_mod)
  have "unat (of_nat (2 ^ b) :: u64) = 2 ^ b"
    using assms(1) by (simp only: unsigned_of_nat) (simp add: take_bit_nat_eq_self)
  then have p: "unat (push_bit b 1 :: u64) = 2 ^ b" by (simp add: push_bit_eq_mult)
  have "unat (x - take_bit b x + push_bit b 1) = unat (x - take_bit b x) + 2 ^ b"
    using p r assms(2) le
    by (subst unat_plus_if') (auto simp: unat_sub unat_take_bit_mod)
  with False r le show ?thesis
    by (simp add: align_up_def and_not_mask unat_sub unat_take_bit_mod flip: take_bit_eq_mask)
qed

lemma align_up_spec:
  assumes "b < 64" "unat x + 2 ^ b \<le> 2 ^ 64"
  shows "align_up b x AND mask b = 0" "x \<le> align_up b x" "unat (align_up b x) < unat x + 2 ^ b"
proof -
  have "take_bit b (align_up b x) = 0"
  proof -
    have "unat x - unat x mod 2 ^ b = 2 ^ b * (unat x div 2 ^ b)"
      by (simp add: minus_mod_eq_mult_div)
    then have "unat (align_up b x) mod 2 ^ b = 0"
      by (simp add: unat_align_up [OF assms])
    then show ?thesis by (metis unat_take_bit_mod unat_eq_0)
  qed
  then show "align_up b x AND mask b = 0" by (simp add: take_bit_eq_mask)
  have "unat x mod 2 ^ b < 2 ^ b" "unat x mod 2 ^ b \<le> unat x" by simp_all
  then have "unat x \<le> unat (align_up b x) \<and> unat (align_up b x) < unat x + 2 ^ b"
    unfolding unat_align_up [OF assms]
    by (cases "unat x mod 2 ^ b = 0") (simp_all only: if_True if_False simp_thms, linarith+)
  then show "x \<le> align_up b x" "unat (align_up b x) < unat x + 2 ^ b"
    by (simp_all add: word_le_nat_alt)
qed

section \<open>Buffers\<close>

lemma alloc_buf_eq:
  "alloc_buf nbytes h =
     (if cur_buf h + nbytes > MAX_BUF then (0, h)
      else (cur_buf h, h\<lparr>cur_buf := align_up 9 (cur_buf h + nbytes)\<rparr>))"
  by (simp add: alloc_buf_def align_up_def Let_def mask_eq_exp_minus_1)

text \<open>
  A buffer that \<open>alloc_buf\<close> hands out ends below the next one: when it succeeds
  without wrapping, it returns the old buffer pointer, and the new one is a multiple
  of 512, at or above the end of the buffer and less than 512 bytes beyond it.
\<close>

theorem alloc_buf_aligned:
  assumes "alloc_buf nbytes h = (p, h')" "p \<noteq> 0"
  shows "p = cur_buf h \<and> p + nbytes \<le> cur_buf h' \<and> cur_buf h' AND 0x1ff = 0 \<and>
     unat (cur_buf h') < unat (p + nbytes) + 512 \<and> p + nbytes \<le> MAX_BUF"
proof -
  from assms have le: "cur_buf h + nbytes \<le> MAX_BUF" and p: "p = cur_buf h"
    and h': "cur_buf h' = align_up 9 (p + nbytes)"
    by (auto simp: alloc_buf_eq not_less split: if_splits)
  then have "unat (p + nbytes) + 2 ^ 9 \<le> 2 ^ 64"
    by (simp add: MAX_BUF_def word_le_nat_alt)
  from align_up_spec [OF _ this] le p h' show ?thesis
    by (simp add: mask_eq_exp_minus_1)
qed

theorem alloc_buf_aligned_witness:
  "cur_buf (snd (alloc_buf 100 \<lparr>cur_brk = 0, cur_buf = 0x1000\<rparr>)) AND 0x1ff = 0"
proof -
  have "alloc_buf 100 \<lparr>cur_brk = 0, cur_buf = 0x1000\<rparr> = (0x1000, \<lparr>cur_brk = 0, cur_buf = 0x1200\<rparr>)"
    by (simp add: alloc_buf_def MAX_BUF_def)
  from alloc_buf_aligned [OF this] this show ?thesis by simp
qed

text \<open>
  In the kernel as it is linked (\<open>_start\<close> at 0x80000 in
  \<open>tools/link/linker.ld\<close>) the buffer area is empty: its start
  \<open>MAX_BRK\<close> lies above its limit \<open>MAX_BUF\<close>, so every request that does not wrap
  the address space fails, from the first on, and changes nothing.
\<close>

theorem alloc_buf_exhausted:
  assumes "nbytes < - MAX_BRK 0x80000"
  shows "alloc_buf nbytes (heap_init 0x80000) = (0, heap_init 0x80000)"
proof -
  have "MAX_BUF < MAX_BRK 0x80000 + nbytes"
  proof -
    from assms have "unat nbytes < 0xFFFFFFFFFFE98000"
      by (simp add: MAX_BRK_def word_less_nat_alt)
    then show ?thesis
      by (simp add: MAX_BUF_def MAX_BRK_def word_less_nat_alt unat_plus_if')
  qed
  then show ?thesis by (simp add: alloc_buf_eq heap_init_def)
qed

theorem alloc_buf_exhausted_witness:
  "alloc_buf 512 (heap_init 0x80000) = (0, heap_init 0x80000)"
  by (rule alloc_buf_exhausted) (simp add: MAX_BRK_def)

section \<open>The program break\<close>

text \<open>The break that a call of \<open>sbrk\<close> starts from.\<close>

definition brk_base :: "addr \<Rightarrow> heap_state \<Rightarrow> u64" where
  "brk_base end_sym h = (if cur_brk h = 0 then align_up 12 end_sym else cur_brk h)"

lemma sbrk_eq:
  "sbrk start end_sym increment h =
     (let b = brk_base end_sym h
      in if b + increment \<ge> MAX_BRK start then (-1, h\<lparr>cur_brk := b\<rparr>)
         else (b, h\<lparr>cur_brk := b + increment\<rparr>))"
  by (simp add: sbrk_def brk_base_def align_up_def Let_def mask_eq_exp_minus_1)

text \<open>The blocks that a sequence of calls obtains, with their sizes, in the order of the calls.\<close>

fun sbrk_blocks :: "addr \<Rightarrow> addr \<Rightarrow> u64 list \<Rightarrow> heap_state \<Rightarrow> (addr \<times> u64) list" where
  "sbrk_blocks start end_sym [] h = []"
| "sbrk_blocks start end_sym (n # ns) h =
     (let (p, h) = sbrk start end_sym n h
      in (if p = -1 then [] else [(p, n)]) @ sbrk_blocks start end_sym ns h)"

lemma sbrk_blocks_above:
  assumes "unat (MAX_BRK start) \<le> 2 ^ 63" "0 < b" "\<forall>n\<in>set ns. unat n < 2 ^ 63"
    "cur_brk h = b" "b < MAX_BRK start"
  shows "(\<forall>x\<in>set (sbrk_blocks start e ns h).
        unat b \<le> unat (fst x) \<and> unat (fst x) + unat (snd x) < unat (MAX_BRK start)) \<and>
     sorted_wrt (\<lambda>x y. unat (fst x) + unat (snd x) \<le> unat (fst y)) (sbrk_blocks start e ns h)"
  using assms(2-)
proof (induction ns arbitrary: h b)
  case (Cons n ns)
  have base: "brk_base e h = b" using Cons.prems by (auto simp: brk_base_def)
  have sum: "unat (b + n) = unat b + unat n"
    using Cons.prems assms(1) by (subst unat_plus_if') (auto simp: word_less_nat_alt)
  from Cons.prems(4) have ne: "b \<noteq> -1" by (metis word_order.extremum_strict)
  show ?case
  proof (cases "b + n \<ge> MAX_BRK start")
    case True
    with Cons.prems Cons.IH [of b "h\<lparr>cur_brk := b\<rparr>"] base show ?thesis by (simp add: sbrk_eq)
  next
    case False
    let ?h = "h\<lparr>cur_brk := b + n\<rparr>"
    have "0 < b + n" using Cons.prems(1) sum by (simp add: word_less_nat_alt)
    with Cons.IH [of "b + n" ?h] Cons.prems False
    have IH: "(\<forall>x\<in>set (sbrk_blocks start e ns ?h).
          unat b + unat n \<le> unat (fst x) \<and> unat (fst x) + unat (snd x) < unat (MAX_BRK start)) \<and>
       sorted_wrt (\<lambda>x y. unat (fst x) + unat (snd x) \<le> unat (fst y)) (sbrk_blocks start e ns ?h)"
      by (simp add: sum)
    moreover have "unat b + unat n < unat (MAX_BRK start)"
      using False sum by (simp add: word_less_nat_alt not_le)
    ultimately show ?thesis
      using False base ne
      by (auto simp: sbrk_eq Let_def)
  qed
qed simp

lemma sint_nonneg_unat: "0 \<le> sint (n :: u64) \<longleftrightarrow> unat n < 2 ^ 63"
proof -
  have eq: "uint n = 2 ^ 63 * of_bool (bit n 63) + take_bit 63 (uint n)"
    using take_bit_Suc_from_most [of 63 "uint n"] uint_lt2p [of n]
    by (simp add: bit_uint_iff take_bit_eq_mod [of 64])
  have low: "0 \<le> take_bit 63 (uint n)" "take_bit 63 (uint n) < 2 ^ 63"
    by (simp_all add: take_bit_eq_mod)
  have "uint n < 2 ^ 63 \<longleftrightarrow> \<not> bit n 63"
  proof (cases "bit n 63")
    case True
    then have "2 ^ 63 * of_bool (bit n 63) + take_bit 63 (uint n) = 2 ^ 63 + take_bit 63 (uint n)"
      by simp
    with eq low(1) have "2 ^ 63 \<le> uint n" by linarith
    with True show ?thesis by simp
  next
    case False
    then have "2 ^ 63 * of_bool (bit n 63) + take_bit 63 (uint n) = take_bit 63 (uint n)"
      by simp
    with eq low(2) have "uint n < 2 ^ 63" by linarith
    with False show ?thesis by simp
  qed
  moreover have "0 \<le> sint n \<longleftrightarrow> \<not> bit n 63"
    using bit_last_iff [of n] by auto
  moreover have "unat n < 2 ^ 63 \<longleftrightarrow> uint n < 2 ^ 63"
    using of_nat_less_iff [of "unat n" "2 ^ 63", where 'a = int] by simp
  ultimately show ?thesis by metis
qed



end
