(* ===== verification/Mbox.thy ===== *)
theory Mbox
  imports Machine
begin

text \<open>
  The VideoCore mailbox of \<open>src/drivers/mbox.c\<close>: starting a message, waiting for
  its answer, and the generic property call. A message is an array of 32-bit words
  in RAM; the answer appears in the same words, so a read of the mailbox registers
  may change RAM. Waiting for the status bits is a partial function.
\<close>

section \<open>Registers, channels and codes (include/drivers/hw/mbox.h)\<close>

definition MBOX_READ :: addr where [reg_defs]: "MBOX_READ = 0x3F00B880"
definition MBOX_READ_STATUS :: addr where [reg_defs]: "MBOX_READ_STATUS = 0x3F00B898"
definition MBOX_WRITE :: addr where [reg_defs]: "MBOX_WRITE = 0x3F00B8A0"
definition MBOX_WRITE_STATUS :: addr where [reg_defs]: "MBOX_WRITE_STATUS = 0x3F00B8B8"

definition MBOX_RESPONSE :: u32 where "MBOX_RESPONSE = 0x80000000"
definition MBOX_FULL :: u32 where "MBOX_FULL = 0x80000000"
definition MBOX_EMPTY :: u32 where "MBOX_EMPTY = 0x40000000"
definition MBOX_REQUEST :: u32 where "MBOX_REQUEST = 0"
definition MBOX_RESPONSE_SUCCESS :: u32 where "MBOX_RESPONSE_SUCCESS = 0x80000000"
definition MBOX_TAG_LAST :: u32 where "MBOX_TAG_LAST = 0"
definition MBOX_TAG_GET_CLK_RATE :: u32 where "MBOX_TAG_GET_CLK_RATE = 0x00030002"
definition MBOX_TAG_SET_POWER_STATE :: u32 where "MBOX_TAG_SET_POWER_STATE = 0x00028001"
definition MBOX_CH_PROP_W :: u32 where "MBOX_CH_PROP_W = 8"

definition MBOX_SUCCESS :: u64 where "MBOX_SUCCESS = 0x40000000"
definition MBOX_ERR_UNKNOWN :: u64 where "MBOX_ERR_UNKNOWN = 0x40000001"
definition MBOX_ERR_NULLPTR :: u64 where "MBOX_ERR_NULLPTR = 0x40000002"
definition MBOX_ERR_PTR_ALIGN :: u64 where "MBOX_ERR_PTR_ALIGN = 0x40000004"

section \<open>Messages in RAM\<close>

text \<open>The word of index \<open>i\<close> of the array of 32-bit words at \<open>p\<close>.\<close>

definition word_addr :: "addr \<Rightarrow> u32 \<Rightarrow> addr" where
  "word_addr p i = p + 4 * ucast i"

definition get_word :: "mem \<Rightarrow> addr \<Rightarrow> u32 \<Rightarrow> u32" where
  "get_word m p i = load32 m (word_addr p i)"

definition set_word :: "addr \<Rightarrow> u32 \<Rightarrow> u32 \<Rightarrow> mem \<Rightarrow> mem" where
  "set_word p i v m = store32 m (word_addr p i) v"

section \<open>Sending and receiving\<close>

partial_function (option) wait_status ::
    "'h platform \<Rightarrow> addr \<Rightarrow> u32 \<Rightarrow> 'h kstate \<Rightarrow> 'h kstate option" where
  "wait_status Pl reg bits s = do {
     (x, s) \<leftarrow> GET32 Pl reg s;
     if x AND bits \<noteq> 0 then wait_status Pl reg bits s else Some s
   }"

declare wait_status.simps [code]

definition mbox_command_start :: "'h platform \<Rightarrow> u32 \<Rightarrow> addr \<Rightarrow> 'h kstate \<Rightarrow> (u64 \<times> 'h kstate) option" where
  "mbox_command_start Pl channel mbox s =
     (if mbox = 0 then Some (MBOX_ERR_NULLPTR, s)
      else if mbox AND 0xF \<noteq> 0 then Some (MBOX_ERR_PTR_ALIGN, s)
      else do {
        let r = ucast (mbox OR ucast channel);
        s \<leftarrow> wait_status Pl MBOX_WRITE_STATUS MBOX_FULL s;
        s \<leftarrow> PUT32 Pl MBOX_WRITE r s;
        Some (MBOX_SUCCESS, s)
      })"

definition mbox_command_wait :: "'h platform \<Rightarrow> u32 \<Rightarrow> addr \<Rightarrow> 'h kstate \<Rightarrow> (u64 \<times> 'h kstate) option" where
  "mbox_command_wait Pl channel mbox s =
     (if mbox = 0 then Some (MBOX_ERR_NULLPTR, s)
      else if mbox AND 0xF \<noteq> 0 then Some (MBOX_ERR_PTR_ALIGN, s)
      else do {
        let r = (ucast (mbox OR ucast channel) :: u32);
        s \<leftarrow> wait_status Pl MBOX_READ_STATUS MBOX_EMPTY s;
        (x, s) \<leftarrow> GET32 Pl MBOX_READ s;
        if r = x \<and> get_word (kmem s) mbox 1 = MBOX_RESPONSE
        then Some (MBOX_SUCCESS, s) else Some (MBOX_ERR_UNKNOWN, s)
      })"

text \<open>\<open>mbox_call_raw\<close> keeps reading until its own message comes back.\<close>

partial_function (option) mbox_await ::
    "'h platform \<Rightarrow> u32 \<Rightarrow> addr \<Rightarrow> 'h kstate \<Rightarrow> (u64 \<times> 'h kstate) option" where
  "mbox_await Pl r mbox s = do {
     s \<leftarrow> wait_status Pl MBOX_READ_STATUS MBOX_EMPTY s;
     (x, s) \<leftarrow> GET32 Pl MBOX_READ s;
     if x = r
     then Some (if get_word (kmem s) mbox 1 = MBOX_RESPONSE_SUCCESS then 1 else 0, s)
     else mbox_await Pl r mbox s
   }"

declare mbox_await.simps [code]

definition mbox_call_raw :: "'h platform \<Rightarrow> addr \<Rightarrow> 'h kstate \<Rightarrow> (u64 \<times> 'h kstate) option" where
  "mbox_call_raw Pl mbox s =
     (if mbox = 0 then Some (MBOX_ERR_NULLPTR, s)
      else if mbox AND 0xF \<noteq> 0 then Some (MBOX_ERR_PTR_ALIGN, s)
      else do {
        let r = ucast (mbox OR ucast MBOX_CH_PROP_W);
        s \<leftarrow> wait_status Pl MBOX_WRITE_STATUS MBOX_FULL s;
        s \<leftarrow> PUT32 Pl MBOX_WRITE r s;
        mbox_await Pl r mbox s
      })"

section \<open>Property calls\<close>

text \<open>The index \<open>i\<close> is a 32-bit word; \<open>input\<close> is a pointer, null to clear the values.\<close>

function fill_values :: "addr \<Rightarrow> addr \<Rightarrow> u32 \<Rightarrow> u32 \<Rightarrow> u32 \<Rightarrow> mem \<Rightarrow> mem" where
  "fill_values mbox inp buf_min buf_max i m =
     (if i < buf_max then
        fill_values mbox inp buf_min buf_max (i + 1)
          (if inp \<noteq> 0 then set_word mbox i (get_word m inp (i - buf_min)) m
           else set_word mbox i 0 m)
      else m)"
  by pat_completeness auto
termination
  by (relation "measure (\<lambda>(p, q, lo, hi, i, m). unat (hi - i))") (simp_all add: count_down_less)

declare fill_values.simps [simp del]

definition buf_count :: "u64 \<Rightarrow> u32" where
  "buf_count buf_size = ucast ((buf_size + 3) div 4)"

definition prop_message :: "addr \<Rightarrow> u32 \<Rightarrow> u64 \<Rightarrow> u32 \<Rightarrow> addr \<Rightarrow> mem \<Rightarrow> mem" where
  "prop_message mbox tag_id buf_size req inp m =
     (let buf_min = 5;
          buf_max = buf_min - 1 + buf_count buf_size;
          msg_size = (buf_max + 2) * 4;
          m = set_word mbox 0 msg_size m;
          m = set_word mbox 1 MBOX_REQUEST m;
          m = set_word mbox 2 tag_id m;
          m = set_word mbox 3 (ucast buf_size) m;
          m = set_word mbox 4 req m;
          m = fill_values mbox inp buf_min buf_max buf_min m
      in set_word mbox (buf_max + 1) MBOX_TAG_LAST m)"

partial_function (option) copy_result :: "addr \<Rightarrow> addr \<Rightarrow> u64 \<Rightarrow> u32 \<Rightarrow> mem \<Rightarrow> mem option" where
  "copy_result res mbox buf_size i m =
     (if ucast i < buf_size
      then copy_result res mbox buf_size (i + 1) (m(res + ucast i := m (mbox + ucast (4 * 5 + i :: u32))))
      else Some m)"

declare copy_result.simps [code]

definition mbox_prop_call_internal ::
    "'h platform \<Rightarrow> addr \<Rightarrow> u32 \<Rightarrow> u64 \<Rightarrow> u32 \<Rightarrow> addr \<Rightarrow> addr \<Rightarrow> 'h kstate \<Rightarrow> (u64 \<times> 'h kstate) option" where
  "mbox_prop_call_internal Pl mbox tag_id buf_size req inp res s =
     (if mbox AND 0xF \<noteq> 0 then Some (MBOX_ERR_PTR_ALIGN, s)
      else do {
        let s = s\<lparr>kmem := prop_message mbox tag_id buf_size req inp (kmem s)\<rparr>;
        (err, s) \<leftarrow> mbox_command_start Pl MBOX_CH_PROP_W mbox s;
        if err \<noteq> MBOX_SUCCESS then Some (err, s)
        else do {
          (err, s) \<leftarrow> mbox_command_wait Pl MBOX_CH_PROP_W mbox s;
          if err \<noteq> MBOX_SUCCESS then Some (err, s)
          else if res \<noteq> 0 then do {
            m \<leftarrow> copy_result res mbox buf_size 0 (kmem s);
            Some (MBOX_SUCCESS, s\<lparr>kmem := m\<rparr>)
          }
          else Some (MBOX_SUCCESS, s)
        }
      })"

definition mbox_prop_call ::
    "'h platform \<Rightarrow> addr \<Rightarrow> u32 \<Rightarrow> u64 \<Rightarrow> addr \<Rightarrow> addr \<Rightarrow> 'h kstate \<Rightarrow> (u64 \<times> 'h kstate) option" where
  "mbox_prop_call Pl mbox tag_id buf_size inp res s =
     mbox_prop_call_internal Pl mbox tag_id buf_size 0 inp res s"

section \<open>What the mailbox leaves alone\<close>

lemma wait_status_frame [frame_rules]:
  assumes "confined W Pl" "frame W s0 s"
  shows "wlp (wait_status Pl reg bits s) (\<lambda>t. frame W s0 t)"
proof (rule wlpI)
  fix t
  assume ret: "wait_status Pl reg bits s = Some t"
  have "confined W Pl \<longrightarrow> frame W s0 s \<longrightarrow> frame W s0 t"
    apply (rule wait_status.raw_induct
        [where P = "\<lambda>Pl reg bits s t. confined W Pl \<longrightarrow> frame W s0 s \<longrightarrow> frame W s0 t", OF _ ret])
    apply (auto simp: bind_Some_iff split: if_splits dest!: GET32_frame [THEN wlpD, rotated 2])
    done
  with assms show "frame W s0 t" by blast
qed

lemma mbox_command_start_frame [frame_rules]:
  "confined W Pl \<Longrightarrow> frame W s0 s \<Longrightarrow>
   wlp (mbox_command_start Pl ch mbox s) (\<lambda>(e, t). frame W s0 t)"
  unfolding mbox_command_start_def Let_def
  by (rule wlp_intros frame_rules wlp_bindI | assumption | simp)+

lemma mbox_command_wait_frame [frame_rules]:
  "confined W Pl \<Longrightarrow> frame W s0 s \<Longrightarrow>
   wlp (mbox_command_wait Pl ch mbox s) (\<lambda>(e, t). frame W s0 t)"
  unfolding mbox_command_wait_def Let_def
  by (rule wlp_intros frame_rules wlp_bindI | assumption | simp)+

section \<open>Words of a message\<close>

lemma word_addr_apart:
  assumes "i \<noteq> j" "in_region (word_addr p i) 4 a"
  shows "\<not> in_region (word_addr p j) 4 a"
proof
  assume j: "in_region (word_addr p j) 4 a"
  have off: "unat (a - p) div 4 = unat k" if "in_region (word_addr p k) 4 a" for k
  proof -
    let ?e = "a - word_addr p k"
    from that have e: "unat ?e < 4" by (simp add: in_region_def word_less_nat_alt)
    have k: "unat (ucast k :: u64) = unat k" by (simp add: unat_ucast_up)
    have k4: "unat (4 * ucast k :: u64) = 4 * unat k"
      using unsigned_less [of k, where ?'a = nat] by (simp add: unat_word_ariths k)
    have "unat (4 * ucast k + ?e) = 4 * unat k + unat ?e"
      using unsigned_less [of k, where ?'a = nat] e k4 by (subst unat_plus_if') simp
    moreover have "a - p = 4 * ucast k + ?e" by (simp add: word_addr_def)
    ultimately have "unat (a - p) = 4 * unat k + unat ?e" by (simp only:)
    with e show ?thesis by simp
  qed
  from off [OF assms(2)] off [OF j] have "unat i = unat j" by simp
  with assms(1) show False by (simp add: word_unat_eq_iff)
qed

lemma get_set_word [simp]: "get_word (set_word p i v m) p i = v"
  by (simp add: get_word_def set_word_def)

lemma get_set_word_other:
  assumes "\<And>a. in_region (word_addr q j) 4 a \<Longrightarrow> \<not> in_region (word_addr p i) 4 a"
  shows "get_word (set_word p i v m) q j = get_word m q j"
  unfolding get_word_def set_word_def
  by (rule read_word_cong) (use assms in \<open>simp add: write_word_outside\<close>)

lemma get_set_word_neq [simp]: "i \<noteq> j \<Longrightarrow> get_word (set_word p i v m) p j = get_word m p j"
  by (rule get_set_word_other) (use word_addr_apart in blast)

text \<open>The first \<open>n\<close> words at \<open>q\<close> are apart from the words of the message at \<open>p\<close>.\<close>

definition words_apart :: "addr \<Rightarrow> u32 \<Rightarrow> addr \<Rightarrow> bool" where
  "words_apart q n p \<longleftrightarrow> (\<forall>j<n. \<forall>i a. in_region (word_addr q j) 4 a \<longrightarrow> \<not> in_region (word_addr p i) 4 a)"

lemma get_word_apart: "words_apart q n p \<Longrightarrow> j < n \<Longrightarrow> get_word (set_word p i v m) q j = get_word m q j"
  by (rule get_set_word_other) (simp add: words_apart_def)

lemma word_minus_less_mono: "(lo :: u32) \<le> k \<Longrightarrow> k < hi \<Longrightarrow> k - lo < hi - lo"
  by (simp add: word_less_nat_alt word_le_nat_alt unat_sub_if')

lemma get_word_fill_values:
  assumes "inp = 0 \<or> words_apart inp (hi - lo) mbox"
  shows "lo \<le> i \<Longrightarrow> get_word (fill_values mbox inp lo hi i m) mbox k =
     (if i \<le> k \<and> k < hi then (if inp = 0 then 0 else get_word m inp (k - lo)) else get_word m mbox k)"
  using assms
proof (induction mbox inp lo hi i m rule: fill_values.induct)
  case (1 mbox inp lo hi i m)
  show ?case
  proof (cases "i < hi")
    case False
    then show ?thesis by (subst fill_values.simps) auto
  next
    case True
    let ?v = "if inp = 0 then 0 else get_word m inp (i - lo)"
    let ?m = "set_word mbox i ?v m"
    have up: "lo \<le> i + 1" "i + 1 \<le> k \<longleftrightarrow> i < k"
      using True "1.prems"(1) word_less_Suc_unat [OF True]
      by (auto simp: word_le_nat_alt word_less_nat_alt)
    have IH: "get_word (fill_values mbox inp lo hi (i + 1) ?m) mbox k =
       (if i + 1 \<le> k \<and> k < hi then (if inp = 0 then 0 else get_word ?m inp (k - lo)) else get_word ?m mbox k)"
      using "1.IH" [OF True up(1) "1.prems"(2)] by (cases "inp = 0") simp_all
    have "get_word ?m inp (k - lo) = get_word m inp (k - lo)" if "inp \<noteq> 0" "i < k" "k < hi"
      using that "1.prems" by (intro get_word_apart [where n = "hi - lo"] word_minus_less_mono) auto
    with IH up True show ?thesis
      by (subst fill_values.simps) (auto simp: not_less)
  qed
qed
lemmas message_words = get_set_word get_set_word_neq

text \<open>
  C15: the layout of a property message. For a value buffer of \<open>c\<close> words the
  header (length, request code, tag, buffer size, request length) and the end tag
  are where the VideoCore expects them, and all value words \<^emph>\<open>but the last\<close> hold the
  input, or 0 without one. The last value word is never written: it keeps whatever
  the message array held before.
\<close>

theorem prop_message_layout:
  assumes "c = buf_count buf_size" "0 < c" "c < 0x3FFFFFFA" "inp = 0 \<or> words_apart inp c mbox"
  shows "let m' = prop_message mbox tag buf_size req inp m in
     map (get_word m' mbox) [0, 1, 2, 3, 4] = [4 * (c + 6), MBOX_REQUEST, tag, ucast buf_size, req] \<and>
     (\<forall>k < c - 1. get_word m' mbox (5 + k) = (if inp = 0 then 0 else get_word m inp k)) \<and>
     get_word m' mbox (4 + c) = get_word m mbox (4 + c) \<and>
     get_word m' mbox (5 + c) = MBOX_TAG_LAST"
proof -
  define hdr where "hdr = set_word mbox 4 req (set_word mbox 3 (ucast buf_size) (set_word mbox 2 tag
     (set_word mbox 1 MBOX_REQUEST (set_word mbox 0 (4 * (c + 6)) m))))"
  let ?fill = "fill_values mbox inp 5 (4 + c) 5 hdr"
  have m': "prop_message mbox tag buf_size req inp m = set_word mbox (5 + c) MBOX_TAG_LAST ?fill"
    by (simp add: prop_message_def hdr_def Let_def assms(1) [symmetric] algebra_simps)
  from assms(2,3) have c: "0 < unat c" "unat c < 0x3FFFFFFA"
    by (simp_all add: word_less_nat_alt)
  have plus: "unat (n + c) = unat n + unat c" if "unat n \<le> 5" for n :: u32
    using that c by (subst unat_plus_if') simp
  have le: "5 \<le> 4 + c" using plus [of 4] c by (simp add: word_le_nat_alt)
  have far: "n \<noteq> 5 + c" if "unat n < 5" for n :: u32
    using that plus [of 5] by auto
  have apart: "get_word hdr inp k = get_word m inp k" if "inp \<noteq> 0" "k < c" for k
    using that assms(4) by (simp add: hdr_def get_word_apart)
  have fill: "get_word ?fill mbox k =
      (if 5 \<le> k \<and> k < 4 + c then (if inp = 0 then 0 else get_word hdr inp (k - 5)) else get_word hdr mbox k)"
    for k
  proof (rule get_word_fill_values)
    have "4 + c - 5 \<le> c" using c plus [of 4] le by (simp add: word_le_nat_alt unat_sub)
    with assms(4) show "inp = 0 \<or> words_apart inp (4 + c - 5) mbox"
      by (auto simp: words_apart_def dest: less_le_trans)
  qed simp
  have one: "\<not> 5 \<le> (1 :: u32)" by (simp add: word_le_nat_alt)
  have head: "map (get_word (set_word mbox (5 + c) MBOX_TAG_LAST ?fill) mbox) [0, 1, 2, 3, 4] =
      [4 * (c + 6), MBOX_REQUEST, tag, ucast buf_size, req]"
    using far [of 0] far [of 1] far [of 2] far [of 3] far [of 4]
    by (simp add: fill message_words one) (simp add: hdr_def)
  have vals: "get_word (set_word mbox (5 + c) MBOX_TAG_LAST ?fill) mbox (5 + k) =
      (if inp = 0 then 0 else get_word m inp k)" if "k < c - 1" for k
  proof -
    from that c have "unat k + 1 < unat c"
      by (simp add: word_less_nat_alt unat_sub_if' split: if_splits)
    with c plus [of 5] plus [of 4] have "unat (5 + k) = 5 + unat k" "k < c"
      by (subst unat_plus_if', simp_all add: word_less_nat_alt)
    with \<open>unat k + 1 < unat c\<close> plus [of 5] plus [of 4]
    have "5 \<le> 5 + k" "5 + k < 4 + c" "5 + k \<noteq> 5 + c"
      by (auto simp: word_le_nat_alt word_less_nat_alt)
    with apart [OF _ \<open>k < c\<close>] show ?thesis by (simp add: fill message_words)
  qed
  have last: "get_word (set_word mbox (5 + c) MBOX_TAG_LAST ?fill) mbox (4 + c) = get_word m mbox (4 + c)"
  proof -
    have "4 + c \<noteq> n" if "unat n \<le> 4" for n
      using that plus [of 4] c by auto
    from this [of 0] this [of 1] this [of 2] this [of 3] this [of 4] show ?thesis
      by (simp add: fill message_words) (simp add: hdr_def)
  qed
  show ?thesis
    unfolding m' Let_def using head vals last by (simp add: message_words)
qed

theorem prop_message_layout_witness:
  "let m' = prop_message 0x1000 0x48003 8 0 0 (\<lambda>_. 7) in
     map (get_word m' 0x1000) [0, 1, 2, 3, 4] = [32, MBOX_REQUEST, 0x48003, 8, 0] \<and>
     get_word m' 0x1000 6 = 0x07070707"
proof -
  have c: "(2 :: u32) = buf_count 8" by (simp add: buf_count_def)
  have old: "get_word (\<lambda>_. 7) 0x1000 6 = 0x07070707"
    by (simp add: get_word_def read_word_def)
  from prop_message_layout [OF c, of 0 "0x1000" "0x48003" 0 "\<lambda>_. 7"] old show ?thesis
    by (simp add: Let_def)
qed

lemma copy_result_spec:
  assumes "n \<le> 0xFFFFFFEC" "\<And>j k. j < n \<Longrightarrow> k < n \<Longrightarrow> res + j \<noteq> mbox + 20 + k"
  shows "ucast i \<le> n \<Longrightarrow> copy_result res mbox n i m =
     Some (\<lambda>a. if ucast i \<le> a - res \<and> a - res < n then m (mbox + 20 + (a - res)) else m a)"
proof (induction "unat n - unat i" arbitrary: i m)
  case 0
  then have "unat (ucast i :: u64) = unat n" by (simp add: word_le_nat_alt unat_ucast_up)
  then have "ucast i = n" by (simp add: word_unat_eq_iff)
  then show ?case by (subst copy_result.simps) (auto simp: fun_eq_iff)
next
  case (Suc d)
  have ui: "unat (ucast i :: u64) = unat i" by (simp add: unat_ucast_up)
  from Suc.hyps(2) have lt: "ucast i < n" by (simp add: word_less_nat_alt ui)
  from lt assms(1) have n: "unat i < unat n" "unat n \<le> 0xFFFFFFEC"
    by (simp_all add: word_less_nat_alt word_le_nat_alt ui)
  have suc: "ucast (i + 1) = (ucast i + 1 :: u64)" "ucast (20 + i) = (20 + ucast i :: u64)"
    using n by (simp_all add: word_unat_eq_iff unat_ucast_up unat_plus_if' ui)
  have "unat (i + 1) = Suc (unat i)" using n by (subst unat_plus_if') simp
  then have d: "d = unat n - unat (i + 1)" using Suc.hyps(2) by simp
  let ?m = "m(res + ucast i := m (mbox + ucast (20 + i)))"
  have le: "ucast (i + 1) \<le> n" using lt by (simp add: suc inc_le)
  have IH: "copy_result res mbox n (i + 1) ?m =
     Some (\<lambda>a. if ucast (i + 1) \<le> a - res \<and> a - res < n then ?m (mbox + 20 + (a - res)) else ?m a)"
    by (rule Suc.hyps(1) [OF d le])
  have "(if ucast (i + 1) \<le> a - res \<and> a - res < n then ?m (mbox + 20 + (a - res)) else ?m a) =
      (if ucast i \<le> a - res \<and> a - res < n then m (mbox + 20 + (a - res)) else m a)" for a
  proof (cases "a - res = ucast i")
    case True
    then have "a = res + ucast i" by (simp add: diff_eq_eq add.commute)
    with lt show ?thesis by (auto simp: suc add.assoc)
  next
    case False
    then have "a \<noteq> res + ucast i" by auto
    moreover have "ucast (i + 1) \<le> a - res \<longleftrightarrow> ucast i \<le> a - res"
      using False word_less_Suc_unat [OF lt]
      by (auto simp: suc word_le_nat_alt word_unat_eq_iff)
    moreover have "mbox + 20 + (a - res) \<noteq> res + ucast i" if "a - res < n"
      using assms(2) [OF lt that] by metis
    ultimately show ?thesis by simp
  qed
  with IH lt show ?case by (subst copy_result.simps) simp
qed

lemma wait_success:
  "mbox_command_wait Pl ch mbox s = Some (MBOX_SUCCESS, t) \<Longrightarrow>
   get_word (kmem t) mbox 1 = MBOX_RESPONSE"
  by (auto simp: mbox_command_wait_def bind_Some_iff Let_def MBOX_SUCCESS_def MBOX_ERR_UNKNOWN_def
      MBOX_ERR_NULLPTR_def MBOX_ERR_PTR_ALIGN_def split: if_splits)

lemma prop_call_success:
  assumes "mbox_prop_call Pl mbox tag n inp res s = Some (MBOX_SUCCESS, t)" "res \<noteq> 0"
  shows "\<exists>s2 u m. mbox_command_wait Pl MBOX_CH_PROP_W mbox s2 = Some (MBOX_SUCCESS, u) \<and>
     copy_result res mbox n 0 (kmem u) = Some m \<and> t = u\<lparr>kmem := m\<rparr>"
  using assms
  by (fastforce simp: mbox_prop_call_def mbox_prop_call_internal_def bind_Some_iff Let_def
      MBOX_SUCCESS_def MBOX_ERR_PTR_ALIGN_def split: if_splits prod.splits)

text \<open>
  C14: when a property call reports success, the message in RAM carries the response
  code, and the caller's result buffer holds the value buffer of the answer, byte by
  byte (for results apart from the message, of at most \<open>2 ^ 32 - 20\<close> bytes).
\<close>

theorem mbox_prop_call_result:
  assumes "mbox_prop_call Pl mbox tag n inp res s = Some (MBOX_SUCCESS, t)"
    and "res \<noteq> 0" "n \<le> 0xFFFFFFEC" "disjoint_regions res n mbox (n + 20)" "n < n + 20"
  shows "get_word (kmem t) mbox 1 = MBOX_RESPONSE \<and>
     (\<forall>i < n. kmem t (res + i) = kmem t (mbox + 20 + i))"
proof -
  have apart: "res + j \<noteq> mbox + k" if "j < n" "k < n + 20" for j k
  proof
    assume "res + j = mbox + k"
    then have "in_region mbox (n + 20) (res + j)" using that by (simp add: in_region_def)
    moreover have "in_region res n (res + j)" using that by (simp add: in_region_def)
    ultimately show False using assms(4) by (auto simp: disjoint_regions_def)
  qed
  have n20: "unat (n + 20) = unat n + 20"
    using assms(3) by (subst unat_plus_if') (simp add: word_le_nat_alt)
  have high: "20 + k < n + 20" if "k < n" for k
    using that n20 assms(3) by (subst word_less_nat_alt, subst unat_plus_if')
      (simp add: word_less_nat_alt word_le_nat_alt)
  obtain s2 u m where u: "mbox_command_wait Pl MBOX_CH_PROP_W mbox s2 = Some (MBOX_SUCCESS, u)"
    and m: "copy_result res mbox n 0 (kmem u) = Some m" and t: "t = u\<lparr>kmem := m\<rparr>"
    using prop_call_success [OF assms(1,2)] by blast
  have "copy_result res mbox n 0 (kmem u) =
     Some (\<lambda>a. if a - res < n then kmem u (mbox + 20 + (a - res)) else kmem u a)"
    using copy_result_spec [OF assms(3), of res mbox 0 "kmem u"] apart high
    by (simp add: add.assoc)
  with m have m': "m = (\<lambda>a. if a - res < n then kmem u (mbox + 20 + (a - res)) else kmem u a)"
    by simp
  have keep: "m (mbox + k) = kmem u (mbox + k)" if "k < n + 20" for k
    using apart [OF _ that, of "mbox + k - res"] by (auto simp: m')
  have "get_word m mbox 1 = get_word (kmem u) mbox 1"
    unfolding get_word_def
  proof (rule read_word_cong)
    fix a
    assume "in_region (word_addr mbox 1 + 0) 4 a"
    then have "a - (mbox + 4) < 4" by (simp add: in_region_def word_addr_def)
    then have "unat (a - mbox) < unat (n + 20)"
      using n20 unat_plus_if' [of "a - (mbox + 4)" 4] by (simp add: word_less_nat_alt)
    then show "m a = kmem u a"
      using keep [of "a - mbox"] by (simp add: word_less_nat_alt)
  qed
  moreover have "m (res + i) = m (mbox + 20 + i)" if "i < n" for i
    using that keep [OF high [OF that]] by (simp add: m' add.assoc)
  ultimately show ?thesis
    using wait_success [OF u] t by simp
qed

text \<open>
  A platform on which the mailbox answers at once: a read of the mailbox returns the
  word that was written and marks the message at \<open>0x1000\<close> as answered.
\<close>

definition echo_platform :: "u32 platform" where
  "echo_platform = \<lparr>
     bus_get32 = (\<lambda>a s. if a = MBOX_READ
        then (khw s, s\<lparr>kmem := set_word 0x1000 1 MBOX_RESPONSE (kmem s)\<rparr>) else (0, s)),
     bus_put32 = (\<lambda>a x s. if a = MBOX_WRITE then s\<lparr>khw := x\<rparr> else s),
     libc_malloc = (\<lambda>n s. (0, s)),
     libc_free = (\<lambda>p s. s),
     diag_printf = (\<lambda>f as s. s),
     mailbuffer_addr = 0x1000, local_addr = (\<lambda>_. 0x5000)\<rparr>"

definition echo_state :: "u32 kstate" where
  "echo_state = kernel_state ((\<lambda>_. 7)) 0 0"

theorem mbox_prop_call_result_witness:
  "\<exists>t. mbox_prop_call echo_platform 0x1000 0x48003 1 0 0x2000 echo_state = Some (MBOX_SUCCESS, t) \<and>
     get_word (kmem t) 0x1000 1 = MBOX_RESPONSE \<and> kmem t 0x2000 = kmem t 0x1014"
proof -
  have "\<exists>t. mbox_prop_call echo_platform 0x1000 0x48003 1 0 0x2000 echo_state = Some (MBOX_SUCCESS, t)"
    by (simp add: mbox_prop_call_def mbox_prop_call_internal_def mbox_command_start_def
        mbox_command_wait_def wait_status.simps copy_result.simps echo_platform_def echo_state_def
        GET32_def PUT32_def reg_defs MBOX_CH_PROP_W_def MBOX_RESPONSE_def Let_def MBOX_SUCCESS_def)
  then obtain t where t: "mbox_prop_call echo_platform 0x1000 0x48003 1 0 0x2000 echo_state = Some (MBOX_SUCCESS, t)"
    by blast
  have "disjoint_regions 0x2000 1 0x1000 (1 + 20)"
    by (auto simp: disjoint_regions_def in_region_def)
  from mbox_prop_call_result [OF t _ _ this] t show ?thesis by auto
qed

end
