(* ===== verification/Emmc_Regs.thy ===== *)
theory Emmc_Regs
  imports Machine
begin

text \<open>
  The SD host controller driver \<open>src/drivers/SD/emmc.c\<close>, part 1: register
  addresses (\<open>include/drivers/hw/eMMC.h\<close>), the two command tables, the
  device structure and the tests on the outcome of a command. The driver is
  modelled as it is configured: \<open>EMMC_DEBUG\<close>, \<open>SDMA_SUPPORT\<close> and
  \<open>SD_CARD_INTERRUPTS\<close> off, 1.8 V, 4-bit data and writing on.
\<close>

named_theorems cmd_defs
named_theorems irpt_defs

section \<open>Registers\<close>

definition EMMC_BASE :: addr where [reg_defs]: "EMMC_BASE = MMIO_BASE OR 0x00300000"
definition EMMC_REGS_ARG2 :: addr where [reg_defs]: "EMMC_REGS_ARG2 = EMMC_BASE OR 0x00"
definition EMMC_REGS_BLKSIZECNT :: addr where [reg_defs]: "EMMC_REGS_BLKSIZECNT = EMMC_BASE OR 0x04"
definition EMMC_REGS_ARG1 :: addr where [reg_defs]: "EMMC_REGS_ARG1 = EMMC_BASE OR 0x08"
definition EMMC_REGS_CMDTM :: addr where [reg_defs]: "EMMC_REGS_CMDTM = EMMC_BASE OR 0x0C"
definition EMMC_REGS_RESP0 :: addr where [reg_defs]: "EMMC_REGS_RESP0 = EMMC_BASE OR 0x10"
definition EMMC_REGS_RESP1 :: addr where [reg_defs]: "EMMC_REGS_RESP1 = EMMC_BASE OR 0x14"
definition EMMC_REGS_RESP2 :: addr where [reg_defs]: "EMMC_REGS_RESP2 = EMMC_BASE OR 0x18"
definition EMMC_REGS_RESP3 :: addr where [reg_defs]: "EMMC_REGS_RESP3 = EMMC_BASE OR 0x1C"
definition EMMC_REGS_DATA :: addr where [reg_defs]: "EMMC_REGS_DATA = EMMC_BASE OR 0x20"
definition EMMC_REGS_STATUS :: addr where [reg_defs]: "EMMC_REGS_STATUS = EMMC_BASE OR 0x24"
definition EMMC_REGS_CONTROL0 :: addr where [reg_defs]: "EMMC_REGS_CONTROL0 = EMMC_BASE OR 0x28"
definition EMMC_REGS_CONTROL1 :: addr where [reg_defs]: "EMMC_REGS_CONTROL1 = EMMC_BASE OR 0x2C"
definition EMMC_REGS_INTERRUPT :: addr where [reg_defs]: "EMMC_REGS_INTERRUPT = EMMC_BASE OR 0x30"
definition EMMC_REGS_IRPT_MASK :: addr where [reg_defs]: "EMMC_REGS_IRPT_MASK = EMMC_BASE OR 0x34"
definition EMMC_REGS_IRPT_EN :: addr where [reg_defs]: "EMMC_REGS_IRPT_EN = EMMC_BASE OR 0x38"
definition EMMC_REGS_CONTROL2 :: addr where [reg_defs]: "EMMC_REGS_CONTROL2 = EMMC_BASE OR 0x3C"
definition EMMC_REGS_CAPABILITIES_0 :: addr where [reg_defs]: "EMMC_REGS_CAPABILITIES_0 = EMMC_BASE OR 0x40"
definition EMMC_REGS_CAPABILITIES_1 :: addr where [reg_defs]: "EMMC_REGS_CAPABILITIES_1 = EMMC_BASE OR 0x44"
definition EMMC_REGS_SLOT_ISR_VER :: addr where [reg_defs]: "EMMC_REGS_SLOT_ISR_VER = EMMC_BASE OR 0xFC"

section \<open>Command words\<close>

definition SD_CMD_INDEX :: "u32 \<Rightarrow> u32" where [cmd_defs]: "SD_CMD_INDEX a = push_bit 24 a"
definition SD_CMD_RESERVED :: "u32 \<Rightarrow> u32" where [cmd_defs]: "SD_CMD_RESERVED a = 0xffffffff"
definition SD_CMD_TYPE_ABORT :: u32 where [cmd_defs]: "SD_CMD_TYPE_ABORT = push_bit 22 3"
definition SD_CMD_TYPE_MASK :: u32 where [cmd_defs]: "SD_CMD_TYPE_MASK = push_bit 22 3"
definition SD_CMD_ISDATA :: u32 where [cmd_defs]: "SD_CMD_ISDATA = push_bit 21 1"
definition SD_CMD_CRCCHK_EN :: u32 where [cmd_defs]: "SD_CMD_CRCCHK_EN = push_bit 19 1"
definition SD_CMD_RSPNS_TYPE_136 :: u32 where [cmd_defs]: "SD_CMD_RSPNS_TYPE_136 = push_bit 16 1"
definition SD_CMD_RSPNS_TYPE_48 :: u32 where [cmd_defs]: "SD_CMD_RSPNS_TYPE_48 = push_bit 16 2"
definition SD_CMD_RSPNS_TYPE_48B :: u32 where [cmd_defs]: "SD_CMD_RSPNS_TYPE_48B = push_bit 16 3"
definition SD_CMD_RSPNS_TYPE_MASK :: u32 where [cmd_defs]: "SD_CMD_RSPNS_TYPE_MASK = push_bit 16 3"
definition SD_CMD_MULTI_BLOCK :: u32 where [cmd_defs]: "SD_CMD_MULTI_BLOCK = push_bit 5 1"
definition SD_CMD_DAT_DIR_HC :: u32 where [cmd_defs]: "SD_CMD_DAT_DIR_HC = 0"
definition SD_CMD_DAT_DIR_CH :: u32 where [cmd_defs]: "SD_CMD_DAT_DIR_CH = push_bit 4 1"
definition SD_CMD_BLKCNT_EN :: u32 where [cmd_defs]: "SD_CMD_BLKCNT_EN = push_bit 1 1"
definition SD_CMD_DMA :: u32 where [cmd_defs]: "SD_CMD_DMA = 1"
definition SD_RESP_R1 :: u32 where [cmd_defs]: "SD_RESP_R1 = SD_CMD_RSPNS_TYPE_48 OR SD_CMD_CRCCHK_EN"
definition SD_RESP_R1b :: u32 where [cmd_defs]: "SD_RESP_R1b = SD_CMD_RSPNS_TYPE_48B OR SD_CMD_CRCCHK_EN"
definition SD_RESP_R2 :: u32 where [cmd_defs]: "SD_RESP_R2 = SD_CMD_RSPNS_TYPE_136 OR SD_CMD_CRCCHK_EN"
definition SD_RESP_R3 :: u32 where [cmd_defs]: "SD_RESP_R3 = SD_CMD_RSPNS_TYPE_48"
definition SD_RESP_R4 :: u32 where [cmd_defs]: "SD_RESP_R4 = SD_CMD_RSPNS_TYPE_136"
definition SD_RESP_R6 :: u32 where [cmd_defs]: "SD_RESP_R6 = SD_CMD_RSPNS_TYPE_48 OR SD_CMD_CRCCHK_EN"
definition SD_RESP_R7 :: u32 where [cmd_defs]: "SD_RESP_R7 = SD_CMD_RSPNS_TYPE_48 OR SD_CMD_CRCCHK_EN"
definition SD_DATA_READ :: u32 where [cmd_defs]: "SD_DATA_READ = SD_CMD_ISDATA OR SD_CMD_DAT_DIR_CH"
definition SD_DATA_WRITE :: u32 where [cmd_defs]: "SD_DATA_WRITE = SD_CMD_ISDATA OR SD_CMD_DAT_DIR_HC"

definition sd_commands :: "u32 list" where
  "sd_commands =
     [SD_CMD_INDEX 0,
      SD_CMD_RESERVED 1,
      SD_CMD_INDEX 2 OR SD_RESP_R2,
      SD_CMD_INDEX 3 OR SD_RESP_R6,
      SD_CMD_INDEX 4,
      SD_CMD_INDEX 5 OR SD_RESP_R4,
      SD_CMD_INDEX 6 OR SD_RESP_R1,
      SD_CMD_INDEX 7 OR SD_RESP_R1b,
      SD_CMD_INDEX 8 OR SD_RESP_R7,
      SD_CMD_INDEX 9 OR SD_RESP_R2,
      SD_CMD_INDEX 10 OR SD_RESP_R2,
      SD_CMD_INDEX 11 OR SD_RESP_R1,
      SD_CMD_INDEX 12 OR SD_RESP_R1b OR SD_CMD_TYPE_ABORT,
      SD_CMD_INDEX 13 OR SD_RESP_R1,
      SD_CMD_RESERVED 14,
      SD_CMD_INDEX 15,
      SD_CMD_INDEX 16 OR SD_RESP_R1,
      SD_CMD_INDEX 17 OR SD_RESP_R1 OR SD_DATA_READ,
      SD_CMD_INDEX 18 OR SD_RESP_R1 OR SD_DATA_READ OR SD_CMD_MULTI_BLOCK OR SD_CMD_BLKCNT_EN,
      SD_CMD_INDEX 19 OR SD_RESP_R1 OR SD_DATA_READ,
      SD_CMD_INDEX 20 OR SD_RESP_R1b,
      SD_CMD_RESERVED 21,
      SD_CMD_RESERVED 22,
      SD_CMD_INDEX 23 OR SD_RESP_R1,
      SD_CMD_INDEX 24 OR SD_RESP_R1 OR SD_DATA_WRITE,
      SD_CMD_INDEX 25 OR SD_RESP_R1 OR SD_DATA_WRITE OR SD_CMD_MULTI_BLOCK OR SD_CMD_BLKCNT_EN,
      SD_CMD_RESERVED 26,
      SD_CMD_INDEX 27 OR SD_RESP_R1 OR SD_DATA_WRITE,
      SD_CMD_INDEX 28 OR SD_RESP_R1b,
      SD_CMD_INDEX 29 OR SD_RESP_R1b,
      SD_CMD_INDEX 30 OR SD_RESP_R1 OR SD_DATA_READ,
      SD_CMD_RESERVED 31,
      SD_CMD_INDEX 32 OR SD_RESP_R1,
      SD_CMD_INDEX 33 OR SD_RESP_R1,
      SD_CMD_RESERVED 34,
      SD_CMD_RESERVED 35,
      SD_CMD_RESERVED 36,
      SD_CMD_RESERVED 37,
      SD_CMD_INDEX 38 OR SD_RESP_R1b,
      SD_CMD_RESERVED 39,
      SD_CMD_RESERVED 40,
      SD_CMD_RESERVED 41,
      SD_CMD_RESERVED 42 OR SD_RESP_R1,
      SD_CMD_RESERVED 43,
      SD_CMD_RESERVED 44,
      SD_CMD_RESERVED 45,
      SD_CMD_RESERVED 46,
      SD_CMD_RESERVED 47,
      SD_CMD_RESERVED 48,
      SD_CMD_RESERVED 49,
      SD_CMD_RESERVED 50,
      SD_CMD_RESERVED 51,
      SD_CMD_RESERVED 52,
      SD_CMD_RESERVED 53,
      SD_CMD_RESERVED 54,
      SD_CMD_INDEX 55 OR SD_RESP_R1,
      SD_CMD_INDEX 56 OR SD_RESP_R1 OR SD_CMD_ISDATA,
      SD_CMD_RESERVED 57,
      SD_CMD_RESERVED 58,
      SD_CMD_RESERVED 59,
      SD_CMD_RESERVED 60,
      SD_CMD_RESERVED 61,
      SD_CMD_RESERVED 62,
      SD_CMD_RESERVED 63]"

definition sd_acommands :: "u32 list" where
  "sd_acommands =
     [SD_CMD_RESERVED 0,
      SD_CMD_RESERVED 1,
      SD_CMD_RESERVED 2,
      SD_CMD_RESERVED 3,
      SD_CMD_RESERVED 4,
      SD_CMD_RESERVED 5,
      SD_CMD_INDEX 6 OR SD_RESP_R1,
      SD_CMD_RESERVED 7,
      SD_CMD_RESERVED 8,
      SD_CMD_RESERVED 9,
      SD_CMD_RESERVED 10,
      SD_CMD_RESERVED 11,
      SD_CMD_RESERVED 12,
      SD_CMD_INDEX 13 OR SD_RESP_R1,
      SD_CMD_RESERVED 14,
      SD_CMD_RESERVED 15,
      SD_CMD_RESERVED 16,
      SD_CMD_RESERVED 17,
      SD_CMD_RESERVED 18,
      SD_CMD_RESERVED 19,
      SD_CMD_RESERVED 20,
      SD_CMD_RESERVED 21,
      SD_CMD_INDEX 22 OR SD_RESP_R1 OR SD_DATA_READ,
      SD_CMD_INDEX 23 OR SD_RESP_R1,
      SD_CMD_RESERVED 24,
      SD_CMD_RESERVED 25,
      SD_CMD_RESERVED 26,
      SD_CMD_RESERVED 27,
      SD_CMD_RESERVED 28,
      SD_CMD_RESERVED 29,
      SD_CMD_RESERVED 30,
      SD_CMD_RESERVED 31,
      SD_CMD_RESERVED 32,
      SD_CMD_RESERVED 33,
      SD_CMD_RESERVED 34,
      SD_CMD_RESERVED 35,
      SD_CMD_RESERVED 36,
      SD_CMD_RESERVED 37,
      SD_CMD_RESERVED 38,
      SD_CMD_RESERVED 39,
      SD_CMD_RESERVED 40,
      SD_CMD_INDEX 41 OR SD_RESP_R3,
      SD_CMD_INDEX 42 OR SD_RESP_R1,
      SD_CMD_RESERVED 43,
      SD_CMD_RESERVED 44,
      SD_CMD_RESERVED 45,
      SD_CMD_RESERVED 46,
      SD_CMD_RESERVED 47,
      SD_CMD_RESERVED 48,
      SD_CMD_RESERVED 49,
      SD_CMD_RESERVED 50,
      SD_CMD_INDEX 51 OR SD_RESP_R1 OR SD_DATA_READ,
      SD_CMD_RESERVED 52,
      SD_CMD_RESERVED 53,
      SD_CMD_RESERVED 54,
      SD_CMD_RESERVED 55,
      SD_CMD_RESERVED 56,
      SD_CMD_RESERVED 57,
      SD_CMD_RESERVED 58,
      SD_CMD_RESERVED 59,
      SD_CMD_RESERVED 60,
      SD_CMD_RESERVED 61,
      SD_CMD_RESERVED 62,
      SD_CMD_RESERVED 63]"

text \<open>The entry of a table; an index past its end is an access out of bounds (\<open>None\<close>).\<close>

definition table_entry :: "u32 list \<Rightarrow> u32 \<Rightarrow> u32 option" where
  "table_entry tbl i = (if unat i < length tbl then Some (tbl ! unat i) else None)"

section \<open>Command numbers\<close>

definition GO_IDLE_STATE :: u32 where [cmd_defs]: "GO_IDLE_STATE = 0"
definition ALL_SEND_CID :: u32 where [cmd_defs]: "ALL_SEND_CID = 2"
definition SEND_RELATIVE_ADDR :: u32 where [cmd_defs]: "SEND_RELATIVE_ADDR = 3"
definition IO_SET_OP_COND :: u32 where [cmd_defs]: "IO_SET_OP_COND = 5"
definition SELECT_CARD :: u32 where [cmd_defs]: "SELECT_CARD = 7"
definition SEND_IF_COND :: u32 where [cmd_defs]: "SEND_IF_COND = 8"
definition VOLTAGE_SWITCH :: u32 where [cmd_defs]: "VOLTAGE_SWITCH = 11"
definition STOP_TRANSMISSION :: u32 where [cmd_defs]: "STOP_TRANSMISSION = 12"
definition SEND_STATUS :: u32 where [cmd_defs]: "SEND_STATUS = 13"
definition SET_BLOCKLEN :: u32 where [cmd_defs]: "SET_BLOCKLEN = 16"
definition READ_SINGLE_BLOCK :: u32 where [cmd_defs]: "READ_SINGLE_BLOCK = 17"
definition READ_MULTIPLE_BLOCK :: u32 where [cmd_defs]: "READ_MULTIPLE_BLOCK = 18"
definition WRITE_BLOCK :: u32 where [cmd_defs]: "WRITE_BLOCK = 24"
definition WRITE_MULTIPLE_BLOCK :: u32 where [cmd_defs]: "WRITE_MULTIPLE_BLOCK = 25"
definition APP_CMD :: u32 where [cmd_defs]: "APP_CMD = 55"

definition IS_APP_CMD :: u32 where [cmd_defs]: "IS_APP_CMD = 0x80000000"
definition ACMD :: "u32 \<Rightarrow> u32" where [cmd_defs]: "ACMD a = a OR IS_APP_CMD"
definition SET_BUS_WIDTH :: u32 where [cmd_defs]: "SET_BUS_WIDTH = 6 OR IS_APP_CMD"
definition SEND_SCR :: u32 where [cmd_defs]: "SEND_SCR = 51 OR IS_APP_CMD"

section \<open>Interrupt bits and other constants\<close>

definition SD_COMMAND_COMPLETE :: u32 where [irpt_defs]: "SD_COMMAND_COMPLETE = 1"
definition SD_TRANSFER_COMPLETE :: u32 where [irpt_defs]: "SD_TRANSFER_COMPLETE = push_bit 1 1"
definition SD_BLOCK_GAP_EVENT :: u32 where [irpt_defs]: "SD_BLOCK_GAP_EVENT = push_bit 2 1"
definition SD_DMA_INTERRUPT :: u32 where [irpt_defs]: "SD_DMA_INTERRUPT = push_bit 3 1"
definition SD_BUFFER_WRITE_READY :: u32 where [irpt_defs]: "SD_BUFFER_WRITE_READY = push_bit 4 1"
definition SD_BUFFER_READ_READY :: u32 where [irpt_defs]: "SD_BUFFER_READ_READY = push_bit 5 1"
definition SD_CARD_INSERTION :: u32 where [irpt_defs]: "SD_CARD_INSERTION = push_bit 6 1"
definition SD_CARD_REMOVAL :: u32 where [irpt_defs]: "SD_CARD_REMOVAL = push_bit 7 1"
definition SD_CARD_INTERRUPT :: u32 where [irpt_defs]: "SD_CARD_INTERRUPT = push_bit 8 1"
definition SD_ERR_MASK_CMD_TIMEOUT :: u32 where [irpt_defs]: "SD_ERR_MASK_CMD_TIMEOUT = push_bit 16 1"
definition SD_RESET_CMD :: u32 where [irpt_defs]: "SD_RESET_CMD = push_bit 25 1"
definition SD_RESET_DAT :: u32 where [irpt_defs]: "SD_RESET_DAT = push_bit 26 1"
definition SD_CLOCK_ID :: u32 where "SD_CLOCK_ID = 400000"
definition SD_CLOCK_NORMAL :: u32 where "SD_CLOCK_NORMAL = 25000000"
definition SD_GET_CLOCK_DIVIDER_FAIL :: u32 where "SD_GET_CLOCK_DIVIDER_FAIL = 0xffffffff"
definition SDMA_BUFFER :: addr where "SDMA_BUFFER = 0x6000"
definition SDMA_BUFFER_PA :: u32 where "SDMA_BUFFER_PA = 0xC0006000"

section \<open>The device structure\<close>

text \<open>
  A \<open>struct emmc_block_dev\<close> is a record value that the operations pass on; the
  field \<open>self\<close> stands for the address of the object, which every pointer to it
  holds. A function pointer is named by the function it points to.
\<close>

datatype block_fn = Fn_null | Fn_sd_read | Fn_sd_write

record block_device =
  driver_name :: "string option"
  device_name :: "string option"
  device_id :: addr
  dev_id_len :: u64
  supports_multiple_block_read :: i32
  supports_multiple_block_write :: i32
  read_fn :: block_fn
  write_fn :: block_fn
  bd_block_size :: u64
  num_blocks :: u64
  bd_fs :: addr

record emmc_block_dev =
  self :: addr
  bd :: block_device
  card_supports_sdhc :: u32
  card_supports_18v :: u32
  card_ocr :: u32
  card_rca :: u32
  last_interrupt :: u32
  last_error :: u32
  scr :: addr
  failed_voltage_switch :: i32
  last_cmd_reg :: u32
  last_cmd :: u32
  last_cmd_success :: u32
  last_r0 :: u32
  last_r1 :: u32
  last_r2 :: u32
  last_r3 :: u32
  buf :: addr
  blocks_to_transfer :: i32
  block_size :: u64
  use_sdma :: i32
  card_removal :: i32
  base_clock :: u32

text \<open>The structure that \<open>memset\<close> to zero leaves at the address \<open>p\<close>.\<close>

definition zero_dev :: "addr \<Rightarrow> emmc_block_dev" where
  "zero_dev p = \<lparr>self = p,
     bd = \<lparr>driver_name = None, device_name = None, device_id = 0, dev_id_len = 0,
       supports_multiple_block_read = 0, supports_multiple_block_write = 0,
       read_fn = Fn_null, write_fn = Fn_null, bd_block_size = 0, num_blocks = 0, bd_fs = 0\<rparr>,
     card_supports_sdhc = 0, card_supports_18v = 0, card_ocr = 0, card_rca = 0,
     last_interrupt = 0, last_error = 0, scr = 0, failed_voltage_switch = 0,
     last_cmd_reg = 0, last_cmd = 0, last_cmd_success = 0,
     last_r0 = 0, last_r1 = 0, last_r2 = 0, last_r3 = 0,
     buf = 0, blocks_to_transfer = 0, block_size = 0, use_sdma = 0, card_removal = 0, base_clock = 0\<rparr>"

definition sizeof_emmc_block_dev :: u64 where "sizeof_emmc_block_dev = 184"
definition sizeof_sd_scr :: u64 where "sizeof_sd_scr = 16"

section \<open>The outcome of a command\<close>

definition FAIL :: "emmc_block_dev \<Rightarrow> bool" where
  "FAIL d \<longleftrightarrow> last_cmd_success d = 0"

definition SUCCESS :: "emmc_block_dev \<Rightarrow> bool" where
  "SUCCESS d \<longleftrightarrow> last_cmd_success d \<noteq> 0"

definition TIMEOUT :: "emmc_block_dev \<Rightarrow> bool" where
  "TIMEOUT d \<longleftrightarrow> FAIL d \<and> last_error d = 0"

definition CMD_TIMEOUT :: "emmc_block_dev \<Rightarrow> bool" where
  "CMD_TIMEOUT d \<longleftrightarrow> FAIL d \<and> last_error d AND push_bit 16 1 \<noteq> 0"

section \<open>The command tables\<close>

lemma length_tables: "length sd_commands = 64" "length sd_acommands = 64"
  by (simp_all add: sd_commands_def sd_acommands_def)

text \<open>
  Both command tables have one entry for each of the 64 command numbers, and every
  entry that is not reserved carries its own number in bits 24 to 29 and leaves the
  bits above it, which the controller reserves, clear.
\<close>

theorem tables_indexed:
  "length sd_commands = 64 \<and> length sd_acommands = 64 \<and>
   (\<forall>tbl \<in> {sd_commands, sd_acommands}. \<forall>i < 64.
      tbl ! i = SD_CMD_RESERVED 0 \<or> drop_bit 24 (tbl ! i) = of_nat i)"
proof -
  have chk: "list_all (\<lambda>tbl. list_all (\<lambda>i. tbl ! i = SD_CMD_RESERVED 0 \<or> drop_bit 24 (tbl ! i) = of_nat i) [0..<64])
      [sd_commands, sd_acommands]"
    by code_simp
  then show ?thesis by (auto simp: length_tables list_all_iff)
qed

theorem tables_indexed_witness:
  "drop_bit 24 (sd_commands ! 17) = of_nat 17"
proof -
  have "sd_commands ! 17 \<noteq> SD_CMD_RESERVED 0" by code_simp
  moreover have "sd_commands ! 17 = SD_CMD_RESERVED 0 \<or> drop_bit 24 (sd_commands ! 17) = of_nat 17"
    using tables_indexed [THEN conjunct2, THEN conjunct2, rule_format, of sd_commands 17] by simp
  ultimately show ?thesis by blast
qed

end
