(* ===== verification/Emmc_Clock.thy ===== *)
theory Emmc_Clock
  imports Emmc_Regs Mbox Timer
begin

text \<open>
  The SD host controller driver, part 2: power, the base clock (asked of the
  VideoCore), the clock divider, and the resets of the CMD and DAT lines.
\<close>

section \<open>Power and the base clock\<close>

definition sd_power_off :: "'h platform \<Rightarrow> 'h kstate \<Rightarrow> 'h kstate option" where
  "sd_power_off Pl s = do {
     (control0, s) \<leftarrow> GET32 Pl EMMC_REGS_CONTROL0 s;
     PUT32 Pl EMMC_REGS_CONTROL0 (control0 AND NOT (push_bit 8 1)) s
   }"

text \<open>The eight words of a message with one tag and a value buffer of two words.\<close>

definition put_message :: "addr \<Rightarrow> u32 list \<Rightarrow> 'h kstate \<Rightarrow> 'h kstate" where
  "put_message p ws s =
     s\<lparr>kmem := fold (\<lambda>(i, w). set_word p (of_nat i) w) (enumerate 0 ws) (kmem s)\<rparr>"

definition mail_word :: "addr \<Rightarrow> u32 \<Rightarrow> 'h kstate \<Rightarrow> u32" where
  "mail_word p i s = get_word (kmem s) p i"

definition sd_get_base_clock_hz :: "'h platform \<Rightarrow> 'h kstate \<Rightarrow> (u32 \<times> 'h kstate) option" where
  "sd_get_base_clock_hz Pl s = do {
     let mailbuffer = 0x00007000;
     let s = put_message mailbuffer [8 * 4, 0, MBOX_TAG_GET_CLK_RATE, 0x8, 0x4, 0x1, 0, 0] s;
     (_, s) \<leftarrow> mbox_command_start Pl MBOX_CH_PROP_W mailbuffer s;
     (_, s) \<leftarrow> mbox_command_wait Pl MBOX_CH_PROP_W mailbuffer s;
     if mail_word mailbuffer 1 s \<noteq> MBOX_RESPONSE_SUCCESS then do {
       s \<leftarrow> kprintln Pl ''EMMC: property mailbox did not return a valid response.'' [] s;
       Some (0, s)
     }
     else if mail_word mailbuffer 5 s \<noteq> 0x1 then do {
       s \<leftarrow> kprintln Pl ''EMMC: property mailbox did not return a valid clock id.'' [] s;
       Some (0, s)
     }
     else Some (mail_word mailbuffer 6 s, s)
   }"

definition bcm_2708_power_off :: "'h platform \<Rightarrow> 'h kstate \<Rightarrow> (int \<times> 'h kstate) option" where
  "bcm_2708_power_off Pl s = do {
     let mailbuffer = mailbuffer_addr Pl;
     let s = put_message mailbuffer [8 * 4, 0, MBOX_TAG_SET_POWER_STATE, 0x8, 0x8, 0x0, 0x2, 0] s;
     (_, s) \<leftarrow> mbox_command_start Pl MBOX_CH_PROP_W mailbuffer s;
     (_, s) \<leftarrow> mbox_command_wait Pl MBOX_CH_PROP_W mailbuffer s;
     if mail_word mailbuffer 1 s \<noteq> MBOX_RESPONSE_SUCCESS then do {
       s \<leftarrow> kprintln Pl ''EMMC: bcm_2708_power_off(): property mailbox did not return a valid response.'' [] s;
       Some (-1, s)
     }
     else if mail_word mailbuffer 5 s \<noteq> 0x0 then do {
       s \<leftarrow> kprintln Pl ''EMMC: property mailbox did not return a valid device id.'' [] s;
       Some (-1, s)
     }
     else if mail_word mailbuffer 6 s AND 0x3 \<noteq> 0 then Some (1, s)
     else Some (0, s)
   }"

definition bcm_2708_power_on :: "'h platform \<Rightarrow> 'h kstate \<Rightarrow> (int \<times> 'h kstate) option" where
  "bcm_2708_power_on Pl s = do {
     let mailbuffer = mailbuffer_addr Pl;
     let s = put_message mailbuffer [8 * 4, 0, MBOX_TAG_SET_POWER_STATE, 0x8, 0x8, 0x0, 0x3, 0] s;
     (_, s) \<leftarrow> mbox_command_start Pl MBOX_CH_PROP_W mailbuffer s;
     (_, s) \<leftarrow> mbox_command_wait Pl MBOX_CH_PROP_W mailbuffer s;
     if mail_word mailbuffer 1 s \<noteq> MBOX_RESPONSE_SUCCESS then do {
       s \<leftarrow> kprintln Pl ''EMMC: bcm_2708_power_on(): property mailbox did not return a valid response.'' [] s;
       Some (-1, s)
     }
     else if mail_word mailbuffer 5 s \<noteq> 0x0 then do {
       s \<leftarrow> kprintln Pl ''EMMC: property mailbox did not return a valid device id.'' [] s;
       Some (-1, s)
     }
     else if mail_word mailbuffer 6 s AND 0x3 \<noteq> 1 then Some (1, s)
     else Some (0, s)
   }"

definition bcm_2708_power_cycle :: "'h platform \<Rightarrow> 'h kstate \<Rightarrow> (int \<times> 'h kstate) option" where
  "bcm_2708_power_cycle Pl s = do {
     (r, s) \<leftarrow> bcm_2708_power_off Pl s;
     if r < 0 then do {
       s \<leftarrow> kprintln Pl ''SD card failed to turn off!'' [] s;
       Some (-1, s)
     }
     else do {
       s \<leftarrow> usleep Pl 5000 s;
       bcm_2708_power_on Pl s
     }
   }"

section \<open>The clock divider\<close>

text \<open>
  The scan from bit 31 down for the first bit set; \<open>fuel\<close> counts the bits left.
  The result is the loop's \<open>divisor\<close> after the scan, \<open>-1\<close> when no bit is set.
\<close>

fun scan_divisor :: "nat \<Rightarrow> u32 \<Rightarrow> int" where
  "scan_divisor 0 targetted_divisor = -1"
| "scan_divisor (Suc first_bit) targetted_divisor =
     (let bit_test = push_bit first_bit 1
      in if targetted_divisor AND bit_test \<noteq> 0
         then (if targetted_divisor AND NOT bit_test \<noteq> 0 then int first_bit + 1 else int first_bit)
         else scan_divisor first_bit targetted_divisor)"

definition targetted_divisor :: "u32 \<Rightarrow> u32 \<Rightarrow> u32" where
  "targetted_divisor base target_rate =
     (if target_rate > base then 1
      else if base mod target_rate \<noteq> 0 then base div target_rate - 1
      else base div target_rate)"

text \<open>The divisor field: the controller divides the clock by twice this number (by 1 for 0).\<close>

definition divisor_field :: "u32 \<Rightarrow> u32" where
  "divisor_field target =
     (let divisor = scan_divisor 32 target;
          divisor = (if divisor = -1 then 31 else divisor);
          divisor = (if divisor \<ge> 32 then 31 else divisor);
          divisor = (if divisor \<noteq> 0 then push_bit (nat (divisor - 1)) 1 else 0)
      in if divisor \<ge> 0x400 then 0x3ff else divisor)"

definition sd_get_clock_divider :: "u32 \<Rightarrow> u32 \<Rightarrow> u32" where
  "sd_get_clock_divider base target_rate =
     (let divisor = divisor_field (targetted_divisor base target_rate);
          freq_select = divisor AND 0xff;
          upper_bits = drop_bit 8 divisor AND 0x3
      in push_bit 8 freq_select OR push_bit 6 upper_bits OR push_bit 5 0)"

section \<open>Waiting for the controller\<close>

partial_function (option) wait_inhibit :: "'h platform \<Rightarrow> u32 \<Rightarrow> 'h kstate \<Rightarrow> 'h kstate option" where
  "wait_inhibit Pl bits s = do {
     (x, s) \<leftarrow> GET32 Pl EMMC_REGS_STATUS s;
     if x AND bits \<noteq> 0 then do {
       s \<leftarrow> usleep Pl 1000 s;
       wait_inhibit Pl bits s
     }
     else Some s
   }"

declare wait_inhibit.simps [code]

text \<open>The conditions that \<open>TIMEOUT_WAIT\<close> polls: bits of a register all clear, or some set.\<close>

definition bits_clear :: "'h platform \<Rightarrow> addr \<Rightarrow> u32 \<Rightarrow> 'h kstate \<Rightarrow> (bool \<times> 'h kstate) option" where
  "bits_clear Pl reg bits s = do { (x, s) \<leftarrow> GET32 Pl reg s; Some (x AND bits = 0, s) }"

definition bits_set :: "'h platform \<Rightarrow> addr \<Rightarrow> u32 \<Rightarrow> 'h kstate \<Rightarrow> (bool \<times> 'h kstate) option" where
  "bits_set Pl reg bits s = do { (x, s) \<leftarrow> GET32 Pl reg s; Some (x AND bits \<noteq> 0, s) }"

definition sd_switch_clock_rate :: "'h platform \<Rightarrow> u32 \<Rightarrow> u32 \<Rightarrow> 'h kstate \<Rightarrow> (int \<times> 'h kstate) option" where
  "sd_switch_clock_rate Pl base target_rate s = do {
     let divider = sd_get_clock_divider base target_rate;
     if divider = SD_GET_CLOCK_DIVIDER_FAIL then do {
       s \<leftarrow> kprintln Pl ''EMMC: couldn't get a valid divider for target rate %i Hz'' [ucast target_rate] s;
       Some (-1, s)
     }
     else do {
       s \<leftarrow> wait_inhibit Pl 0x3 s;
       (control1, s) \<leftarrow> GET32 Pl EMMC_REGS_CONTROL1 s;
       let control1 = control1 AND NOT (push_bit 2 1);
       s \<leftarrow> PUT32 Pl EMMC_REGS_CONTROL1 control1 s;
       s \<leftarrow> usleep Pl 2000 s;
       let control1 = control1 AND NOT 0xffe0;
       let control1 = control1 OR divider;
       s \<leftarrow> PUT32 Pl EMMC_REGS_CONTROL1 control1 s;
       s \<leftarrow> usleep Pl 2000 s;
       let control1 = control1 OR push_bit 2 1;
       s \<leftarrow> PUT32 Pl EMMC_REGS_CONTROL1 control1 s;
       s \<leftarrow> usleep Pl 2000 s;
       Some (0, s)
     }
   }"

definition sd_reset_cmd :: "'h platform \<Rightarrow> 'h kstate \<Rightarrow> (int \<times> 'h kstate) option" where
  "sd_reset_cmd Pl s = do {
     (control1, s) \<leftarrow> GET32 Pl EMMC_REGS_CONTROL1 s;
     let control1 = control1 OR SD_RESET_CMD;
     s \<leftarrow> PUT32 Pl EMMC_REGS_CONTROL1 control1 s;
     s \<leftarrow> TIMEOUT_WAIT Pl (bits_clear Pl EMMC_REGS_CONTROL1 SD_RESET_CMD) 1000000 s;
     (x, s) \<leftarrow> GET32 Pl EMMC_REGS_CONTROL1 s;
     if x AND SD_RESET_CMD \<noteq> 0 then do {
       s \<leftarrow> kprintln Pl ''EMMC: CMD line did not reset properly'' [] s;
       Some (-1, s)
     }
     else Some (0, s)
   }"

definition sd_reset_dat :: "'h platform \<Rightarrow> 'h kstate \<Rightarrow> (int \<times> 'h kstate) option" where
  "sd_reset_dat Pl s = do {
     (control1, s) \<leftarrow> GET32 Pl EMMC_REGS_CONTROL1 s;
     let control1 = control1 OR SD_RESET_DAT;
     s \<leftarrow> PUT32 Pl EMMC_REGS_CONTROL1 control1 s;
     s \<leftarrow> TIMEOUT_WAIT Pl (bits_clear Pl EMMC_REGS_CONTROL1 SD_RESET_DAT) 1000000 s;
     (x, s) \<leftarrow> GET32 Pl EMMC_REGS_CONTROL1 s;
     if x AND SD_RESET_DAT \<noteq> 0 then do {
       s \<leftarrow> kprintln Pl ''EMMC: DAT line did not reset properly'' [] s;
       Some (-1, s)
     }
     else Some (0, s)
   }"

section \<open>What these operations leave alone\<close>

text \<open>\<open>mail_in W Pl\<close>: the two mail buffers of the driver lie in \<open>W\<close>.\<close>

definition mail_in :: "addr set \<Rightarrow> 'h platform \<Rightarrow> bool" where
  "mail_in W Pl \<longleftrightarrow> block_in W 0x7000 32 \<and> block_in W (mailbuffer_addr Pl) 32"

lemma mail_in_mono: "mail_in W Pl \<Longrightarrow> W \<subseteq> V \<Longrightarrow> mail_in V Pl"
  unfolding mail_in_def by (meson block_in_mono)

lemma wlp_let_step: "wlp (f e) Q \<Longrightarrow> wlp (let x = e in f x) Q"
  by simp

lemma word_addr_inside:
  assumes "block_in W p 32" "unat i < 8"
  shows "block_in W (word_addr p i + 0) 4"
  unfolding block_in_def
proof (intro allI impI)
  fix a
  assume "in_region (word_addr p i + 0) 4 a"
  then have e: "unat (a - word_addr p i) < 4" by (simp add: in_region_def word_less_nat_alt)
  have i: "unat (4 * ucast i :: u64) = 4 * unat i"
    using assms(2) by (simp add: unat_word_ariths unat_ucast_up)
  have "unat (4 * ucast i + (a - word_addr p i)) = 4 * unat i + unat (a - word_addr p i)"
    using assms(2) e i by (subst unat_plus_if') simp
  moreover have "4 * ucast i + (a - word_addr p i) = a - p" by (simp add: word_addr_def)
  ultimately have "unat (a - p) < 32" using assms(2) e by simp
  then have "in_region p 32 a" by (simp add: in_region_def word_less_nat_alt)
  with assms(1) show "a \<in> W" by (simp add: block_in_def)
qed

lemma put_message_frame:
  assumes "block_in W p 32" "frame W s0 s" "length ws \<le> 8"
  shows "frame W s0 (put_message p ws s)"
proof -
  have "frame W s0 (s\<lparr>kmem := fold (\<lambda>(i, w). set_word p (of_nat i) w) (enumerate n ws) m\<rparr>)"
    if "frame W s0 (s\<lparr>kmem := m\<rparr>)" "n + length ws \<le> 8" for n m
    using that
  proof (induction ws arbitrary: n m)
    case (Cons w ws)
    have "block_in W (word_addr p (of_nat n) + 0) 4"
      using Cons.prems(2) by (intro word_addr_inside assms(1)) (simp add: unsigned_of_nat take_bit_nat_eq_self)
    from frame_write_word [OF Cons.prems(1) this, of w]
    have "frame W s0 (s\<lparr>kmem := set_word p (of_nat n) w m\<rparr>)"
      by (simp add: set_word_def)
    with Cons.IH [of "set_word p (of_nat n) w m" "Suc n"] Cons.prems(2) show ?case by simp
  qed simp
  from this [of "kmem s" 0] assms(2,3) show ?thesis by (simp add: put_message_def)
qed

lemma mail_message_frame [frame_rules]:
  "mail_in W Pl \<Longrightarrow> frame W s0 s \<Longrightarrow> length ws \<le> 8 \<Longrightarrow> frame W s0 (put_message 0x7000 ws s)"
  "mail_in W Pl \<Longrightarrow> frame W s0 s \<Longrightarrow> length ws \<le> 8 \<Longrightarrow> frame W s0 (put_message (mailbuffer_addr Pl) ws s)"
  by (simp_all add: mail_in_def put_message_frame)

lemma sd_power_off_frame [frame_rules]:
  "confined W Pl \<Longrightarrow> frame W s0 s \<Longrightarrow> wlp (sd_power_off Pl s) (\<lambda>t. frame W s0 t)"
  unfolding sd_power_off_def
  by (rule wlp_intros frame_rules wlp_bindI | assumption | simp)+

lemma sd_get_base_clock_hz_frame [frame_rules]:
  "confined W Pl \<Longrightarrow> mail_in W Pl \<Longrightarrow> frame W s0 s \<Longrightarrow>
   wlp (sd_get_base_clock_hz Pl s) (\<lambda>(x, t). frame W s0 t)"
  unfolding sd_get_base_clock_hz_def
  by (rule wlp_let_step wlp_intros frame_rules wlp_bindI | assumption | simp)+

lemma bcm_2708_power_off_frame [frame_rules]:
  "confined W Pl \<Longrightarrow> mail_in W Pl \<Longrightarrow> frame W s0 s \<Longrightarrow>
   wlp (bcm_2708_power_off Pl s) (\<lambda>(x, t). frame W s0 t)"
  unfolding bcm_2708_power_off_def
  by (rule wlp_let_step wlp_intros frame_rules wlp_bindI | assumption | simp)+

lemma bcm_2708_power_on_frame [frame_rules]:
  "confined W Pl \<Longrightarrow> mail_in W Pl \<Longrightarrow> frame W s0 s \<Longrightarrow>
   wlp (bcm_2708_power_on Pl s) (\<lambda>(x, t). frame W s0 t)"
  unfolding bcm_2708_power_on_def
  by (rule wlp_let_step wlp_intros frame_rules wlp_bindI | assumption | simp)+

lemma bcm_2708_power_cycle_frame [frame_rules]:
  "confined W Pl \<Longrightarrow> mail_in W Pl \<Longrightarrow> frame W s0 s \<Longrightarrow>
   wlp (bcm_2708_power_cycle Pl s) (\<lambda>(x, t). frame W s0 t)"
  unfolding bcm_2708_power_cycle_def
  by (rule wlp_let_step wlp_intros frame_rules wlp_bindI | assumption | simp)+

lemma wait_inhibit_frame [frame_rules]:
  assumes "confined W Pl" "frame W s0 s"
  shows "wlp (wait_inhibit Pl bits s) (\<lambda>t. frame W s0 t)"
proof (rule wlpI)
  fix t
  assume ret: "wait_inhibit Pl bits s = Some t"
  have "confined W Pl \<longrightarrow> frame W s0 s \<longrightarrow> frame W s0 t"
    apply (rule wait_inhibit.raw_induct
        [where P = "\<lambda>Pl bits s t. confined W Pl \<longrightarrow> frame W s0 s \<longrightarrow> frame W s0 t", OF _ ret])
    apply (auto simp: bind_Some_iff split: if_splits
        dest!: GET32_frame [THEN wlpD, rotated 2] usleep_frame [THEN wlpD, rotated 2])
    done
  with assms show "frame W s0 t" by blast
qed

lemma bits_frame [frame_rules]:
  "confined W Pl \<Longrightarrow> frame W s0 s \<Longrightarrow> wlp (bits_clear Pl r b s) (\<lambda>(x, t). frame W s0 t)"
  "confined W Pl \<Longrightarrow> frame W s0 s \<Longrightarrow> wlp (bits_set Pl r b s) (\<lambda>(x, t). frame W s0 t)"
  unfolding bits_clear_def bits_set_def
  by (rule wlp_intros frame_rules | assumption | simp)+

lemma sd_switch_clock_rate_frame [frame_rules]:
  "confined W Pl \<Longrightarrow> frame W s0 s \<Longrightarrow>
   wlp (sd_switch_clock_rate Pl base target s) (\<lambda>(x, t). frame W s0 t)"
  unfolding sd_switch_clock_rate_def
  by (rule wlp_let_step wlp_intros frame_rules wlp_bindI | assumption | simp)+

lemma sd_reset_frame [frame_rules]:
  "confined W Pl \<Longrightarrow> frame W s0 s \<Longrightarrow> wlp (sd_reset_cmd Pl s) (\<lambda>(x, t). frame W s0 t)"
  "confined W Pl \<Longrightarrow> frame W s0 s \<Longrightarrow> wlp (sd_reset_dat Pl s) (\<lambda>(x, t). frame W s0 t)"
  unfolding sd_reset_cmd_def sd_reset_dat_def
  by (rule wlp_let_step wlp_intros frame_rules wlp_bindI | assumption | simp)+

section \<open>The clock divider: correctness\<close>

lemma unat_exp2: "n < 32 \<Longrightarrow> unat (2 ^ n :: u32) = 2 ^ n"
proof -
  assume n: "n < 32"
  have "unat (of_nat (2 ^ n) :: u32) = 2 ^ n"
    using n by (simp only: unsigned_of_nat) (simp add: take_bit_nat_eq_self)
  then show ?thesis by simp
qed

lemma top_bit_iff:
  fixes t :: u32
  assumes "unat t < 2 ^ Suc n"
  shows "t AND 2 ^ n \<noteq> 0 \<longleftrightarrow> 2 ^ n \<le> unat t"
proof -
  have "t AND 2 ^ n \<noteq> 0 \<longleftrightarrow> bit t n"
    by (simp add: and_exp_eq_0_iff_not_bit)
  also have "\<dots> \<longleftrightarrow> bit (unat t) n" by (simp add: bit_unsigned_iff)
  also have "\<dots> \<longleftrightarrow> odd (unat t div 2 ^ n)" by (simp add: bit_iff_odd)
  also have "\<dots> \<longleftrightarrow> 2 ^ n \<le> unat t"
  proof (cases "2 ^ n \<le> unat t")
    case True
    with assms have "unat t div 2 ^ n = 1"
      by (intro div_nat_eqI) simp_all
    with True show ?thesis by simp
  next
    case False
    then have "unat t div 2 ^ n = 0" by simp
    with False show ?thesis by simp
  qed
  finally show ?thesis .
qed

lemma only_top_bit:
  fixes t :: u32
  assumes "n < 32" "t AND 2 ^ n \<noteq> 0"
  shows "t AND NOT (2 ^ n) = 0 \<longleftrightarrow> unat t = 2 ^ n"
proof
  assume zero: "t AND NOT (2 ^ n) = 0"
  have "bit t n" using assms(2) by (simp add: and_exp_eq_0_iff_not_bit push_bit_eq_mult)
  have "t = 2 ^ n"
  proof (rule bit_word_eqI)
    fix m
    assume m: "m < LENGTH(32)"
    have "\<not> bit (t AND NOT (2 ^ n)) m" by (simp only: zero) simp
    with m \<open>bit t n\<close> show "bit t m = bit ((2 :: u32) ^ n) m"
      by (auto simp: bit_simps)
  qed
  then show "unat t = 2 ^ n" using assms(1) by (simp add: unat_exp2)
next
  assume "unat t = 2 ^ n"
  with assms(1) have "t = 2 ^ n" by (simp add: word_unat_eq_iff unat_exp2)
  then show "t AND NOT (2 ^ n) = 0" by simp
qed

text \<open>The scan finds the exponent of the least power of two that is at least its argument.\<close>

lemma scan_divisor_ceil:
  "n \<le> 32 \<Longrightarrow> unat t < 2 ^ n \<Longrightarrow> t \<noteq> 0 \<Longrightarrow>
   \<exists>k. scan_divisor n t = int k \<and> unat t \<le> 2 ^ k \<and> 2 ^ k < 2 * unat t"
proof (induction n)
  case 0
  then show ?case by (simp add: unat_eq_0)
next
  case (Suc n)
  show ?case
  proof (cases "2 ^ n \<le> unat t")
    case False
    with Suc show ?thesis by (simp add: top_bit_iff Let_def)
  next
    case True
    with Suc.prems have set: "t AND 2 ^ n \<noteq> 0" by (simp add: top_bit_iff)
    show ?thesis
    proof (cases "unat t = 2 ^ n")
      case True
      with set Suc.prems show ?thesis
        by (intro exI [of _ n]) (simp add: Let_def only_top_bit)
    next
      case False
      with set Suc.prems \<open>2 ^ n \<le> unat t\<close> show ?thesis
        by (intro exI [of _ "Suc n"]) (simp add: Let_def only_top_bit)
    qed
  qed
qed

text \<open>By how much the controller divides its base clock for a divisor field.\<close>

definition clock_division :: "u32 \<Rightarrow> nat" where
  "clock_division f = (if f = 0 then 1 else 2 * unat f)"

lemma divisor_field_ceil:
  assumes "0 < t" "unat t \<le> 1024"
  shows "\<exists>k. clock_division (divisor_field t) = 2 ^ k \<and> unat t \<le> 2 ^ k \<and> 2 ^ k < 2 * unat t \<and>
     divisor_field t < 0x400"
proof -
  have "unat t < 2 ^ 32" using assms(2) by simp
  with assms(1) obtain k where k: "scan_divisor 32 t = int k" "unat t \<le> 2 ^ k" "2 ^ k < 2 * unat t"
    using scan_divisor_ceil [of 32 t] by auto
  from k(3) assms(2) have "(2 :: nat) ^ k < 2 ^ 11" by simp
  then have k11: "k < 11" by (simp only: power_strict_increasing_iff)
  show ?thesis
  proof (cases k)
    case 0
    with k show ?thesis by (intro exI [of _ 0]) (simp add: divisor_field_def clock_division_def)
  next
    case (Suc j)
    with k11 have j: "unat ((2 :: u32) ^ j) = 2 ^ j" "j < 10"
      by (simp_all add: unat_exp2)
    have "(2 :: nat) ^ j < 2 ^ 10" using j(2) by (simp only: power_strict_increasing_iff)
    then have small: "(2 :: u32) ^ j < 0x400" "\<not> 0x400 \<le> (2 :: u32) ^ j"
      by (simp_all add: word_less_nat_alt word_le_nat_alt j(1))
    then have "divisor_field t = 2 ^ j"
      using k(1) Suc k11 by (simp add: divisor_field_def Let_def nat_add_distrib)
    moreover have "(2 :: u32) ^ j \<noteq> 0" using j(1) by (metis unsigned_0 power_eq_0_iff zero_neq_numeral)
    ultimately show ?thesis
      using k j(1) Suc small by (intro exI [of _ k]) (simp add: clock_division_def)
  qed
qed

text \<open>The divisor field that a value of the divider bits of CONTROL1 encodes.\<close>

definition divider_field :: "u32 \<Rightarrow> u32" where
  "divider_field r = (drop_bit 8 r AND 0xff) OR push_bit 8 (drop_bit 6 r AND 0x3)"

lemma divider_roundtrip:
  assumes "divisor_field (targetted_divisor base target) < 0x400"
  shows "divider_field (sd_get_clock_divider base target) = divisor_field (targetted_divisor base target)"
proof -
  let ?d = "divisor_field (targetted_divisor base target)"
  have "unat ?d < 2 ^ 10" using assms by (simp add: word_less_nat_alt)
  then have high: "\<not> bit ?d n" if "10 \<le> n" for n
  proof -
    have "unat ?d div 2 ^ n = 0"
      using \<open>unat ?d < 2 ^ 10\<close> power_increasing [OF that, of "2 :: nat"] by simp
    then have "\<not> bit (unat ?d) n" by (simp add: bit_iff_odd)
    then show ?thesis by (simp add: bit_unsigned_iff)
  qed
  have m: "(0xff :: u32) = mask 8" "(0x3 :: u32) = mask 2"
    by (simp_all add: mask_eq_exp_minus_1)
  show ?thesis
    unfolding divider_field_def sd_get_clock_divider_def Let_def m
  proof (rule bit_word_eqI)
    fix n
    assume "n < LENGTH(32)"
    then show "bit ((drop_bit 8 (push_bit 8 (?d AND mask 8) OR push_bit 6 (drop_bit 8 ?d AND mask 2) OR push_bit 5 0)
        AND mask 8) OR push_bit 8 (drop_bit 6 (push_bit 8 (?d AND mask 8) OR push_bit 6 (drop_bit 8 ?d AND mask 2)
        OR push_bit 5 0) AND mask 2)) n = bit ?d n"
      using high [of n] by (cases "n < 8"; cases "n < 10") (auto simp: bit_simps)
  qed
qed



text \<open>
  When the rate does not divide the base clock, the divider is taken one too small
  (the quotient, already rounded down, is decremented). If that number is a power of two
  (up to 1024 and to the rate itself) the SD clock runs faster than the rate asked for; and for a base clock less than twice
  the rate it becomes 0, which selects the slowest clock of all.
\<close>

theorem clock_divider_remainder:
  assumes "0 < target" "target \<le> base" "base mod target \<noteq> 0"
  shows "(unat base div unat target - 1 = 2 ^ k \<and> k \<le> 10 \<and> 2 ^ k \<le> unat target \<longrightarrow>
       unat target < unat base div clock_division (divider_field (sd_get_clock_divider base target))) \<and>
     (base div target = 1 \<longrightarrow> divider_field (sd_get_clock_divider base target) = 0x3ff)"
proof (intro conjI impI)
  let ?q = "base div target"
  have t: "0 < unat target" "unat target \<le> unat base"
    using assms(1,2) by (simp_all add: word_less_nat_alt word_le_nat_alt)
  have q: "unat ?q = unat base div unat target" by (simp add: unat_div)
  have td: "targetted_divisor base target = ?q - 1"
    using assms(2,3) by (simp add: targetted_divisor_def leD)
  {
    assume pow: "unat base div unat target - 1 = 2 ^ k \<and> k \<le> 10 \<and> 2 ^ k \<le> unat target"
    have "(2 :: nat) ^ k \<le> 2 ^ 10" using pow by (intro power_increasing) simp_all
    then have k: "0 < (2 :: nat) ^ k" "(2 :: nat) ^ k \<le> 1024" by simp_all
    have "0 < unat ?q" using pow q k(1) by linarith
    then have uq: "unat (?q - 1) = 2 ^ k"
      using pow q by (subst unat_minus_one) (auto simp: unat_eq_0)
    then have "0 < ?q - 1" "unat (?q - 1) \<le> 1024" using k by (simp_all add: word_less_nat_alt)
    then obtain j where j: "clock_division (divider_field (sd_get_clock_divider base target)) = 2 ^ j"
        "unat (?q - 1) \<le> 2 ^ j" "2 ^ j < 2 * unat (?q - 1)"
      using divisor_field_ceil [of "?q - 1"] td divider_roundtrip [of base target] by metis
    from j(2,3) uq have "(2 :: nat) ^ k \<le> 2 ^ j" "(2 :: nat) ^ j < 2 ^ Suc k" by simp_all
    then have "j = k" by (simp only: power_increasing_iff power_strict_increasing_iff)
    have "unat base div unat target = 2 ^ k + 1" using pow k(1) by linarith
    then have "(2 ^ k + 1) * unat target \<le> unat base"
      using div_times_less_eq_dividend [of "unat base" "unat target"] by simp
    then have "2 ^ k * (unat target + 1) \<le> unat base"
      using pow by (simp add: algebra_simps)
    then have "unat target + 1 \<le> unat base div 2 ^ k"
      by (simp add: less_eq_div_iff_mult_less_eq mult.commute)
    then show "unat target < unat base div clock_division (divider_field (sd_get_clock_divider base target))"
      using j(1) \<open>j = k\<close> by simp
  }
  assume "?q = 1"
  then have "targetted_divisor base target = 0" using td by simp
  moreover have "divisor_field 0 = 0x3ff" by code_simp
  ultimately show "divider_field (sd_get_clock_divider base target) = 0x3ff"
    by (simp add: divider_roundtrip)
qed

theorem clock_divider_remainder_witness:
  "25000000 < 50000001 * (1 :: nat) \<and>
   25000000 < (50000001 :: nat) div clock_division (divider_field (sd_get_clock_divider 50000001 25000000))"
  using clock_divider_remainder [of 25000000 50000001 0] by simp

end
