(* ===== verification/Emmc_Command.thy ===== *)
theory Emmc_Command
  imports Emmc_Clock CString
begin

text \<open>
  The SD host controller driver, part 3: issuing a command to the card, moving its
  data through the DATA register, handling the interrupts that are pending before
  a command, and choosing between the plain and the application command tables.
\<close>

section \<open>Issuing a command\<close>

definition sd_get_response ::
    "'h platform \<Rightarrow> u32 \<Rightarrow> emmc_block_dev \<Rightarrow> 'h kstate \<Rightarrow> (emmc_block_dev \<times> 'h kstate) option" where
  "sd_get_response Pl cmd_reg d s =
     (let kind = cmd_reg AND SD_CMD_RSPNS_TYPE_MASK
      in if kind = SD_CMD_RSPNS_TYPE_48 \<or> kind = SD_CMD_RSPNS_TYPE_48B then do {
           (r0, s) \<leftarrow> GET32 Pl EMMC_REGS_RESP0 s;
           Some (d\<lparr>last_r0 := r0\<rparr>, s)
         }
         else if kind = SD_CMD_RSPNS_TYPE_136 then do {
           (r0, s) \<leftarrow> GET32 Pl EMMC_REGS_RESP0 s;
           (r1, s) \<leftarrow> GET32 Pl EMMC_REGS_RESP1 s;
           (r2, s) \<leftarrow> GET32 Pl EMMC_REGS_RESP2 s;
           (r3, s) \<leftarrow> GET32 Pl EMMC_REGS_RESP3 s;
           Some (d\<lparr>last_r0 := r0, last_r1 := r1, last_r2 := r2, last_r3 := r3\<rparr>, s)
         }
         else Some (d, s))"

text \<open>One block, word by word; \<open>p\<close> is the position in the buffer.\<close>

partial_function (option) transfer_words ::
    "'h platform \<Rightarrow> bool \<Rightarrow> u64 \<Rightarrow> u64 \<Rightarrow> addr \<Rightarrow> 'h kstate \<Rightarrow> (addr \<times> 'h kstate) option" where
  "transfer_words Pl is_write bsize cur_byte_no p s =
     (if cur_byte_no < bsize then
        (if is_write then do {
           let data = read_word (kmem s) p 0;
           s \<leftarrow> PUT32 Pl EMMC_REGS_DATA data s;
           transfer_words Pl is_write bsize (cur_byte_no + 4) (p + 4) s
         }
         else do {
           (data, s) \<leftarrow> GET32 Pl EMMC_REGS_DATA s;
           let s = s\<lparr>kmem := write_word data p 0 (kmem s)\<rparr>;
           transfer_words Pl is_write bsize (cur_byte_no + 4) (p + 4) s
         })
      else Some (p, s))"

text \<open>All blocks; \<open>False\<close> is an early return of the caller after an error.\<close>

partial_function (option) transfer_blocks ::
    "'h platform \<Rightarrow> bool \<Rightarrow> u32 \<Rightarrow> i32 \<Rightarrow> i32 \<Rightarrow> addr \<Rightarrow> emmc_block_dev \<Rightarrow> 'h kstate \<Rightarrow>
     (bool \<times> emmc_block_dev \<times> 'h kstate) option" where
  "transfer_blocks Pl is_write wr_irpt timeout cur_block p d s =
     (if sint cur_block < sint (blocks_to_transfer d) then do {
        s \<leftarrow> TIMEOUT_WAIT Pl (bits_set Pl EMMC_REGS_INTERRUPT (wr_irpt OR 0x8000)) timeout s;
        (irpts, s) \<leftarrow> GET32 Pl EMMC_REGS_INTERRUPT s;
        s \<leftarrow> PUT32 Pl EMMC_REGS_INTERRUPT (0xffff0000 OR wr_irpt) s;
        if irpts AND (0xffff0000 OR wr_irpt) \<noteq> wr_irpt
        then Some (False, d\<lparr>last_error := irpts AND 0xffff0000, last_interrupt := irpts\<rparr>, s)
        else do {
          (p, s) \<leftarrow> transfer_words Pl is_write (block_size d) 0 p s;
          transfer_blocks Pl is_write wr_irpt timeout (cur_block + 1) p d s
        }
      }
      else Some (True, d, s))"

declare transfer_words.simps [code] transfer_blocks.simps [code]

definition sd_data_phase ::
    "'h platform \<Rightarrow> u32 \<Rightarrow> i32 \<Rightarrow> emmc_block_dev \<Rightarrow> 'h kstate \<Rightarrow> (bool \<times> emmc_block_dev \<times> 'h kstate) option" where
  "sd_data_phase Pl cmd_reg timeout d s =
     (let is_write = (cmd_reg AND SD_CMD_DAT_DIR_CH = 0);
          wr_irpt = (if is_write then push_bit 4 1 else push_bit 5 1)
      in transfer_blocks Pl is_write wr_irpt timeout 0 (buf d) d s)"

definition sd_wait_transfer ::
    "'h platform \<Rightarrow> i32 \<Rightarrow> emmc_block_dev \<Rightarrow> 'h kstate \<Rightarrow> (bool \<times> emmc_block_dev \<times> 'h kstate) option" where
  "sd_wait_transfer Pl timeout d s = do {
     (x, s) \<leftarrow> GET32 Pl EMMC_REGS_STATUS s;
     if x AND 0x2 = 0 then do {
       s \<leftarrow> PUT32 Pl EMMC_REGS_INTERRUPT 0xffff0002 s;
       Some (True, d, s)
     }
     else do {
       s \<leftarrow> TIMEOUT_WAIT Pl (bits_set Pl EMMC_REGS_INTERRUPT 0x8002) timeout s;
       (irpts, s) \<leftarrow> GET32 Pl EMMC_REGS_INTERRUPT s;
       s \<leftarrow> PUT32 Pl EMMC_REGS_INTERRUPT 0xffff0002 s;
       if irpts AND 0xffff0002 \<noteq> 0x2 \<and> irpts AND 0xffff0002 \<noteq> 0x100002
       then Some (False, d\<lparr>last_error := irpts AND 0xffff0000, last_interrupt := irpts\<rparr>, s)
       else do {
         s \<leftarrow> PUT32 Pl EMMC_REGS_INTERRUPT 0xffff0002 s;
         Some (True, d, s)
       }
     }
   }"

text \<open>The wait of a DMA transfer (compiled in, though no caller turns \<open>use_sdma\<close> on).\<close>

definition sd_wait_sdma ::
    "'h platform \<Rightarrow> i32 \<Rightarrow> emmc_block_dev \<Rightarrow> 'h kstate \<Rightarrow> (bool \<times> emmc_block_dev \<times> 'h kstate) option" where
  "sd_wait_sdma Pl timeout d s = do {
     (x, s) \<leftarrow> GET32 Pl EMMC_REGS_STATUS s;
     if x AND 0x2 = 0 then do {
       s \<leftarrow> PUT32 Pl EMMC_REGS_INTERRUPT 0xffff000a s;
       Some (True, d, s)
     }
     else do {
       s \<leftarrow> TIMEOUT_WAIT Pl (bits_set Pl EMMC_REGS_INTERRUPT 0x800a) timeout s;
       (irpts, s) \<leftarrow> GET32 Pl EMMC_REGS_INTERRUPT s;
       s \<leftarrow> PUT32 Pl EMMC_REGS_INTERRUPT 0xffff000a s;
       let failed = d\<lparr>last_error := irpts AND 0xffff0000, last_interrupt := irpts\<rparr>;
       if irpts AND 0x8000 \<noteq> 0 \<and> irpts AND 0x2 \<noteq> 0x2 then Some (False, failed, s)
       else if irpts AND 0x8 \<noteq> 0 \<and> irpts AND 0x2 \<noteq> 0x2 then Some (False, failed, s)
       else if irpts AND 0x2 \<noteq> 0
       then Some (True, d, s\<lparr>kmem := snd (memcpy (buf d) SDMA_BUFFER (block_size d) (kmem s))\<rparr>)
       else do {
         (stuck, s) \<leftarrow> (if irpts = 0 then do {
             (y, s) \<leftarrow> GET32 Pl EMMC_REGS_STATUS s;
             Some (y AND 0x3 = 0x2, s)
           } else Some (False, s));
         stop \<leftarrow> table_entry sd_commands STOP_TRANSMISSION;
         s \<leftarrow> (if stuck then PUT32 Pl EMMC_REGS_CMDTM stop s else Some s);
         Some (False, failed, s)
       }
     }
   }"

definition sd_finish ::
    "'h platform \<Rightarrow> u32 \<Rightarrow> bool \<Rightarrow> i32 \<Rightarrow> emmc_block_dev \<Rightarrow> 'h kstate \<Rightarrow>
     (bool \<times> emmc_block_dev \<times> 'h kstate) option" where
  "sd_finish Pl cmd_reg is_sdma timeout d s =
     (if (cmd_reg AND SD_CMD_RSPNS_TYPE_MASK = SD_CMD_RSPNS_TYPE_48B \<or> cmd_reg AND SD_CMD_ISDATA \<noteq> 0) \<and> \<not> is_sdma
      then sd_wait_transfer Pl timeout d s
      else if is_sdma then sd_wait_sdma Pl timeout d s
      else Some (True, d, s))"

definition sd_wait_data_line :: "'h platform \<Rightarrow> u32 \<Rightarrow> 'h kstate \<Rightarrow> 'h kstate option" where
  "sd_wait_data_line Pl cmd_reg s =
     (if cmd_reg AND SD_CMD_RSPNS_TYPE_MASK = SD_CMD_RSPNS_TYPE_48B then
        (if cmd_reg AND SD_CMD_TYPE_MASK \<noteq> SD_CMD_TYPE_ABORT then wait_inhibit Pl 0x2 s else Some s)
      else Some s)"

definition sd_issue_command_int ::
    "'h platform \<Rightarrow> emmc_block_dev \<Rightarrow> u32 \<Rightarrow> u32 \<Rightarrow> i32 \<Rightarrow> 'h kstate \<Rightarrow> (emmc_block_dev \<times> 'h kstate) option" where
  "sd_issue_command_int Pl d cmd_reg argument timeout s = do {
     let d = d\<lparr>last_cmd_reg := cmd_reg, last_cmd_success := 0\<rparr>;
     s \<leftarrow> wait_inhibit Pl 0x1 s;
     s \<leftarrow> sd_wait_data_line Pl cmd_reg s;
     let is_sdma = (cmd_reg AND SD_CMD_ISDATA \<noteq> 0 \<and> use_sdma d \<noteq> 0);
     s \<leftarrow> (if is_sdma then PUT32 Pl EMMC_REGS_ARG2 SDMA_BUFFER_PA s else Some s);
     if sint (blocks_to_transfer d) > 0xffff then do {
       s \<leftarrow> kprintln Pl ''SD: blocks_to_transfer too great (%i)'' [scast (blocks_to_transfer d)] s;
       Some (d\<lparr>last_cmd_success := 0\<rparr>, s)
     }
     else do {
       let blksizecnt = ucast (block_size d) OR push_bit 16 (blocks_to_transfer d);
       s \<leftarrow> PUT32 Pl EMMC_REGS_BLKSIZECNT blksizecnt s;
       s \<leftarrow> PUT32 Pl EMMC_REGS_ARG1 argument s;
       let cmd_reg = (if is_sdma then cmd_reg OR SD_CMD_DMA else cmd_reg);
       s \<leftarrow> PUT32 Pl EMMC_REGS_CMDTM cmd_reg s;
       s \<leftarrow> usleep Pl 2000 s;
       s \<leftarrow> TIMEOUT_WAIT Pl (bits_set Pl EMMC_REGS_INTERRUPT 0x8001) timeout s;
       (irpts, s) \<leftarrow> GET32 Pl EMMC_REGS_INTERRUPT s;
       s \<leftarrow> PUT32 Pl EMMC_REGS_INTERRUPT 0xffff0001 s;
       if irpts AND 0xffff0001 \<noteq> 0x1
       then Some (d\<lparr>last_error := irpts AND 0xffff0000, last_interrupt := irpts\<rparr>, s)
       else do {
         s \<leftarrow> usleep Pl 2000 s;
         (d, s) \<leftarrow> sd_get_response Pl cmd_reg d s;
         (go, d, s) \<leftarrow> (if cmd_reg AND SD_CMD_ISDATA \<noteq> 0 \<and> \<not> is_sdma
           then sd_data_phase Pl cmd_reg timeout d s else Some (True, d, s));
         if \<not> go then Some (d, s)
         else do {
           (go, d, s) \<leftarrow> sd_finish Pl cmd_reg is_sdma timeout d s;
           if \<not> go then Some (d, s) else Some (d\<lparr>last_cmd_success := 1\<rparr>, s)
         }
       }
     }
   }"

section \<open>Pending interrupts\<close>

definition sd_handle_card_interrupt ::
    "'h platform \<Rightarrow> emmc_block_dev \<Rightarrow> 'h kstate \<Rightarrow> (emmc_block_dev \<times> 'h kstate) option" where
  "sd_handle_card_interrupt Pl d s =
     (if card_rca d \<noteq> 0 then do {
        c \<leftarrow> table_entry sd_commands SEND_STATUS;
        sd_issue_command_int Pl d c (push_bit 16 (card_rca d)) 500000 s
      }
      else Some (d, s))"

text \<open>The bits of \<open>reset_mask\<close>, in the order in which the handler collects them.\<close>

definition irpt_reset_mask :: "u32 \<Rightarrow> u32" where
  "irpt_reset_mask irpts =
     (let ack = (\<lambda>b. if irpts AND b \<noteq> 0 then b else 0)
      in ack SD_COMMAND_COMPLETE OR ack SD_TRANSFER_COMPLETE OR ack SD_BLOCK_GAP_EVENT OR
         ack SD_DMA_INTERRUPT OR ack SD_BUFFER_WRITE_READY OR ack SD_BUFFER_READ_READY OR
         ack SD_CARD_INSERTION OR ack SD_CARD_REMOVAL OR ack SD_CARD_INTERRUPT OR
         (if irpts AND 0x8000 \<noteq> 0 then 0xffff0000 else 0))"

definition sd_handle_interrupts ::
    "'h platform \<Rightarrow> emmc_block_dev \<Rightarrow> 'h kstate \<Rightarrow> (emmc_block_dev \<times> 'h kstate) option" where
  "sd_handle_interrupts Pl d s = do {
     (irpts, s) \<leftarrow> GET32 Pl EMMC_REGS_INTERRUPT s;
     (_, s) \<leftarrow> (if irpts AND SD_BUFFER_WRITE_READY \<noteq> 0 then sd_reset_dat Pl s else Some (0, s));
     (_, s) \<leftarrow> (if irpts AND SD_BUFFER_READ_READY \<noteq> 0 then sd_reset_dat Pl s else Some (0, s));
     let d = (if irpts AND SD_CARD_REMOVAL \<noteq> 0 then d\<lparr>card_removal := 1\<rparr> else d);
     (d, s) \<leftarrow> (if irpts AND SD_CARD_INTERRUPT \<noteq> 0 then sd_handle_card_interrupt Pl d s else Some (d, s));
     s \<leftarrow> PUT32 Pl EMMC_REGS_INTERRUPT (irpt_reset_mask irpts) s;
     Some (d, s)
   }"

definition sd_issue_command ::
    "'h platform \<Rightarrow> emmc_block_dev \<Rightarrow> u32 \<Rightarrow> u32 \<Rightarrow> i32 \<Rightarrow> 'h kstate \<Rightarrow> (emmc_block_dev \<times> 'h kstate) option" where
  "sd_issue_command Pl d command argument timeout s = do {
     (d, s) \<leftarrow> sd_handle_interrupts Pl d s;
     if card_removal d \<noteq> 0 then Some (d\<lparr>last_cmd_success := 0\<rparr>, s)
     else if command AND IS_APP_CMD \<noteq> 0 then do {
       let command = command AND 0xff;
       acmd \<leftarrow> table_entry sd_acommands command;
       if acmd = SD_CMD_RESERVED 0 then do {
         s \<leftarrow> kprintln Pl ''SD: invalid command ACMD%i'' [ucast command] s;
         Some (d\<lparr>last_cmd_success := 0\<rparr>, s)
       }
       else do {
         let d = d\<lparr>last_cmd := APP_CMD\<rparr>;
         let rca = (if card_rca d \<noteq> 0 then push_bit 16 (card_rca d) else 0);
         app \<leftarrow> table_entry sd_commands APP_CMD;
         (d, s) \<leftarrow> sd_issue_command_int Pl d app rca timeout s;
         if last_cmd_success d \<noteq> 0 then
           sd_issue_command_int Pl (d\<lparr>last_cmd := command OR IS_APP_CMD\<rparr>) acmd argument timeout s
         else Some (d, s)
       }
     }
     else do {
       cmd \<leftarrow> table_entry sd_commands command;
       if cmd = SD_CMD_RESERVED 0 then do {
         s \<leftarrow> kprintln Pl ''SD: invalid command CMD%i'' [ucast command] s;
         Some (d\<lparr>last_cmd_success := 0\<rparr>, s)
       }
       else sd_issue_command_int Pl (d\<lparr>last_cmd := command\<rparr>) cmd argument timeout s
     }
   }"

section \<open>What a command leaves alone\<close>

text \<open>
  \<open>config d\<close>: the fields of the device that do not report on the last command. A
  command leaves them unchanged.
\<close>

definition config :: "emmc_block_dev \<Rightarrow> _" where
  "config d = ((self d, bd d, card_supports_sdhc d, card_supports_18v d, card_ocr d, card_rca d),
     (scr d, failed_voltage_switch d, buf d, blocks_to_transfer d, block_size d, use_sdma d, base_clock d))"

lemma config_update [simp]:
  "config (d\<lparr>last_interrupt := x\<rparr>) = config d" "config (d\<lparr>last_error := x\<rparr>) = config d"
  "config (d\<lparr>last_cmd_reg := x\<rparr>) = config d" "config (d\<lparr>last_cmd := x\<rparr>) = config d"
  "config (d\<lparr>last_cmd_success := x\<rparr>) = config d" "config (d\<lparr>last_r0 := x\<rparr>) = config d"
  "config (d\<lparr>last_r1 := x\<rparr>) = config d" "config (d\<lparr>last_r2 := x\<rparr>) = config d"
  "config (d\<lparr>last_r3 := x\<rparr>) = config d" "config (d\<lparr>card_removal := y\<rparr>) = config d"
  by (simp_all add: config_def)

lemma config_same:
  assumes "config d' = config d"
  shows "buf d' = buf d" "blocks_to_transfer d' = blocks_to_transfer d" "block_size d' = block_size d"
    "use_sdma d' = use_sdma d" "card_rca d' = card_rca d" "self d' = self d" "scr d' = scr d"
    "card_supports_sdhc d' = card_supports_sdhc d" "failed_voltage_switch d' = failed_voltage_switch d"
    "bd d' = bd d" "base_clock d' = base_clock d"
  using assms by (simp_all add: config_def)

text \<open>The data of a command: what its blocks cover of the buffer lies in \<open>W\<close>.\<close>

definition data_bytes :: "emmc_block_dev \<Rightarrow> nat" where
  "data_bytes d = nat (sint (blocks_to_transfer d)) * unat (block_size d)"

definition data_ok :: "addr set \<Rightarrow> emmc_block_dev \<Rightarrow> bool" where
  "data_ok W d \<longleftrightarrow> use_sdma d = 0 \<and> 4 dvd unat (block_size d) \<and> data_bytes d < 2 ^ 64 \<and>
     block_in W (buf d) (of_nat (data_bytes d))"

lemma data_ok_config:
  assumes "config d' = config d"
  shows "data_ok W d' = data_ok W d"
  by (simp add: data_ok_def data_bytes_def config_same [OF assms])

lemma transfer_words_frame:
  assumes "confined W Pl" "frame W s0 s"
    and "is_write \<or> (4 dvd unat bsize \<and> 4 dvd unat n \<and> n \<le> bsize \<and> block_in W p (bsize - n))"
  shows "wlp (transfer_words Pl is_write bsize n p s)
     (\<lambda>(q, t). frame W s0 t \<and> (is_write \<or> q = p + (bsize - n)))"
proof (rule wlpI)
  fix r
  assume ret: "transfer_words Pl is_write bsize n p s = Some r"
  let ?pre = "\<lambda>is_write bsize n p. is_write \<or>
     (4 dvd unat bsize \<and> 4 dvd unat n \<and> n \<le> bsize \<and> block_in W p (bsize - n))"
  let ?P = "\<lambda>Pl is_write bsize n p s r. confined W Pl \<longrightarrow> frame W s0 s \<longrightarrow> ?pre is_write bsize n p \<longrightarrow>
     frame W s0 (snd r) \<and> (is_write \<or> fst r = p + (bsize - n))"
  have "?P Pl is_write bsize n p s r"
  proof (rule transfer_words.raw_induct [where P = ?P, OF _ ret], intro impI)
    fix rec Pl is_write bsize n p s r
    assume IH: "\<And>Pl is_write bsize n p s y. rec Pl is_write bsize n p s = Some y \<Longrightarrow> ?P Pl is_write bsize n p s y"
      and step: "(if n < bsize then
        (if is_write then do {
           let data = read_word (kmem s) p 0;
           s \<leftarrow> PUT32 Pl EMMC_REGS_DATA data s;
           rec Pl is_write bsize (n + 4) (p + 4) s
         }
         else do {
           (data, s) \<leftarrow> GET32 Pl EMMC_REGS_DATA s;
           let s = s\<lparr>kmem := write_word data p 0 (kmem s)\<rparr>;
           rec Pl is_write bsize (n + 4) (p + 4) s
         })
      else Some (p, s)) = Some r"
      and c: "confined W Pl" "frame W s0 s" and pre: "?pre is_write bsize n p"
    show "frame W s0 (snd r) \<and> (is_write \<or> fst r = p + (bsize - n))"
    proof (cases "n < bsize")
      case False
      with step pre show ?thesis using c by auto
    next
      case True
      show ?thesis
      proof (cases is_write)
        case w: True
        with step True obtain t where "PUT32 Pl EMMC_REGS_DATA (read_word (kmem s) p 0) s = Some t"
          "rec Pl is_write bsize (n + 4) (p + 4) t = Some r"
          by (auto simp: bind_Some_iff)
        with IH c w PUT32_frame [OF c, THEN wlpD] show ?thesis by blast
      next
        case rd: False
        with step True obtain x t where g: "GET32 Pl EMMC_REGS_DATA s = Some (x, t)"
          "rec Pl is_write bsize (n + 4) (p + 4) (t\<lparr>kmem := write_word x p 0 (kmem t)\<rparr>) = Some r"
          by (auto simp: bind_Some_iff Let_def)
        from pre rd have d: "4 dvd unat bsize" "4 dvd unat n" "block_in W p (bsize - n)" by auto
        from d(1,2) True have "unat n + 4 \<le> unat bsize"
          by (auto simp: word_less_nat_alt elim!: dvdE)
        then have n4: "unat (n + 4) = unat n + 4" "4 \<le> bsize - n" "n + 4 \<le> bsize"
          using unsigned_less [of bsize, where ?'a = nat]
          by (simp_all add: unat_plus_if' word_le_nat_alt unat_sub_if')
        have "frame W s0 (t\<lparr>kmem := write_word x p 0 (kmem t)\<rparr>)"
          using GET32_frame [OF c, THEN wlpD, OF g(1)] block_in_take [OF d(3) n4(2)]
          by (intro frame_write_word) simp_all
        moreover have "block_in W (p + 4) (bsize - (n + 4))"
          using block_in_drop [OF d(3) n4(2)] by (simp add: algebra_simps)
        moreover have "4 dvd unat (n + 4)" using d(2) n4(1) by simp
        ultimately have "frame W s0 (snd r) \<and> (is_write \<or> fst r = p + 4 + (bsize - (n + 4)))"
          using IH [OF g(2)] c(1) d(1) n4(3) by blast
        then show ?thesis by (simp add: algebra_simps)
      qed
    qed
  qed
  with assms show "case r of (q, t) \<Rightarrow> frame W s0 t \<and> (is_write \<or> q = p + (bsize - n))"
    by (cases r) auto
qed

lemma sint_inc:
  fixes i k :: i32
  assumes "sint i < sint k"
  shows "sint (i + 1) = sint i + 1"
proof -
  have "sint k < 2 ^ 31" "- (2 ^ 31) \<le> sint i"
    using sint_lt [of k] sint_ge [of i] by simp_all
  with assms show ?thesis
    by (simp add: sint_word_ariths signed_take_bit_int_eq_self)
qed

lemma transfer_blocks_frame:
  assumes "confined W Pl" "frame W s0 s" "is_write \<or> (4 dvd unat (block_size d) \<and> 0 \<le> sint cur \<and>
       (\<exists>n. nat (sint (blocks_to_transfer d) - sint cur) * unat (block_size d) = unat n \<and> block_in W p n))"
  shows "wlp (transfer_blocks Pl is_write irq timeout cur p d s)
     (\<lambda>(ok, d', t). frame W s0 t \<and> config d' = config d \<and> (ok \<longrightarrow> d' = d))"
proof (rule wlpI)
  fix r
  assume ret: "transfer_blocks Pl is_write irq timeout cur p d s = Some r"
  let ?pre = "\<lambda>is_write cur p d. is_write \<or> (4 dvd unat (block_size d) \<and> 0 \<le> sint cur \<and>
     (\<exists>n. nat (sint (blocks_to_transfer d) - sint cur) * unat (block_size d) = unat n \<and> block_in W p n))"
  let ?P = "\<lambda>Pl is_write irq timeout cur p d s r. confined W Pl \<longrightarrow> frame W s0 s \<longrightarrow> ?pre is_write cur p d \<longrightarrow>
     (case r of (ok, d', t) \<Rightarrow> frame W s0 t \<and> config d' = config d \<and> (ok \<longrightarrow> d' = d))"
  have "?P Pl is_write irq timeout cur p d s r"
  proof (rule transfer_blocks.raw_induct [where P = ?P, OF _ ret], intro impI, goal_cases)
    case (1 rec Pl is_write irq timeout cur p d s r)
    note IH = "1"(1) and step = "1"(2) and c = "1"(3,4) and pre = "1"(5)
    show ?case
    proof (cases "sint cur < sint (blocks_to_transfer d)")
      case False
      with step c show ?thesis by auto
    next
      case True
      with step obtain s1 irpts s2 s3 where
        s1: "TIMEOUT_WAIT Pl (bits_set Pl EMMC_REGS_INTERRUPT (irq OR 0x8000)) timeout s = Some s1" and
        s2: "GET32 Pl EMMC_REGS_INTERRUPT s1 = Some (irpts, s2)" and
        s3: "PUT32 Pl EMMC_REGS_INTERRUPT (0xffff0000 OR irq) s2 = Some s3" and
        rest: "(if irpts AND (0xffff0000 OR irq) \<noteq> irq
          then Some (False, d\<lparr>last_error := irpts AND 0xffff0000, last_interrupt := irpts\<rparr>, s3)
          else do {
            (p, s) \<leftarrow> transfer_words Pl is_write (block_size d) 0 p s3;
            rec Pl is_write irq timeout (cur + 1) p d s
          }) = Some r"
        by (auto simp: bind_Some_iff)
      have f1: "frame W s0 s1"
        by (rule TIMEOUT_WAIT_frame [OF c, THEN wlpD, OF _ s1]) (rule bits_frame [OF c(1)])
      have f2: "frame W s0 s2" using GET32_frame [OF c(1) f1, THEN wlpD, OF s2] by simp
      have f3: "frame W s0 s3" using PUT32_frame [OF c(1) f2, THEN wlpD, OF s3] by simp
      show ?thesis
      proof (cases "irpts AND (0xffff0000 OR irq) \<noteq> irq")
        case True
        with rest f3 show ?thesis by auto
      next
        case False
        with rest obtain q s4 where s4: "transfer_words Pl is_write (block_size d) 0 p s3 = Some (q, s4)"
          and tail: "rec Pl is_write irq timeout (cur + 1) q d s4 = Some r"
          by (auto simp: bind_Some_iff)
        have cur1: "sint (cur + 1) = sint cur + 1"
          using True by (rule sint_inc)
        have words: "is_write \<or> (4 dvd unat (block_size d) \<and> 4 dvd unat (0 :: u64) \<and> 0 \<le> block_size d \<and>
            block_in W p (block_size d - 0)) \<and> ?pre is_write (cur + 1) (p + (block_size d - 0)) d"
        proof (cases is_write)
          case False
          with pre obtain n where d4: "4 dvd unat (block_size d)" and c0: "0 \<le> sint cur"
            and n: "nat (sint (blocks_to_transfer d) - sint cur) * unat (block_size d) = unat n"
              "block_in W p n" by blast
          have "nat (sint (blocks_to_transfer d) - sint cur) = Suc (nat (sint (blocks_to_transfer d) - sint (cur + 1)))"
            using True cur1 by simp
          then have n': "unat n = unat (block_size d) +
              nat (sint (blocks_to_transfer d) - sint (cur + 1)) * unat (block_size d)"
            using n(1) by simp
          then have le: "block_size d \<le> n" by (simp add: word_le_nat_alt)
          then have "nat (sint (blocks_to_transfer d) - sint (cur + 1)) * unat (block_size d) =
              unat (n - block_size d)"
            using n' by (simp add: unat_sub)
          with d4 c0 cur1 block_in_take [OF n(2) le] block_in_drop [OF n(2) le] show ?thesis by auto
        qed simp
        have w: "frame W s0 s4 \<and> (is_write \<or> q = p + (block_size d - 0))"
          using transfer_words_frame [OF c(1) f3, THEN wlpD, OF _ s4] words by auto
        then have "?pre is_write (cur + 1) q d" using words by auto
        with IH [OF tail] c(1) w show ?thesis by simp
      qed
    qed
  qed
  with assms show "case r of (ok, d', t) \<Rightarrow> frame W s0 t \<and> config d' = config d \<and> (ok \<longrightarrow> d' = d)"
    by blast
qed

lemma sd_get_response_frame [frame_rules]:
  "confined W Pl \<Longrightarrow> frame W s0 s \<Longrightarrow>
   wlp (sd_get_response Pl cmd_reg d s) (\<lambda>(d', t). frame W s0 t \<and> config d' = config d)"
  unfolding sd_get_response_def
  by (rule wlp_let_step wlp_intros frame_rules | assumption | simp)+

lemma sd_data_phase_frame [frame_rules]:
  assumes "confined W Pl" "frame W s0 s" "data_ok W d"
  shows "wlp (sd_data_phase Pl cmd_reg timeout d s)
     (\<lambda>(ok, d', t). frame W s0 t \<and> config d' = config d)"
proof -
  have "unat (of_nat (data_bytes d) :: u64) = data_bytes d"
    using assms(3) by (simp add: data_ok_def unsigned_of_nat take_bit_nat_eq_self)
  then have "4 dvd unat (block_size d) \<and> 0 \<le> sint (0 :: i32) \<and>
      (\<exists>n. nat (sint (blocks_to_transfer d) - sint (0 :: i32)) * unat (block_size d) = unat n \<and>
        block_in W (buf d) n)"
    using assms(3) by (auto simp: data_ok_def data_bytes_def intro!: exI [of _ "of_nat (data_bytes d)"])
  then show ?thesis
    unfolding sd_data_phase_def Let_def
    by (intro wlp_mono [OF transfer_blocks_frame [OF assms(1,2)]]) auto
qed

lemma sd_wait_transfer_frame [frame_rules]:
  "confined W Pl \<Longrightarrow> frame W s0 s \<Longrightarrow>
   wlp (sd_wait_transfer Pl timeout d s) (\<lambda>(ok, d', t). frame W s0 t \<and> config d' = config d)"
  unfolding sd_wait_transfer_def
  by (rule wlp_let_step wlp_intros frame_rules wlp_bindI | assumption | simp)+

lemma sd_wait_data_line_frame [frame_rules]:
  "confined W Pl \<Longrightarrow> frame W s0 s \<Longrightarrow> wlp (sd_wait_data_line Pl cmd_reg s) (\<lambda>t. frame W s0 t)"
  unfolding sd_wait_data_line_def
  by (rule wlp_let_step wlp_intros frame_rules wlp_bindI | assumption | simp)+

lemma sd_finish_frame [frame_rules]:
  "confined W Pl \<Longrightarrow> frame W s0 s \<Longrightarrow>
   wlp (sd_finish Pl cmd_reg False timeout d s) (\<lambda>(ok, d', t). frame W s0 t \<and> config d' = config d)"
  unfolding sd_finish_def
  by (rule wlp_let_step wlp_intros frame_rules wlp_bindI | assumption | simp)+

lemma sd_issue_command_int_frame [frame_rules]:
  assumes "confined W Pl" "frame W s0 s" "cmd_reg AND SD_CMD_ISDATA = 0 \<or> data_ok W d"
  shows "wlp (sd_issue_command_int Pl d cmd_reg argument timeout s)
     (\<lambda>(d', t). frame W s0 t \<and> config d' = config d)"
proof -
  let ?d = "d\<lparr>last_cmd_reg := cmd_reg, last_cmd_success := 0\<rparr>"
  have sdma: "(cmd_reg AND SD_CMD_ISDATA \<noteq> 0 \<and> use_sdma ?d \<noteq> 0) = False"
    using assms(3) by (auto simp: data_ok_def)
  have data: "wlp (if cmd_reg AND SD_CMD_ISDATA \<noteq> 0 \<and> True
       then sd_data_phase Pl cmd_reg timeout d' t else Some (True, d', t))
     (\<lambda>(ok, d'', u). frame W s0 u \<and> config d'' = config d)"
    if "frame W s0 t" "config d' = config d" for t d'
  proof (cases "cmd_reg AND SD_CMD_ISDATA = 0")
    case False
    with assms(3) data_ok_config [OF that(2)] have "data_ok W d'" by simp
    from sd_data_phase_frame [OF assms(1) that(1) this] False that(2) show ?thesis by simp
  qed (use that in simp)
  show ?thesis
    unfolding sd_issue_command_int_def Let_def sdma if_False not_False_eq_True Option.bind.simps
    by (rule wlp_intros data frame_rules wlp_bindI assms | assumption | erule conjE | simp)+
qed

text \<open>Whether the table entry of a command has the data flag.\<close>

definition entry_data :: "u32 list \<Rightarrow> u32 \<Rightarrow> bool" where
  "entry_data tbl i = (case table_entry tbl i of None \<Rightarrow> False | Some c \<Rightarrow> c AND SD_CMD_ISDATA \<noteq> 0)"

definition moves_data :: "u32 \<Rightarrow> bool" where
  "moves_data command =
     (if command AND IS_APP_CMD \<noteq> 0 then entry_data sd_acommands (command AND 0xff)
      else entry_data sd_commands command)"

lemma entry_dataD: "\<not> entry_data tbl i \<Longrightarrow> table_entry tbl i = Some c \<Longrightarrow> c AND SD_CMD_ISDATA = 0"
  by (simp add: entry_data_def)

lemma control_commands:
  "\<not> entry_data sd_commands SEND_STATUS" "\<not> entry_data sd_commands APP_CMD"
  "\<not> moves_data GO_IDLE_STATE" "\<not> moves_data SEND_IF_COND" "\<not> moves_data IO_SET_OP_COND"
  "\<not> moves_data (ACMD 41)" "\<not> moves_data VOLTAGE_SWITCH" "\<not> moves_data ALL_SEND_CID"
  "\<not> moves_data SEND_RELATIVE_ADDR" "\<not> moves_data SELECT_CARD" "\<not> moves_data SET_BLOCKLEN"
  "\<not> moves_data SET_BUS_WIDTH" "\<not> moves_data SEND_STATUS" "\<not> moves_data STOP_TRANSMISSION"
  by (simp_all add: moves_data_def entry_data_def table_entry_def sd_commands_def sd_acommands_def cmd_defs)

lemma wlp_bind_entryI:
  "(\<And>c. table_entry tbl i = Some c \<Longrightarrow> wlp (f c) Q) \<Longrightarrow> wlp (Option.bind (table_entry tbl i) f) Q"
  by (cases "table_entry tbl i") simp_all

lemma sd_handle_card_interrupt_frame [frame_rules]:
  assumes "confined W Pl" "frame W s0 s"
  shows "wlp (sd_handle_card_interrupt Pl d s) (\<lambda>(d', t). frame W s0 t \<and> config d' = config d)"
proof (cases "card_rca d = 0")
  case False
  have "wlp (sd_issue_command_int Pl d c (push_bit 16 (card_rca d)) 500000 s)
      (\<lambda>(d', t). frame W s0 t \<and> config d' = config d)"
    if "table_entry sd_commands SEND_STATUS = Some c" for c
    using entry_dataD [OF control_commands(1) that]
    by (intro sd_issue_command_int_frame assms) simp
  with False show ?thesis
    unfolding sd_handle_card_interrupt_def by (auto intro: wlp_bind_entryI)
qed (use assms in \<open>simp add: sd_handle_card_interrupt_def\<close>)

lemma sd_handle_interrupts_frame [frame_rules]:
  "confined W Pl \<Longrightarrow> frame W s0 s \<Longrightarrow>
   wlp (sd_handle_interrupts Pl d s) (\<lambda>(d', t). frame W s0 t \<and> config d' = config d)"
  unfolding sd_handle_interrupts_def
  by (rule wlp_let_step wlp_intros frame_rules wlp_bindI | assumption | erule conjE | simp)+

lemma sd_issue_command_frame [frame_rules]:
  assumes "confined W Pl" "frame W s0 s" "\<not> moves_data command \<or> data_ok W d"
  shows "wlp (sd_issue_command Pl d command argument timeout s)
     (\<lambda>(d', t). frame W s0 t \<and> config d' = config d)"
proof -
  have int: "wlp (sd_issue_command_int Pl d' c arg timeout t) (\<lambda>(d', t). frame W s0 t \<and> config d' = config d)"
    if "frame W s0 t" "config d' = config d" "table_entry tbl i = Some c" "\<not> entry_data tbl i \<or> data_ok W d"
    for t d' tbl i c arg
  proof -
    have "c AND SD_CMD_ISDATA = 0 \<or> data_ok W d'"
      using that(4) entry_dataD [OF _ that(3)] data_ok_config [OF that(2)] by auto
    from sd_issue_command_int_frame [OF assms(1) that(1) this] that(2) show ?thesis
      by (rule_tac wlp_mono) auto
  qed
  show ?thesis
  proof (cases "command AND IS_APP_CMD \<noteq> 0")
    case True
    then have pre: "\<not> entry_data sd_acommands (command AND 0xff) \<or> data_ok W d"
      "\<not> entry_data sd_commands APP_CMD \<or> data_ok W d"
      using assms(3) control_commands(2) by (simp_all add: moves_data_def)
    show ?thesis
      unfolding sd_issue_command_def
      by (rule wlp_let_step wlp_intros wlp_bind_entryI int pre sd_handle_interrupts_frame
           kprintln_frame wlp_bindI assms | assumption | erule conjE | simp add: True)+
  next
    case False
    then have pre: "\<not> entry_data sd_commands command \<or> data_ok W d"
      using assms(3) by (simp add: moves_data_def)
    show ?thesis
      unfolding sd_issue_command_def
      by (rule wlp_let_step wlp_intros wlp_bind_entryI int pre sd_handle_interrupts_frame
           kprintln_frame wlp_bindI assms | assumption | erule conjE | simp add: False)+
  qed
qed

section \<open>Moving data\<close>

text \<open>
  What a data port does: it delivers the words of a queue, one at each read of the DATA
  register (\<open>source_port\<close>), or queues the words written to it (\<open>sink_port\<close>);
  neither touches RAM. \<open>q\<close> reads the queue off the state of the hardware.
\<close>

definition source_port :: "'h platform \<Rightarrow> ('h \<Rightarrow> u32 list) \<Rightarrow> bool" where
  "source_port Pl q \<longleftrightarrow> (\<forall>s x xs. q (khw s) = x # xs \<longrightarrow>
     (\<exists>t. bus_get32 Pl EMMC_REGS_DATA s = (x, t) \<and> q (khw t) = xs \<and> kmem t = kmem s))"

definition sink_port :: "'h platform \<Rightarrow> ('h \<Rightarrow> u32 list) \<Rightarrow> bool" where
  "sink_port Pl q \<longleftrightarrow> (\<forall>s x. q (khw (bus_put32 Pl EMMC_REGS_DATA x s)) = q (khw s) @ [x] \<and>
     kmem (bus_put32 Pl EMMC_REGS_DATA x s) = kmem s)"

lemma read_word_write_word_apart:
  assumes "4 \<le> k" "k \<le> - 4"
  shows "read_word (write_word v (p + k) 0 m) p 0 = read_word m p 0"
proof (rule read_word_cong)
  fix a
  assume a: "in_region (p + 0) 4 a"
  have "\<not> in_region (p + k + 0) 4 a"
  proof
    assume "in_region (p + k + 0) 4 a"
    then have b: "unat (a - (p + k)) < 4" by (simp add: in_region_def word_less_nat_alt)
    have k: "unat k \<le> 2 ^ 64 - 4" "4 \<le> unat k" using assms by (simp_all add: word_le_nat_alt)
    then have "unat (k + (a - (p + k))) = unat k + unat (a - (p + k))"
      using b by (subst unat_plus_if') auto
    then have "4 \<le> unat (a - p)" using k(2) by simp
    with a show False by (simp add: in_region_def word_less_nat_alt)
  qed
  then show "write_word v (p + k) 0 m a = m a" by (rule write_word_outside)
qed

lemma transfer_words_source:
  assumes "source_port Pl q"
  shows "q (khw s) = ws @ rest \<Longrightarrow> unat n + 4 * length ws = unat bsize \<Longrightarrow> 4 * length ws + 4 < 2 ^ 64 \<Longrightarrow>
    \<exists>t. transfer_words Pl False bsize n p s = Some (p + of_nat (4 * length ws), t) \<and> q (khw t) = rest \<and>
      (\<forall>i < length ws. load32 (kmem t) (p + of_nat (4 * i)) = ws ! i) \<and>
      (\<forall>a. \<not> in_region p (of_nat (4 * length ws)) a \<longrightarrow> kmem t a = kmem s a)"
proof (induction ws arbitrary: n p s)
  case Nil
  then have "n = bsize" by (simp add: word_unat_eq_iff)
  with Nil show ?case by (simp add: transfer_words.simps)
next
  case (Cons w ws)
  from Cons.prems(1) assms obtain u where u: "bus_get32 Pl EMMC_REGS_DATA s = (w, u)"
    "q (khw u) = ws @ rest" "kmem u = kmem s"
    unfolding source_port_def by (metis append_Cons)
  let ?u = "u\<lparr>kmem := write_word w p 0 (kmem u)\<rparr>"
  have n: "n < bsize" "unat (n + 4) = unat n + 4"
    using Cons.prems(2) unsigned_less [of bsize, where ?'a = nat]
    by (simp_all add: word_less_nat_alt unat_plus_if')
  obtain t where t: "transfer_words Pl False bsize (n + 4) (p + 4) ?u = Some (p + 4 + of_nat (4 * length ws), t)"
      "q (khw t) = rest" "\<forall>i < length ws. load32 (kmem t) (p + 4 + of_nat (4 * i)) = ws ! i"
      "\<forall>a. \<not> in_region (p + 4) (of_nat (4 * length ws)) a \<longrightarrow> kmem t a = kmem ?u a"
    using Cons.IH [of ?u "n + 4" "p + 4"] u(2) n(2) Cons.prems(2,3) by auto
  have len: "unat (of_nat (4 * length ws) :: u64) = 4 * length ws"
    "unat (of_nat (4 * length ws + 4) :: u64) = 4 * length ws + 4"
    using Cons.prems(3) by (simp_all add: unsigned_of_nat take_bit_nat_eq_self del: of_nat_add of_nat_mult)
  then have len': "unat (4 * of_nat (length ws) :: u64) = 4 * length ws" by simp
  have far: "\<not> in_region (p + 4) (of_nat (4 * length ws)) a" if "in_region p 4 a" for a
  proof
    assume "in_region (p + 4) (of_nat (4 * length ws)) a"
    then have l: "unat (a - (p + 4)) < 4 * length ws" by (simp add: in_region_def word_less_nat_alt len')
    then have "unat (4 + (a - (p + 4))) = 4 + unat (a - (p + 4))"
      using Cons.prems(3) by (subst unat_plus_if') simp
    then have "4 \<le> unat (a - p)" by simp
    with that show False by (simp add: in_region_def word_less_nat_alt)
  qed
  have first: "load32 (kmem t) p = w"
  proof -
    have "read_word (kmem t) p 0 = read_word (kmem ?u) p 0"
      by (rule read_word_cong) (use t(4) far in simp)
    then show ?thesis by simp
  qed
  have step: "transfer_words Pl False bsize n p s = Some (p + of_nat (4 * length (w # ws)), t)"
    using n(1) u(1) t(1) by (subst transfer_words.simps) (simp add: GET32_def Let_def add.assoc)
  have words: "load32 (kmem t) (p + of_nat (4 * i)) = (w # ws) ! i" if "i < length (w # ws)" for i
    using that t(3) first by (cases i) (simp_all add: algebra_simps)
  have out: "kmem t a = kmem s a" if "\<not> in_region p (of_nat (4 * length (w # ws))) a" for a
  proof -
    have a: "4 * length ws + 4 \<le> unat (a - p)"
      using that len(2) by (simp add: in_region_def not_less word_le_nat_alt algebra_simps)
    then have "unat (a - p - 4) = unat (a - p) - 4"
      by (subst unat_sub) (simp_all add: word_le_nat_alt)
    then have "\<not> in_region (p + 4) (of_nat (4 * length ws)) a"
      using a len' by (simp add: in_region_def not_less word_le_nat_alt algebra_simps)
    moreover have "\<not> in_region (p + 0) 4 a"
      using a by (simp add: in_region_def word_less_nat_alt)
    ultimately show ?thesis using t(4) u(3) write_word_outside [of p 0 a w] by simp
  qed
  show ?case
    using step t(2) words out by blast
qed

text \<open>
  C5: reading a block moves exactly the words the card delivers. With a data port that
  queues at least a block, the transfer returns, takes the words of the block off the
  queue, stores them in order, little endian, from the start of the buffer, advances the
  buffer pointer by the block size, and changes no other byte of memory.
\<close>

theorem block_read_stores_queue:
  assumes "source_port Pl q" "q (khw s) = ws @ rest" "unat bsize = 4 * length ws" "unat bsize < 2 ^ 63"
  shows "\<exists>t. transfer_words Pl False bsize 0 p s = Some (p + bsize, t) \<and> q (khw t) = rest \<and>
      (\<forall>i < length ws. load32 (kmem t) (p + of_nat (4 * i)) = ws ! i) \<and>
      (\<forall>a. \<not> in_region p bsize a \<longrightarrow> kmem t a = kmem s a)"
proof -
  have "bsize = of_nat (4 * length ws)" by (metis assms(3) of_nat_unat ucast_id)
  with transfer_words_source [OF assms(1,2), of 0 bsize p] assms(3,4) show ?thesis by simp
qed

text \<open>A card whose data port delivers the words of its state.\<close>

definition queue_platform :: "u32 list platform" where
  "queue_platform = \<lparr>
     bus_get32 = (\<lambda>a s. case khw s of [] \<Rightarrow> (0, s) | x # xs \<Rightarrow> (x, s\<lparr>khw := xs\<rparr>)),
     bus_put32 = (\<lambda>a x s. s\<lparr>khw := khw s @ [x]\<rparr>),
     libc_malloc = (\<lambda>n s. (0, s)), libc_free = (\<lambda>p s. s), diag_printf = (\<lambda>f as s. s),
     mailbuffer_addr = 0x6FE0, local_addr = (\<lambda>_. 0x5000)\<rparr>"

definition queue_state :: "u32 list \<Rightarrow> u32 list kstate" where
  "queue_state ws = kernel_state ((\<lambda>_. 0)) ws 0"

theorem block_read_stores_queue_witness:
  "\<exists>t. transfer_words queue_platform False 8 0 0x100 (queue_state [1, 2, 3]) = Some (0x108, t) \<and>
     khw t = [3] \<and> load32 (kmem t) 0x104 = 2"
proof -
  have p: "source_port queue_platform (\<lambda>q. q)"
    by (auto simp: source_port_def queue_platform_def)
  have q: "khw (queue_state [1, 2, 3]) = [1, 2] @ [3]" by (simp add: queue_state_def)
  obtain t where t: "transfer_words queue_platform False 8 0 0x100 (queue_state [1, 2, 3]) = Some (0x108, t)"
    "khw t = [3]" "\<forall>i < length [1, 2 :: u32]. load32 (kmem t) (0x100 + of_nat (4 * i)) = [1, 2] ! i"
    using block_read_stores_queue [OF p q, of 8 "0x100"] by auto
  with t(3) [rule_format, of 1] show ?thesis by simp
qed

text \<open>
  C6: writing a block sends exactly the words of the buffer, in order, to the data port
  and leaves memory as it was.
\<close>

theorem block_write_sends_buffer:
  assumes "sink_port Pl q" "unat bsize = 4 * k" "unat bsize < 2 ^ 63"
  shows "\<exists>t. transfer_words Pl True bsize 0 p s = Some (p + bsize, t) \<and> kmem t = kmem s \<and>
     q (khw t) = q (khw s) @ map (\<lambda>i. load32 (kmem s) (p + of_nat (4 * i))) [0..<k]"
proof -
  have "\<exists>t. transfer_words Pl True bsize n p s = Some (p + of_nat (4 * j), t) \<and> kmem t = kmem s \<and>
     q (khw t) = q (khw s) @ map (\<lambda>i. load32 (kmem s) (p + of_nat (4 * i))) [0..<j]"
    if "unat n + 4 * j = unat bsize" for n j
    using that
  proof (induction j arbitrary: n p s)
    case 0
    then have "n = bsize" by (simp add: word_unat_eq_iff)
    then show ?case by (simp add: transfer_words.simps)
  next
    case (Suc j)
    have n: "n < bsize" "unat (n + 4) = unat n + 4"
      using Suc.prems assms(3) by (simp_all add: word_less_nat_alt unat_plus_if')
    let ?u = "bus_put32 Pl EMMC_REGS_DATA (load32 (kmem s) p) s"
    have u: "q (khw ?u) = q (khw s) @ [load32 (kmem s) p]" "kmem ?u = kmem s"
      using assms(1) by (simp_all add: sink_port_def)
    obtain t where t: "transfer_words Pl True bsize (n + 4) (p + 4) ?u = Some (p + 4 + of_nat (4 * j), t)"
      "kmem t = kmem ?u"
      "q (khw t) = q (khw ?u) @ map (\<lambda>i. load32 (kmem ?u) (p + 4 + of_nat (4 * i))) [0..<j]"
      using Suc.IH [of "n + 4" "p + 4" ?u] n(2) Suc.prems by auto
    have "map (\<lambda>i. load32 (kmem s) (p + of_nat (4 * i))) [0..<Suc j] =
        load32 (kmem s) p # map (\<lambda>i. load32 (kmem s) (p + 4 + of_nat (4 * i))) [0..<j]"
      by (simp only: upt_conv_Cons [of 0 "Suc j"] map_Suc_upt [symmetric] zero_less_Suc)
        (simp add: algebra_simps)
    with n(1) t u show ?case
      by (subst transfer_words.simps) (simp add: PUT32_def Let_def add.assoc)
  qed
  from this [of 0 k] assms(2) have "\<exists>t. transfer_words Pl True bsize 0 p s = Some (p + of_nat (4 * k), t) \<and>
     kmem t = kmem s \<and> q (khw t) = q (khw s) @ map (\<lambda>i. load32 (kmem s) (p + of_nat (4 * i))) [0..<k]"
    by simp
  moreover have "of_nat (4 * k) = bsize" by (metis assms(2) of_nat_unat ucast_id)
  ultimately show ?thesis by simp
qed

theorem block_write_sends_buffer_witness:
  "\<exists>t. transfer_words queue_platform True 8 0 0x100 ((queue_state [])\<lparr>kmem := \<lambda>a. ucast a\<rparr>) = Some (0x108, t) \<and>
     khw t = [0x03020100, 0x07060504]"
proof -
  have p: "sink_port queue_platform (\<lambda>q. q)"
    by (simp add: sink_port_def queue_platform_def)
  have w: "map (\<lambda>i. load32 (\<lambda>a. ucast a) (0x100 + of_nat (4 * i))) [0..<2] = [0x03020100, 0x07060504]"
    by (simp add: upt_rec read_word_def)
  from block_write_sends_buffer [OF p, of 8 2 "0x100" "(queue_state [])\<lparr>kmem := \<lambda>a. ucast a\<rparr>"] w
  show ?thesis
    by (auto simp: queue_state_def)
qed

section \<open>Outcomes\<close>

text \<open>
  The interrupt handler acknowledges exactly what is pending: of the nine
  interrupts it knows the bits that are set, and the whole error half when the error
  summary bit is set; no bit that is not pending is written back otherwise.
\<close>

theorem reset_mask_exact:
  "irpt_reset_mask irpts = (irpts AND 0x1ff) OR (if irpts AND 0x8000 \<noteq> 0 then 0xffff0000 else 0)"
proof -
  have ack: "(if irpts AND push_bit n 1 \<noteq> 0 then push_bit n 1 else 0) = irpts AND push_bit n 1" for n
    by (rule bit_word_eqI) (auto simp: bit_simps and_exp_eq_0_iff_not_bit)
  have ack0: "(if irpts AND 1 \<noteq> 0 then 1 else 0) = irpts AND 1"
    using ack [of 0] by (cases "irpts AND 1 = 0") simp_all
  have "irpt_reset_mask irpts =
      ((irpts AND 1) OR (irpts AND push_bit 1 1) OR (irpts AND push_bit 2 1) OR (irpts AND push_bit 3 1) OR (irpts AND push_bit 4 1) OR (irpts AND push_bit 5 1) OR (irpts AND push_bit 6 1) OR (irpts AND push_bit 7 1) OR (irpts AND push_bit 8 1)) OR
      (if irpts AND 0x8000 \<noteq> 0 then 0xffff0000 else 0)"
    by (simp only: irpt_reset_mask_def Let_def irpt_defs ack0 ack or.assoc)
  also have "(irpts AND 1) OR (irpts AND push_bit 1 1) OR (irpts AND push_bit 2 1) OR (irpts AND push_bit 3 1) OR (irpts AND push_bit 4 1) OR (irpts AND push_bit 5 1) OR (irpts AND push_bit 6 1) OR (irpts AND push_bit 7 1) OR (irpts AND push_bit 8 1) = irpts AND 0x1ff"
    by (simp flip: bit.conj_disj_distrib)
  finally show ?thesis .
qed


text \<open>A failed command that left its interrupts behind.\<close>

definition failed_with_error :: "emmc_block_dev \<Rightarrow> bool" where
  "failed_with_error d \<longleftrightarrow> last_cmd_success d = 0 \<and> last_error d = last_interrupt d AND 0xffff0000"

definition outcome :: "emmc_block_dev \<Rightarrow> bool \<Rightarrow> emmc_block_dev \<Rightarrow> bool" where
  "outcome d ok d' \<longleftrightarrow> last_cmd_success d = 0 \<longrightarrow> (if ok then d' = d else failed_with_error d')"

lemma transfer_blocks_outcome:
  "wlp (transfer_blocks Pl is_write irq timeout cur p d s) (\<lambda>(ok, d', t). outcome d ok d')"
proof (rule wlpI)
  fix r
  assume ret: "transfer_blocks Pl is_write irq timeout cur p d s = Some r"
  let ?P = "\<lambda>Pl is_write irq timeout cur p d s r. case r of (ok, d', t) \<Rightarrow> outcome d ok d'"
  show "case r of (ok, d', t) \<Rightarrow> outcome d ok d'"
  proof (rule transfer_blocks.raw_induct [where P = ?P, OF _ ret], goal_cases)
    case (1 rec Pl is_write irq timeout cur p d s r)
    have rec: "wlp (rec Pl is_write irq timeout c' p' d s') (\<lambda>(ok, d', t). outcome d ok d')" for c' p' s'
      by (rule wlpI) (rule "1"(1))
    from "1"(2) show ?case
      by (rule wlpD [rotated])
        (rule wlp_let_step rec wlp_bind_pairI wlp_ifI wlp_bindI wlp_any |
          simp add: outcome_def failed_with_error_def)+
  qed
qed

lemma sd_wait_outcome:
  "wlp (sd_wait_transfer Pl timeout d s) (\<lambda>(ok, d', t). outcome d ok d')"
  "wlp (sd_wait_sdma Pl timeout d s) (\<lambda>(ok, d', t). outcome d ok d')"
  unfolding sd_wait_transfer_def sd_wait_sdma_def
  by (rule wlp_let_step wlp_bind_pairI wlp_ifI wlp_bindI wlp_any |
      simp add: outcome_def failed_with_error_def)+

lemma sd_finish_outcome:
  "wlp (sd_finish Pl c sdma timeout d s) (\<lambda>(ok, d', t). outcome d ok d')"
  unfolding sd_finish_def
  by (rule wlp_ifI sd_wait_outcome | simp add: outcome_def)+

lemma sd_get_response_outcome:
  "wlp (sd_get_response Pl c d s) (\<lambda>(d', t). last_cmd_success d' = last_cmd_success d)"
  by (auto simp: wlp_def sd_get_response_def bind_Some_iff Let_def split: if_split_asm)

lemma command_outcome_wlp:
  assumes "sint (blocks_to_transfer d) \<le> 0xffff"
  shows "wlp (sd_issue_command_int Pl d c argument timeout s)
     (\<lambda>(d', t). last_cmd_success d' = 1 \<or> failed_with_error d')"
proof -
  have data: "wlp (if b then sd_data_phase Pl c' timeout d1 s1 else Some (True, d1, s1))
      (\<lambda>(ok, d', t). outcome d1 ok d')" for b c' d1 s1
    using transfer_blocks_outcome by (auto simp: sd_data_phase_def Let_def outcome_def)
  show ?thesis
    unfolding sd_issue_command_int_def
    by (rule wlp_let_step data sd_finish_outcome sd_get_response_outcome wlp_bind_pairI wlp_bind_tripleI
        wlp_ifI wlp_bindI wlp_any | simp add: leD [OF assms] outcome_def failed_with_error_def)+
qed


section \<open>A card that answers at once\<close>

text \<open>
  A platform whose registers always read the same values, and whose timer reads 0, so
  that every wait ends at its first test; used to show that hypotheses can hold.
\<close>

definition card_platform :: "(addr \<Rightarrow> u32) \<Rightarrow> unit platform" where
  "card_platform f = \<lparr>
     bus_get32 = (\<lambda>a s. (f a, s)), bus_put32 = (\<lambda>a x s. s),
     libc_malloc = (\<lambda>n s. (0x9000, s)), libc_free = (\<lambda>p s. s), diag_printf = (\<lambda>f as s. s),
     mailbuffer_addr = 0x6FE0, local_addr = (\<lambda>_. 0x5000)\<rparr>"

definition card_state :: "unit kstate" where
  "card_state = kernel_state ((\<lambda>_. 0)) () TIMER_BASE"

lemma card_platform_simps [simp]:
  "GET32 (card_platform f) a s = Some (f a, s)" "PUT32 (card_platform f) a x s = Some s"
  "malloc (card_platform f) n s = Some (0x9000, s)" "free (card_platform f) p s = Some s"
  "kprintf (card_platform f) fmt as s = Some s" "kprintln (card_platform f) fmt as s = Some s"
  by (simp_all add: GET32_def PUT32_def malloc_def free_def kprintf_def kprintln_def card_platform_def)

lemma card_timer:
  assumes "f 0x3F003004 = 0" "timer_base s = TIMER_BASE"
  shows "register_timer (card_platform f) n s =
      (if sint n < 0 then Some (\<lparr>trigger_value = 0, rollover = 0\<rparr>, s\<lparr>errno := EINVAL\<rparr>)
       else Some (\<lparr>trigger_value = 0, rollover = 1\<rparr>, s))"
    and "trigger_value tw = 0 \<Longrightarrow> compare_timer (card_platform f) tw s = Some (True, s)"
  using assms
  by (simp_all add: register_timer_def compare_timer_def read_clo_def mmio_read_def TIMER_BASE_def
      TIMER_CLO_def MMIO_BASE_def)

lemma card_waits [simp]:
  assumes "f 0x3F003004 = 0" "timer_base s = TIMER_BASE" "0 \<le> sint n"
  shows "usleep (card_platform f) n s = Some s"
    and "c s = Some (b, s) \<Longrightarrow> TIMEOUT_WAIT (card_platform f) c n s = Some s"
  using assms(3) card_timer [of f s, OF assms(1,2)]
  by (simp_all add: usleep_def TIMEOUT_WAIT_def wait_timer.simps poll_until.simps)

lemma card_status [simp]:
  "f EMMC_REGS_STATUS = 0 \<Longrightarrow> wait_inhibit (card_platform f) bits s = Some s"
  "bits_set (card_platform f) reg bits s = Some (f reg AND bits \<noteq> 0, s)"
  "bits_clear (card_platform f) reg bits s = Some (f reg AND bits = 0, s)"
  by (simp_all add: wait_inhibit.simps bits_set_def bits_clear_def)

text \<open>A card in the transfer state (4): command and transfer complete and data ready at every look.\<close>

definition ready_card :: "addr \<Rightarrow> u32" where
  "ready_card a =
     (if a = EMMC_REGS_INTERRUPT then 0x23 else if a = EMMC_REGS_RESP0 then 0x80000900
      else if a = EMMC_REGS_DATA then 0x64636261 else 0)"

lemma ready_card_simps [simp]:
  "ready_card EMMC_REGS_STATUS = 0" "ready_card EMMC_REGS_CONTROL1 = 0"
  "ready_card EMMC_REGS_INTERRUPT = 0x23" "ready_card EMMC_REGS_RESP0 = 0x80000900"
  "ready_card EMMC_REGS_DATA = 0x64636261" "ready_card 0x3F003004 = 0"
  by (simp_all add: ready_card_def reg_defs MMIO_BASE_def)

lemma ready_card_interrupts [simp]:
  "timer_base s = TIMER_BASE \<Longrightarrow> sd_handle_interrupts (card_platform ready_card) d s = Some (d, s)"
  by (simp add: sd_handle_interrupts_def irpt_defs sd_reset_dat_def)

text \<open>
  C8: an application command is announced first. If it succeeds, then after the pending
  interrupts CMD55 was sent with the card's address and succeeded, and the command itself
  was sent, from the application table, in the state that CMD55 left.
\<close>

theorem acmd_announced:
  assumes "sd_issue_command Pl d command argument timeout s = Some (d', t)"
    and "command AND IS_APP_CMD \<noteq> 0" "SUCCESS d'"
  shows "\<exists>d0 s0 d1 s1. sd_handle_interrupts Pl d s = Some (d0, s0) \<and> card_removal d0 = 0 \<and>
     sd_issue_command_int Pl (d0\<lparr>last_cmd := APP_CMD\<rparr>) (sd_commands ! 55) (push_bit 16 (card_rca d0)) timeout s0
       = Some (d1, s1) \<and> SUCCESS d1 \<and>
     sd_issue_command_int Pl (d1\<lparr>last_cmd := (command AND 0xff) OR IS_APP_CMD\<rparr>)
       (sd_acommands ! unat (command AND 0xff)) argument timeout s1 = Some (d', t)"
proof -
  have app: "table_entry sd_commands APP_CMD = Some (sd_commands ! 55)"
    by (simp add: table_entry_def APP_CMD_def length_tables)
  have rca: "(if card_rca x \<noteq> 0 then push_bit 16 (card_rca x) else 0) = push_bit 16 (card_rca x)" for x
    by simp
  from assms show ?thesis
    unfolding sd_issue_command_def app rca
    by (fastforce simp: bind_Some_iff Let_def SUCCESS_def table_entry_def split: if_split_asm)
qed

theorem acmd_announced_witness:
  "\<exists>d' t d1 s1. sd_issue_command (card_platform ready_card) (zero_dev 0x8000) (ACMD 41) 0 500000 card_state = Some (d', t) \<and>
     sd_issue_command_int (card_platform ready_card) ((zero_dev 0x8000)\<lparr>last_cmd := APP_CMD\<rparr>) (sd_commands ! 55) 0 500000
       card_state = Some (d1, s1) \<and> SUCCESS d1"
proof -
  have "\<exists>d' t. sd_issue_command (card_platform ready_card) (zero_dev 0x8000) (ACMD 41) 0 500000 card_state =
      Some (d', t) \<and> SUCCESS d'"
    by (simp add: sd_issue_command_def table_entry_def sd_commands_def sd_acommands_def cmd_defs card_state_def
        sd_issue_command_int_def sd_wait_data_line_def sd_get_response_def sd_finish_def zero_dev_def SUCCESS_def)
  then obtain d' t where r: "sd_issue_command (card_platform ready_card) (zero_dev 0x8000) (ACMD 41) 0 500000 card_state =
      Some (d', t)" "SUCCESS d'" by blast
  have h: "sd_handle_interrupts (card_platform ready_card) (zero_dev 0x8000) card_state = Some (zero_dev 0x8000, card_state)"
    "card_rca (zero_dev 0x8000) = 0"
    by (simp_all add: card_state_def zero_dev_def)
  have "ACMD 41 AND IS_APP_CMD \<noteq> 0" by (simp add: cmd_defs)
  from acmd_announced [OF r(1) this r(2)] h r(1) show ?thesis by auto
qed

text \<open>
  C13: a card that never frees the command line hangs the kernel: the wait for the
  command inhibit bit has no timeout, so a command does not return when every read of
  the status register has the bit set.
\<close>

theorem stuck_command_line_hangs:
  assumes "\<forall>s. fst (bus_get32 Pl EMMC_REGS_STATUS s) AND 1 \<noteq> 0"
  shows "sd_issue_command_int Pl d c argument timeout s = None"
proof -
  have "wait_inhibit Pl 1 s \<noteq> Some t" for s t
  proof
    assume ret: "wait_inhibit Pl 1 s = Some t"
    have "Pl = Pl \<longrightarrow> (1 :: u32) = 1 \<longrightarrow> False"
    proof (rule wait_inhibit.raw_induct
        [where P = "\<lambda>Pl' bits s t. Pl' = Pl \<longrightarrow> bits = 1 \<longrightarrow> False", OF _ ret], intro impI, goal_cases)
      case (1 rec Pl' bits s t)
      have "fst (bus_get32 Pl EMMC_REGS_STATUS s) AND 1 \<noteq> 0" using assms by blast
      with "1"(2-) obtain u where "rec Pl 1 u = Some t"
        by (auto simp: GET32_def bind_Some_iff split: if_split_asm prod.splits)
      with "1"(1) show False by blast
    qed
    then show False by simp
  qed
  then have "wait_inhibit Pl 1 s = None" for s by (cases "wait_inhibit Pl 1 s") auto
  then show ?thesis by (simp add: sd_issue_command_int_def)
qed

theorem stuck_command_line_hangs_witness:
  "sd_issue_command_int (card_platform (\<lambda>a. 1)) (zero_dev 0x8000) 0 0 500000 card_state = None"
  by (rule stuck_command_line_hangs) (simp add: card_platform_def)



end
