(* ===== verification/Emmc_Init.thy ===== *)
theory Emmc_Init
  imports Emmc_Command
begin

text \<open>
  The SD host controller driver, part 4: \<open>sd_card_init\<close>, in the stages of its
  one long body: controller reset, clocks, device structure, identification, the
  operating conditions, the switch to 1.8 V, the address of the card, and the card's
  configuration register. A stage ends the function (\<open>Ret\<close>), asks for the recursive
  call after a failed voltage switch (\<open>Retry\<close>), or goes on.
\<close>

datatype 'a flow = Ret int | Retry | Go 'a

text \<open>Sequencing of stages that share the device structure.\<close>

definition and_then ::
    "('a flow \<times> emmc_block_dev \<times> 'h kstate) option \<Rightarrow>
     ('a \<Rightarrow> emmc_block_dev \<Rightarrow> 'h kstate \<Rightarrow> ('b flow \<times> emmc_block_dev \<times> 'h kstate) option) \<Rightarrow>
     ('b flow \<times> emmc_block_dev \<times> 'h kstate) option" where
  "and_then m k = do {
     (f, d, s) \<leftarrow> m;
     case f of Ret e \<Rightarrow> Some (Ret e, d, s) | Retry \<Rightarrow> Some (Retry, d, s) | Go x \<Rightarrow> k x d s
   }"

section \<open>Controller and clocks\<close>

definition init_controller :: "'h platform \<Rightarrow> 'h kstate \<Rightarrow> (unit flow \<times> 'h kstate) option" where
  "init_controller Pl s =
     (if length sd_commands \<noteq> 64 then do {
        s \<leftarrow> kprintln Pl ''EMMC: fatal error, sd_commands of incorrect size: %i expected %i''
              [4 * of_nat (length sd_commands), 64 * 4] s;
        Some (Ret (-1), s)
      }
      else if length sd_acommands \<noteq> 64 then do {
        s \<leftarrow> kprintln Pl ''EMMC: fatal error, sd_acommands of incorrect size: %i expected %i''
              [4 * of_nat (length sd_acommands), 64 * 4] s;
        Some (Ret (-1), s)
      }
      else do {
        (cycled, s) \<leftarrow> bcm_2708_power_cycle Pl s;
        s \<leftarrow> (if cycled \<noteq> 0
              then kprintln Pl ''EMMC: BCM2708 controller did not power cycle successfully'' [] s else Some s);
        (ver, s) \<leftarrow> GET32 Pl EMMC_REGS_SLOT_ISR_VER s;
        let s = s\<lparr>hci_ver := drop_bit 16 ver AND 0xff\<rparr>;
        s \<leftarrow> (if hci_ver s < 2 then kprintln Pl ''EMMC: WARNING: old SDHCI version detected'' [] s else Some s);
        (control1, s) \<leftarrow> GET32 Pl EMMC_REGS_CONTROL1 s;
        let control1 = control1 OR push_bit 24 1;
        let control1 = control1 AND NOT (push_bit 2 1);
        let control1 = control1 AND NOT (push_bit 0 1);
        s \<leftarrow> PUT32 Pl EMMC_REGS_CONTROL1 control1 s;
        s \<leftarrow> TIMEOUT_WAIT Pl (bits_clear Pl EMMC_REGS_CONTROL1 (push_bit 24 0x7)) 1000000 s;
        (x, s) \<leftarrow> GET32 Pl EMMC_REGS_CONTROL1 s;
        if x AND push_bit 24 0x7 \<noteq> 0 then do {
          s \<leftarrow> kprintln Pl ''EMMC: controller did not reset properly'' [] s;
          Some (Ret (-1), s)
        }
        else do {
          (c0, s) \<leftarrow> GET32 Pl EMMC_REGS_CAPABILITIES_0 s;
          let s = s\<lparr>capabilities_0 := c0\<rparr>;
          (c1, s) \<leftarrow> GET32 Pl EMMC_REGS_CAPABILITIES_1 s;
          let s = s\<lparr>capabilities_1 := c1\<rparr>;
          s \<leftarrow> TIMEOUT_WAIT Pl (bits_set Pl EMMC_REGS_STATUS (push_bit 16 1)) 500000 s;
          (status_reg, s) \<leftarrow> GET32 Pl EMMC_REGS_STATUS s;
          if status_reg AND push_bit 16 1 = 0 then do {
            s \<leftarrow> kprintln Pl ''EMMC: no card inserted'' [] s;
            Some (Ret (-1), s)
          }
          else Some (Go (), s)
        }
      })"

definition init_clock :: "'h platform \<Rightarrow> 'h kstate \<Rightarrow> (u32 flow \<times> 'h kstate) option" where
  "init_clock Pl s = do {
     s \<leftarrow> PUT32 Pl EMMC_REGS_CONTROL2 0 s;
     (base, s) \<leftarrow> sd_get_base_clock_hz Pl s;
     s \<leftarrow> (if base = 0 then kprintln Pl ''EMMC: assuming clock rate to be 100MHz'' [] s else Some s);
     let base = (if base = 0 then 100000000 else base);
     (control1, s) \<leftarrow> GET32 Pl EMMC_REGS_CONTROL1 s;
     let control1 = control1 OR 1;
     let f_id = sd_get_clock_divider base SD_CLOCK_ID;
     if f_id = SD_GET_CLOCK_DIVIDER_FAIL then do {
       s \<leftarrow> kprintln Pl ''EMMC: unable to get a valid clock divider for ID frequency'' [] s;
       Some (Ret (-1), s)
     }
     else do {
       let control1 = control1 OR f_id;
       let control1 = control1 OR push_bit 16 7;
       s \<leftarrow> PUT32 Pl EMMC_REGS_CONTROL1 control1 s;
       s \<leftarrow> TIMEOUT_WAIT Pl (bits_set Pl EMMC_REGS_CONTROL1 0x2) 0x1000000 s;
       (x, s) \<leftarrow> GET32 Pl EMMC_REGS_CONTROL1 s;
       if x AND 0x2 = 0 then do {
         s \<leftarrow> kprintln Pl ''EMMC: controller's clock did not stabilise within 1 second'' [] s;
         Some (Ret (-1), s)
       }
       else do {
         s \<leftarrow> usleep Pl 2000 s;
         (control1, s) \<leftarrow> GET32 Pl EMMC_REGS_CONTROL1 s;
         s \<leftarrow> PUT32 Pl EMMC_REGS_CONTROL1 (control1 OR 4) s;
         s \<leftarrow> usleep Pl 2000 s;
         s \<leftarrow> PUT32 Pl EMMC_REGS_IRPT_EN 0 s;
         s \<leftarrow> PUT32 Pl EMMC_REGS_INTERRUPT 0xffffffff s;
         let irpt_mask = 0xffffffff AND NOT SD_CARD_INTERRUPT;
         s \<leftarrow> PUT32 Pl EMMC_REGS_IRPT_MASK irpt_mask s;
         s \<leftarrow> usleep Pl 2000 s;
         Some (Go base, s)
       }
     }
   }"

section \<open>Device structure\<close>

text \<open>\<open>None\<close> is a null \<open>*dev\<close>; otherwise the caller's object is cleared and reused.\<close>

definition init_device ::
    "'h platform \<Rightarrow> emmc_block_dev option \<Rightarrow> u32 \<Rightarrow> 'h kstate \<Rightarrow> (emmc_block_dev \<times> 'h kstate) option" where
  "init_device Pl dev base s = do {
     (p, s) \<leftarrow> (case dev of None \<Rightarrow> malloc Pl sizeof_emmc_block_dev s | Some d \<Rightarrow> Some (self d, s));
     let d = zero_dev p;
     Some (d\<lparr>bd := (bd d)\<lparr>driver_name := Some ''emmc'', device_name := Some ''emmc0'',
               bd_block_size := 512, read_fn := Fn_sd_read, write_fn := Fn_sd_write,
               supports_multiple_block_read := 1, supports_multiple_block_write := 1\<rparr>,
             base_clock := base\<rparr>, s)
   }"

section \<open>Identification\<close>

definition init_identify ::
    "'h platform \<Rightarrow> emmc_block_dev \<Rightarrow> 'h kstate \<Rightarrow> (bool flow \<times> emmc_block_dev \<times> 'h kstate) option" where
  "init_identify Pl d s = do {
     (d, s) \<leftarrow> sd_issue_command Pl d GO_IDLE_STATE 0 500000 s;
     if FAIL d then do {
       s \<leftarrow> kprintln Pl ''SD: no CMD0 response'' [] s;
       Some (Ret (-1), d, s)
     }
     else do {
       (d, s) \<leftarrow> sd_issue_command Pl d SEND_IF_COND 0x1aa 500000 s;
       if TIMEOUT d then Some (Go False, d, s)
       else if CMD_TIMEOUT d then do {
         (r, s) \<leftarrow> sd_reset_cmd Pl s;
         if r = -1 then Some (Ret (-1), d, s)
         else do {
           s \<leftarrow> PUT32 Pl EMMC_REGS_INTERRUPT SD_ERR_MASK_CMD_TIMEOUT s;
           Some (Go False, d, s)
         }
       }
       else if FAIL d then do {
         s \<leftarrow> kprintln Pl ''SD: failure sending CMD8 (%08x)'' [ucast (last_interrupt d)] s;
         Some (Ret (-1), d, s)
       }
       else if last_r0 d AND 0xfff \<noteq> 0x1aa then do {
         s \<leftarrow> kprintln Pl ''SD: unusable card'' [] s;
         Some (Ret (-1), d, s)
       }
       else Some (Go True, d, s)
     }
   }"

definition init_check_sdio ::
    "'h platform \<Rightarrow> emmc_block_dev \<Rightarrow> 'h kstate \<Rightarrow> (unit flow \<times> emmc_block_dev \<times> 'h kstate) option" where
  "init_check_sdio Pl d s = do {
     (d, s) \<leftarrow> sd_issue_command Pl d IO_SET_OP_COND 0 10000 s;
     if TIMEOUT d then Some (Go (), d, s)
     else if CMD_TIMEOUT d then do {
       (r, s) \<leftarrow> sd_reset_cmd Pl s;
       if r = -1 then Some (Ret (-1), d, s)
       else do {
         s \<leftarrow> PUT32 Pl EMMC_REGS_INTERRUPT SD_ERR_MASK_CMD_TIMEOUT s;
         Some (Go (), d, s)
       }
     }
     else do {
       s \<leftarrow> kprintln Pl ''SD: SDIO card detected - not currently supported'' [] s;
       Some (Ret (-1), d, s)
     }
   }"

section \<open>Operating conditions\<close>

definition acmd41_flags :: "bool \<Rightarrow> emmc_block_dev \<Rightarrow> u32" where
  "acmd41_flags v2_later d =
     (if v2_later then push_bit 30 1 OR (if failed_voltage_switch d = 0 then push_bit 24 1 else 0) else 0)"

partial_function (option) init_wait_ready ::
    "'h platform \<Rightarrow> bool \<Rightarrow> emmc_block_dev \<Rightarrow> 'h kstate \<Rightarrow> (unit flow \<times> emmc_block_dev \<times> 'h kstate) option" where
  "init_wait_ready Pl v2_later d s = do {
     (d, s) \<leftarrow> sd_issue_command Pl d (ACMD 41) (0x00ff8000 OR acmd41_flags v2_later d) 500000 s;
     if FAIL d then do {
       s \<leftarrow> kprintln Pl ''SD: error issuing ACMD41'' [] s;
       Some (Ret (-1), d, s)
     }
     else if drop_bit 31 (last_r0 d) AND 0x1 \<noteq> 0 then
       (let d = d\<lparr>card_ocr := drop_bit 8 (last_r0 d) AND 0xffff,
                  card_supports_sdhc := drop_bit 30 (last_r0 d) AND 0x1\<rparr>;
            d = (if failed_voltage_switch d = 0
                 then d\<lparr>card_supports_18v := drop_bit 24 (last_r0 d) AND 0x1\<rparr> else d)
        in Some (Go (), d, s))
     else do {
       s \<leftarrow> usleep Pl 500000 s;
       init_wait_ready Pl v2_later d s
     }
   }"

declare init_wait_ready.simps [code]

definition init_op_cond ::
    "'h platform \<Rightarrow> bool \<Rightarrow> emmc_block_dev \<Rightarrow> 'h kstate \<Rightarrow> (unit flow \<times> emmc_block_dev \<times> 'h kstate) option" where
  "init_op_cond Pl v2_later d s = do {
     (d, s) \<leftarrow> sd_issue_command Pl d (ACMD 41) 0 500000 s;
     if FAIL d then do {
       s \<leftarrow> kprintln Pl ''SD: inquiry ACMD41 failed'' [] s;
       Some (Ret (-1), d, s)
     }
     else init_wait_ready Pl v2_later d s
   }"

section \<open>The switch to 1.8 V\<close>

definition switch_failed ::
    "'h platform \<Rightarrow> emmc_block_dev \<Rightarrow> 'h kstate \<Rightarrow> (unit flow \<times> emmc_block_dev \<times> 'h kstate) option" where
  "switch_failed Pl d s = do {
     let d = d\<lparr>failed_voltage_switch := 1\<rparr>;
     s \<leftarrow> sd_power_off Pl s;
     Some (Retry, d, s)
   }"

definition init_voltage ::
    "'h platform \<Rightarrow> u32 \<Rightarrow> emmc_block_dev \<Rightarrow> 'h kstate \<Rightarrow> (unit flow \<times> emmc_block_dev \<times> 'h kstate) option" where
  "init_voltage Pl base d s = do {
     (_, s) \<leftarrow> sd_switch_clock_rate Pl base SD_CLOCK_NORMAL s;
     s \<leftarrow> usleep Pl 5000 s;
     if card_supports_18v d \<noteq> 0 then do {
       (d, s) \<leftarrow> sd_issue_command Pl d VOLTAGE_SWITCH 0 500000 s;
       if FAIL d then switch_failed Pl d s
       else do {
         (control1, s) \<leftarrow> GET32 Pl EMMC_REGS_CONTROL1 s;
         s \<leftarrow> PUT32 Pl EMMC_REGS_CONTROL1 (control1 AND NOT (push_bit 2 1)) s;
         (status_reg, s) \<leftarrow> GET32 Pl EMMC_REGS_STATUS s;
         let dat30 = drop_bit 20 status_reg AND 0xf;
         if dat30 \<noteq> 0 then switch_failed Pl d s
         else do {
           (control0, s) \<leftarrow> GET32 Pl EMMC_REGS_CONTROL0 s;
           s \<leftarrow> PUT32 Pl EMMC_REGS_CONTROL0 (control0 OR push_bit 8 1) s;
           s \<leftarrow> usleep Pl 5000 s;
           (control0, s) \<leftarrow> GET32 Pl EMMC_REGS_CONTROL0 s;
           if drop_bit 8 control0 AND 0x1 = 0 then switch_failed Pl d s
           else do {
             (control1, s) \<leftarrow> GET32 Pl EMMC_REGS_CONTROL1 s;
             s \<leftarrow> PUT32 Pl EMMC_REGS_CONTROL1 (control1 OR push_bit 2 1) s;
             s \<leftarrow> usleep Pl 10000 s;
             (status_reg, s) \<leftarrow> GET32 Pl EMMC_REGS_STATUS s;
             let dat30 = drop_bit 20 status_reg AND 0xf;
             if dat30 \<noteq> 0xf then switch_failed Pl d s else Some (Go (), d, s)
           }
         }
       }
     }
     else Some (Go (), d, s)
   }"

section \<open>Address and selection\<close>

text \<open>The buffer of four words for the card's identification; its address goes on to the next stage.\<close>

definition init_cid ::
    "'h platform \<Rightarrow> emmc_block_dev \<Rightarrow> 'h kstate \<Rightarrow> (addr flow \<times> emmc_block_dev \<times> 'h kstate) option" where
  "init_cid Pl d s = do {
     (d, s) \<leftarrow> sd_issue_command Pl d ALL_SEND_CID 0 500000 s;
     if FAIL d then do {
       s \<leftarrow> kprintln Pl ''SD: error sending ALL_SEND_CID'' [] s;
       Some (Ret (-1), d, s)
     }
     else do {
       (dev_id, s) \<leftarrow> malloc Pl (4 * 4) s;
       let s = s\<lparr>kmem := store32 (kmem s) (dev_id + 0) (last_r0 d)\<rparr>;
       let s = s\<lparr>kmem := store32 (kmem s) (dev_id + 4) (last_r1 d)\<rparr>;
       let s = s\<lparr>kmem := store32 (kmem s) (dev_id + 8) (last_r2 d)\<rparr>;
       let s = s\<lparr>kmem := store32 (kmem s) (dev_id + 12) (last_r3 d)\<rparr>;
       Some (Go dev_id, d\<lparr>bd := (bd d)\<lparr>device_id := dev_id, dev_id_len := 4 * 4\<rparr>\<rparr>, s)
     }
   }"

text \<open>A failure that also frees the device structure, and the identification when \<open>ids\<close> lists it.\<close>

definition give_up ::
    "'h platform \<Rightarrow> string \<Rightarrow> u64 list \<Rightarrow> addr list \<Rightarrow> emmc_block_dev \<Rightarrow> 'h kstate \<Rightarrow>
     ('a flow \<times> emmc_block_dev \<times> 'h kstate) option" where
  "give_up Pl msg args ids d s = do {
     s \<leftarrow> kprintln Pl msg args s;
     s \<leftarrow> free Pl (self d) s;
     s \<leftarrow> (case ids of [] \<Rightarrow> Some s | p # _ \<Rightarrow> free Pl p s);
     Some (Ret (-1), d, s)
   }"

definition init_rca ::
    "'h platform \<Rightarrow> addr \<Rightarrow> emmc_block_dev \<Rightarrow> 'h kstate \<Rightarrow> (unit flow \<times> emmc_block_dev \<times> 'h kstate) option" where
  "init_rca Pl dev_id d s = do {
     (d, s) \<leftarrow> sd_issue_command Pl d SEND_RELATIVE_ADDR 0 500000 s;
     if FAIL d then give_up Pl ''SD: error sending SEND_RELATIVE_ADDR'' [] [] d s
     else do {
       let cmd3_resp = last_r0 d;
       let d = d\<lparr>card_rca := drop_bit 16 cmd3_resp AND 0xffff\<rparr>;
       if drop_bit 15 cmd3_resp AND 0x1 \<noteq> 0 then give_up Pl ''SD: CRC error'' [] [dev_id] d s
       else if drop_bit 14 cmd3_resp AND 0x1 \<noteq> 0 then give_up Pl ''SD: illegal command'' [] [dev_id] d s
       else if drop_bit 13 cmd3_resp AND 0x1 \<noteq> 0 then give_up Pl ''SD: generic error'' [] [dev_id] d s
       else if drop_bit 8 cmd3_resp AND 0x1 = 0 then give_up Pl ''SD: not ready for data'' [] [dev_id] d s
       else do {
         (d, s) \<leftarrow> sd_issue_command Pl d SELECT_CARD (push_bit 16 (card_rca d)) 500000 s;
         if FAIL d then give_up Pl ''SD: error sending CMD7'' [] [] d s
         else do {
           let status = drop_bit 9 (last_r0 d) AND 0xf;
           if status \<noteq> 3 \<and> status \<noteq> 4
           then give_up Pl ''SD: invalid status (%i)'' [ucast status] [dev_id] d s
           else Some (Go (), d, s)
         }
       }
     }
   }"

definition init_blocklen ::
    "'h platform \<Rightarrow> emmc_block_dev \<Rightarrow> 'h kstate \<Rightarrow> (unit flow \<times> emmc_block_dev \<times> 'h kstate) option" where
  "init_blocklen Pl d s = do {
     (d, s) \<leftarrow> (if card_supports_sdhc d = 0
        then sd_issue_command Pl d SET_BLOCKLEN 512 500000 s else Some (d, s));
     if card_supports_sdhc d = 0 \<and> FAIL d then give_up Pl ''SD: error sending SET_BLOCKLEN'' [] [] d s
     else do {
       let d = d\<lparr>block_size := 512\<rparr>;
       (controller_block_size, s) \<leftarrow> GET32 Pl EMMC_REGS_BLKSIZECNT s;
       s \<leftarrow> PUT32 Pl EMMC_REGS_BLKSIZECNT ((controller_block_size AND NOT 0xfff) OR 0x200) s;
       Some (Go (), d, s)
     }
   }"

section \<open>The configuration register of the card\<close>

definition SD_VER_UNKNOWN :: u32 where "SD_VER_UNKNOWN = 0"
definition SD_VER_1 :: u32 where "SD_VER_1 = 1"
definition SD_VER_1_1 :: u32 where "SD_VER_1_1 = 2"
definition SD_VER_2 :: u32 where "SD_VER_2 = 3"
definition SD_VER_3 :: u32 where "SD_VER_3 = 4"
definition SD_VER_4 :: u32 where "SD_VER_4 = 5"

definition scr_version :: "u32 \<Rightarrow> u32" where
  "scr_version scr0 =
     (let sd_spec = drop_bit (56 - 32) scr0 AND 0xf;
          sd_spec3 = drop_bit (47 - 32) scr0 AND 0x1;
          sd_spec4 = drop_bit (42 - 32) scr0 AND 0x1
      in if sd_spec = 0 then SD_VER_1
         else if sd_spec = 1 then SD_VER_1_1
         else if sd_spec = 2 then
           (if sd_spec3 = 0 then SD_VER_2
            else if sd_spec3 = 1 then
              (if sd_spec4 = 0 then SD_VER_3 else if sd_spec4 = 1 then SD_VER_4 else SD_VER_UNKNOWN)
            else SD_VER_UNKNOWN)
         else SD_VER_UNKNOWN)"

text \<open>\<open>struct sd_scr\<close> in memory: two words of the register, the bus widths, the version.\<close>

definition scr_bus_widths :: "'h kstate \<Rightarrow> emmc_block_dev \<Rightarrow> u32" where
  "scr_bus_widths s d = load32 (kmem s) (scr d + 8)"

definition init_read_scr ::
    "'h platform \<Rightarrow> emmc_block_dev \<Rightarrow> 'h kstate \<Rightarrow> (unit flow \<times> emmc_block_dev \<times> 'h kstate) option" where
  "init_read_scr Pl d s = do {
     (p, s) \<leftarrow> malloc Pl sizeof_sd_scr s;
     let d = d\<lparr>scr := p, buf := p, block_size := 8, blocks_to_transfer := 1\<rparr>;
     (d, s) \<leftarrow> sd_issue_command Pl d SEND_SCR 0 500000 s;
     let d = d\<lparr>block_size := 512\<rparr>;
     if FAIL d then do {
       s \<leftarrow> kprintln Pl ''SD: error sending SEND_SCR'' [] s;
       s \<leftarrow> free Pl (scr d) s;
       s \<leftarrow> free Pl (self d) s;
       Some (Ret (-1), d, s)
     }
     else do {
       let scr0 = byte_swap (load32 (kmem s) (scr d));
       let s = s\<lparr>kmem := store32 (kmem s) (scr d + 12) (scr_version scr0)\<rparr>;
       let s = s\<lparr>kmem := store32 (kmem s) (scr d + 8) (drop_bit (48 - 32) scr0 AND 0xf)\<rparr>;
       Some (Go (), d, s)
     }
   }"

definition switch_bus_width ::
    "'h platform \<Rightarrow> emmc_block_dev \<Rightarrow> 'h kstate \<Rightarrow> (emmc_block_dev \<times> 'h kstate) option" where
  "switch_bus_width Pl d s =
     (if scr_bus_widths s d AND 0x4 \<noteq> 0 then do {
        (old_irpt_mask, s) \<leftarrow> GET32 Pl EMMC_REGS_IRPT_MASK s;
        s \<leftarrow> PUT32 Pl EMMC_REGS_IRPT_MASK (old_irpt_mask AND NOT (push_bit 8 1)) s;
        (d, s) \<leftarrow> sd_issue_command Pl d SET_BUS_WIDTH 0x2 500000 s;
        if FAIL d then do {
          s \<leftarrow> kprintln Pl ''SD: switch to 4-bit data mode failed'' [] s;
          Some (d, s)
        }
        else do {
          (control0, s) \<leftarrow> GET32 Pl EMMC_REGS_CONTROL0 s;
          s \<leftarrow> PUT32 Pl EMMC_REGS_CONTROL0 (control0 OR 0x2) s;
          s \<leftarrow> PUT32 Pl EMMC_REGS_IRPT_MASK old_irpt_mask s;
          Some (d, s)
        }
      }
      else Some (d, s))"

definition init_bus_width ::
    "'h platform \<Rightarrow> emmc_block_dev \<Rightarrow> 'h kstate \<Rightarrow> (unit flow \<times> emmc_block_dev \<times> 'h kstate) option" where
  "init_bus_width Pl d s = do {
     (d, s) \<leftarrow> switch_bus_width Pl d s;
     s \<leftarrow> PUT32 Pl EMMC_REGS_INTERRUPT 0xffffffff s;
     Some (Go (), d, s)
   }"

section \<open>The whole initialisation\<close>

definition init_card ::
    "'h platform \<Rightarrow> u32 \<Rightarrow> emmc_block_dev \<Rightarrow> 'h kstate \<Rightarrow> (unit flow \<times> emmc_block_dev \<times> 'h kstate) option" where
  "init_card Pl base d s =
     and_then (init_identify Pl d s) (\<lambda>v2_later d s.
     and_then (init_check_sdio Pl d s) (\<lambda>_ d s.
     and_then (init_op_cond Pl v2_later d s) (\<lambda>_ d s.
     and_then (init_voltage Pl base d s) (\<lambda>_ d s.
     and_then (init_cid Pl d s) (\<lambda>dev_id d s.
     and_then (init_rca Pl dev_id d s) (\<lambda>_ d s.
     and_then (init_blocklen Pl d s) (\<lambda>_ d s.
     and_then (init_read_scr Pl d s) (\<lambda>_ d s.
     init_bus_width Pl d s))))))))"

text \<open>
  The body for a non-null \<open>dev\<close>. The result holds what \<open>*dev\<close> points to
  afterwards: the structure is visible to the caller on every path when \<open>*dev\<close> was
  not null, and otherwise only when the function ends without a recursive call.
\<close>

partial_function (option) sd_card_init_dev ::
    "'h platform \<Rightarrow> emmc_block_dev option \<Rightarrow> 'h kstate \<Rightarrow> (int \<times> emmc_block_dev option \<times> 'h kstate) option" where
  "sd_card_init_dev Pl dev s = do {
     (f, s) \<leftarrow> init_controller Pl s;
     case f of
       Ret e \<Rightarrow> Some (e, dev, s)
     | Retry \<Rightarrow> None
     | Go _ \<Rightarrow> do {
         (f, s) \<leftarrow> init_clock Pl s;
         case f of
           Ret e \<Rightarrow> Some (e, dev, s)
         | Retry \<Rightarrow> None
         | Go base \<Rightarrow> do {
             (d, s) \<leftarrow> init_device Pl dev base s;
             (f, d, s) \<leftarrow> init_card Pl base d s;
             case f of
               Ret e \<Rightarrow> Some (e, (if dev = None then None else Some d), s)
             | Retry \<Rightarrow> do {
                 (e, dev', s) \<leftarrow> sd_card_init_dev Pl (Some d) s;
                 Some (e, (if dev = None then None else dev'), s)
               }
             | Go _ \<Rightarrow> Some (0, Some d, s)
           }
       }
   }"

declare sd_card_init_dev.simps [code]

text \<open>\<open>None\<close> for a null pointer \<open>dev\<close>; \<open>Some None\<close> for a null \<open>*dev\<close>.\<close>

definition sd_card_init ::
    "'h platform \<Rightarrow> emmc_block_dev option option \<Rightarrow> 'h kstate \<Rightarrow>
     (int \<times> emmc_block_dev option option \<times> 'h kstate) option" where
  "sd_card_init Pl devp s =
     (case devp of
        None \<Rightarrow> do {
          s \<leftarrow> kprintf Pl ''EMMC: nullptr passed as argument!'' [] s;
          Some (-1, None, s)
        }
      | Some dev \<Rightarrow> do {
          (r, dev, s) \<leftarrow> sd_card_init_dev Pl dev s;
          Some (r, Some dev, s)
        })"

section \<open>What the initialisation leaves alone\<close>

text \<open>What holds of the device structure from its creation on.\<close>

definition dev_set :: "emmc_block_dev \<Rightarrow> bool" where
  "dev_set d \<longleftrightarrow> use_sdma d = 0 \<and> read_fn (bd d) = Fn_sd_read \<and> write_fn (bd d) = Fn_sd_write \<and>
     bd_block_size (bd d) = 512"

text \<open>The block size is 0 until the card accepts its block length; a failed initialisation leaves it so.\<close>

definition dev_ok :: "emmc_block_dev \<Rightarrow> bool" where
  "dev_ok d \<longleftrightarrow> dev_set d \<and> (block_size d = 0 \<or> block_size d = 512)"

lemma dev_ok_config: "config d' = config d \<Longrightarrow> dev_ok d' = dev_ok d" "config d' = config d \<Longrightarrow> dev_set d' = dev_set d"
  by (simp_all add: dev_ok_def dev_set_def config_def)

lemma dev_ok_set: "dev_ok d \<Longrightarrow> dev_set d"
  by (simp add: dev_ok_def)

lemma dev_set_update [simp]:
  "dev_set (d\<lparr>failed_voltage_switch := x\<rparr>) = dev_set d" "dev_set (d\<lparr>card_rca := u\<rparr>) = dev_set d"
  "dev_set (d\<lparr>card_ocr := u\<rparr>) = dev_set d" "dev_set (d\<lparr>card_supports_sdhc := u\<rparr>) = dev_set d"
  "dev_set (d\<lparr>card_supports_18v := u\<rparr>) = dev_set d" "dev_set (d\<lparr>block_size := n\<rparr>) = dev_set d"
  "dev_set (d\<lparr>scr := p\<rparr>) = dev_set d" "dev_set (d\<lparr>buf := p\<rparr>) = dev_set d"
  "dev_set (d\<lparr>blocks_to_transfer := x\<rparr>) = dev_set d"
  "dev_set (d\<lparr>bd := (bd d)\<lparr>device_id := p, dev_id_len := n\<rparr>\<rparr>) = dev_set d"
  by (simp_all add: dev_set_def)

lemma dev_ok_update [simp]:
  "dev_ok (d\<lparr>failed_voltage_switch := x\<rparr>) = dev_ok d" "dev_ok (d\<lparr>card_rca := u\<rparr>) = dev_ok d"
  "dev_ok (d\<lparr>card_ocr := u\<rparr>) = dev_ok d" "dev_ok (d\<lparr>card_supports_sdhc := u\<rparr>) = dev_ok d"
  "dev_ok (d\<lparr>card_supports_18v := u\<rparr>) = dev_ok d"
  "dev_ok (d\<lparr>block_size := n\<rparr>) = (dev_set d \<and> (n = 0 \<or> n = 512))"
  "dev_ok (d\<lparr>buf := p\<rparr>) = dev_ok d" "dev_ok (d\<lparr>blocks_to_transfer := x\<rparr>) = dev_ok d"
  "dev_ok (d\<lparr>bd := (bd d)\<lparr>device_id := p, dev_id_len := n\<rparr>\<rparr>) = dev_ok d"
  by (simp_all add: dev_ok_def)

named_theorems stage_rules

text \<open>
  What a stage guarantees: it never returns 0 early, and if it goes on, the device
  satisfies \<open>R\<close>.
\<close>

abbreviation stage_post ::
    "addr set \<Rightarrow> 'h kstate \<Rightarrow> (emmc_block_dev \<Rightarrow> bool) \<Rightarrow> 'a flow \<times> emmc_block_dev \<times> 'h kstate \<Rightarrow> bool" where
  "stage_post W s0 R \<equiv>
     \<lambda>(f, d, t). frame W s0 t \<and> dev_ok d \<and> f \<noteq> Ret 0 \<and> (\<forall>x. f = Go x \<longrightarrow> R d)"

lemma command_stage [stage_rules]:
  assumes "confined W Pl" "frame W s0 s" "dev_ok d" "\<not> moves_data c \<or> data_ok W d"
  shows "wlp (sd_issue_command Pl d c argument timeout s)
     (\<lambda>(d', t). frame W s0 t \<and> dev_ok d' \<and> block_size d' = block_size d \<and> config d' = config d)"
  by (rule wlp_mono [OF sd_issue_command_frame [OF assms(1,2,4)]])
    (use assms(3) in \<open>auto dest: dev_ok_config config_same(3)\<close>)

lemma control_command_frame:
  "confined W Pl \<Longrightarrow> frame W s0 s \<Longrightarrow> data_ok W d \<Longrightarrow> dev_set d \<Longrightarrow>
   wlp (sd_issue_command Pl d c argument timeout s)
     (\<lambda>(d', t). frame W s0 t \<and> dev_set d' \<and> scr d' = scr d)"
  by (rule wlp_mono [OF sd_issue_command_frame]) (auto dest: dev_ok_config config_same(7))

lemma wlp_and_thenI [stage_rules]:
  assumes "wlp m (stage_post W s0 R)"
    and "\<And>x d s. frame W s0 s \<Longrightarrow> dev_ok d \<Longrightarrow> R d \<Longrightarrow> wlp (k x d s) (stage_post W s0 R')"
  shows "wlp (and_then m k) (stage_post W s0 R')"
  unfolding and_then_def
proof (rule wlp_bindI [OF assms(1)], goal_cases)
  case (1 fdt)
  obtain f d t where fdt: "fdt = (f, d, t)" by (cases fdt)
  show ?case using 1 assms(2) [of t d] by (cases f) (auto simp: fdt)
qed

lemma init_controller_frame [frame_rules]:
  "confined W Pl \<Longrightarrow> mail_in W Pl \<Longrightarrow> frame W s0 s \<Longrightarrow>
   wlp (init_controller Pl s) (\<lambda>(f, t). frame W s0 t \<and> f \<noteq> Ret 0)"
  unfolding init_controller_def
  by (rule wlp_let_step wlp_intros frame_rules wlp_bindI | assumption | simp)+

lemma init_clock_frame [frame_rules]:
  "confined W Pl \<Longrightarrow> mail_in W Pl \<Longrightarrow> frame W s0 s \<Longrightarrow>
   wlp (init_clock Pl s) (\<lambda>(f, t). frame W s0 t \<and> f \<noteq> Ret 0)"
  unfolding init_clock_def
  by (rule wlp_let_step wlp_intros frame_rules wlp_bindI | assumption | simp)+

lemma init_device_stage [stage_rules]:
  assumes "confined W Pl" "frame W s0 s"
  shows "wlp (init_device Pl dev base s) (\<lambda>(d, t). frame W s0 t \<and> dev_ok d)"
proof (cases dev)
  case None
  then show ?thesis
    using malloc_frame [OF assms, of sizeof_emmc_block_dev]
    by (auto simp: sizeof_emmc_block_dev_def init_device_def wlp_def bind_Some_iff zero_dev_def dev_ok_def dev_set_def)
qed (use assms in \<open>simp add: init_device_def zero_dev_def dev_ok_def dev_set_def\<close>)

lemma init_identify_stage [stage_rules]:
  "confined W Pl \<Longrightarrow> frame W s0 s \<Longrightarrow> dev_ok d \<Longrightarrow>
   wlp (init_identify Pl d s) (stage_post W s0 (\<lambda>d. True))"
  unfolding init_identify_def
  by (rule wlp_let_step stage_rules wlp_intros frame_rules wlp_bindI | assumption | erule conjE |
      simp add: control_commands)+

lemma init_check_sdio_stage [stage_rules]:
  "confined W Pl \<Longrightarrow> frame W s0 s \<Longrightarrow> dev_ok d \<Longrightarrow>
   wlp (init_check_sdio Pl d s) (stage_post W s0 (\<lambda>d. True))"
  unfolding init_check_sdio_def
  by (rule wlp_let_step stage_rules wlp_intros frame_rules wlp_bindI | assumption | erule conjE |
      simp add: control_commands)+

lemma init_wait_ready_stage [stage_rules]:
  assumes "confined W Pl" "frame W s0 s" "dev_ok d"
  shows "wlp (init_wait_ready Pl v2 d s) (stage_post W s0 (\<lambda>d. True))"
proof (rule wlpI)
  fix r
  assume ret: "init_wait_ready Pl v2 d s = Some r"
  let ?P = "\<lambda>Pl v2 d s r. confined W Pl \<longrightarrow> frame W s0 s \<longrightarrow> dev_ok d \<longrightarrow>
     stage_post W s0 (\<lambda>d. True) r"
  have "?P Pl v2 d s r"
  proof (rule init_wait_ready.raw_induct [where P = ?P, OF _ ret], intro impI, goal_cases)
    case (1 rec Pl v2 d s r)
    note c = "1"(3) and f = "1"(4) and d = "1"(5)
    have rec: "wlp (rec Pl v2 d' s') (stage_post W s0 (\<lambda>d. True))"
      if "frame W s0 s'" "dev_ok d'" for d' s'
      by (rule wlpI) (use "1"(1) c that in blast)
    from "1"(2) show ?case
      by (rule wlpD [rotated])
        (rule wlp_let_step c f d rec stage_rules wlp_intros frame_rules wlp_bindI | assumption | erule conjE |
          simp add: control_commands)+
  qed
  with assms show "stage_post W s0 (\<lambda>d. True) r" by blast
qed

lemma init_op_cond_stage [stage_rules]:
  "confined W Pl \<Longrightarrow> frame W s0 s \<Longrightarrow> dev_ok d \<Longrightarrow>
   wlp (init_op_cond Pl v2 d s) (stage_post W s0 (\<lambda>d. True))"
  unfolding init_op_cond_def
  by (rule wlp_let_step stage_rules wlp_intros frame_rules wlp_bindI | assumption | erule conjE |
      simp add: control_commands)+

lemma switch_failed_stage [stage_rules]:
  "confined W Pl \<Longrightarrow> frame W s0 s \<Longrightarrow> dev_ok d \<Longrightarrow>
   wlp (switch_failed Pl d s) (stage_post W s0 (\<lambda>d. True))"
  unfolding switch_failed_def
  by (rule wlp_let_step stage_rules wlp_intros frame_rules wlp_bindI | assumption | erule conjE | simp)+

lemma init_voltage_stage [stage_rules]:
  "confined W Pl \<Longrightarrow> frame W s0 s \<Longrightarrow> dev_ok d \<Longrightarrow>
   wlp (init_voltage Pl base d s) (stage_post W s0 (\<lambda>d. True))"
  unfolding init_voltage_def
  by (rule wlp_let_step stage_rules wlp_intros frame_rules wlp_bindI | assumption | erule conjE |
      simp add: control_commands)+

lemma block_in_word:
  assumes "block_in W p 16" "k \<le> 12"
  shows "block_in W (p + k + 0) 4"
proof -
  have "k \<le> 16" using assms(2) by (rule order_trans) simp
  then have "block_in W (p + k) (16 - k)" using assms(1) by (intro block_in_drop)
  moreover have "4 \<le> 16 - k" using assms(2) by (simp add: word_le_nat_alt unat_sub_if')
  ultimately show ?thesis using block_in_take by auto
qed

lemma frame_store16:
  assumes "block_in W p 16" "k \<le> 12" "frame W s0 (s\<lparr>kmem := m\<rparr>)"
  shows "frame W s0 (s\<lparr>kmem := store32 m (p + k) v\<rparr>)"
  using frame_write_word [OF assms(3) block_in_word [OF assms(1,2)], of v] by simp

lemma init_cid_stage [stage_rules]:
  "confined W Pl \<Longrightarrow> frame W s0 s \<Longrightarrow> dev_ok d \<Longrightarrow>
   wlp (init_cid Pl d s) (stage_post W s0 (\<lambda>d. True))"
  unfolding init_cid_def
  by (rule wlp_let_step stage_rules wlp_intros frame_rules frame_store16 wlp_bindI | assumption | erule conjE |
      simp add: control_commands del: add_0_right)+

lemma give_up_stage [stage_rules]:
  "confined W Pl \<Longrightarrow> frame W s0 s \<Longrightarrow> dev_ok d \<Longrightarrow>
   wlp (give_up Pl msg as ids d s) (stage_post W s0 R)"
  unfolding give_up_def
  by (cases ids; simp) (rule wlp_let_step stage_rules wlp_intros frame_rules wlp_bindI | assumption |
      erule conjE | simp)+

lemma init_rca_stage [stage_rules]:
  "confined W Pl \<Longrightarrow> frame W s0 s \<Longrightarrow> dev_ok d \<Longrightarrow>
   wlp (init_rca Pl dev_id d s) (stage_post W s0 (\<lambda>d. True))"
  unfolding init_rca_def
  by (rule wlp_let_step stage_rules wlp_intros frame_rules wlp_bindI | assumption | erule conjE |
      simp add: control_commands)+

lemma init_blocklen_stage [stage_rules]:
  "confined W Pl \<Longrightarrow> frame W s0 s \<Longrightarrow> dev_ok d \<Longrightarrow>
   wlp (init_blocklen Pl d s) (stage_post W s0 (\<lambda>d. block_size d = 512))"
  unfolding init_blocklen_def
  by (rule wlp_let_step stage_rules wlp_intros frame_rules wlp_bindI | assumption | erule conjE |
      simp add: control_commands dev_ok_set)+

text \<open>Reading the configuration register goes to a block of the allocator, hence stays in \<open>W\<close>.\<close>

lemma scr_data_ok:
  assumes "block_in W p 16" "dev_set d" "buf d = p" "block_size d = 8" "blocks_to_transfer d = 1"
  shows "data_ok W d"
  using assms block_in_take [of W p 16 8]
  by (simp add: data_ok_def data_bytes_def dev_set_def)

lemma init_read_scr_stage [stage_rules]:
  assumes "confined W Pl" "frame W s0 s" "dev_ok d"
  shows "wlp (init_read_scr Pl d s) (stage_post W s0 (\<lambda>d. block_size d = 512))"
proof -
  have scr: "wlp (sd_issue_command Pl (d\<lparr>scr := p, buf := p, block_size := 8, blocks_to_transfer := 1\<rparr>) SEND_SCR 0 500000 t)
      (\<lambda>(d', t). frame W s0 t \<and> dev_set d' \<and> scr d' = p)" if "frame W s0 t" "block_in W p 16" for p t
  proof -
    let ?d = "d\<lparr>scr := p, buf := p, block_size := 8, blocks_to_transfer := 1\<rparr>"
    have ok: "dev_set ?d" using assms(3) by (simp add: dev_ok_def)
    then have "data_ok W ?d" using that(2) by (intro scr_data_ok) simp_all
    from control_command_frame [OF assms(1) that(1) this ok] show ?thesis by simp
  qed
  have "sizeof_sd_scr = 16" by (simp add: sizeof_sd_scr_def)
  show ?thesis
    unfolding init_read_scr_def Let_def \<open>sizeof_sd_scr = 16\<close>
    by (rule assms scr frame_rules stage_rules wlp_intros frame_store16 wlp_bindI | assumption | erule conjE |
        simp add: assms(3))+
qed

lemma switch_bus_width_stage [stage_rules]:
  "confined W Pl \<Longrightarrow> frame W s0 s \<Longrightarrow> dev_ok d \<Longrightarrow>
   wlp (switch_bus_width Pl d s) (\<lambda>(d', t). frame W s0 t \<and> dev_ok d' \<and> block_size d' = block_size d)"
  unfolding switch_bus_width_def
  by (rule wlp_let_step stage_rules wlp_intros frame_rules wlp_bindI | assumption | erule conjE |
      simp add: control_commands)+

lemma init_bus_width_stage [stage_rules]:
  "confined W Pl \<Longrightarrow> frame W s0 s \<Longrightarrow> dev_ok d \<Longrightarrow> block_size d = 512 \<Longrightarrow>
   wlp (init_bus_width Pl d s) (stage_post W s0 (\<lambda>d. block_size d = 512))"
  unfolding init_bus_width_def
  by (rule wlp_let_step stage_rules wlp_intros frame_rules wlp_bindI | assumption | erule conjE |
      simp add: control_commands)+

lemma init_card_stage [stage_rules]:
  "confined W Pl \<Longrightarrow> frame W s0 s \<Longrightarrow> dev_ok d \<Longrightarrow>
   wlp (init_card Pl base d s) (stage_post W s0 (\<lambda>d. block_size d = 512))"
  unfolding init_card_def
  by (rule stage_rules | assumption | erule conjE)+

lemma sd_card_init_dev_stage [stage_rules]:
  assumes "confined W Pl" "mail_in W Pl" "frame W s0 s"
  shows "wlp (sd_card_init_dev Pl dev s)
     (\<lambda>(r, dev', t). frame W s0 t \<and>
        (\<forall>d. dev' = Some d \<longrightarrow> (dev' = dev \<and> r \<noteq> 0) \<or> (dev_ok d \<and> (r = 0 \<longrightarrow> block_size d = 512))))"
proof (rule wlpI)
  fix r
  assume ret: "sd_card_init_dev Pl dev s = Some r"
  let ?P = "\<lambda>Pl dev s r. confined W Pl \<longrightarrow> mail_in W Pl \<longrightarrow> frame W s0 s \<longrightarrow>
     (case r of (e, dev', t) \<Rightarrow> frame W s0 t \<and>
        (\<forall>d. dev' = Some d \<longrightarrow> (dev' = dev \<and> e \<noteq> 0) \<or> (dev_ok d \<and> (e = 0 \<longrightarrow> block_size d = 512))))"
  have "?P Pl dev s r"
  proof (rule sd_card_init_dev.raw_induct [where P = ?P, OF _ ret], intro impI, goal_cases)
    case (1 rec Pl dev s r)
    note c = "1"(3) and m = "1"(4) and f = "1"(5)
    have rec: "wlp (rec Pl (Some d) s') (\<lambda>(e, dev', t). frame W s0 t \<and>
        (\<forall>d. dev' = Some d \<longrightarrow> dev_ok d \<and> (e = 0 \<longrightarrow> block_size d = 512)))"
      if "frame W s0 s'" "dev_ok d" for d s'
      by (rule wlpI) (use "1"(1) c m that in fastforce)
    from "1"(2) show ?case
      by (rule wlpD [rotated])
        (rule c m f rec stage_rules wlp_intros frame_rules wlp_bindI | assumption | erule conjE |
          simp split: flow.split | intro conjI allI impI)+
  qed
  with assms show "case r of (e, dev', t) \<Rightarrow> frame W s0 t \<and>
      (\<forall>d. dev' = Some d \<longrightarrow> (dev' = dev \<and> e \<noteq> 0) \<or> (dev_ok d \<and> (e = 0 \<longrightarrow> block_size d = 512)))"
    by blast
qed

section \<open>Properties\<close>


text \<open>The set that a platform with constant registers may change: the buffers and one heap page.\<close>

definition card_ram :: "addr set" where
  "card_ram = {a. 0x6000 \<le> a \<and> a < 0xA000}"

lemma block_in_card_ram:
  assumes "0x6000 \<le> p" "p \<le> 0x9000" "n \<le> 0x1000"
  shows "block_in card_ram p n"
  unfolding block_in_def
proof (intro allI impI)
  fix a
  assume "in_region p n a"
  then have "unat (a - p) < 0x1000" "unat p \<le> 0x9000" "0x6000 \<le> unat p"
    using assms by (simp_all add: in_region_def word_less_nat_alt word_le_nat_alt)
  then have "unat (p + (a - p)) = unat p + unat (a - p)" by (subst unat_plus_if') simp
  then have "unat a = unat p + unat (a - p)" by simp
  with \<open>unat (a - p) < 0x1000\<close> \<open>unat p \<le> 0x9000\<close> \<open>0x6000 \<le> unat p\<close> show "a \<in> card_ram"
    by (simp add: card_ram_def word_less_nat_alt word_le_nat_alt)
qed

lemma card_confined: "confined card_ram (card_platform f)" "mail_in card_ram (card_platform f)"
  by (simp_all add: confined_def card_platform_def mail_in_def block_in_card_ram)

text \<open>On a platform whose registers all read 0 the controller's clock never becomes stable.\<close>

lemma put_message_keeps:
  "\<exists>m. put_message 0x6FE0 [a, b, c, d, e, f, g, h] s = s\<lparr>kmem := m\<rparr> \<and> m 0x5000 = kmem s 0x5000"
proof (intro exI conjI)
  show "put_message 0x6FE0 [a, b, c, d, e, f, g, h] s =
      s\<lparr>kmem := kmem (put_message 0x6FE0 [a, b, c, d, e, f, g, h] s)\<rparr>"
    by (simp add: put_message_def)
  show "kmem (put_message 0x6FE0 [a, b, c, d, e, f, g, h] s) 0x5000 = kmem s 0x5000"
    by (simp add: put_message_def set_word_def write_word_def word_addr_def)
qed

lemma card_power_cycle:
  assumes "timer_base s = TIMER_BASE"
  shows "\<exists>r m. bcm_2708_power_cycle (card_platform (\<lambda>a. 0)) s = Some (r, s\<lparr>kmem := m\<rparr>) \<and> m 0x5000 = kmem s 0x5000"
proof -
  let ?Pl = "card_platform (\<lambda>a. 0)"
  have waits: "wait_status ?Pl reg bits u = Some u" for reg bits u
    by (simp add: wait_status.simps)
  have mail: "mailbuffer_addr ?Pl = 0x6FE0" by (simp add: card_platform_def)
  have "\<exists>r. bcm_2708_power_off ?Pl u = Some (r, put_message 0x6FE0 [8 * 4, 0, MBOX_TAG_SET_POWER_STATE, 0x8, 0x8, 0x0, 0x2, 0] u)"
    "\<exists>r. bcm_2708_power_on ?Pl u = Some (r, put_message 0x6FE0 [8 * 4, 0, MBOX_TAG_SET_POWER_STATE, 0x8, 0x8, 0x0, 0x3, 0] u)" for u
    unfolding bcm_2708_power_off_def bcm_2708_power_on_def mbox_command_start_def mbox_command_wait_def mail Let_def
    by (simp_all add: waits)
  then have power: "\<exists>r m. bcm_2708_power_off ?Pl u = Some (r, u\<lparr>kmem := m\<rparr>) \<and> m 0x5000 = kmem u 0x5000"
    "\<exists>r m. bcm_2708_power_on ?Pl u = Some (r, u\<lparr>kmem := m\<rparr>) \<and> m 0x5000 = kmem u 0x5000" for u
    by (metis put_message_keeps)+
  obtain r m where "bcm_2708_power_off ?Pl s = Some (r, s\<lparr>kmem := m\<rparr>)" "m 0x5000 = kmem s 0x5000"
    using power(1) by blast
  with power(2) [of "s\<lparr>kmem := m\<rparr>"] assms show ?thesis
    by (cases "r < 0") (auto simp: bcm_2708_power_cycle_def)
qed

lemma card_init_fails:
  assumes "timer_base s = TIMER_BASE"
  shows "\<exists>m v c0 c1. sd_card_init_dev (card_platform (\<lambda>a. 0)) dev s =
       Some (-1, dev, s\<lparr>kmem := m, hci_ver := v, capabilities_0 := c0, capabilities_1 := c1\<rparr>) \<and>
     m 0x5000 = kmem s 0x5000"
proof -
  let ?Pl = "card_platform (\<lambda>a. 0)"
  have tw: "TIMEOUT_WAIT ?Pl (bits_set ?Pl reg bits) 500000 v = Some v" if "timer_base v = TIMER_BASE" for v reg bits
    by (rule card_waits(2) [where b = False]) (simp_all add: that)
  obtain r m where "bcm_2708_power_cycle ?Pl s = Some (r, s\<lparr>kmem := m\<rparr>)" "m 0x5000 = kmem s 0x5000"
    using card_power_cycle [OF assms] by blast
  with assms show ?thesis
    by (auto simp: sd_card_init_dev.simps init_controller_def length_tables tw Let_def)
qed


text \<open>
  The memory of a failed voltage switch does not survive the retry. The retry hands
  the device to \<open>sd_card_init\<close>, which clears the structure it is given, so the
  operating conditions are negotiated with the 1.8 V request again and not without it.
\<close>

theorem failed_switch_forgotten:
  assumes "init_device Pl (Some (d\<lparr>failed_voltage_switch := 1\<rparr>)) base s = Some (d', t)"
  shows "failed_voltage_switch d' = 0 \<and> acmd41_flags True d' = push_bit 30 1 OR push_bit 24 1"
  using assms by (auto simp: init_device_def zero_dev_def acmd41_flags_def)

theorem failed_switch_forgotten_witness:
  "\<exists>d' t. init_device (card_platform (\<lambda>a. 0)) (Some ((zero_dev 0x8000)\<lparr>failed_voltage_switch := 1\<rparr>)) 100000000 card_state =
     Some (d', t) \<and> acmd41_flags True d' = push_bit 30 1 OR push_bit 24 1"
proof -
  obtain d' t where r: "init_device (card_platform (\<lambda>a. 0)) (Some ((zero_dev 0x8000)\<lparr>failed_voltage_switch := 1\<rparr>)) 100000000 card_state =
     Some (d', t)" by (simp add: init_device_def Let_def)
  from failed_switch_forgotten [OF r] r show ?thesis by blast
qed

end
