(* ===== verification/Block.thy ===== *)
theory Block
  imports Machine
begin

text \<open>
  The interface \<open>struct block_device\<close> offers to a file system
  (\<open>include/fs/block.h\<close>): the function behind the \<open>read\<close> pointer. A
  reader transfers whole blocks into a buffer and returns the number of bytes as an
  \<open>int\<close>, or -1. The device structure behind the pointer is of type \<open>'d\<close>.
\<close>

type_synonym ('d, 'h) reader =
  "'h platform \<Rightarrow> 'd \<Rightarrow> addr \<Rightarrow> u64 \<Rightarrow> u32 \<Rightarrow> 'h kstate \<Rightarrow> (int \<times> 'd \<times> 'h kstate) option"

text \<open>
  The contract. \<open>env W Pl\<close> says that the surroundings of the device change RAM only
  inside \<open>W\<close>, \<open>inv\<close> is the invariant of the device structure, and \<open>bsize\<close>
  its block size.
\<close>

locale block_reader =
  fixes rd :: "('d, 'h) reader"
    and env :: "addr set \<Rightarrow> 'h platform \<Rightarrow> bool"
    and inv :: "'d \<Rightarrow> bool"
    and bsize :: "'d \<Rightarrow> u64"
  assumes env_confined: "env W Pl \<Longrightarrow> confined W Pl"
    and read_result: "rd Pl d p n b s = Some (r, d', t) \<Longrightarrow> r = -1 \<or> r = sint (ucast n :: i32)"
    and read_frame: "env W Pl \<Longrightarrow> inv d \<Longrightarrow> block_in W p n \<Longrightarrow> frame W s0 s \<Longrightarrow>
       rd Pl d p n b s = Some (r, d', t) \<Longrightarrow> frame W s0 t \<and> inv d' \<and> bsize d' = bsize d"
begin

lemma read_stage:
  assumes "env W Pl" "inv d" "block_in W p n" "frame W s0 s"
  shows "wlp (rd Pl d p n b s)
     (\<lambda>(r, d', t). frame W s0 t \<and> inv d' \<and> bsize d' = bsize d \<and> (r = -1 \<or> r = sint (ucast n :: i32)))"
  using assms by (auto simp: wlp_def dest: read_frame read_result)

end

end
