(* ===== verification/Emmc_Data.thy ===== *)
theory Emmc_Data
  imports Emmc_Init Block
begin

text \<open>
  The SD host controller driver, part 5: disposing of a device, making sure that the
  card is ready for data, and reading and writing blocks with retries.
\<close>

definition sd_card_cleanup :: "'h platform \<Rightarrow> emmc_block_dev \<Rightarrow> 'h kstate \<Rightarrow> 'h kstate option" where
  "sd_card_cleanup Pl d s = do {
     s \<leftarrow> free Pl (device_id (bd d)) s;
     s \<leftarrow> free Pl (scr d) s;
     free Pl (self d) s
   }"

text \<open>The call \<open>sd_card_init(&edev)\<close> on the device itself.\<close>

definition reinit :: "'h platform \<Rightarrow> emmc_block_dev \<Rightarrow> 'h kstate \<Rightarrow> (int \<times> emmc_block_dev \<times> 'h kstate) option" where
  "reinit Pl d s = do {
     (r, devp, s) \<leftarrow> sd_card_init Pl (Some (Some d)) s;
     Some (r, (case devp of Some (Some d') \<Rightarrow> d' | _ \<Rightarrow> d), s)
   }"

text \<open>A status command, and the state field of its answer.\<close>

definition send_status :: "'h platform \<Rightarrow> emmc_block_dev \<Rightarrow> 'h kstate \<Rightarrow> (emmc_block_dev \<times> 'h kstate) option" where
  "send_status Pl d s = sd_issue_command Pl d SEND_STATUS (push_bit 16 (card_rca d)) 500000 s"

definition card_state_of :: "emmc_block_dev \<Rightarrow> u32" where
  "card_state_of d = drop_bit 9 (last_r0 d) AND 0xf"

text \<open>The failure exits: a message, and the address forgotten so that the next call starts over.\<close>

definition drop_card ::
    "'h platform \<Rightarrow> string \<Rightarrow> u64 list \<Rightarrow> emmc_block_dev \<Rightarrow> 'h kstate \<Rightarrow> (int \<times> emmc_block_dev \<times> 'h kstate) option" where
  "drop_card Pl msg args d s = do {
     s \<leftarrow> kprintln Pl msg args s;
     Some (-1, d\<lparr>card_rca := 0\<rparr>, s)
   }"

definition recheck_state ::
    "'h platform \<Rightarrow> u32 \<Rightarrow> emmc_block_dev \<Rightarrow> 'h kstate \<Rightarrow> (int \<times> emmc_block_dev \<times> 'h kstate) option" where
  "recheck_state Pl cur_state d s =
     (if cur_state \<noteq> 4 then do {
        (d, s) \<leftarrow> send_status Pl d s;
        if FAIL d then drop_card Pl ''SD: ensure_data_mode() no response from CMD13'' [] d s
        else if card_state_of d \<noteq> 4
        then drop_card Pl ''SD: unable to initialise SD card to data mode (state %i)'' [ucast (card_state_of d)] d s
        else Some (0, d, s)
      }
      else Some (0, d, s))"

definition enter_data_mode ::
    "'h platform \<Rightarrow> emmc_block_dev \<Rightarrow> 'h kstate \<Rightarrow> (int \<times> emmc_block_dev \<times> 'h kstate) option" where
  "enter_data_mode Pl d s = do {
     (d, s) \<leftarrow> send_status Pl d s;
     if FAIL d then drop_card Pl ''SD: ensure_data_mode() error sending CMD13'' [] d s
     else do {
       let cur_state = card_state_of d;
       if cur_state = 3 then do {
         (d, s) \<leftarrow> sd_issue_command Pl d SELECT_CARD (push_bit 16 (card_rca d)) 500000 s;
         if FAIL d then drop_card Pl ''SD: ensure_data_mode() no response from CMD17'' [] d s
         else recheck_state Pl cur_state d s
       }
       else if cur_state = 5 then do {
         (d, s) \<leftarrow> sd_issue_command Pl d STOP_TRANSMISSION 0 500000 s;
         if FAIL d then drop_card Pl ''SD: ensure_data_mode() no response from CMD12'' [] d s
         else do {
           (_, s) \<leftarrow> sd_reset_dat Pl s;
           recheck_state Pl cur_state d s
         }
       }
       else if cur_state \<noteq> 4 then do {
         (r, d, s) \<leftarrow> reinit Pl d s;
         if r \<noteq> 0 then Some (r, d, s) else recheck_state Pl cur_state d s
       }
       else recheck_state Pl cur_state d s
     }
   }"

definition sd_ensure_data_mode ::
    "'h platform \<Rightarrow> emmc_block_dev \<Rightarrow> 'h kstate \<Rightarrow> (int \<times> emmc_block_dev \<times> 'h kstate) option" where
  "sd_ensure_data_mode Pl d s =
     (if card_rca d = 0 then do {
        (r, d, s) \<leftarrow> reinit Pl d s;
        if r \<noteq> 0 then Some (r, d, s) else enter_data_mode Pl d s
      }
      else enter_data_mode Pl d s)"

section \<open>Data commands\<close>

definition data_command :: "bool \<Rightarrow> emmc_block_dev \<Rightarrow> u32" where
  "data_command is_write d =
     (if is_write then
        (if sint (blocks_to_transfer d) > 1 then WRITE_MULTIPLE_BLOCK else WRITE_BLOCK)
      else
        (if sint (blocks_to_transfer d) > 1 then READ_MULTIPLE_BLOCK else READ_SINGLE_BLOCK))"

text \<open>The retry loop; the number is the attempts left, \<open>max_retries - retry_count\<close>.\<close>

fun data_attempts ::
    "'h platform \<Rightarrow> u32 \<Rightarrow> u32 \<Rightarrow> nat \<Rightarrow> emmc_block_dev \<Rightarrow> 'h kstate \<Rightarrow> (bool \<times> emmc_block_dev \<times> 'h kstate) option" where
  "data_attempts Pl command block_no 0 d s = Some (False, d, s)"
| "data_attempts Pl command block_no (Suc left) d s = do {
     let d = d\<lparr>use_sdma := 0\<rparr>;
     (d, s) \<leftarrow> sd_issue_command Pl d command block_no 5000000 s;
     if SUCCESS d then Some (True, d, s)
     else do {
       s \<leftarrow> kprintf Pl ''SD: error sending CMD%i, '' [ucast command] s;
       s \<leftarrow> kprintf Pl ''error = %08x.  '' [ucast (last_error d)] s;
       s \<leftarrow> (if left > 0 then kprintln Pl ''Retrying...'' [] s else kprintln Pl ''Giving up.'' [] s);
       data_attempts Pl command block_no left d s
     }
   }"

definition sd_do_data_command ::
    "'h platform \<Rightarrow> emmc_block_dev \<Rightarrow> bool \<Rightarrow> addr \<Rightarrow> u64 \<Rightarrow> u32 \<Rightarrow> 'h kstate \<Rightarrow>
     (int \<times> emmc_block_dev \<times> 'h kstate) option" where
  "sd_do_data_command Pl d is_write bp buf_size block_no s = do {
     let block_no = (if card_supports_sdhc d = 0 then block_no * 512 else block_no);
     if buf_size < block_size d then do {
       s \<leftarrow> kprintln Pl ''SD: do_data_command() called with buffer size (%i) less than block size (%i)''
             [buf_size, block_size d] s;
       Some (-1, d, s)
     }
     else do {
       let d = d\<lparr>blocks_to_transfer := ucast (buf_size div block_size d)\<rparr>;
       if buf_size mod block_size d \<noteq> 0 then do {
         s \<leftarrow> kprintln Pl ''SD: do_data_command() called with buffer size (%i) not an exact multiple of block size (%i)''
               [buf_size, block_size d] s;
         Some (-1, d, s)
       }
       else do {
         let d = d\<lparr>buf := bp\<rparr>;
         (ok, d, s) \<leftarrow> data_attempts Pl (data_command is_write d) block_no 3 d s;
         if \<not> ok then Some (-1, d\<lparr>card_rca := 0\<rparr>, s) else Some (0, d, s)
       }
     }
   }"

definition sd_read ::
    "'h platform \<Rightarrow> emmc_block_dev \<Rightarrow> addr \<Rightarrow> u64 \<Rightarrow> u32 \<Rightarrow> 'h kstate \<Rightarrow> (int \<times> emmc_block_dev \<times> 'h kstate) option" where
  "sd_read Pl d bp buf_size block_no s = do {
     (r, d, s) \<leftarrow> sd_ensure_data_mode Pl d s;
     if r \<noteq> 0 then Some (-1, d, s)
     else do {
       (r, d, s) \<leftarrow> sd_do_data_command Pl d False bp buf_size block_no s;
       if r < 0 then Some (-1, d, s) else Some (sint (ucast buf_size :: i32), d, s)
     }
   }"

definition sd_write ::
    "'h platform \<Rightarrow> emmc_block_dev \<Rightarrow> addr \<Rightarrow> u64 \<Rightarrow> u32 \<Rightarrow> 'h kstate \<Rightarrow> (int \<times> emmc_block_dev \<times> 'h kstate) option" where
  "sd_write Pl d bp buf_size block_no s = do {
     (r, d, s) \<leftarrow> sd_ensure_data_mode Pl d s;
     if r \<noteq> 0 then Some (-1, d, s)
     else do {
       (r, d, s) \<leftarrow> sd_do_data_command Pl d True bp buf_size block_no s;
       if r < 0 then Some (-1, d, s) else Some (sint (ucast buf_size :: i32), d, s)
     }
   }"

section \<open>What reading and writing leave alone\<close>

lemma sint_ucast_le: "nat (sint (ucast (y :: u64) :: i32)) \<le> unat y"
proof -
  have "sint (ucast y :: i32) \<le> uint (ucast y :: i32)"
    using unsigned_less [of "ucast y :: i32", where ?'a = int]
    by (simp add: sint_uint signed_take_bit_eq_take_bit_minus take_bit_int_eq_self)
  also have "uint (ucast y :: i32) = take_bit 32 (uint y)" by (simp add: unsigned_ucast_eq)
  also have "\<dots> \<le> uint y" by (simp add: take_bit_int_less_eq_self_iff)
  finally show ?thesis by (simp add: nat_le_iff)
qed

lemma blocks_fit: "nat (sint (ucast (n div k :: u64) :: i32)) * unat k \<le> unat n"
proof -
  from sint_ucast_le [of "n div k"]
  have "nat (sint (ucast (n div k) :: i32)) * unat k \<le> unat n div unat k * unat k"
    by (simp add: unat_div)
  also have "\<dots> \<le> unat n" by (rule div_times_less_eq_dividend)
  finally show ?thesis .
qed

lemma transfer_data_ok:
  assumes "block_in W p n" "dev_ok d"
  shows "data_ok W (d\<lparr>blocks_to_transfer := ucast (n div block_size d), buf := p\<rparr>)"
proof -
  let ?d = "d\<lparr>blocks_to_transfer := ucast (n div block_size d), buf := p\<rparr>"
  have le: "data_bytes ?d \<le> unat n" by (simp add: data_bytes_def blocks_fit)
  then have lt: "data_bytes ?d < 2 ^ 64" using unsigned_less [of n, where ?'a = nat] by simp
  then have "of_nat (data_bytes ?d) \<le> n"
    using le by (simp add: word_le_nat_alt unsigned_of_nat take_bit_nat_eq_self)
  with assms lt show ?thesis
    by (auto simp: data_ok_def dev_ok_def dev_set_def intro: block_in_take)
qed

text \<open>Each operation keeps to \<open>W\<close> and keeps the device's settings.\<close>

abbreviation data_post :: "addr set \<Rightarrow> 'h kstate \<Rightarrow> 'a \<times> emmc_block_dev \<times> 'h kstate \<Rightarrow> bool" where
  "data_post W s0 \<equiv> \<lambda>(r, d, t). frame W s0 t \<and> dev_ok d"

lemma reinit_stage [stage_rules]:
  assumes "confined W Pl" "mail_in W Pl" "frame W s0 s" "dev_ok d"
  shows "wlp (reinit Pl d s) (data_post W s0)"
  using sd_card_init_dev_stage [OF assms(1-3), of "Some d"] assms(4)
  by (auto simp: reinit_def sd_card_init_def wlp_def bind_Some_iff split: option.splits)

lemma drop_card_stage [stage_rules]:
  "confined W Pl \<Longrightarrow> frame W s0 s \<Longrightarrow> dev_ok d \<Longrightarrow> wlp (drop_card Pl msg args d s) (data_post W s0)"
  unfolding drop_card_def
  by (rule wlp_intros frame_rules wlp_bindI | assumption | simp)+

lemma send_status_stage [stage_rules]:
  "confined W Pl \<Longrightarrow> frame W s0 s \<Longrightarrow> dev_ok d \<Longrightarrow>
   wlp (send_status Pl d s) (\<lambda>(d', t). frame W s0 t \<and> dev_ok d')"
  unfolding send_status_def
  by (rule wlp_mono [OF command_stage]) (auto simp: control_commands)

lemma recheck_state_stage [stage_rules]:
  "confined W Pl \<Longrightarrow> frame W s0 s \<Longrightarrow> dev_ok d \<Longrightarrow> wlp (recheck_state Pl c d s) (data_post W s0)"
  unfolding recheck_state_def
  by (rule stage_rules wlp_intros wlp_bindI | assumption | erule conjE | simp)+

lemma enter_data_mode_stage [stage_rules]:
  "confined W Pl \<Longrightarrow> mail_in W Pl \<Longrightarrow> frame W s0 s \<Longrightarrow> dev_ok d \<Longrightarrow>
   wlp (enter_data_mode Pl d s) (data_post W s0)"
  unfolding enter_data_mode_def
  by (rule wlp_let_step stage_rules wlp_intros frame_rules wlp_bindI | assumption | erule conjE |
      simp add: control_commands)+

lemma sd_ensure_data_mode_stage [stage_rules]:
  "confined W Pl \<Longrightarrow> mail_in W Pl \<Longrightarrow> frame W s0 s \<Longrightarrow> dev_ok d \<Longrightarrow>
   wlp (sd_ensure_data_mode Pl d s) (data_post W s0)"
  unfolding sd_ensure_data_mode_def
  by (rule wlp_let_step stage_rules wlp_intros wlp_bindI | assumption | erule conjE | simp)+

lemma data_attempts_stage [stage_rules]:
  "confined W Pl \<Longrightarrow> frame W s0 s \<Longrightarrow> dev_ok d \<Longrightarrow> data_ok W d \<Longrightarrow>
   wlp (data_attempts Pl c b n d s) (data_post W s0)"
proof (induction n arbitrary: d s)
  case 0
  then show ?case by simp
next
  case (Suc n)
  have same: "d\<lparr>use_sdma := 0\<rparr> = d" using Suc.prems(3) by (simp add: dev_ok_def dev_set_def)
  have next_try: "wlp (data_attempts Pl c b n d' t) (data_post W s0)"
    if "frame W s0 t" "dev_ok d'" "config d' = config d" for d' t
    using Suc.IH [OF Suc.prems(1) that(1,2)] Suc.prems(4) data_ok_config [OF that(3)] by simp
  show ?case
    unfolding data_attempts.simps same Let_def
    by (rule next_try stage_rules wlp_intros frame_rules wlp_bindI Suc.prems | assumption | erule conjE |
        simp add: Suc.prems(4))+
qed

lemma sd_do_data_command_stage [stage_rules]:
  "confined W Pl \<Longrightarrow> frame W s0 s \<Longrightarrow> dev_ok d \<Longrightarrow> block_in W p n \<Longrightarrow>
   wlp (sd_do_data_command Pl d w p n b s) (data_post W s0)"
  unfolding sd_do_data_command_def Let_def
  by (rule stage_rules wlp_intros frame_rules wlp_bindI transfer_data_ok | assumption | erule conjE | simp)+

lemma sd_read_stage:
  "confined W Pl \<Longrightarrow> mail_in W Pl \<Longrightarrow> frame W s0 s \<Longrightarrow> dev_ok d \<Longrightarrow> block_in W p n \<Longrightarrow>
   wlp (sd_read Pl d p n b s) (data_post W s0)"
  unfolding sd_read_def
  by (rule stage_rules wlp_intros wlp_bindI | assumption | erule conjE | simp)+

lemma sd_write_stage:
  "confined W Pl \<Longrightarrow> mail_in W Pl \<Longrightarrow> frame W s0 s \<Longrightarrow> dev_ok d \<Longrightarrow> block_in W p n \<Longrightarrow>
   wlp (sd_write Pl d p n b s) (data_post W s0)"
  unfolding sd_write_def
  by (rule stage_rules wlp_intros wlp_bindI | assumption | erule conjE | simp)+

section \<open>The driver as a block reader\<close>

lemma sd_read_result:
  "sd_read Pl d p n b s = Some (r, d', t) \<Longrightarrow> r = -1 \<or> r = sint (ucast n :: i32)"
  by (auto simp: sd_read_def bind_Some_iff split: if_split_asm)

lemma dev_ok_block_size: "dev_ok d \<Longrightarrow> bd_block_size (bd d) = 512"
  by (simp add: dev_ok_def dev_set_def)

interpretation emmc: block_reader sd_read "\<lambda>W Pl. confined W Pl \<and> mail_in W Pl" dev_ok "\<lambda>d. bd_block_size (bd d)"
proof unfold_locales
  fix W and Pl :: "'h platform" and d p n s0 s b r d' t
  assume "confined W Pl \<and> mail_in W Pl" "dev_ok d" "block_in W p n" "frame W s0 s"
    and "sd_read Pl d p n b s = Some (r, d', t)"
  then show "frame W s0 t \<and> dev_ok d' \<and> bd_block_size (bd d') = bd_block_size (bd d)"
    using sd_read_stage [of W Pl s0 s d p n b] by (auto simp: wlp_def dev_ok_block_size)
qed (auto dest: sd_read_result)

section \<open>Outcomes\<close>

lemma recheck_state_ready:
  "recheck_state Pl c d s = Some (r, d', t) \<Longrightarrow> (c = 4 \<Longrightarrow> card_state_of d = 4 \<and> SUCCESS d) \<Longrightarrow>
   if r = 0 then card_state_of d' = 4 \<and> SUCCESS d' else r = -1 \<and> card_rca d' = 0"
  by (auto simp: recheck_state_def drop_card_def bind_Some_iff FAIL_def SUCCESS_def split: if_split_asm)

lemma enter_data_mode_ready:
  assumes "enter_data_mode Pl d s = Some (0, d', t)"
  shows "card_state_of d' = 4 \<and> SUCCESS d'"
proof -
  note ready = recheck_state_ready [where r = 0, simplified]
  show ?thesis
    using assms
    by (auto simp: enter_data_mode_def drop_card_def bind_Some_iff FAIL_def SUCCESS_def Let_def
        split: if_split_asm dest: ready)
qed


lemma data_attempts_step:
  assumes "data_attempts Pl c b (Suc n) d s = Some (ok, d', t)"
  obtains "SUCCESS d'" "ok"
  | d1 s1 where "\<not> SUCCESS d1" "data_attempts Pl c b n d1 s1 = Some (ok, d', t)"
  using assms by (auto simp: bind_Some_iff Let_def split: if_split_asm)

lemma data_attempts_outcome:
  assumes "data_attempts Pl c b n d s = Some (ok, d', t)" "0 < n \<or> \<not> SUCCESS d"
  shows "ok = SUCCESS d'"
  using assms
proof (induction n arbitrary: d s)
  case (Suc n)
  from Suc.prems(1) show ?case by (rule data_attempts_step) (use Suc.IH in auto)
qed simp

text \<open>
  C2: what the result of a data command means. It is 0 exactly when the last command
  succeeded. It is -1 without any command, the card's address kept, when the buffer
  is smaller than a block or not a whole number of blocks; and it is -1 with the address
  forgotten, so that the next call initialises the card again, when the command was still
  failing at the last of the attempts.
\<close>

theorem data_command_result:
  assumes "sd_do_data_command Pl d w p n b s = Some (r, d', t)"
  shows "(r = 0 \<and> SUCCESS d' \<and> block_size d \<le> n \<and> n mod block_size d = 0) \<or>
     (r = -1 \<and> (n < block_size d \<or> n mod block_size d \<noteq> 0) \<and> card_rca d' = card_rca d \<and>
        kprintln Pl (if n < block_size d
          then ''SD: do_data_command() called with buffer size (%i) less than block size (%i)''
          else ''SD: do_data_command() called with buffer size (%i) not an exact multiple of block size (%i)'')
          [n, block_size d] s = Some t) \<or>
     (r = -1 \<and> block_size d \<le> n \<and> n mod block_size d = 0 \<and> \<not> SUCCESS d' \<and> card_rca d' = 0)"
proof -
  have ok: "e = SUCCESS d1" if "data_attempts Pl c b' 3 d0 s0 = Some (e, d1, s1)" for c b' d0 s0 e d1 s1
    using data_attempts_outcome [OF that] by simp
  show ?thesis
  proof (cases "block_size d \<le> n \<and> n mod block_size d = 0")
    case True
    with assms show ?thesis
      by (auto simp: sd_do_data_command_def Let_def bind_Some_iff SUCCESS_def dest: ok split: if_split_asm)
  next
    case False
    with assms show ?thesis
      by (auto simp: sd_do_data_command_def Let_def bind_Some_iff not_le split: if_split_asm)
  qed
qed


section \<open>Runs of a card in the transfer state\<close>

lemma ready_card_status:
  assumes "timer_base s = TIMER_BASE" "card_removal d = 0" "blocks_to_transfer d = 0"
  shows "\<exists>d'. send_status (card_platform ready_card) d s = Some (d', s) \<and> SUCCESS d' \<and> card_state_of d' = 4 \<and>
     card_removal d' = 0 \<and> config d' = config d"
  using assms
  by (simp add: send_status_def sd_issue_command_def table_entry_def sd_commands_def cmd_defs
      sd_issue_command_int_def sd_wait_data_line_def sd_get_response_def sd_finish_def SUCCESS_def card_state_of_def)

text \<open>Moving a block to or from this card returns, whatever the words are.\<close>

lemma card_transfer_words:
  assumes "unat n + 4 * k = unat bsize"
  shows "\<exists>t. transfer_words (card_platform f) w bsize n p s = Some (p + of_nat (4 * k), t) \<and> timer_base t = timer_base s"
  using assms
proof (induction k arbitrary: n p s)
  case 0
  then have "n = bsize" by (simp add: word_unat_eq_iff)
  then show ?case by (simp add: transfer_words.simps)
next
  case (Suc k)
  have n: "n < bsize" "unat (n + 4) = unat n + 4"
    using Suc.prems unsigned_less [of bsize, where ?'a = nat] by (simp_all add: word_less_nat_alt unat_plus_if')
  from Suc.IH [of "n + 4" "p + 4"] Suc.prems n(2)
  have "\<exists>t. transfer_words (card_platform f) w bsize (n + 4) (p + 4) u = Some (p + 4 + of_nat (4 * k), t) \<and>
     timer_base t = timer_base u" for u by simp
  from this [of s] this [of "s\<lparr>kmem := write_word (f EMMC_REGS_DATA) p 0 (kmem s)\<rparr>"] n(1) show ?case
    by (subst transfer_words.simps) (auto simp: Let_def algebra_simps)
qed

definition ready_dev :: emmc_block_dev where
  "ready_dev = (zero_dev 0x8000)\<lparr>card_rca := 1, card_supports_sdhc := 1, block_size := 512,
     bd := (bd (zero_dev 0x8000))\<lparr>read_fn := Fn_sd_read, write_fn := Fn_sd_write, bd_block_size := 512\<rparr>\<rparr>"

lemma ready_ensured:
  "\<exists>d t. sd_ensure_data_mode (card_platform ready_card) ready_dev card_state = Some (0, d, t) \<and> t = card_state \<and>
     card_removal d = 0 \<and> config d = config ready_dev"
proof -
  obtain d where "send_status (card_platform ready_card) ready_dev card_state = Some (d, card_state)" "SUCCESS d"
    "card_state_of d = 4" "card_removal d = 0" "config d = config ready_dev"
    using ready_card_status [of card_state ready_dev] by (auto simp: card_state_def ready_dev_def zero_dev_def)
  then show ?thesis
    by (simp add: sd_ensure_data_mode_def enter_data_mode_def recheck_state_def ready_dev_def zero_dev_def FAIL_def SUCCESS_def)
qed


text \<open>Reading one block from it.\<close>

lemma ready_single_block:
  assumes "timer_base s = TIMER_BASE" "card_removal d = 0" "blocks_to_transfer d = 1" "use_sdma d = 0" "block_size d = 512"
  shows "\<exists>d' t. sd_issue_command (card_platform ready_card) d READ_SINGLE_BLOCK b 5000000 s = Some (d', t) \<and> SUCCESS d'"
proof -
  obtain u where u: "transfer_words (card_platform ready_card) False 512 0 (buf d) s = Some (buf d + 512, u)"
    "timer_base u = TIMER_BASE"
    using card_transfer_words [of 0 128 512 ready_card False "buf d" s] assms(1) by auto
  have tw: "TIMEOUT_WAIT (card_platform ready_card) (bits_set (card_platform ready_card) reg bits) 5000000 v = Some v"
    if "timer_base v = TIMER_BASE" for v reg bits
    by (rule card_waits(2) [where b = "ready_card reg AND bits \<noteq> 0"]) (simp_all add: that)
  show ?thesis
    using assms
    by (simp add: sd_issue_command_def table_entry_def sd_commands_def cmd_defs sd_issue_command_int_def
        sd_wait_data_line_def sd_get_response_def sd_finish_def sd_data_phase_def transfer_blocks.simps tw u
        sd_wait_transfer_def SUCCESS_def)
qed

lemma ready_block_command:
  assumes "timer_base s = TIMER_BASE" "card_removal d = 0" "config d = config ready_dev"
  shows "\<exists>d' t. sd_do_data_command (card_platform ready_card) d False 0x9000 512 b s = Some (0, d', t)"
proof -
  note d = config_same [OF assms(3)]
  let ?d = "d\<lparr>blocks_to_transfer := 1, buf := 0x9000, use_sdma := 0\<rparr>"
  obtain d' t where r: "sd_issue_command (card_platform ready_card) ?d READ_SINGLE_BLOCK b 5000000 s = Some (d', t)"
    "SUCCESS d'"
    using ready_single_block [of s ?d b] assms(1,2) d(3) by (auto simp: ready_dev_def)
  then show ?thesis
    using d(3,8) by (simp add: sd_do_data_command_def ready_dev_def zero_dev_def data_command_def numeral_3_eq_3 Let_def)
qed

theorem data_command_result_witness:
  "\<exists>d' t. sd_do_data_command (card_platform ready_card) ready_dev False 0x9000 512 7 card_state = Some (0, d', t) \<and> SUCCESS d'"
proof -
  obtain d' t where r: "sd_do_data_command (card_platform ready_card) ready_dev False 0x9000 512 7 card_state = Some (0, d', t)"
    using ready_block_command [of card_state ready_dev 7] by (auto simp: card_state_def ready_dev_def zero_dev_def)
  from data_command_result [OF r] r show ?thesis by auto
qed


end
