(* ===== verification/Printf.thy ===== *)
theory Printf
  imports Machine
begin

text \<open>
  The formatted output of \<open>src/lib/io/printf.c\<close>. A format string is the list of its
  bytes up to the terminator, a pointer into it a suffix of that list; the arguments are
  the 64-bit slots of the variable argument list, and reading past them has no defined
  result (\<open>None\<close>). The output function is a parameter, called once for each character.
  A count of type \<open>size_t\<close> is a 64-bit word; an \<open>int\<close> result is its 32 bits.
\<close>

type_synonym 'h putc_fun = "u32 \<Rightarrow> 'h kstate \<Rightarrow> 'h kstate option"
type_synonym va_list = "u64 list"

abbreviation c8 :: "char \<Rightarrow> byte" where "c8 c \<equiv> of_char c"
abbreviation c32 :: "char \<Rightarrow> u32" where "c32 c \<equiv> of_char c"

definition literal :: "string \<Rightarrow> byte list" where
  "literal s = map of_char s"

definition cur :: "byte list \<Rightarrow> byte" where
  "cur s = (case s of [] \<Rightarrow> 0 | c # _ \<Rightarrow> c)"

fun str_contains :: "byte list \<Rightarrow> byte \<Rightarrow> bool" where
  "str_contains [] c = False"
| "str_contains (x # xs) c = (if x = c then True else str_contains xs c)"

definition is_digit :: "byte \<Rightarrow> bool" where
  "is_digit c = str_contains (literal ''0123456789'') c"

section \<open>Format specifiers\<close>

datatype printf_specifier =
    PRINTF_SPECIFIER_INT
  | PRINTF_SPECIFIER_UNSIGNED_INT
  | PRINTF_SPECIFIER_UNSIGNED_OCTAL
  | PRINTF_SPECIFIER_HEX_LOWER
  | PRINTF_SPECIFIER_HEX_UPPER
  | PRINTF_SPECIFIER_CHAR
  | PRINTF_SPECIFIER_STRING
  | PRINTF_SPECIFIER_POINTER
  | PRINTF_SPECIFIER_GET_NCHARS
  | PRINTF_SPECIFIER_PERCENT

datatype printf_length =
    PRINTF_LENGTH_DEFAULT
  | PRINTF_LENGTH_SHORT2
  | PRINTF_LENGTH_SHORT
  | PRINTF_LENGTH_LONG
  | PRINTF_LENGTH_LONG2
  | PRINTF_LENGTH_LONGEST
  | PRINTF_LENGTH_SIZE
  | PRINTF_LENGTH_PTRDIFF
  | PRINTF_LENGTH_LONGDBL

definition PRINTF_FLAGS_NONE :: u32 where "PRINTF_FLAGS_NONE = 0"
definition PRINTF_FLAGS_LEFT_JUSTIFY :: u32 where "PRINTF_FLAGS_LEFT_JUSTIFY = push_bit 0 1"
definition PRINTF_FLAGS_PLUS_OR_MINUS :: u32 where "PRINTF_FLAGS_PLUS_OR_MINUS = push_bit 1 1"
definition PRINTF_FLAGS_SPACE_IF_NO_SIGN :: u32 where "PRINTF_FLAGS_SPACE_IF_NO_SIGN = push_bit 2 1"
definition PRINTF_FLAGS_PRECEDING_ID :: u32 where "PRINTF_FLAGS_PRECEDING_ID = push_bit 3 1"
definition PRINTF_FLAGS_LEFTPAD_ZEROES :: u32 where "PRINTF_FLAGS_LEFTPAD_ZEROES = push_bit 4 1"

definition PRINTF_ITEMS_NONE :: u32 where "PRINTF_ITEMS_NONE = 0"
definition PRINTF_ITEM_FLAGS :: u32 where "PRINTF_ITEM_FLAGS = push_bit 0 1"
definition PRINTF_ITEM_WIDTH :: u32 where "PRINTF_ITEM_WIDTH = push_bit 1 1"
definition PRINTF_ITEM_PRECISION :: u32 where "PRINTF_ITEM_PRECISION = push_bit 2 1"
definition PRINTF_ITEM_LENGTH :: u32 where "PRINTF_ITEM_LENGTH = push_bit 3 1"

lemmas printf_flag_defs = PRINTF_FLAGS_NONE_def PRINTF_FLAGS_LEFT_JUSTIFY_def PRINTF_FLAGS_PLUS_OR_MINUS_def
  PRINTF_FLAGS_SPACE_IF_NO_SIGN_def PRINTF_FLAGS_PRECEDING_ID_def PRINTF_FLAGS_LEFTPAD_ZEROES_def

record printf_format =
  specifier :: printf_specifier
  flags :: u32
  items :: u32
  width_as_arg :: bool
  precision_as_arg :: bool
  width :: u32
  precision :: u32
  length_mod :: printf_length

section \<open>Parsing a format\<close>

definition flag_of :: "byte \<Rightarrow> u32" where
  "flag_of c =
     (if c = c8 CHR ''-'' then PRINTF_FLAGS_LEFT_JUSTIFY
      else if c = c8 CHR ''+'' then PRINTF_FLAGS_PLUS_OR_MINUS
      else if c = c8 CHR '' '' then PRINTF_FLAGS_SPACE_IF_NO_SIGN
      else if c = c8 CHR ''#'' then PRINTF_FLAGS_PRECEDING_ID
      else if c = c8 CHR ''0'' then PRINTF_FLAGS_LEFTPAD_ZEROES
      else 0)"

fun parse_flags_loop :: "byte list \<Rightarrow> printf_format \<Rightarrow> byte list \<times> printf_format" where
  "parse_flags_loop [] f = ([], f)"
| "parse_flags_loop (c # s) f =
     (if str_contains (literal ''-+ #0'') c
      then parse_flags_loop s (f\<lparr>flags := flags f OR flag_of c\<rparr>)
      else (c # s, f))"

definition printf_parse_flags :: "byte list \<Rightarrow> printf_format \<Rightarrow> byte list \<times> printf_format" where
  "printf_parse_flags s f =
     (if str_contains (literal ''-+ #0'') (cur s)
      then parse_flags_loop s (f\<lparr>items := items f OR PRINTF_ITEM_FLAGS\<rparr>)
      else (s, f))"

fun parse_width_loop :: "byte list \<Rightarrow> printf_format \<Rightarrow> byte list \<times> printf_format" where
  "parse_width_loop [] f = ([], f)"
| "parse_width_loop (c # s) f =
     (if is_digit c then parse_width_loop s (f\<lparr>width := 10 * width f + ucast c - c32 CHR ''0''\<rparr>)
      else (c # s, f))"

definition printf_parse_width :: "byte list \<Rightarrow> printf_format \<Rightarrow> byte list \<times> printf_format" where
  "printf_parse_width s f =
     (if \<not> (cur s = c8 CHR ''*'' \<or> is_digit (cur s)) then (s, f)
      else
        (let f = f\<lparr>items := items f OR PRINTF_ITEM_WIDTH\<rparr>
         in if cur s = c8 CHR ''*'' then (tl s, f\<lparr>width_as_arg := True\<rparr>)
            else parse_width_loop s f))"

fun parse_precision_loop :: "byte list \<Rightarrow> printf_format \<Rightarrow> byte list \<times> printf_format" where
  "parse_precision_loop [] f = ([], f)"
| "parse_precision_loop (c # s) f =
     (if c = c8 CHR ''*'' \<or> is_digit c then
        parse_precision_loop s
          (if c = c8 CHR ''*'' then f\<lparr>precision_as_arg := True\<rparr>
           else f\<lparr>precision := 10 * precision f + ucast c - c32 CHR ''0''\<rparr>)
      else (c # s, f))"

definition printf_parse_precision :: "byte list \<Rightarrow> printf_format \<Rightarrow> byte list \<times> printf_format" where
  "printf_parse_precision s f =
     (if cur s = c8 CHR ''.''
      then parse_precision_loop (tl s) (f\<lparr>items := items f OR PRINTF_ITEM_PRECISION\<rparr>)
      else (s, f))"

definition printf_parse_length :: "byte list \<Rightarrow> printf_format \<Rightarrow> byte list \<times> printf_format" where
  "printf_parse_length s f =
     (if str_contains (literal ''hljztL'') (cur s) then
        (let f = f\<lparr>items := items f OR PRINTF_ITEM_LENGTH\<rparr>;
             (s, f) =
               (if cur s = c8 CHR ''h'' then
                  (if cur (tl s) = c8 CHR ''h'' then (tl s, f\<lparr>length_mod := PRINTF_LENGTH_SHORT2\<rparr>)
                   else (s, f\<lparr>length_mod := PRINTF_LENGTH_SHORT\<rparr>))
                else if cur s = c8 CHR ''l'' then
                  (if cur (tl s) = c8 CHR ''l'' then (tl s, f\<lparr>length_mod := PRINTF_LENGTH_LONG2\<rparr>)
                   else (s, f\<lparr>length_mod := PRINTF_LENGTH_LONG\<rparr>))
                else if cur s = c8 CHR ''j'' then (s, f\<lparr>length_mod := PRINTF_LENGTH_LONGEST\<rparr>)
                else if cur s = c8 CHR ''z'' then (s, f\<lparr>length_mod := PRINTF_LENGTH_SIZE\<rparr>)
                else if cur s = c8 CHR ''t'' then (s, f\<lparr>length_mod := PRINTF_LENGTH_PTRDIFF\<rparr>)
                else (s, f\<lparr>length_mod := PRINTF_LENGTH_LONGDBL\<rparr>))
         in (tl s, f))
      else (s, f))"

definition specifier_of :: "byte \<Rightarrow> printf_specifier" where
  "specifier_of c =
     (if c = c8 CHR ''d'' \<or> c = c8 CHR ''i'' then PRINTF_SPECIFIER_INT
      else if c = c8 CHR ''u'' then PRINTF_SPECIFIER_UNSIGNED_INT
      else if c = c8 CHR ''o'' then PRINTF_SPECIFIER_UNSIGNED_OCTAL
      else if c = c8 CHR ''x'' then PRINTF_SPECIFIER_HEX_LOWER
      else if c = c8 CHR ''X'' then PRINTF_SPECIFIER_HEX_UPPER
      else if c = c8 CHR ''c'' then PRINTF_SPECIFIER_CHAR
      else if c = c8 CHR ''s'' then PRINTF_SPECIFIER_STRING
      else if c = c8 CHR ''p'' then PRINTF_SPECIFIER_POINTER
      else if c = c8 CHR ''n'' then PRINTF_SPECIFIER_GET_NCHARS
      else if c = c8 CHR ''%'' then PRINTF_SPECIFIER_PERCENT
      else PRINTF_SPECIFIER_INT)"

definition printf_parse_specifier :: "byte list \<Rightarrow> printf_format \<Rightarrow> byte list \<times> printf_format" where
  "printf_parse_specifier s f =
     (if str_contains (literal ''diuoxXfFeEgGaAcspn%'') (cur s)
      then (tl s, f\<lparr>specifier := specifier_of (cur s)\<rparr>)
      else (s, f))"

definition default_format :: printf_format where
  "default_format = \<lparr>specifier = PRINTF_SPECIFIER_INT, flags = PRINTF_FLAGS_NONE, items = PRINTF_ITEMS_NONE,
     width_as_arg = False, precision_as_arg = False, width = 0, precision = 0,
     length_mod = PRINTF_LENGTH_DEFAULT\<rparr>"

text \<open>The pointer is never null here: the caller passes \<open>format + 1\<close>.\<close>

definition printf_parse_format :: "byte list \<Rightarrow> byte list \<times> printf_format" where
  "printf_parse_format s =
     (let f = default_format;
          (s, f) = printf_parse_flags s f;
          (s, f) = printf_parse_width s f;
          (s, f) = printf_parse_precision s f;
          (s, f) = printf_parse_length s f
      in printf_parse_specifier s f)"

section \<open>Arguments\<close>

definition va_next :: "va_list \<Rightarrow> (u64 \<times> va_list) option" where
  "va_next ap = (case ap of [] \<Rightarrow> None | x # ap \<Rightarrow> Some (x, ap))"

text \<open>The conversions of a slot for the signed and the unsigned specifiers.\<close>

definition signed_arg :: "printf_length \<Rightarrow> u64 \<Rightarrow> u64" where
  "signed_arg l x =
     (case l of
        PRINTF_LENGTH_SHORT2 \<Rightarrow> scast ((ucast x :: i32) AND 0xFF)
      | PRINTF_LENGTH_SHORT \<Rightarrow> scast ((ucast x :: i32) AND 0xFFFF)
      | PRINTF_LENGTH_LONG \<Rightarrow> x
      | PRINTF_LENGTH_LONG2 \<Rightarrow> x
      | PRINTF_LENGTH_LONGEST \<Rightarrow> x
      | PRINTF_LENGTH_SIZE \<Rightarrow> x
      | PRINTF_LENGTH_PTRDIFF \<Rightarrow> x
      | _ \<Rightarrow> scast (ucast x :: i32))"

definition unsigned_arg :: "printf_length \<Rightarrow> u64 \<Rightarrow> u64" where
  "unsigned_arg l x =
     (case l of
        PRINTF_LENGTH_SHORT2 \<Rightarrow> ucast ((ucast x :: u32) AND 0xFF)
      | PRINTF_LENGTH_SHORT \<Rightarrow> ucast ((ucast x :: u32) AND 0xFFFF)
      | PRINTF_LENGTH_LONG \<Rightarrow> x
      | PRINTF_LENGTH_LONG2 \<Rightarrow> x
      | PRINTF_LENGTH_LONGEST \<Rightarrow> x
      | PRINTF_LENGTH_SIZE \<Rightarrow> x
      | PRINTF_LENGTH_PTRDIFF \<Rightarrow> x
      | _ \<Rightarrow> ucast (ucast x :: u32))"

text \<open>One character out, and one more in the count.\<close>

definition put :: "'h putc_fun \<Rightarrow> u32 \<Rightarrow> u64 \<Rightarrow> 'h kstate \<Rightarrow> (u64 \<times> 'h kstate) option" where
  "put putc c count s = do { s \<leftarrow> putc c s; Some (count + 1, s) }"

section \<open>Numbers\<close>

text \<open>Counting digits: \<open>while (n > 0) { n /= 10; i++; }\<close>, or with a shift by \<open>k\<close>.\<close>

function count_decimal :: "u64 \<Rightarrow> nat \<Rightarrow> nat" where
  "count_decimal n i = (if n > 0 then count_decimal (n div 10) (Suc i) else i)"
  by pat_completeness auto
termination
  by (relation "measure (\<lambda>(n, i). unat n)") (auto simp: unat_div unat_gt_0 intro: div_less_dividend)

function count_shift :: "nat \<Rightarrow> u64 \<Rightarrow> nat \<Rightarrow> nat" where
  "count_shift k n i = (if n > 0 \<and> k > 0 then count_shift k (drop_bit k n) (Suc i) else i)"
  by pat_completeness auto
termination
proof (relation "measure (\<lambda>(k, n, i). unat n)", simp_all, clarify)
  fix k n
  assume "(0 :: u64) < n" "(0 :: nat) < k"
  moreover from \<open>0 < k\<close> have "1 < (2 :: nat) ^ k" by (intro one_less_power) simp_all
  ultimately show "unat (drop_bit k n) < unat n"
    by (simp only: unat_drop_bit_eq drop_bit_eq_div [where ?'a = nat]) (simp add: unat_gt_0)
qed

declare count_decimal.simps [simp del] count_shift.simps [simp del]

fun div10_times :: "nat \<Rightarrow> u64 \<Rightarrow> u64" where
  "div10_times 0 n = n"
| "div10_times (Suc j) n = div10_times j (n div 10)"

definition abs64 :: "u64 \<Rightarrow> u64" where
  "abs64 d = (if sint d < 0 then - d else d)"

text \<open>The digits, the highest first; \<open>n\<close> is computed anew for each of them.\<close>

fun put_decimal :: "'h putc_fun \<Rightarrow> u64 \<Rightarrow> nat \<Rightarrow> u64 \<Rightarrow> 'h kstate \<Rightarrow> (u64 \<times> 'h kstate) option" where
  "put_decimal putc n 0 count s = Some (count, s)"
| "put_decimal putc n (Suc i) count s = do {
     (count, s) \<leftarrow> put putc (c32 CHR ''0'' + ucast (div10_times i n mod 10)) count s;
     put_decimal putc n i count s
   }"

definition generic_printf_decimal ::
    "'h putc_fun \<Rightarrow> printf_format \<Rightarrow> va_list \<Rightarrow> 'h kstate \<Rightarrow> (i32 \<times> va_list \<times> 'h kstate) option" where
  "generic_printf_decimal putc f ap s = do {
     (x, ap) \<leftarrow> va_next ap;
     let count = 0;
     let d = signed_arg (length_mod f) x;
     let i = count_decimal (abs64 d) 0;
     (count, s) \<leftarrow> (if sint d < 0 then put putc (c32 CHR ''-'') count s
       else if flags f AND PRINTF_FLAGS_PLUS_OR_MINUS \<noteq> 0 then put putc (c32 CHR ''+'') count s
       else if flags f AND PRINTF_FLAGS_SPACE_IF_NO_SIGN \<noteq> 0 then put putc (c32 CHR '' '') count s
       else Some (count, s));
     (count, s) \<leftarrow> (if d = 0 then put putc (c32 CHR ''0'') count s else Some (count, s));
     (count, s) \<leftarrow> put_decimal putc (abs64 d) i count s;
     Some (ucast count, ap, s)
   }"

definition generic_printf_unsigned ::
    "'h putc_fun \<Rightarrow> printf_format \<Rightarrow> va_list \<Rightarrow> 'h kstate \<Rightarrow> (i32 \<times> va_list \<times> 'h kstate) option" where
  "generic_printf_unsigned putc f ap s = do {
     (x, ap) \<leftarrow> va_next ap;
     let count = 0;
     let u = unsigned_arg (length_mod f) x;
     let i = count_decimal u 0;
     (count, s) \<leftarrow> (if u = 0 then put putc (c32 CHR ''0'') count s else Some (count, s));
     (count, s) \<leftarrow> put_decimal putc u i count s;
     Some (ucast count, ap, s)
   }"

fun put_octal :: "'h putc_fun \<Rightarrow> u64 \<Rightarrow> nat \<Rightarrow> u64 \<Rightarrow> 'h kstate \<Rightarrow> (u64 \<times> 'h kstate) option" where
  "put_octal putc x 0 count s = Some (count, s)"
| "put_octal putc x (Suc i) count s = do {
     (count, s) \<leftarrow> put putc (c32 CHR ''0'' + ucast (drop_bit (3 * i) x AND 7)) count s;
     put_octal putc x i count s
   }"

definition generic_printf_octal ::
    "'h putc_fun \<Rightarrow> printf_format \<Rightarrow> va_list \<Rightarrow> 'h kstate \<Rightarrow> (i32 \<times> va_list \<times> 'h kstate) option" where
  "generic_printf_octal putc f ap s = do {
     (x, ap) \<leftarrow> va_next ap;
     let x = unsigned_arg (length_mod f) x;
     let count = 0;
     let i = count_shift 3 x 0;
     (count, s) \<leftarrow> (if flags f AND PRINTF_FLAGS_PRECEDING_ID \<noteq> 0 then put putc (c32 CHR ''0'') count s
       else Some (count, s));
     (count, s) \<leftarrow> (if x = 0 then put putc (c32 CHR ''0'') count s else Some (count, s));
     (count, s) \<leftarrow> put_octal putc x i count s;
     Some (ucast count, ap, s)
   }"

definition hex_char :: "bool \<Rightarrow> u64 \<Rightarrow> u32" where
  "hex_char lower n =
     (if n AND 0xF > 9
      then (if lower then c32 CHR ''a'' - 10 + ucast (n AND 0xF) else c32 CHR ''A'' - 10 + ucast (n AND 0xF))
      else c32 CHR ''0'' + ucast (n AND 0xF))"

fun put_hex :: "'h putc_fun \<Rightarrow> bool \<Rightarrow> u64 \<Rightarrow> nat \<Rightarrow> u64 \<Rightarrow> 'h kstate \<Rightarrow> (u64 \<times> 'h kstate) option" where
  "put_hex putc lower x 0 count s = Some (count, s)"
| "put_hex putc lower x (Suc i) count s = do {
     (count, s) \<leftarrow> put putc (hex_char lower (drop_bit (4 * i) x)) count s;
     put_hex putc lower x i count s
   }"

definition generic_printf_hex ::
    "'h putc_fun \<Rightarrow> printf_format \<Rightarrow> va_list \<Rightarrow> 'h kstate \<Rightarrow> (i32 \<times> va_list \<times> 'h kstate) option" where
  "generic_printf_hex putc f ap s = do {
     (x, ap) \<leftarrow> va_next ap;
     let x = unsigned_arg (length_mod f) x;
     let count = 0;
     let i = count_shift 4 x 0;
     let lower = (specifier f = PRINTF_SPECIFIER_HEX_LOWER);
     (count, s) \<leftarrow> (if flags f AND PRINTF_FLAGS_PRECEDING_ID \<noteq> 0 then do {
         (count, s) \<leftarrow> put putc (c32 CHR ''0'') count s;
         if \<not> lower then put putc (c32 CHR ''X'') count s else put putc (c32 CHR ''x'') count s
       } else Some (count, s));
     (count, s) \<leftarrow> (if x = 0 then put putc (c32 CHR ''0'') count s else Some (count, s));
     (count, s) \<leftarrow> put_hex putc lower x i count s;
     Some (ucast count, ap, s)
   }"

text \<open>A pointer is signed here, so its digits come from an arithmetic shift.\<close>

fun put_pointer :: "'h putc_fun \<Rightarrow> u64 \<Rightarrow> nat \<Rightarrow> u64 \<Rightarrow> 'h kstate \<Rightarrow> (u64 \<times> 'h kstate) option" where
  "put_pointer putc p 0 count s = Some (count, s)"
| "put_pointer putc p (Suc i) count s = do {
     (count, s) \<leftarrow> put putc (hex_char True (signed_drop_bit (4 * i) p)) count s;
     put_pointer putc p i count s
   }"

definition generic_printf_pointer ::
    "'h putc_fun \<Rightarrow> printf_format \<Rightarrow> va_list \<Rightarrow> 'h kstate \<Rightarrow> (i32 \<times> va_list \<times> 'h kstate) option" where
  "generic_printf_pointer putc f ap s = do {
     (p, ap) \<leftarrow> va_next ap;
     let i = count_shift 4 p 0;
     let count = 0;
     (count, s) \<leftarrow> put putc (c32 CHR ''0'') count s;
     (count, s) \<leftarrow> put putc (c32 CHR ''x'') count s;
     (count, s) \<leftarrow> (if p = 0 then put putc (c32 CHR ''0'') count s else Some (count, s));
     (count, s) \<leftarrow> put_pointer putc p i count s;
     Some (ucast count, ap, s)
   }"

definition generic_printf_float ::
    "'h putc_fun \<Rightarrow> printf_format \<Rightarrow> va_list \<Rightarrow> 'h kstate \<Rightarrow> (i32 \<times> va_list \<times> 'h kstate) option" where
  "generic_printf_float putc f ap s = Some (-1, ap, s)"

section \<open>Characters, strings, and the count\<close>

definition generic_printf_char ::
    "'h putc_fun \<Rightarrow> printf_format \<Rightarrow> va_list \<Rightarrow> 'h kstate \<Rightarrow> (i32 \<times> va_list \<times> 'h kstate) option" where
  "generic_printf_char putc f ap s = do {
     (x, ap) \<leftarrow> va_next ap;
     let c = (case length_mod f of
                PRINTF_LENGTH_LONG \<Rightarrow> (ucast x :: u32) AND 0xFF
              | _ \<Rightarrow> ucast x);
     s \<leftarrow> putc c s;
     Some (1, ap, s)
   }"

partial_function (option) put_string ::
    "'h putc_fun \<Rightarrow> addr \<Rightarrow> u64 \<Rightarrow> 'h kstate \<Rightarrow> (u64 \<times> 'h kstate) option" where
  "put_string putc p count s =
     (if kmem s p \<noteq> 0 then do {
        (count, s) \<leftarrow> put putc (ucast (kmem s p)) count s;
        put_string putc (p + 1) count s
      }
      else Some (count, s))"

partial_function (option) put_wstring ::
    "'h putc_fun \<Rightarrow> addr \<Rightarrow> u64 \<Rightarrow> 'h kstate \<Rightarrow> (u64 \<times> 'h kstate) option" where
  "put_wstring putc p count s =
     (if load32 (kmem s) p \<noteq> 0 then do {
        (count, s) \<leftarrow> put putc (load32 (kmem s) p) count s;
        put_wstring putc (p + 4) count s
      }
      else Some (count, s))"

declare put_string.simps [code] put_wstring.simps [code]

definition generic_printf_string ::
    "'h putc_fun \<Rightarrow> printf_format \<Rightarrow> va_list \<Rightarrow> 'h kstate \<Rightarrow> (i32 \<times> va_list \<times> 'h kstate) option" where
  "generic_printf_string putc f ap s = do {
     let count = 0;
     (p, ap) \<leftarrow> va_next ap;
     if p = 0 then Some (-1, ap, s)
     else do {
       (count, s) \<leftarrow> (case length_mod f of
          PRINTF_LENGTH_LONG \<Rightarrow> put_wstring putc p count s
        | _ \<Rightarrow> put_string putc p count s);
       Some (ucast count, ap, s)
     }
   }"

text \<open>Storing an \<open>n\<close>-byte integer, little endian.\<close>

fun store_le :: "nat \<Rightarrow> u64 \<Rightarrow> addr \<Rightarrow> mem \<Rightarrow> mem" where
  "store_le 0 v p m = m"
| "store_le (Suc n) v p m = store_le n (drop_bit 8 v) (p + 1) (m(p := ucast v))"

definition generic_printf_getcount ::
    "'h putc_fun \<Rightarrow> printf_format \<Rightarrow> u64 \<Rightarrow> va_list \<Rightarrow> 'h kstate \<Rightarrow> (i32 \<times> va_list \<times> 'h kstate) option" where
  "generic_printf_getcount putc f c ap s = do {
     (p, ap) \<leftarrow> va_next ap;
     if p = 0 then Some (-1, ap, s)
     else do {
       let n = (case length_mod f of
                  PRINTF_LENGTH_SHORT2 \<Rightarrow> 1
                | PRINTF_LENGTH_SHORT \<Rightarrow> 2
                | PRINTF_LENGTH_LONG \<Rightarrow> 8
                | PRINTF_LENGTH_LONG2 \<Rightarrow> 8
                | PRINTF_LENGTH_LONGEST \<Rightarrow> 8
                | PRINTF_LENGTH_SIZE \<Rightarrow> 8
                | PRINTF_LENGTH_PTRDIFF \<Rightarrow> 8
                | _ \<Rightarrow> (4 :: nat));
       Some (0, ap, s\<lparr>kmem := store_le n c p (kmem s)\<rparr>)
     }
   }"

section \<open>The main loop\<close>

text \<open>One directive; the result of type \<open>int\<close> is added to the \<open>size_t\<close> count.\<close>

definition printf_directive ::
    "'h putc_fun \<Rightarrow> printf_format \<Rightarrow> u64 \<Rightarrow> va_list \<Rightarrow> 'h kstate \<Rightarrow> (u64 \<times> va_list \<times> 'h kstate) option" where
  "printf_directive putc f count ap s =
     (let add = (\<lambda>m. do { (n, ap, s) \<leftarrow> m; Some (count + scast (n :: i32), ap, s) })
      in case specifier f of
           PRINTF_SPECIFIER_PERCENT \<Rightarrow> do {
             (count, s) \<leftarrow> put putc (c32 CHR ''%'') count s;
             Some (count, ap, s)
           }
         | PRINTF_SPECIFIER_INT \<Rightarrow> add (generic_printf_decimal putc f ap s)
         | PRINTF_SPECIFIER_UNSIGNED_INT \<Rightarrow> add (generic_printf_unsigned putc f ap s)
         | PRINTF_SPECIFIER_UNSIGNED_OCTAL \<Rightarrow> add (generic_printf_octal putc f ap s)
         | PRINTF_SPECIFIER_HEX_LOWER \<Rightarrow> add (generic_printf_hex putc f ap s)
         | PRINTF_SPECIFIER_HEX_UPPER \<Rightarrow> add (generic_printf_hex putc f ap s)
         | PRINTF_SPECIFIER_CHAR \<Rightarrow> add (generic_printf_char putc f ap s)
         | PRINTF_SPECIFIER_STRING \<Rightarrow> add (generic_printf_string putc f ap s)
         | PRINTF_SPECIFIER_POINTER \<Rightarrow> add (generic_printf_pointer putc f ap s)
         | PRINTF_SPECIFIER_GET_NCHARS \<Rightarrow> do {
             (_, ap, s) \<leftarrow> generic_printf_getcount putc f count ap s;
             Some (count, ap, s)
           })"

lemma parse_loops_length:
  "length (fst (parse_flags_loop s f)) \<le> length s"
  "length (fst (parse_width_loop s f)) \<le> length s"
  "length (fst (parse_precision_loop s f)) \<le> length s"
  by (induction s arbitrary: f) (auto intro: le_SucI)

lemma parse_items_length:
  "length (fst (printf_parse_flags s f)) \<le> length s"
  "length (fst (printf_parse_width s f)) \<le> length s"
  "length (fst (printf_parse_precision s f)) \<le> length s"
  "length (fst (printf_parse_length s f)) \<le> length s"
  "length (fst (printf_parse_specifier s f)) \<le> length s"
  by (simp_all add: printf_parse_flags_def printf_parse_width_def printf_parse_precision_def
      printf_parse_length_def printf_parse_specifier_def parse_loops_length Let_def
      order_trans [OF parse_loops_length(3)])

lemma parse_format_length: "length (fst (printf_parse_format s)) \<le> length s"
  unfolding printf_parse_format_def Let_def
  by (auto simp: case_prod_beta intro!: order_trans [OF parse_items_length(5)] order_trans [OF parse_items_length(4)]
      order_trans [OF parse_items_length(3)] order_trans [OF parse_items_length(2)] parse_items_length(1))

function printf_loop ::
    "'h putc_fun \<Rightarrow> byte list \<Rightarrow> va_list \<Rightarrow> u64 \<Rightarrow> 'h kstate \<Rightarrow> (u64 \<times> 'h kstate) option" where
  "printf_loop putc [] ap count s = Some (count, s)"
| "printf_loop putc (c # format) ap count s =
     (if c \<noteq> c8 CHR ''%'' then do {
        (count, s) \<leftarrow> put putc (ucast c) count s;
        printf_loop putc format ap count s
      }
      else do {
        let (format, f) = printf_parse_format format;
        (count, ap, s) \<leftarrow> printf_directive putc f count ap s;
        printf_loop putc format ap count s
      })"
  by pat_completeness auto
termination
proof (relation "measure (\<lambda>(putc, format, ap, count, s). length format)", simp_all)
  fix format :: "byte list" and xa f
  assume "(xa, f) = printf_parse_format format"
  then show "length xa < Suc (length format)"
    using parse_format_length [of format] by (metis fst_conv le_imp_less_Suc)
qed

definition generic_printf :: "'h putc_fun \<Rightarrow> byte list \<Rightarrow> va_list \<Rightarrow> 'h kstate \<Rightarrow> (i32 \<times> 'h kstate) option" where
  "generic_printf putc format ap s = do {
     (count, s) \<leftarrow> printf_loop putc format ap 0 s;
     Some (ucast count, s)
   }"

end
