(* ===== verification/Printf_Spec.thy ===== *)
theory Printf_Spec
  imports Printf
begin

text \<open>
  What formatted output means: the reference text of a number in a base, the text of each
  conversion, the relation \<open>renders\<close> between a format with its arguments and the
  characters it prints, and the proof that the loops of \<open>src/lib/io/printf.c\<close> print
  exactly these. The interface \<open>char_sink\<close> states what printing relies on of an output
  device.
\<close>

section \<open>What a number looks like\<close>

text \<open>The reference: the digits of a natural number in base \<open>b\<close>, the highest first; none for 0.\<close>

function radix_digits :: "nat \<Rightarrow> nat \<Rightarrow> nat list" where
  "radix_digits b n = (if n = 0 \<or> b < 2 then [] else radix_digits b (n div b) @ [n mod b])"
  by pat_completeness auto
termination by (relation "measure (\<lambda>(b, n). n)") auto

declare radix_digits.simps [simp del]

definition number_text :: "(nat \<Rightarrow> u32) \<Rightarrow> nat \<Rightarrow> nat \<Rightarrow> u32 list" where
  "number_text char b n = (if n = 0 then [char 0] else map char (radix_digits b n))"

fun emit :: "'h putc_fun \<Rightarrow> u32 list \<Rightarrow> 'h kstate \<Rightarrow> 'h kstate option" where
  "emit putc [] s = Some s"
| "emit putc (c # cs) s = do { s \<leftarrow> putc c s; emit putc cs s }"

lemma emit_append: "emit putc (xs @ ys) s = do { s \<leftarrow> emit putc xs s; emit putc ys s }"
  by (induction xs arbitrary: s) (auto split: bind_splits)

lemma radix_digits_value:
  assumes "2 \<le> b"
  shows "foldl (\<lambda>v d. v * b + d) 0 (radix_digits b n) = n"
  using assms
proof (induction b n rule: radix_digits.induct)
  case (1 b n)
  then show ?case by (subst radix_digits.simps) auto
qed

lemma radix_digits_less: "2 \<le> b \<Longrightarrow> d \<in> set (radix_digits b n) \<Longrightarrow> d < b"
proof (induction b n rule: radix_digits.induct)
  case (1 b n)
  then show ?case by (subst (asm) (2) radix_digits.simps) (auto split: if_split_asm)
qed

lemma radix_digits_length:
  assumes "2 \<le> b"
  shows "n < 2 ^ k \<Longrightarrow> length (radix_digits b n) \<le> k"
proof (induction k arbitrary: n)
  case 0
  then show ?case by (simp add: radix_digits.simps)
next
  case (Suc k)
  have "n div b \<le> n div 2" using assms by (simp add: div_le_mono2)
  also have "\<dots> < 2 ^ k" using Suc.prems by simp
  finally have "length (radix_digits b (n div b)) \<le> k" by (rule Suc.IH)
  then show ?case by (subst radix_digits.simps) auto
qed

lemma radix_digits_positions:
  "2 \<le> b \<Longrightarrow> radix_digits b n = map (\<lambda>j. n div b ^ j mod b) (rev [0..<length (radix_digits b n)])"
proof (induction b n rule: radix_digits.induct)
  case (1 b n)
  show ?case
  proof (cases "n = 0")
    case True
    then show ?thesis by (simp add: radix_digits.simps)
  next
    case False
    let ?l = "length (radix_digits b (n div b))"
    have step: "radix_digits b n = radix_digits b (n div b) @ [n mod b]"
      using False 1(2) by (subst radix_digits.simps) auto
    have "radix_digits b (n div b) = map (\<lambda>j. n div b div b ^ j mod b) (rev [0..<?l])"
      using 1 False by auto
    also have "\<dots> = map (\<lambda>j. n div b ^ j mod b) (rev (map Suc [0..<?l]))"
      by (simp add: rev_map div_mult2_eq)
    finally have "radix_digits b n = map (\<lambda>j. n div b ^ j mod b) (rev (map Suc [0..<?l]) @ [0])"
      by (simp add: step)
    also have "rev (map Suc [0..<?l]) @ [0] = rev [0..<Suc ?l]"
      by (simp only: map_Suc_upt upt_conv_Cons [of 0 "Suc ?l"] zero_less_Suc rev.simps)
    finally show ?thesis by (simp add: step)
  qed
qed

text \<open>All digit loops of the program have the shape of this one; \<open>g i\<close> is the digit of weight \<open>i\<close>.\<close>

fun put_digits :: "'h putc_fun \<Rightarrow> (nat \<Rightarrow> u32) \<Rightarrow> nat \<Rightarrow> u64 \<Rightarrow> 'h kstate \<Rightarrow> (u64 \<times> 'h kstate) option" where
  "put_digits putc g 0 count s = Some (count, s)"
| "put_digits putc g (Suc i) count s = do {
     (count, s) \<leftarrow> put putc (g i) count s;
     put_digits putc g i count s
   }"

lemma put_digits_emit:
  "put_digits putc g i count s = do {
     s \<leftarrow> emit putc (map g (rev [0..<i])) s;
     Some (count + of_nat i, s)
   }"
  by (induction i arbitrary: count s) (auto simp: put_def algebra_simps split: bind_splits)

lemma put_loops:
  "put_decimal putc n = put_digits putc (\<lambda>i. c32 CHR ''0'' + ucast (div10_times i n mod 10))"
  "put_octal putc n = put_digits putc (\<lambda>i. c32 CHR ''0'' + ucast (drop_bit (3 * i) n AND 7))"
  "put_hex putc lower n = put_digits putc (\<lambda>i. hex_char lower (drop_bit (4 * i) n))"
  "put_pointer putc n = put_digits putc (\<lambda>i. hex_char True (signed_drop_bit (4 * i) n))"
proof -
  have "put_decimal putc n i count s = put_digits putc (\<lambda>i. c32 CHR ''0'' + ucast (div10_times i n mod 10)) i count s"
    "put_octal putc n i count s = put_digits putc (\<lambda>i. c32 CHR ''0'' + ucast (drop_bit (3 * i) n AND 7)) i count s"
    "put_hex putc lower n i count s = put_digits putc (\<lambda>i. hex_char lower (drop_bit (4 * i) n)) i count s"
    "put_pointer putc n i count s = put_digits putc (\<lambda>i. hex_char True (signed_drop_bit (4 * i) n)) i count s"
    for i count s
    by (induction i arbitrary: count s) (auto split: bind_splits)
  then show "put_decimal putc n = put_digits putc (\<lambda>i. c32 CHR ''0'' + ucast (div10_times i n mod 10))"
    "put_octal putc n = put_digits putc (\<lambda>i. c32 CHR ''0'' + ucast (drop_bit (3 * i) n AND 7))"
    "put_hex putc lower n = put_digits putc (\<lambda>i. hex_char lower (drop_bit (4 * i) n))"
    "put_pointer putc n = put_digits putc (\<lambda>i. hex_char True (signed_drop_bit (4 * i) n))"
    by (simp_all add: fun_eq_iff)
qed

lemma unat_div10_times: "unat (div10_times i n) = unat n div 10 ^ i"
  by (induction i arbitrary: n) (simp_all add: unat_div div_mult2_eq)

lemma unat_drop_bit_div: "unat (drop_bit k (n :: u64)) = unat n div 2 ^ k"
  by (simp only: unat_drop_bit_eq) (simp only: drop_bit_eq_div)

lemma count_decimal_length: "count_decimal n i = i + length (radix_digits 10 (unat n))"
proof (induction n i rule: count_decimal.induct)
  case (1 n i)
  then show ?case
    by (subst count_decimal.simps, subst radix_digits.simps) (auto simp: word_less_nat_alt unat_div)
qed

lemma count_shift_length: "0 < k \<Longrightarrow> count_shift k n i = i + length (radix_digits (2 ^ k) (unat n))"
proof (induction k n i rule: count_shift.induct)
  case (1 k n i)
  have "2 \<le> (2 :: nat) ^ k" using 1(2) by (cases k) simp_all
  then show ?case
    using 1 unat_drop_bit_div [of k n]
    by (subst count_shift.simps, subst radix_digits.simps) (auto simp: word_less_nat_alt simp del: unat_drop_bit_eq)
qed

definition dec_char :: "nat \<Rightarrow> u32" where
  "dec_char d = c32 CHR ''0'' + of_nat d"

definition hexa_char :: "bool \<Rightarrow> nat \<Rightarrow> u32" where
  "hexa_char lower d =
     (if d < 10 then c32 CHR ''0'' + of_nat d
      else if lower then c32 CHR ''a'' + of_nat (d - 10) else c32 CHR ''A'' + of_nat (d - 10))"

lemma ucast_of_unat: "(ucast (x :: u64) :: u32) = of_nat (unat x)"
  by simp

lemma decimal_digit: "c32 CHR ''0'' + ucast (div10_times i n mod 10) = dec_char (unat n div 10 ^ i mod 10)"
  by (simp add: dec_char_def ucast_of_unat unat_mod unat_div10_times del: of_nat_unat)

lemma shifted_digit:
  "unat (drop_bit (k * i) (n :: u64) AND mask k) = unat n div (2 ^ k) ^ i mod 2 ^ k"
proof -
  have "unat (drop_bit (k * i) n AND mask k) = take_bit k (unat (drop_bit (k * i) n))"
    by (metis take_bit_eq_mask unsigned_take_bit_eq)
  then show ?thesis by (simp only: take_bit_eq_mod unat_drop_bit_div power_mult)
qed

lemma octal_digit: "c32 CHR ''0'' + ucast (drop_bit (3 * i) (n :: u64) AND 7) = dec_char (unat n div 8 ^ i mod 8)"
  using shifted_digit [of 3 i n] by (simp add: dec_char_def ucast_of_unat mask_eq_exp_minus_1 del: of_nat_unat)

lemma hex_char_unat: "hex_char lower x = hexa_char lower (unat (x AND 0xF))"
proof -
  have "unat (x AND 0xF) < 16"
    using word_and_le1 [of x "0xF"] by (simp add: word_le_nat_alt)
  then show ?thesis
    by (auto simp: hex_char_def hexa_char_def ucast_of_unat word_less_nat_alt of_nat_diff simp del: of_nat_unat)
qed

lemma hex_digit: "hex_char lower (drop_bit (4 * i) (n :: u64)) = hexa_char lower (unat n div 16 ^ i mod 16)"
  using shifted_digit [of 4 i n] by (simp add: hex_char_unat mask_eq_exp_minus_1)

text \<open>In a 64-bit word the sixteen digits of an arithmetic shift are those of the logical one.\<close>

lemma signed_shift_digit:
  assumes "4 * i + 4 \<le> 64"
  shows "signed_drop_bit (4 * i) (p :: u64) AND 0xF = drop_bit (4 * i) p AND 0xF"
proof -
  have "(0xF :: u64) = mask 4" by (simp add: mask_eq_exp_minus_1)
  then show ?thesis
    unfolding \<open>0xF = mask 4\<close> using assms by (intro bit_word_eqI) (auto simp: bit_simps simp del: mask_numeral)
qed

section \<open>What the number specifiers print\<close>

definition sign_text :: "printf_format \<Rightarrow> u64 \<Rightarrow> u32 list" where
  "sign_text f d =
     (if sint d < 0 then [c32 CHR ''-'']
      else if flags f AND PRINTF_FLAGS_PLUS_OR_MINUS \<noteq> 0 then [c32 CHR ''+'']
      else if flags f AND PRINTF_FLAGS_SPACE_IF_NO_SIGN \<noteq> 0 then [c32 CHR '' '']
      else [])"

definition id_text :: "printf_format \<Rightarrow> string \<Rightarrow> u32 list" where
  "id_text f prefix = (if flags f AND PRINTF_FLAGS_PRECEDING_ID \<noteq> 0 then map of_char prefix else [])"

definition hex_prefix :: "bool \<Rightarrow> string" where
  "hex_prefix lower = (if lower then ''0x'' else ''0X'')"

definition signed_text :: "printf_format \<Rightarrow> u64 \<Rightarrow> u32 list" where
  "signed_text f d = sign_text f d @ number_text dec_char 10 (nat \<bar>sint d\<bar>)"

definition octal_text :: "printf_format \<Rightarrow> u64 \<Rightarrow> u32 list" where
  "octal_text f x = id_text f ''0'' @ number_text dec_char 8 (unat x)"

definition hex_text :: "printf_format \<Rightarrow> u64 \<Rightarrow> u32 list" where
  "hex_text f x = (let lower = specifier f = PRINTF_SPECIFIER_HEX_LOWER
     in id_text f (hex_prefix lower) @ number_text (hexa_char lower) 16 (unat x))"

definition pointer_text :: "u64 \<Rightarrow> u32 list" where
  "pointer_text p = map of_char ''0x'' @ number_text (hexa_char True) 16 (unat p)"

definition emit_count ::
    "'h putc_fun \<Rightarrow> u32 list \<Rightarrow> u64 \<Rightarrow> 'h kstate \<Rightarrow> (u64 \<times> 'h kstate) option" where
  "emit_count putc cs count s = do { s \<leftarrow> emit putc cs s; Some (count + of_nat (length cs), s) }"

lemma emit_count_simps:
  "put putc c count s = emit_count putc [c] count s"
  "Some (count, s) = emit_count putc [] count s"
  "Option.bind (emit_count putc xs count s) (\<lambda>(count, s). emit_count putc ys count s) =
     emit_count putc (xs @ ys) count s"
  by (auto simp: emit_count_def put_def emit_append algebra_simps split: bind_splits)

lemma uint_take_bit_sint: "uint (w :: u64) = take_bit 64 (sint w)"
proof -
  have "uint w = uint (word_of_int (sint w) :: u64)" by simp
  also have "\<dots> = take_bit LENGTH(64) (sint w)" by (rule uint_word_of_int_eq)
  finally show ?thesis by simp
qed

lemma nat_abs64: "nat \<bar>sint d\<bar> = unat (abs64 d)"
proof (cases "sint d < 0")
  case True
  have "- d = word_of_int (- sint d)" by simp
  then have "uint (- d) = uint (word_of_int (- sint d) :: u64)" by (rule arg_cong)
  also have "\<dots> = take_bit LENGTH(64) (- sint d)" by (rule uint_word_of_int_eq)
  also have "\<dots> = - sint d"
    using True sint_ge [of d] by (intro take_bit_int_eq_self) simp_all
  finally show ?thesis using True by (simp add: abs64_def unat_eq_nat_uint)
next
  case False
  then have "uint d = sint d"
    using sint_lt [of d] by (simp add: uint_take_bit_sint take_bit_int_eq_self)
  with False show ?thesis by (simp add: abs64_def unat_eq_nat_uint)
qed

lemma length_number_text: "2 \<le> b \<Longrightarrow> length (number_text char b (unat (n :: u64))) \<le> 64"
  using radix_digits_length [of b "unat n" 64] unsigned_less [of n, where ?'a = nat]
  by (simp add: number_text_def)

lemma put_number:
  assumes "2 \<le> b" and "k = length (radix_digits b (unat n))" and "z = char 0"
    and "\<And>i. i < k \<Longrightarrow> g i = char (unat n div b ^ i mod b)"
  shows "do {
      (count, s) \<leftarrow> (if n = 0 then put putc z count s else Some (count, s));
      put_digits putc g k count s
    } = emit_count putc (number_text char b (unat (n :: u64))) count s"
proof -
  have "map g (rev [0..<k]) = map char (map (\<lambda>j. unat n div b ^ j mod b) (rev [0..<k]))"
    using assms(4) by simp
  also have "\<dots> = map char (radix_digits b (unat n))"
    by (subst radix_digits_positions [OF assms(1)]) (simp add: assms(2))
  finally have digits: "put_digits putc g k count s = emit_count putc (map char (radix_digits b (unat n))) count s" for count s
    using assms(2) by (simp add: put_digits_emit emit_count_def)
  show ?thesis
  proof (cases "n = 0")
    case True
    then have "radix_digits b (unat n) = []" by (simp add: radix_digits.simps)
    with True show ?thesis by (simp add: assms(3) digits number_text_def emit_count_def put_def split: bind_splits)
  next
    case False
    then have "unat n \<noteq> 0" by (simp add: unat_eq_zero)
    with False show ?thesis by (simp add: digits number_text_def)
  qed
qed

lemma decimal_number:
  "do {
     (count, s) \<leftarrow> (if n = 0 then put putc (c32 CHR ''0'') count s else Some (count, s));
     put_decimal putc n (count_decimal n 0) count s
   } = emit_count putc (number_text dec_char 10 (unat n)) count s"
  unfolding put_loops
  by (rule put_number) (simp_all only: count_decimal_length decimal_digit, simp_all add: dec_char_def)

lemma octal_number:
  "do {
     (count, s) \<leftarrow> (if n = 0 then put putc (c32 CHR ''0'') count s else Some (count, s));
     put_octal putc n (count_shift 3 n 0) count s
   } = emit_count putc (number_text dec_char 8 (unat n)) count s"
  unfolding put_loops
  by (rule put_number) (simp_all only: octal_digit, simp_all add: count_shift_length dec_char_def)

lemma hex_number:
  "do {
     (count, s) \<leftarrow> (if n = 0 then put putc (c32 CHR ''0'') count s else Some (count, s));
     put_hex putc lower n (count_shift 4 n 0) count s
   } = emit_count putc (number_text (hexa_char lower) 16 (unat n)) count s"
  unfolding put_loops
  by (rule put_number) (simp_all only: hex_digit, simp_all add: count_shift_length hexa_char_def)

lemma pointer_number:
  "do {
     (count, s) \<leftarrow> (if n = 0 then put putc (c32 CHR ''0'') count s else Some (count, s));
     put_pointer putc n (count_shift 4 n 0) count s
   } = emit_count putc (number_text (hexa_char True) 16 (unat n)) count s"
proof -
  have k: "count_shift 4 n 0 = length (radix_digits 16 (unat n))" by (simp add: count_shift_length)
  have "length (radix_digits 16 (unat n)) \<le> 16"
  proof -
    have "length (radix_digits 16 m) \<le> j" if "m < 16 ^ j" for m j
      using that
    proof (induction j arbitrary: m)
      case (Suc j)
      then have "m div 16 < 16 ^ j" by (simp add: less_mult_imp_div_less)
      then show ?case using Suc.IH by (subst radix_digits.simps) auto
    qed (simp add: radix_digits.simps)
    then show ?thesis using unsigned_less [of n, where ?'a = nat] by simp
  qed
  then have digit: "hex_char True (signed_drop_bit (4 * i) n) = hexa_char True (unat n div 16 ^ i mod 16)"
    if "i < count_shift 4 n 0" for i
    using that hex_digit [of True i n] by (simp add: hex_char_unat signed_shift_digit k)
  show ?thesis
    unfolding put_loops by (rule put_number) (simp_all add: digit k hexa_char_def)
qed

text \<open>Each specifier prints its text; the count is its length.\<close>

definition printed ::
    "'h putc_fun \<Rightarrow> u32 list \<Rightarrow> va_list \<Rightarrow> 'h kstate \<Rightarrow> (i32 \<times> va_list \<times> 'h kstate) option" where
  "printed putc cs ap s = do { s \<leftarrow> emit putc cs s; Some (of_nat (length cs), ap, s) }"

lemma ucast_of_nat_down: "(ucast (of_nat n :: u64) :: i32) = of_nat n"
  by (simp only: word_unat_eq_iff unsigned_ucast_eq unsigned_of_nat) simp

lemma printed_count:
  "do { (count, s) \<leftarrow> emit_count putc cs 0 s; Some (ucast count :: i32, ap, s) } = printed putc cs ap s"
  by (auto simp: emit_count_def printed_def ucast_of_nat_down split: bind_splits)

lemma emit_count_bind:
  "Option.bind (emit_count putc xs count s) (\<lambda>(count, s). Option.bind (emit_count putc ys count s) f) =
   Option.bind (emit_count putc (xs @ ys) count s) f"
  by (auto simp: emit_count_def emit_append algebra_simps split: bind_splits)

lemma bind_number:
  assumes "Option.bind m (\<lambda>(count, s). b count s) = r"
  shows "Option.bind m (\<lambda>(count, s). Option.bind (b count s) k) = Option.bind r k"
  unfolding assms [symmetric] by (cases m) auto

lemmas number_stages = bind_number [OF decimal_number] bind_number [OF octal_number] bind_number [OF hex_number]
  bind_number [OF pointer_number]

lemma emit_first: "Option.bind (put putc c count s) f = Option.bind (emit_count putc [c] count s) f"
  by (simp add: emit_count_simps)

lemmas printf_text_simps = va_next_def list.case option.case prod.case Option.bind.simps number_stages
  emit_count_bind append_assoc append.simps printed_count

lemma printf_decimal_text:
  "generic_printf_decimal putc f (x # ap) s = printed putc (signed_text f (signed_arg (length_mod f) x)) ap s"
proof -
  let ?d = "signed_arg (length_mod f) x"
  have zero: "(?d = 0) = (abs64 ?d = 0)" by (auto simp: abs64_def)
  have sign: "(if sint ?d < 0 then put putc (c32 CHR ''-'') 0 s
     else if flags f AND PRINTF_FLAGS_PLUS_OR_MINUS \<noteq> 0 then put putc (c32 CHR ''+'') 0 s
     else if flags f AND PRINTF_FLAGS_SPACE_IF_NO_SIGN \<noteq> 0 then put putc (c32 CHR '' '') 0 s
     else Some (0, s)) = emit_count putc (sign_text f ?d) 0 s"
    by (simp add: sign_text_def emit_count_simps)
  show ?thesis
    unfolding generic_printf_decimal_def Let_def signed_text_def nat_abs64
    by (simp only: printf_text_simps zero sign)
qed

lemma printf_unsigned_text:
  "generic_printf_unsigned putc f (x # ap) s =
   printed putc (number_text dec_char 10 (unat (unsigned_arg (length_mod f) x))) ap s"
  unfolding generic_printf_unsigned_def Let_def
  by (simp only: printf_text_simps)

lemma printf_octal_text:
  "generic_printf_octal putc f (x # ap) s = printed putc (octal_text f (unsigned_arg (length_mod f) x)) ap s"
proof -
  have id: "(if flags f AND PRINTF_FLAGS_PRECEDING_ID \<noteq> 0 then put putc (c32 CHR ''0'') 0 s else Some (0, s)) =
    emit_count putc (id_text f ''0'') 0 s"
    by (simp add: id_text_def emit_count_simps)
  show ?thesis
    unfolding generic_printf_octal_def Let_def octal_text_def
    by (simp only: printf_text_simps id)
qed

lemma printf_hex_text:
  "generic_printf_hex putc f (x # ap) s = printed putc (hex_text f (unsigned_arg (length_mod f) x)) ap s"
proof -
  let ?lower = "specifier f = PRINTF_SPECIFIER_HEX_LOWER"
  have id: "(if flags f AND PRINTF_FLAGS_PRECEDING_ID \<noteq> 0 then do {
       (count, s) \<leftarrow> put putc (c32 CHR ''0'') 0 s;
       if \<not> ?lower then put putc (c32 CHR ''X'') count s else put putc (c32 CHR ''x'') count s
     } else Some (0, s)) = emit_count putc (id_text f (hex_prefix ?lower)) 0 s"
    by (simp add: id_text_def hex_prefix_def emit_count_simps(1,2)) (simp add: emit_count_simps(3))
  show ?thesis
    unfolding generic_printf_hex_def Let_def hex_text_def
    by (simp only: printf_text_simps id)
qed

lemma printf_pointer_text:
  "generic_printf_pointer putc f (x # ap) s = printed putc (pointer_text x) ap s"
  unfolding generic_printf_pointer_def Let_def pointer_text_def
  by (simp only: printf_text_simps emit_first(1) list.map)

section \<open>What a whole format prints\<close>

text \<open>An output function that leaves RAM alone, such as a UART's.\<close>

definition quiet :: "'h putc_fun \<Rightarrow> bool" where
  "quiet putc \<longleftrightarrow> (\<forall>c s t. putc c s = Some t \<longrightarrow> kmem t = kmem s)"

lemma emit_quiet: "quiet putc \<Longrightarrow> emit putc cs s = Some t \<Longrightarrow> kmem t = kmem s"
  by (induction cs arbitrary: s) (auto simp: bind_Some_iff quiet_def)

fun wcstr :: "mem \<Rightarrow> addr \<Rightarrow> u32 list \<Rightarrow> bool" where
  "wcstr m p [] \<longleftrightarrow> load32 m p = 0"
| "wcstr m p (x # xs) \<longleftrightarrow> x \<noteq> 0 \<and> load32 m p = x \<and> wcstr m (p + 4) xs"

definition number_of :: "printf_format \<Rightarrow> u64 \<Rightarrow> u32 list option" where
  "number_of f x =
     (case specifier f of
        PRINTF_SPECIFIER_INT \<Rightarrow> Some (signed_text f (signed_arg (length_mod f) x))
      | PRINTF_SPECIFIER_UNSIGNED_INT \<Rightarrow> Some (number_text dec_char 10 (unat (unsigned_arg (length_mod f) x)))
      | PRINTF_SPECIFIER_UNSIGNED_OCTAL \<Rightarrow> Some (octal_text f (unsigned_arg (length_mod f) x))
      | PRINTF_SPECIFIER_HEX_LOWER \<Rightarrow> Some (hex_text f (unsigned_arg (length_mod f) x))
      | PRINTF_SPECIFIER_HEX_UPPER \<Rightarrow> Some (hex_text f (unsigned_arg (length_mod f) x))
      | PRINTF_SPECIFIER_POINTER \<Rightarrow> Some (pointer_text x)
      | _ \<Rightarrow> None)"

definition char_of_arg :: "printf_format \<Rightarrow> u64 \<Rightarrow> u32" where
  "char_of_arg f x = (if length_mod f = PRINTF_LENGTH_LONG then ucast x AND 0xFF else ucast x)"

text \<open>
  \<open>renders m fmt ap k out k'\<close>: with memory \<open>m\<close> and the arguments \<open>ap\<close>, the
  format prints the characters \<open>out\<close>, and the count goes from \<open>k\<close> to \<open>k'\<close>. A null string
  prints nothing and takes one off the count. A format with a \<open>%n\<close> is not covered, as it
  changes memory.
\<close>

inductive renders :: "mem \<Rightarrow> byte list \<Rightarrow> va_list \<Rightarrow> u64 \<Rightarrow> u32 list \<Rightarrow> u64 \<Rightarrow> bool" for m where
  rend_end: "renders m [] ap k [] k"
| rend_text: "c \<noteq> c8 CHR ''%'' \<Longrightarrow> renders m s ap (k + 1) out k' \<Longrightarrow> renders m (c # s) ap k (ucast c # out) k'"
| rend_percent: "printf_parse_format s = (s', f) \<Longrightarrow> specifier f = PRINTF_SPECIFIER_PERCENT \<Longrightarrow>
    renders m s' ap (k + 1) out k' \<Longrightarrow> renders m (c8 CHR ''%'' # s) ap k (c32 CHR ''%'' # out) k'"
| rend_number: "printf_parse_format s = (s', f) \<Longrightarrow> number_of f x = Some txt \<Longrightarrow>
    renders m s' ap (k + of_nat (length txt)) out k' \<Longrightarrow> renders m (c8 CHR ''%'' # s) (x # ap) k (txt @ out) k'"
| rend_char: "printf_parse_format s = (s', f) \<Longrightarrow> specifier f = PRINTF_SPECIFIER_CHAR \<Longrightarrow>
    renders m s' ap (k + 1) out k' \<Longrightarrow> renders m (c8 CHR ''%'' # s) (x # ap) k (char_of_arg f x # out) k'"
| rend_string: "printf_parse_format s = (s', f) \<Longrightarrow> specifier f = PRINTF_SPECIFIER_STRING \<Longrightarrow>
    length_mod f \<noteq> PRINTF_LENGTH_LONG \<Longrightarrow> p \<noteq> 0 \<Longrightarrow> cstr m p xs \<Longrightarrow> length xs < 2 ^ 31 \<Longrightarrow>
    renders m s' ap (k + of_nat (length xs)) out k' \<Longrightarrow>
    renders m (c8 CHR ''%'' # s) (p # ap) k (map ucast xs @ out) k'"
| rend_wstring: "printf_parse_format s = (s', f) \<Longrightarrow> specifier f = PRINTF_SPECIFIER_STRING \<Longrightarrow>
    length_mod f = PRINTF_LENGTH_LONG \<Longrightarrow> p \<noteq> 0 \<Longrightarrow> wcstr m p xs \<Longrightarrow> length xs < 2 ^ 31 \<Longrightarrow>
    renders m s' ap (k + of_nat (length xs)) out k' \<Longrightarrow>
    renders m (c8 CHR ''%'' # s) (p # ap) k (xs @ out) k'"
| rend_null: "printf_parse_format s = (s', f) \<Longrightarrow> specifier f = PRINTF_SPECIFIER_STRING \<Longrightarrow>
    renders m s' ap (k - 1) out k' \<Longrightarrow> renders m (c8 CHR ''%'' # s) (0 # ap) k out k'"

inductive_cases rendersE: "renders m (c # s) ap k out k'"

lemma put_string_emit:
  "quiet putc \<Longrightarrow> cstr (kmem s) p xs \<Longrightarrow> put_string putc p count s = emit_count putc (map ucast xs) count s"
proof (induction xs arbitrary: p count s)
  case Nil
  then show ?case by (simp add: put_string.simps emit_count_def)
next
  case (Cons x xs)
  have "put_string putc (p + 1) (count + 1) t = emit_count putc (map ucast xs) (count + 1) t"
    if "putc (ucast x) s = Some t" for t
    using Cons that by (auto simp: quiet_def)
  with Cons.prems show ?case
    by (subst put_string.simps) (auto simp: put_def emit_count_def algebra_simps split: bind_splits)
qed

lemma put_wstring_emit:
  "quiet putc \<Longrightarrow> wcstr (kmem s) p xs \<Longrightarrow> put_wstring putc p count s = emit_count putc xs count s"
proof (induction xs arbitrary: p count s)
  case Nil
  then show ?case by (simp add: put_wstring.simps emit_count_def)
next
  case (Cons x xs)
  have "put_wstring putc (p + 4) (count + 1) t = emit_count putc xs (count + 1) t"
    if "putc x s = Some t" for t
    using Cons that by (auto simp: quiet_def)
  with Cons.prems show ?case
    by (subst put_wstring.simps) (auto simp: put_def emit_count_def algebra_simps split: bind_splits)
qed

lemma scast_of_nat: "n < 2 ^ 31 \<Longrightarrow> (scast (of_nat n :: i32) :: u64) = of_nat n"
proof -
  assume n: "n < 2 ^ 31"
  then have "sint (of_nat n :: i32) = int n"
    by (simp add: sint_uint uint_nat unsigned_of_nat take_bit_nat_eq_self signed_take_bit_int_eq_self)
  then have "(scast (of_nat n :: i32) :: u64) = word_of_int (int n)"
    by (simp add: scast_eq)
  then show ?thesis by simp
qed

lemma number_of_length: "number_of f x = Some txt \<Longrightarrow> length txt < 2 ^ 31"
proof -
  assume "number_of f x = Some txt"
  then have "length txt \<le> 66"
    by (auto simp: number_of_def signed_text_def sign_text_def octal_text_def hex_text_def pointer_text_def id_text_def
        hex_prefix_def nat_abs64 Let_def le_SucI intro!: order_trans [OF length_number_text] split: printf_specifier.splits)
  then show ?thesis by simp
qed

lemma directive_number:
  assumes "number_of f x = Some txt"
  shows "printf_directive putc f k (x # ap) s =
    do { s \<leftarrow> emit putc txt s; Some (k + of_nat (length txt), ap, s) }"
  using assms number_of_length [OF assms]
  by (auto simp: number_of_def printf_directive_def Let_def printf_decimal_text printf_unsigned_text printf_octal_text
      printf_hex_text printf_pointer_text printed_def scast_of_nat split: printf_specifier.splits bind_splits)

lemma directive_char:
  "specifier f = PRINTF_SPECIFIER_CHAR \<Longrightarrow>
   printf_directive putc f k (x # ap) s = do { s \<leftarrow> putc (char_of_arg f x) s; Some (k + 1, ap, s) }"
  by (auto simp: printf_directive_def generic_printf_char_def va_next_def char_of_arg_def
      split: printf_length.splits bind_splits)

lemma directive_string:
  assumes "specifier f = PRINTF_SPECIFIER_STRING" "p \<noteq> 0" "length cs < 2 ^ 31"
    and "(if length_mod f = PRINTF_LENGTH_LONG then put_wstring putc p 0 s else put_string putc p 0 s) = emit_count putc cs 0 s"
  shows "printf_directive putc f k (p # ap) s = do { s \<leftarrow> emit putc cs s; Some (k + of_nat (length cs), ap, s) }"
proof -
  have "generic_printf_string putc f (p # ap) s = printed putc cs ap s"
    using assms(2,4) printed_count [of putc cs s ap]
    by (cases "length_mod f") (simp_all add: generic_printf_string_def va_next_def)
  with assms(1,3) show ?thesis
    by (auto simp: printf_directive_def printed_def scast_of_nat split: bind_splits)
qed

lemma directive_null:
  "specifier f = PRINTF_SPECIFIER_STRING \<Longrightarrow> printf_directive putc f k (0 # ap) s = Some (k - 1, ap, s)"
  by (simp add: printf_directive_def generic_printf_string_def va_next_def)

lemma printf_loop_renders:
  assumes "renders m fmt ap k out k'" "quiet putc" "kmem s = m"
  shows "printf_loop putc fmt ap k s = do { s \<leftarrow> emit putc out s; Some (k', s) }"
  using assms(1,3)
proof (induction arbitrary: s)
  case (rend_text c fmt ap k out k')
  have "printf_loop putc fmt ap (k + 1) t = do { s \<leftarrow> emit putc out t; Some (k', s) }" if "putc (ucast c) s = Some t" for t
    using rend_text assms(2) that by (auto simp: quiet_def)
  with rend_text.hyps(1) show ?case by (auto simp: put_def split: bind_splits)
next
  case (rend_percent fmt fmt' f ap k out k')
  have "printf_loop putc fmt' ap (k + 1) t = do { s \<leftarrow> emit putc out t; Some (k', s) }" if "putc 37 s = Some t" for t
    using rend_percent assms(2) that by (auto simp: quiet_def)
  with rend_percent.hyps(1,2) show ?case by (auto simp: printf_directive_def put_def split: bind_splits)
next
  case (rend_number fmt fmt' f x cs ap k out k')
  have "printf_loop putc fmt' ap (k + of_nat (length cs)) t = do { s \<leftarrow> emit putc out t; Some (k', s) }"
    if "emit putc cs s = Some t" for t
    using rend_number assms(2) emit_quiet that by blast
  with rend_number.hyps(1,2) show ?case by (auto simp: directive_number emit_append split: bind_splits)
next
  case (rend_char fmt fmt' f ap k out k' x)
  have "printf_loop putc fmt' ap (k + 1) t = do { s \<leftarrow> emit putc out t; Some (k', s) }"
    if "putc (char_of_arg f x) s = Some t" for t
    using rend_char assms(2) that by (auto simp: quiet_def)
  with rend_char.hyps(1,2) show ?case by (auto simp: directive_char split: bind_splits)
next
  case (rend_string fmt fmt' f p xs ap k out k')
  have "printf_loop putc fmt' ap (k + of_nat (length xs)) t = do { s \<leftarrow> emit putc out t; Some (k', s) }"
    if "emit putc (map ucast xs) s = Some t" for t
    using rend_string assms(2) emit_quiet that by blast
  moreover have "printf_directive putc f k (p # ap) s =
      do { s \<leftarrow> emit putc (map ucast xs) s; Some (k + of_nat (length xs), ap, s) }"
    using rend_string assms(2) by (subst directive_string [where cs = "map ucast xs"]) (auto simp: put_string_emit split: bind_splits)
  ultimately show ?case using rend_string.hyps(1) by (auto simp: emit_append split: bind_splits)
next
  case (rend_wstring fmt fmt' f p xs ap k out k')
  have "printf_loop putc fmt' ap (k + of_nat (length xs)) t = do { s \<leftarrow> emit putc out t; Some (k', s) }"
    if "emit putc xs s = Some t" for t
    using rend_wstring assms(2) emit_quiet that by blast
  moreover have "printf_directive putc f k (p # ap) s =
      do { s \<leftarrow> emit putc xs s; Some (k + of_nat (length xs), ap, s) }"
    using rend_wstring assms(2) by (subst directive_string) (simp_all add: put_wstring_emit)
  ultimately show ?case using rend_wstring.hyps(1) by (auto simp: emit_append split: bind_splits)
next
  case (rend_null fmt fmt' f ap k out k')
  then show ?case by (simp add: directive_null)
qed simp

text \<open>
  C11: the loop over a format string does what the format says. Whenever the format, its
  arguments and the strings in memory render to a list of characters, \<open>generic_printf\<close>
  hands exactly these, in this order, to the output function and returns the count: text is
  copied, numbers appear in decimal, octal or hexadecimal, \<open>%c\<close>, \<open>%s\<close>, \<open>%ls\<close> and
  \<open>%p\<close> as described, and a null string prints nothing but lowers the count by one. The
  output function must leave RAM alone.
\<close>

theorem printf_renders:
  assumes "renders (kmem s) fmt ap 0 out k" "quiet putc"
  shows "generic_printf putc fmt ap s = do { s \<leftarrow> emit putc out s; Some (ucast k, s) }"
  using printf_loop_renders [OF assms refl] by (auto simp: generic_printf_def split: bind_splits)

text \<open>An output function that records what it is given.\<close>

definition log_putc :: "u32 list putc_fun" where
  "log_putc c s = Some (s\<lparr>khw := khw s @ [c]\<rparr>)"

lemma log_quiet: "quiet log_putc"
  by (auto simp: quiet_def log_putc_def)

lemma emit_log: "emit log_putc cs s = Some (s\<lparr>khw := khw s @ cs\<rparr>)"
  by (induction cs arbitrary: s) (simp_all add: log_putc_def)

definition log_state :: "u32 list kstate" where
  "log_state = kernel_state ((\<lambda>_. 0)(0x100 := 0x6F, 0x101 := 0x6B)) [] 0"

lemma log_render:
  "renders (kmem log_state) (literal ''n=%d %s%%'') [-42, 0x100] 0 (map of_char ''n=-42 ok%'') 9"
proof -
  let ?m = "kmem log_state"
  have fmt: "literal ''n=%d %s%%'' = [110, 61, 37, 100, 32, 37, 115, 37, 37]" by code_simp
  let ?percent = "default_format\<lparr>specifier := PRINTF_SPECIFIER_PERCENT\<rparr>"
  let ?string = "default_format\<lparr>specifier := PRINTF_SPECIFIER_STRING\<rparr>"
  have parse: "printf_parse_format [37] = ([], ?percent)" "printf_parse_format [115, 37, 37] = ([37, 37], ?string)"
    "printf_parse_format [100, 32, 37, 115, 37, 37] = ([32, 37, 115, 37, 37], default_format)" by code_simp+
  have number: "number_of default_format (-42) = Some [45, 52, 50]" by code_simp
  have 1: "renders ?m [37, 37] [] 8 [37] 9"
    using rend_percent [OF parse(1), of ?m "[]" 8 "[]" 9] rend_end [of ?m "[]" 9] by simp
  have 2: "renders ?m [37, 115, 37, 37] [0x100] 6 [111, 107, 37] 9"
    using rend_string [OF parse(2), of "0x100" ?m "[0x6F, 0x6B]" "[]" 6 "[37]" 9] 1
    by (simp add: default_format_def log_state_def)
  have 3: "renders ?m [32, 37, 115, 37, 37] [0x100] 5 [32, 111, 107, 37] 9"
    using rend_text [of 32 ?m "[37, 115, 37, 37]" "[0x100]" 5 "[111, 107, 37]" 9] 2 by simp
  have 4: "renders ?m [37, 100, 32, 37, 115, 37, 37] [-42, 0x100] 2 [45, 52, 50, 32, 111, 107, 37] 9"
    using rend_number [OF parse(3) number, of ?m "[0x100]" 2 "[32, 111, 107, 37]" 9] 3 by simp
  have "renders ?m [110, 61, 37, 100, 32, 37, 115, 37, 37] [-42, 0x100] 0 [110, 61, 45, 52, 50, 32, 111, 107, 37] 9"
    using rend_text [of 110 ?m _ _ 0] rend_text [of 61 ?m "[37, 100, 32, 37, 115, 37, 37]" "[-42, 0x100]" 1 _ 9] 4 by simp
  then show ?thesis by (simp add: fmt)
qed

theorem printf_renders_witness:
  "generic_printf log_putc (literal ''n=%d %s%%'') [-42, 0x100] log_state =
     Some (9, log_state\<lparr>khw := map of_char ''n=-42 ok%''\<rparr>)"
  using printf_renders [OF log_render log_quiet] by (simp only: emit_log) (simp add: log_state_def)

section \<open>Round trip, padding, unknown conversions\<close>

lemma digit_char:
  assumes "d < 10"
  shows "is_digit (ucast (dec_char d))" "ucast (ucast (dec_char d) :: byte) = (48 + of_nat d :: u32)"
proof -
  have "d \<in> {0, 1, 2, 3, 4, 5, 6, 7, 8, 9}" using assms by auto
  then show "is_digit (ucast (dec_char d))"
    "ucast (ucast (dec_char d) :: byte) = (48 + of_nat d :: u32)"
    by (elim insertE emptyE; simp add: is_digit_def literal_def dec_char_def)+
qed

lemma parse_width_digits:
  assumes "\<forall>d \<in> set ds. d < 10" "\<not> is_digit (cur rest)"
  shows "parse_width_loop (map (\<lambda>d. ucast (dec_char d)) ds @ rest) f =
    (rest, f\<lparr>width := foldl (\<lambda>w d. 10 * w + of_nat d) (width f) ds\<rparr>)"
  using assms
proof (induction ds arbitrary: f)
  case Nil
  then show ?case by (cases rest) (simp_all add: cur_def)
next
  case (Cons d ds)
  then show ?case using digit_char [of d] by simp
qed

lemma foldl_of_nat: "foldl (\<lambda>w d. 10 * w + of_nat d) (of_nat v :: u32) ds = of_nat (foldl (\<lambda>v d. v * 10 + d) v ds)"
proof (induction ds arbitrary: v)
  case (Cons d ds)
  have "10 * of_nat v + of_nat d = (of_nat (v * 10 + d) :: u32)" by simp
  with Cons [of "v * 10 + d"] show ?case by (simp add: mult.commute [of 10])
qed simp

text \<open>
  C12: what \<open>%u\<close> prints reads back as the same number. The text printed for an unsigned
  argument, followed by anything that does not start with a digit, is consumed whole by the
  width parser, which leaves the number in the width field (modulo \<open>2 ^ 32\<close>, the size of
  the field).
\<close>

theorem printed_number_parses:
  assumes "\<not> is_digit (cur rest)" "width f = 0"
  shows "\<exists>cs. generic_printf_unsigned putc g (x # ap) s = printed putc cs ap s \<and>
     printf_parse_width (map ucast cs @ rest) f =
       (rest, f\<lparr>items := items f OR PRINTF_ITEM_WIDTH, width := ucast (unsigned_arg (length_mod g) x)\<rparr>)"
proof -
  let ?n = "unat (unsigned_arg (length_mod g) x)"
  define ds where "ds = (if ?n = 0 then [0] else radix_digits 10 ?n)"
  have out: "map ucast (number_text dec_char 10 ?n) = map (\<lambda>d. ucast (dec_char d) :: byte) ds"
    by (simp add: number_text_def ds_def)
  have less: "\<forall>d \<in> set ds. d < 10"
    using radix_digits_less [of 10 _ ?n] by (auto simp: ds_def)
  have "foldl (\<lambda>w d. 10 * w + of_nat d) (0 :: u32) ds = of_nat ?n"
    using foldl_of_nat [of 0 ds] radix_digits_value [of 10 ?n] by (auto simp: ds_def simp del: of_nat_unat)
  then have loop: "parse_width_loop (map (\<lambda>d. ucast (dec_char d)) ds @ rest) (f\<lparr>items := items f OR PRINTF_ITEM_WIDTH\<rparr>) =
      (rest, f\<lparr>items := items f OR PRINTF_ITEM_WIDTH, width := ucast (unsigned_arg (length_mod g) x)\<rparr>)"
    using parse_width_digits [OF less assms(1), of "f\<lparr>items := items f OR PRINTF_ITEM_WIDTH\<rparr>"] assms(2) by simp
  have "ds \<noteq> []" using radix_digits.simps [of 10 ?n] by (auto simp: ds_def)
  then obtain d ds' where ds: "ds = d # ds'" by (cases ds) auto
  then have "is_digit (ucast (dec_char d))" using less digit_char(1) by simp
  moreover from this have "(ucast (dec_char d) :: byte) \<noteq> c8 CHR ''*''" by (auto simp: is_digit_def literal_def)
  ultimately have "printf_parse_width (map (\<lambda>d. ucast (dec_char d)) ds @ rest) f =
      (rest, f\<lparr>items := items f OR PRINTF_ITEM_WIDTH, width := ucast (unsigned_arg (length_mod g) x)\<rparr>)"
    using loop by (simp add: printf_parse_width_def cur_def ds)
  then show ?thesis
    using printf_unsigned_text [of putc g x ap s] by (auto simp flip: out)
qed

theorem printed_number_parses_witness:
  "\<exists>cs. generic_printf_unsigned log_putc default_format (42 # []) log_state = printed log_putc cs [] log_state \<and>
     printf_parse_width (map ucast cs @ literal ''x'') default_format =
       (literal ''x'', default_format\<lparr>items := items default_format OR PRINTF_ITEM_WIDTH,
          width := ucast (unsigned_arg (length_mod default_format) 42)\<rparr>)"
proof (rule printed_number_parses)
  show "\<not> is_digit (cur (literal ''x''))" by code_simp
  show "width default_format = 0" by (simp add: default_format_def)
qed

text \<open>
  A field width, a precision and the flags \<open>-\<close> and \<open>0\<close> are parsed and then
  ignored, and a width given as \<open>*\<close> takes no argument: two formats that differ only in
  these print the same from the same arguments.
\<close>

theorem padding_ignored:
  "printf_directive putc (f\<lparr>width := w, precision := p, width_as_arg := a, precision_as_arg := b, items := i,
     flags := flags f OR PRINTF_FLAGS_LEFT_JUSTIFY OR PRINTF_FLAGS_LEFTPAD_ZEROES\<rparr>) k ap s =
   printf_directive putc f k ap s"
proof -
  let ?g = "f\<lparr>width := w, precision := p, width_as_arg := a, precision_as_arg := b, items := i,
     flags := flags f OR PRINTF_FLAGS_LEFT_JUSTIFY OR PRINTF_FLAGS_LEFTPAD_ZEROES\<rparr>"
  have bits: "flags ?g AND m = flags f AND m" if "m \<in> {2, 4, 8}" for m
    using that by (auto simp: printf_flag_defs bit.conj_disj_distrib2)
  show ?thesis
    using bits [of 2] bits [of 4] bits [of 8]
    by (cases "specifier f"; cases ap) (simp_all add: va_next_def printf_directive_def generic_printf_decimal_def generic_printf_unsigned_def
        generic_printf_octal_def generic_printf_hex_def generic_printf_char_def generic_printf_string_def
        generic_printf_pointer_def generic_printf_getcount_def Let_def
        PRINTF_FLAGS_PLUS_OR_MINUS_def PRINTF_FLAGS_SPACE_IF_NO_SIGN_def PRINTF_FLAGS_PRECEDING_ID_def)
qed

lemma str_contains_set: "str_contains xs c \<longleftrightarrow> c \<in> set xs"
  by (induction xs) auto

text \<open>The characters that mean something after a \<open>%\<close>.\<close>

definition directive_chars :: "byte list" where
  "directive_chars = literal ''-+ #0123456789*.hljztLdiuoxXfFeEgGaAcspn%''"

lemma parse_unknown:
  assumes "c \<notin> set directive_chars"
  shows "printf_parse_format (c # s) = (c # s, default_format)"
proof -
  have sub: "set (literal ''-+ #0'') \<subseteq> set directive_chars" "set (literal ''0123456789'') \<subseteq> set directive_chars"
    "set (literal ''hljztL'') \<subseteq> set directive_chars" "set (literal ''diuoxXfFeEgGaAcspn%'') \<subseteq> set directive_chars"
    "set (literal ''*.'') \<subseteq> set directive_chars"
    by code_simp+
  have "\<not> str_contains (literal ''-+ #0'') c" "\<not> is_digit c" "\<not> str_contains (literal ''hljztL'') c"
    "\<not> str_contains (literal ''diuoxXfFeEgGaAcspn%'') c"
    using assms sub(1-4) by (auto simp: str_contains_set is_digit_def)
  moreover have "c \<noteq> c8 CHR ''*''" "c \<noteq> c8 CHR ''.''"
    using assms sub(5) by (auto simp: literal_def)
  ultimately show ?thesis
    by (simp add: printf_parse_format_def printf_parse_flags_def printf_parse_width_def printf_parse_precision_def
        printf_parse_length_def printf_parse_specifier_def cur_def)
qed

text \<open>
  A \<open>%\<close> followed by a character that starts no conversion is not printed and not
  rejected: it consumes an argument and prints it as an \<open>int\<close>, and the character follows
  as text.
\<close>

theorem unknown_conversion_prints_int:
  assumes "c \<notin> set directive_chars"
  shows "printf_loop putc (c8 CHR ''%'' # c # s) (x # ap) k st = do {
     st \<leftarrow> emit putc (signed_text default_format (scast (ucast x :: i32))) st;
     printf_loop putc (c # s) ap (k + of_nat (length (signed_text default_format (scast (ucast x :: i32))))) st
   }"
proof -
  have "number_of default_format x = Some (signed_text default_format (scast (ucast x :: i32)))"
    by (simp add: number_of_def default_format_def signed_arg_def)
  from directive_number [OF this, of putc k ap st] parse_unknown [OF assms, of s] show ?thesis
    by (subst printf_loop.simps(2)) (simp split: bind_splits)
qed

theorem unknown_conversion_prints_int_witness:
  "printf_loop log_putc (c8 CHR ''%'' # c8 CHR ''q'' # []) [7] 0 log_state =
     Some (2, log_state\<lparr>khw := [c32 CHR ''7'', c32 CHR ''q'']\<rparr>)"
proof -
  have h: "c8 CHR ''q'' \<notin> set directive_chars" by code_simp
  have t: "signed_text default_format (scast (ucast (7 :: u64) :: i32)) = [55]" by code_simp
  show ?thesis
    using unknown_conversion_prints_int [OF h, of log_putc "[]" 7 "[]" 0 log_state]
    by (simp only: t emit_log) (simp add: put_def log_putc_def log_state_def)
qed

section \<open>The interface to an output device\<close>

text \<open>
  What \<open>generic_printf\<close> relies on of the function that puts out a character: in
  surroundings \<open>env e Pl\<close> it keeps a relation \<open>rel e\<close> to the state before the call, and so does a store
  through an admissible pointer. A \<open>%n\<close> stores through an argument, so the slots must be
  admissible unless the format has no such directive.
\<close>

function stores_count :: "byte list \<Rightarrow> bool" where
  "stores_count [] = False"
| "stores_count (c # s) =
     (if c \<noteq> c8 CHR ''%'' then stores_count s
      else (let (s, f) = printf_parse_format s
            in specifier f = PRINTF_SPECIFIER_GET_NCHARS \<or> stores_count s))"
  by pat_completeness auto
termination
proof (relation "measure length", simp_all)
  fix s :: "byte list" and xa f
  assume "(xa, f) = printf_parse_format s"
  then show "length xa < Suc (length s)"
    using parse_format_length [of s] by (metis fst_conv le_imp_less_Suc)
qed

lemma store_le_frame:
  "block_in W p (of_nat n) \<Longrightarrow> n \<le> 8 \<Longrightarrow> a \<notin> W \<Longrightarrow> store_le n v p m a = m a"
proof (induction n arbitrary: v p m)
  case (Suc n)
  have "p \<in> W"
    using Suc.prems(1,2) by (auto simp: block_in_def in_region_def word_less_nat_alt unsigned_of_nat take_bit_nat_eq_self
        simp del: of_nat_Suc)
  moreover have "block_in W (p + 1) (of_nat n)"
    unfolding block_in_def
  proof (intro allI impI)
    fix b
    assume "in_region (p + 1) (of_nat n) b"
    then have "unat (b - (p + 1)) < n"
      using Suc.prems(2) by (simp add: in_region_def word_less_nat_alt unsigned_of_nat take_bit_nat_eq_self)
    moreover from this have "unat (1 + (b - (p + 1))) = 1 + unat (b - (p + 1))"
      using Suc.prems(2) by (subst unat_plus_if') simp
    ultimately have "unat (b - p) < Suc n" by simp
    with Suc.prems(1,2) show "b \<in> W"
      by (auto simp: block_in_def in_region_def word_less_nat_alt unsigned_of_nat take_bit_nat_eq_self simp del: of_nat_Suc)
  qed
  ultimately show ?case using Suc by auto
qed simp

lemma frame_store_le:
  assumes "frame W s0 s" "block_in W p 8" "n \<le> 8"
  shows "frame W s0 (s\<lparr>kmem := store_le n v p (kmem s)\<rparr>)"
proof -
  have "block_in W p (of_nat n)"
    using assms(2) by (rule block_in_take) (use assms(3) in \<open>simp add: word_le_nat_alt unsigned_of_nat take_bit_nat_eq_self\<close>)
  with assms(1,3) store_le_frame show ?thesis by (simp add: frame_def)
qed

locale char_sink =
  fixes putc :: "'h platform \<Rightarrow> 'h putc_fun"
    and env :: "'e \<Rightarrow> 'h platform \<Rightarrow> bool"
    and rel :: "'e \<Rightarrow> 'h kstate \<Rightarrow> 'h kstate \<Rightarrow> bool"
    and ok :: "'e \<Rightarrow> addr \<Rightarrow> bool"
  assumes putc_rel: "env e Pl \<Longrightarrow> rel e s0 s \<Longrightarrow> putc Pl c s = Some t \<Longrightarrow> rel e s0 t"
    and store_rel: "rel e s0 s \<Longrightarrow> ok e p \<Longrightarrow> n \<le> 8 \<Longrightarrow> rel e s0 (s\<lparr>kmem := store_le n v p (kmem s)\<rparr>)"
begin

lemma emit_rel: "env e Pl \<Longrightarrow> rel e s0 s \<Longrightarrow> emit (putc Pl) cs s = Some t \<Longrightarrow> rel e s0 t"
  by (induction cs arbitrary: s) (auto simp: bind_Some_iff dest: putc_rel)

lemma put_string_rel:
  assumes "env e Pl" "rel e s0 s" "put_string (putc Pl) p count s = Some (n, t)"
  shows "rel e s0 t"
proof -
  let ?P = "\<lambda>q p count s r. q = putc Pl \<longrightarrow> rel e s0 s \<longrightarrow> rel e s0 (snd r)"
  have "?P (putc Pl) p count s (n, t)"
  proof (rule put_string.raw_induct [where P = ?P, OF _ assms(3)], intro impI, goal_cases)
    case (1 rec q p count s r)
    show ?case
    proof (cases "kmem s p \<noteq> 0")
      case True
      with "1"(2,3) obtain u where "putc Pl (ucast (kmem s p)) s = Some u" "rec q (p + 1) (count + 1) u = Some r"
        by (auto simp: put_def bind_Some_iff)
      with "1"(1,3,4) show ?thesis using putc_rel [OF assms(1)] by blast
    qed (use "1"(2,4) in auto)
  qed
  with assms(2) show ?thesis by simp
qed

lemma put_wstring_rel:
  assumes "env e Pl" "rel e s0 s" "put_wstring (putc Pl) p count s = Some (n, t)"
  shows "rel e s0 t"
proof -
  let ?P = "\<lambda>q p count s r. q = putc Pl \<longrightarrow> rel e s0 s \<longrightarrow> rel e s0 (snd r)"
  have "?P (putc Pl) p count s (n, t)"
  proof (rule put_wstring.raw_induct [where P = ?P, OF _ assms(3)], intro impI, goal_cases)
    case (1 rec q p count s r)
    show ?case
    proof (cases "load32 (kmem s) p \<noteq> 0")
      case True
      with "1"(2,3) obtain u where "putc Pl (load32 (kmem s) p) s = Some u" "rec q (p + 4) (count + 1) u = Some r"
        by (auto simp: put_def bind_Some_iff)
      with "1"(1,3,4) show ?thesis using putc_rel [OF assms(1)] by blast
    qed (use "1"(2,4) in auto)
  qed
  with assms(2) show ?thesis by simp
qed

lemma directive_rel:
  assumes "env e Pl" "rel e s0 s" "specifier f \<noteq> PRINTF_SPECIFIER_GET_NCHARS \<or> (\<forall>p \<in> set ap. ok e p)"
    and "printf_directive (putc Pl) f k ap s = Some (k', ap', t)"
  shows "rel e s0 t \<and> set ap' \<subseteq> set ap"
proof (cases "specifier f = PRINTF_SPECIFIER_PERCENT")
  case True
  with assms show ?thesis
    by (auto simp: printf_directive_def put_def bind_Some_iff dest: putc_rel)
next
  case False
  have "printf_directive (putc Pl) f k [] s = None"
    using False by (cases "specifier f")
      (simp_all add: printf_directive_def va_next_def generic_printf_decimal_def generic_printf_unsigned_def
        generic_printf_octal_def generic_printf_hex_def generic_printf_char_def generic_printf_string_def
        generic_printf_pointer_def generic_printf_getcount_def)
  with assms(4) obtain x aq where ap: "ap = x # aq" by (cases ap) auto
  note texts = printf_decimal_text printf_unsigned_text printf_octal_text printf_hex_text printf_pointer_text printed_def
  show ?thesis
  proof (cases "specifier f")
    case PRINTF_SPECIFIER_STRING
    with assms ap show ?thesis
      by (auto simp: printf_directive_def generic_printf_string_def va_next_def bind_Some_iff
          split: if_split_asm printf_length.splits dest: put_string_rel put_wstring_rel)
  next
    case PRINTF_SPECIFIER_CHAR
    with assms ap show ?thesis
      by (auto simp: directive_char bind_Some_iff dest: putc_rel)
  next
    case PRINTF_SPECIFIER_GET_NCHARS
    define n :: nat where "n = (case length_mod f of PRINTF_LENGTH_SHORT2 \<Rightarrow> 1 | PRINTF_LENGTH_SHORT \<Rightarrow> 2
      | PRINTF_LENGTH_LONG \<Rightarrow> 8 | PRINTF_LENGTH_LONG2 \<Rightarrow> 8 | PRINTF_LENGTH_LONGEST \<Rightarrow> 8 | PRINTF_LENGTH_SIZE \<Rightarrow> 8
      | PRINTF_LENGTH_PTRDIFF \<Rightarrow> 8 | _ \<Rightarrow> 4)"
    have n: "n \<le> 8" by (simp add: n_def split: printf_length.splits)
    have "ok e x" using assms(3) PRINTF_SPECIFIER_GET_NCHARS ap by simp
    then have "rel e s0 (s\<lparr>kmem := store_le n v x (kmem s)\<rparr>)" for v
      using assms(2) n store_rel by blast
    with PRINTF_SPECIFIER_GET_NCHARS assms(2,4) ap show ?thesis
      by (auto simp: printf_directive_def generic_printf_getcount_def va_next_def bind_Some_iff n_def [symmetric]
          split: if_split_asm)
  qed (use False assms ap in \<open>auto simp: printf_directive_def texts bind_Some_iff dest: emit_rel\<close>)
qed

lemma printf_loop_rel:
  assumes "env e Pl"
  shows "rel e s0 s \<Longrightarrow> \<not> stores_count fmt \<or> (\<forall>p \<in> set ap. ok e p) \<Longrightarrow>
    printf_loop (putc Pl) fmt ap k s = Some (n, t) \<Longrightarrow> rel e s0 t"
proof (induction fmt arbitrary: ap k s rule: stores_count.induct)
  case (2 c fmt)
  show ?case
  proof (cases "c = c8 CHR ''%''")
    case False
    with 2 show ?thesis
      by (auto simp: put_def bind_Some_iff dest: putc_rel [OF assms])
  next
    case True
    obtain fmt' f where p: "printf_parse_format fmt = (fmt', f)" by (cases "printf_parse_format fmt") auto
    with True "2.prems"(3) obtain k1 ap1 s1 where d: "printf_directive (putc Pl) f k ap s = Some (k1, ap1, s1)"
      "printf_loop (putc Pl) fmt' ap1 k1 s1 = Some (n, t)"
      by (auto simp: bind_Some_iff)
    have safe: "specifier f \<noteq> PRINTF_SPECIFIER_GET_NCHARS \<or> (\<forall>p \<in> set ap. ok e p)"
      "\<not> stores_count fmt' \<or> (\<forall>p \<in> set ap. ok e p)"
      using "2.prems"(2) True p by auto
    from directive_rel [OF assms "2.prems"(1) safe(1) d(1)] have "rel e s0 s1" "set ap1 \<subseteq> set ap" by auto
    with "2.IH"(2) [OF _ p [symmetric] refl] d(2) safe(2) True show ?thesis by blast
  qed
qed simp

lemma printf_rel:
  "env e Pl \<Longrightarrow> rel e s0 s \<Longrightarrow> \<not> stores_count fmt \<or> (\<forall>p \<in> set ap. ok e p) \<Longrightarrow>
   wlp (generic_printf (putc Pl) fmt ap s) (\<lambda>(n, t). rel e s0 t)"
  by (auto simp: generic_printf_def wlp_def bind_Some_iff intro: printf_loop_rel)

end

end
