(* ===== verification/Uart.thy ===== *)
theory Uart
  imports Mbox Printf_Spec
begin

text \<open>
  The two serial ports: the PL011 of \<open>src/drivers/GPIO/uart_PL011.c\<close> (\<open>uart0\<close>) and
  the mini UART of \<open>src/drivers/GPIO/miniUART.c\<close> (\<open>uart1\<close>). Sending polls a status
  register, so it need not return. The busy loops of \<open>nop\<close> instructions between
  register writes have no effect on the state and are left out; \<open>DEBUG_PRINT_SLOW\<close> is not
  defined. Both ports are output devices in the sense of \<open>char_sink\<close>.
\<close>

section \<open>Registers (include/drivers/hw/uart.h, gpio.h)\<close>

definition UART0_BASE :: addr where [reg_defs]: "UART0_BASE = MMIO_BASE OR 0x00201000"
definition UART0_DR :: addr where [reg_defs]: "UART0_DR = UART0_BASE OR 0x00"
definition UART0_FR :: addr where [reg_defs]: "UART0_FR = UART0_BASE OR 0x18"
definition UART0_IBRD :: addr where [reg_defs]: "UART0_IBRD = UART0_BASE OR 0x24"
definition UART0_FBRD :: addr where [reg_defs]: "UART0_FBRD = UART0_BASE OR 0x28"
definition UART0_LCRH :: addr where [reg_defs]: "UART0_LCRH = UART0_BASE OR 0x2C"
definition UART0_CR :: addr where [reg_defs]: "UART0_CR = UART0_BASE OR 0x30"
definition UART0_ICR :: addr where [reg_defs]: "UART0_ICR = UART0_BASE OR 0x44"

definition UART1_BASE :: addr where [reg_defs]: "UART1_BASE = MMIO_BASE OR 0x00215000"
definition AUX_ENABLE :: addr where [reg_defs]: "AUX_ENABLE = UART1_BASE OR 0x04"
definition AUX_MU_IO :: addr where [reg_defs]: "AUX_MU_IO = UART1_BASE OR 0x40"
definition AUX_MU_IER :: addr where [reg_defs]: "AUX_MU_IER = UART1_BASE OR 0x44"
definition AUX_MU_IIR :: addr where [reg_defs]: "AUX_MU_IIR = UART1_BASE OR 0x48"
definition AUX_MU_LCR :: addr where [reg_defs]: "AUX_MU_LCR = UART1_BASE OR 0x4C"
definition AUX_MU_MCR :: addr where [reg_defs]: "AUX_MU_MCR = UART1_BASE OR 0x50"
definition AUX_MU_LSR :: addr where [reg_defs]: "AUX_MU_LSR = UART1_BASE OR 0x54"
definition AUX_MU_CNTL :: addr where [reg_defs]: "AUX_MU_CNTL = UART1_BASE OR 0x60"
definition AUX_MU_BAUD :: addr where [reg_defs]: "AUX_MU_BAUD = UART1_BASE OR 0x68"

definition GPIO_BASE :: addr where [reg_defs]: "GPIO_BASE = MMIO_BASE OR 0x200000"
definition GPFSEL0 :: addr where [reg_defs]: "GPFSEL0 = GPIO_BASE OR 0x00"
definition GPFSEL1 :: addr where [reg_defs]: "GPFSEL1 = GPIO_BASE OR 0x04"
definition GPFSEL2 :: addr where [reg_defs]: "GPFSEL2 = GPIO_BASE OR 0x08"
definition GPFSEL3 :: addr where [reg_defs]: "GPFSEL3 = GPIO_BASE OR 0x0C"
definition GPFSEL4 :: addr where [reg_defs]: "GPFSEL4 = GPIO_BASE OR 0x10"
definition GPFSEL5 :: addr where [reg_defs]: "GPFSEL5 = GPIO_BASE OR 0x14"
definition GPPUD :: addr where [reg_defs]: "GPPUD = GPIO_BASE OR 0x94"
definition GPPUDCLK0 :: addr where [reg_defs]: "GPPUDCLK0 = GPIO_BASE OR 0x98"
definition GPPUDCLK1 :: addr where [reg_defs]: "GPPUDCLK1 = GPIO_BASE OR 0x9C"

definition MBOX_TAG_SET_CLK_RATE :: u32 where "MBOX_TAG_SET_CLK_RATE = 0x00038002"

abbreviation newline :: u32 where "newline \<equiv> 0x0A"
abbreviation carriage_return :: u32 where "carriage_return \<equiv> 0x0D"

text \<open>Storing consecutive words of an automatic array.\<close>

fun store_words :: "addr \<Rightarrow> u32 \<Rightarrow> u32 list \<Rightarrow> mem \<Rightarrow> mem" where
  "store_words p i [] m = m"
| "store_words p i (v # vs) m = store_words p (i + 1) vs (set_word p i v m)"

section \<open>PL011\<close>

definition uart0_clock_message :: "u32 list" where
  "uart0_clock_message =
     [9 * 4, MBOX_REQUEST, MBOX_TAG_SET_CLK_RATE, 12, 8, 2, 4000000, 0, MBOX_TAG_LAST]"

text \<open>GPIO 14 and 15 get the alternate function \<open>alt\<close> and are enabled.\<close>

definition uart_pins :: "'h platform \<Rightarrow> u32 \<Rightarrow> 'h kstate \<Rightarrow> 'h kstate option" where
  "uart_pins Pl alt s = do {
     (r, s) \<leftarrow> GET32 Pl GPFSEL1 s;
     let r = r AND NOT (push_bit 12 7 OR push_bit 15 7);
     let r = r OR push_bit 12 alt OR push_bit 15 alt;
     s \<leftarrow> PUT32 Pl GPFSEL1 r s;
     s \<leftarrow> PUT32 Pl GPPUD 0 s;
     s \<leftarrow> PUT32 Pl GPPUDCLK0 (push_bit 14 1 OR push_bit 15 1) s;
     PUT32 Pl GPPUDCLK0 0 s
   }"

definition uart0_init :: "'h platform \<Rightarrow> 'h kstate \<Rightarrow> 'h kstate option" where
  "uart0_init Pl s = do {
     let mbox = local_addr Pl ''uart0_init.mbox'';
     s \<leftarrow> PUT32 Pl UART0_CR 0 s;
     let s = s\<lparr>kmem := store_words mbox 0 uart0_clock_message (kmem s)\<rparr>;
     (_, s) \<leftarrow> mbox_call_raw Pl mbox s;
     s \<leftarrow> uart_pins Pl 4 s;
     s \<leftarrow> PUT32 Pl UART0_ICR 0x7FF s;
     s \<leftarrow> PUT32 Pl UART0_IBRD 2 s;
     s \<leftarrow> PUT32 Pl UART0_FBRD 0xB s;
     s \<leftarrow> PUT32 Pl UART0_LCRH (push_bit 4 0x7) s;
     s \<leftarrow> PUT32 Pl UART0_CR 0x301 s;
     Some (s\<lparr>uart0_putc_enabled := True\<rparr>)
   }"

definition uart0_send :: "'h platform \<Rightarrow> 'h putc_fun" where
  "uart0_send Pl c s = do {
     s \<leftarrow> wait_status Pl UART0_FR 0x20 s;
     PUT32 Pl UART0_DR c s
   }"

definition uart0_putc :: "'h platform \<Rightarrow> 'h putc_fun" where
  "uart0_putc Pl c s = do {
     s \<leftarrow> (if c = newline then uart0_send Pl carriage_return s else Some s);
     uart0_send Pl c s
   }"

definition from_serial :: "u32 \<Rightarrow> byte" where
  "from_serial x = (let r = ucast x in if r = 0x0D then 0x0A else r)"

definition uart0_getc :: "'h platform \<Rightarrow> 'h kstate \<Rightarrow> (byte \<times> 'h kstate) option" where
  "uart0_getc Pl s = do {
     s \<leftarrow> wait_status Pl UART0_FR 0x10 s;
     (r, s) \<leftarrow> GET32 Pl UART0_DR s;
     Some (from_serial r, s)
   }"

partial_function (option) uart0_puts_loop :: "'h platform \<Rightarrow> addr \<Rightarrow> 'h kstate \<Rightarrow> 'h kstate option" where
  "uart0_puts_loop Pl p s =
     (if kmem s p \<noteq> 0 then do {
        s \<leftarrow> (if kmem s p = 0x0A then do {
               s \<leftarrow> wait_status Pl UART0_FR 0x20 s;
               PUT32 Pl UART0_DR carriage_return s
             } else Some s);
        s \<leftarrow> wait_status Pl UART0_FR 0x20 s;
        s \<leftarrow> PUT32 Pl UART0_DR (ucast (kmem s p)) s;
        uart0_puts_loop Pl (p + 1) s
      }
      else Some s)"

declare uart0_puts_loop.simps [code]

definition uart0_puts :: "'h platform \<Rightarrow> addr \<Rightarrow> 'h kstate \<Rightarrow> 'h kstate option" where
  "uart0_puts Pl p s = (if p = 0 then Some s else uart0_puts_loop Pl p s)"

definition nibble_char :: "byte \<Rightarrow> u32" where
  "nibble_char d = (let n = ucast (d AND 0xF) in n + (if n > 9 then c32 CHR ''A'' - 10 else c32 CHR ''0''))"

definition uart0_hex4 :: "'h platform \<Rightarrow> byte \<Rightarrow> 'h kstate \<Rightarrow> 'h kstate option" where
  "uart0_hex4 Pl d s = uart0_send Pl (nibble_char d) s"

definition uart0_hex8 :: "'h platform \<Rightarrow> byte \<Rightarrow> 'h kstate \<Rightarrow> 'h kstate option" where
  "uart0_hex8 Pl d s = do { s \<leftarrow> uart0_hex4 Pl (drop_bit 4 d) s; uart0_hex4 Pl d s }"

text \<open>
  The byte dumps of both drivers have the same loops, over \<open>hex8\<close> and \<open>puts\<close> of the
  port: forward, and from the highest byte down.
\<close>

function nhex_loop ::
    "(byte \<Rightarrow> 'h kstate \<Rightarrow> 'h kstate option) \<Rightarrow> (addr \<Rightarrow> 'h kstate \<Rightarrow> 'h kstate option) \<Rightarrow>
     addr \<Rightarrow> u64 \<Rightarrow> addr \<Rightarrow> u64 \<Rightarrow> 'h kstate \<Rightarrow> 'h kstate option" where
  "nhex_loop hex8 puts src n sep i s =
     (if i < n then do {
        s \<leftarrow> hex8 (kmem s (src + i)) s;
        s \<leftarrow> (if i \<noteq> n - 1 then puts sep s else Some s);
        nhex_loop hex8 puts src n sep (i + 1) s
      }
      else Some s)"
  by pat_completeness auto
termination
  by (relation "measure (\<lambda>(h, p, src, n, sep, i, s). unat (n - i))") (simp_all add: count_down_less)

function rnhex_loop ::
    "(byte \<Rightarrow> 'h kstate \<Rightarrow> 'h kstate option) \<Rightarrow> (addr \<Rightarrow> 'h kstate \<Rightarrow> 'h kstate option) \<Rightarrow>
     addr \<Rightarrow> addr \<Rightarrow> u64 \<Rightarrow> 'h kstate \<Rightarrow> 'h kstate option" where
  "rnhex_loop hex8 puts src sep i s =
     (if i > 0 then do {
        s \<leftarrow> hex8 (kmem s (src + i - 1)) s;
        s \<leftarrow> (if i \<noteq> 1 then puts sep s else Some s);
        rnhex_loop hex8 puts src sep (i - 1) s
      }
      else Some s)"
  by pat_completeness auto
termination
  by (relation "measure (\<lambda>(h, p, src, sep, i, s). unat i)") (auto simp: unat_minus_one unat_gt_0 word_gt_0)

declare nhex_loop.simps [simp del] rnhex_loop.simps [simp del]

definition uart0_nhex :: "'h platform \<Rightarrow> addr \<Rightarrow> u64 \<Rightarrow> addr \<Rightarrow> 'h kstate \<Rightarrow> 'h kstate option" where
  "uart0_nhex Pl src n sep s = nhex_loop (uart0_hex8 Pl) (uart0_puts Pl) src n sep 0 s"

definition uart0_rnhex :: "'h platform \<Rightarrow> addr \<Rightarrow> u64 \<Rightarrow> addr \<Rightarrow> 'h kstate \<Rightarrow> 'h kstate option" where
  "uart0_rnhex Pl src n sep s = rnhex_loop (uart0_hex8 Pl) (uart0_puts Pl) src sep n s"

definition uart0_printf :: "'h platform \<Rightarrow> byte list \<Rightarrow> va_list \<Rightarrow> 'h kstate \<Rightarrow> (i32 \<times> 'h kstate) option" where
  "uart0_printf Pl fmt ap s = generic_printf (uart0_putc Pl) fmt ap s"

section \<open>Mini UART\<close>

definition uart1_init :: "'h platform \<Rightarrow> 'h kstate \<Rightarrow> 'h kstate option" where
  "uart1_init Pl s = do {
     (x, s) \<leftarrow> GET32 Pl AUX_ENABLE s;
     s \<leftarrow> PUT32 Pl AUX_ENABLE (x OR 1) s;
     s \<leftarrow> PUT32 Pl AUX_MU_CNTL 0 s;
     s \<leftarrow> PUT32 Pl AUX_MU_LCR 3 s;
     s \<leftarrow> PUT32 Pl AUX_MU_MCR 0 s;
     s \<leftarrow> PUT32 Pl AUX_MU_IER 0 s;
     s \<leftarrow> PUT32 Pl AUX_MU_IIR 0xC6 s;
     s \<leftarrow> PUT32 Pl AUX_MU_BAUD 270 s;
     s \<leftarrow> uart_pins Pl 2 s;
     s \<leftarrow> PUT32 Pl AUX_MU_CNTL 3 s;
     Some (s\<lparr>uart1_putc_enabled := True\<rparr>)
   }"

partial_function (option) wait_ready :: "'h platform \<Rightarrow> addr \<Rightarrow> u32 \<Rightarrow> 'h kstate \<Rightarrow> 'h kstate option" where
  "wait_ready Pl reg bits s = do {
     (x, s) \<leftarrow> GET32 Pl reg s;
     if x AND bits = 0 then wait_ready Pl reg bits s else Some s
   }"

declare wait_ready.simps [code]

definition uart1_send :: "'h platform \<Rightarrow> 'h putc_fun" where
  "uart1_send Pl c s = do {
     s \<leftarrow> wait_ready Pl AUX_MU_LSR 0x20 s;
     PUT32 Pl AUX_MU_IO c s
   }"

definition uart1_putc :: "'h platform \<Rightarrow> 'h putc_fun" where
  "uart1_putc Pl c s = do {
     s \<leftarrow> (if c = newline then uart1_send Pl carriage_return s else Some s);
     uart1_send Pl c s
   }"

definition uart1_getc :: "'h platform \<Rightarrow> 'h kstate \<Rightarrow> (byte \<times> 'h kstate) option" where
  "uart1_getc Pl s = do {
     s \<leftarrow> wait_ready Pl AUX_MU_LSR 0x01 s;
     (r, s) \<leftarrow> GET32 Pl AUX_MU_IO s;
     Some (from_serial r, s)
   }"

partial_function (option) uart1_puts_loop :: "'h platform \<Rightarrow> addr \<Rightarrow> 'h kstate \<Rightarrow> 'h kstate option" where
  "uart1_puts_loop Pl p s =
     (if kmem s p \<noteq> 0 then do {
        s \<leftarrow> (if kmem s p = 0x0A then uart1_send Pl carriage_return s else Some s);
        s \<leftarrow> uart1_send Pl (ucast (kmem s p)) s;
        uart1_puts_loop Pl (p + 1) s
      }
      else Some s)"

declare uart1_puts_loop.simps [code]

definition uart1_puts :: "'h platform \<Rightarrow> addr \<Rightarrow> 'h kstate \<Rightarrow> 'h kstate option" where
  "uart1_puts Pl p s = (if p = 0 then Some s else uart1_puts_loop Pl p s)"

function uart1_dec :: "'h platform \<Rightarrow> u64 \<Rightarrow> 'h kstate \<Rightarrow> 'h kstate option" where
  "uart1_dec Pl d s = do {
     s \<leftarrow> (if d > 9 then uart1_dec Pl (d div 10) s else Some s);
     uart1_send Pl (ucast (c8 CHR ''0'') + ucast (d mod 10)) s
   }"
  by pat_completeness auto
termination
  by (relation "measure (\<lambda>(Pl, d, s). unat d)") (auto simp: unat_div word_less_nat_alt intro: div_less_dividend)

declare uart1_dec.simps [simp del]

definition uart1_hex4 :: "'h platform \<Rightarrow> byte \<Rightarrow> 'h kstate \<Rightarrow> 'h kstate option" where
  "uart1_hex4 Pl d s = uart1_send Pl (nibble_char d) s"

definition uart1_hex8 :: "'h platform \<Rightarrow> byte \<Rightarrow> 'h kstate \<Rightarrow> 'h kstate option" where
  "uart1_hex8 Pl d s = do { s \<leftarrow> uart1_hex4 Pl (drop_bit 4 d) s; uart1_hex4 Pl d s }"

definition uart1_hex16 :: "'h platform \<Rightarrow> u16 \<Rightarrow> 'h kstate \<Rightarrow> 'h kstate option" where
  "uart1_hex16 Pl d s = do { s \<leftarrow> uart1_hex8 Pl (ucast (drop_bit 8 d)) s; uart1_hex8 Pl (ucast d) s }"

definition uart1_hex32 :: "'h platform \<Rightarrow> u32 \<Rightarrow> 'h kstate \<Rightarrow> 'h kstate option" where
  "uart1_hex32 Pl d s = do { s \<leftarrow> uart1_hex16 Pl (ucast (drop_bit 16 d)) s; uart1_hex16 Pl (ucast d) s }"

definition uart1_hex64 :: "'h platform \<Rightarrow> u64 \<Rightarrow> 'h kstate \<Rightarrow> 'h kstate option" where
  "uart1_hex64 Pl d s = do { s \<leftarrow> uart1_hex32 Pl (ucast (drop_bit 32 d)) s; uart1_hex32 Pl (ucast d) s }"

definition uart1_nhex :: "'h platform \<Rightarrow> addr \<Rightarrow> u64 \<Rightarrow> addr \<Rightarrow> 'h kstate \<Rightarrow> 'h kstate option" where
  "uart1_nhex Pl src n sep s = nhex_loop (uart1_hex8 Pl) (uart1_puts Pl) src n sep 0 s"

definition uart1_rnhex :: "'h platform \<Rightarrow> addr \<Rightarrow> u64 \<Rightarrow> addr \<Rightarrow> 'h kstate \<Rightarrow> 'h kstate option" where
  "uart1_rnhex Pl src n sep s = rnhex_loop (uart1_hex8 Pl) (uart1_puts Pl) src sep n s"

definition uart1_printf :: "'h platform \<Rightarrow> byte list \<Rightarrow> va_list \<Rightarrow> 'h kstate \<Rightarrow> (i32 \<times> 'h kstate) option" where
  "uart1_printf Pl fmt ap s = generic_printf (uart1_putc Pl) fmt ap s"

section \<open>The ports as output devices\<close>

lemma wait_ready_frame [frame_rules]:
  assumes "confined W Pl" "frame W s0 s"
  shows "wlp (wait_ready Pl reg bits s) (\<lambda>t. frame W s0 t)"
proof (rule wlpI)
  fix t
  assume ret: "wait_ready Pl reg bits s = Some t"
  have "confined W Pl \<longrightarrow> frame W s0 s \<longrightarrow> frame W s0 t"
    apply (rule wait_ready.raw_induct
        [where P = "\<lambda>Pl reg bits s t. confined W Pl \<longrightarrow> frame W s0 s \<longrightarrow> frame W s0 t", OF _ ret])
    apply (auto simp: bind_Some_iff split: if_splits dest!: GET32_frame [THEN wlpD, rotated 2])
    done
  with assms show "frame W s0 t" by blast
qed

lemma uart_send_frame [frame_rules]:
  "confined W Pl \<Longrightarrow> frame W s0 s \<Longrightarrow> wlp (uart0_send Pl c s) (\<lambda>t. frame W s0 t)"
  "confined W Pl \<Longrightarrow> frame W s0 s \<Longrightarrow> wlp (uart1_send Pl c s) (\<lambda>t. frame W s0 t)"
  unfolding uart0_send_def uart1_send_def
  by (rule wlp_bindI frame_rules | assumption)+

lemma uart_putc_frame [frame_rules]:
  "confined W Pl \<Longrightarrow> frame W s0 s \<Longrightarrow> wlp (uart0_putc Pl c s) (\<lambda>t. frame W s0 t)"
  "confined W Pl \<Longrightarrow> frame W s0 s \<Longrightarrow> wlp (uart1_putc Pl c s) (\<lambda>t. frame W s0 t)"
  unfolding uart0_putc_def uart1_putc_def
  by (rule wlp_bindI [where R = "\<lambda>t. frame W s0 t"], auto intro: uart_send_frame)+

interpretation uart0: char_sink uart0_putc confined frame "\<lambda>W p. block_in W p 8"
  by unfold_locales (erule (2) uart_putc_frame(1) [THEN wlpD], rule frame_store_le)

interpretation uart1: char_sink uart1_putc confined frame "\<lambda>W p. block_in W p 8"
  by unfold_locales (erule (2) uart_putc_frame(2) [THEN wlpD], rule frame_store_le)

section \<open>What the ports print\<close>

lemma number_text_snoc:
  "9 < n \<Longrightarrow> number_text char 10 n = number_text char 10 (n div 10) @ [char (n mod 10)]"
  using radix_digits.simps [of 10 n] by (auto simp: number_text_def)

lemma number_text_digit: "n \<le> 9 \<Longrightarrow> number_text char 10 n = [char n]"
  by (auto simp: number_text_def radix_digits.simps)

lemma decimal_char: "48 + ucast (d mod 10 :: u64) = dec_char (unat d mod 10)"
  by (simp add: dec_char_def ucast_of_unat unat_mod del: of_nat_unat)

text \<open>
  The recursive decimal printer of the mini UART sends the decimal digits of its
  argument, all of them and no others, for every 64-bit number: the same text that
  \<open>%u\<close> of \<open>printf\<close> prints.
\<close>

theorem uart1_dec_text: "uart1_dec Pl d s = emit (uart1_send Pl) (number_text dec_char 10 (unat d)) s"
proof (induction Pl d s rule: uart1_dec.induct)
  case (1 Pl d s)
  show ?case
  proof (cases "d > 9")
    case True
    then have n: "9 < unat d" by (simp add: word_less_nat_alt)
    from 1 True have "uart1_dec Pl (d div 10) s = emit (uart1_send Pl) (number_text dec_char 10 (unat d div 10)) s"
      by (simp add: unat_div)
    then show ?thesis
      unfolding number_text_snoc [OF n] emit_append
      by (subst uart1_dec.simps) (auto simp: True decimal_char split: bind_splits)
  next
    case False
    then have "unat d \<le> 9" by (simp add: word_less_nat_alt)
    then show ?thesis
      using False
      by (subst uart1_dec.simps) (auto simp: decimal_char number_text_digit split: bind_splits)
  qed
qed

definition fixed_hex :: "nat \<Rightarrow> nat \<Rightarrow> u32 list" where
  "fixed_hex k n = map (\<lambda>i. hexa_char False (n div 16 ^ i mod 16)) (rev [0..<k])"

lemma fixed_hex_add: "fixed_hex (a + b) n = fixed_hex a (n div 16 ^ b) @ fixed_hex b n"
proof -
  have "[0..<a + b] = [0..<b] @ map (\<lambda>i. i + b) [0..<a]"
    using upt_add_eq_append [of 0 b a] by (simp add: map_add_upt add.commute)
  then have "rev [0..<a + b] = map (\<lambda>i. i + b) (rev [0..<a]) @ rev [0..<b]"
    by (simp only: rev_append rev_map)
  then show ?thesis
    by (simp add: fixed_hex_def div_mult2_eq [symmetric] power_add [symmetric] add.commute)
qed

lemma fixed_hex_mod: "fixed_hex k (n mod 16 ^ k) = fixed_hex k n"
proof -
  have "n mod 16 ^ k div 16 ^ i mod 16 = n div 16 ^ i mod 16" if "i < k" for i
  proof -
    from that have "k = i + (1 + (k - i - 1))" by simp
    then have "(16 :: nat) ^ k = 16 ^ i * (16 * 16 ^ (k - i - 1))"
      by (metis power_add power_one_right)
    then show ?thesis
      by (simp add: mod_mult2_eq)
  qed
  then show ?thesis by (simp add: fixed_hex_def)
qed

lemma fixed_hex_1: "fixed_hex 1 n = [hexa_char False (n mod 16)]"
  by (simp add: fixed_hex_def)

lemma nibble_text: "[nibble_char d] = fixed_hex 1 (unat d)"
proof -
  have x: "unat (d AND 0xF) = unat d mod 16"
  proof -
    have "d AND 0xF = take_bit 4 d" by (simp add: take_bit_eq_mask mask_eq_exp_minus_1)
    then show ?thesis by (simp add: unsigned_take_bit_eq take_bit_eq_mod unat_mod)
  qed
  have lt: "unat d mod 16 < 16" by simp
  have c: "ucast (d AND 0xF) = (of_nat (unat d mod 16) :: u32)"
    unfolding x [symmetric] by simp
  then have "ucast (d AND 0xF) > (9 :: u32) \<longleftrightarrow> \<not> unat d mod 16 < 10"
    by (simp only: word_less_nat_alt unat_of_nat) (auto simp: lt less_trans)
  then show ?thesis
    unfolding fixed_hex_1 nibble_char_def Let_def c hexa_char_def
    by (auto simp: of_nat_diff)
qed

lemma hex_join:
  assumes "\<And>s. f (drop_bit (4 * b) d) s = emit putc (fixed_hex a (unat d div 16 ^ b)) s"
    and "\<And>s. g d s = emit putc (fixed_hex b (unat d)) s"
  shows "do { s \<leftarrow> f (drop_bit (4 * b) d) s; g d s } = emit putc (fixed_hex (a + b) (unat d)) s"
  by (simp add: assms fixed_hex_add emit_append)

lemma unat_byte_of: "LENGTH('b::len) \<le> LENGTH('a::len) \<Longrightarrow> unat (ucast (d :: 'a word) :: 'b word) = unat d mod 2 ^ LENGTH('b)"
  by (simp add: unsigned_ucast_eq take_bit_eq_mod)

lemma emit_one: "emit putc [c] s = putc c s"
  by (cases "putc c s") simp_all

lemma hex4_text: "uart1_hex4 Pl d s = emit (uart1_send Pl) (fixed_hex 1 (unat d)) s"
  unfolding nibble_text [symmetric] emit_one uart1_hex4_def ..

lemma unat_high: "unat (drop_bit k (d :: 'a::len word)) = unat d div 2 ^ k"
  by (simp only: unat_drop_bit_eq) (simp only: drop_bit_eq_div)

lemma hex8_text: "uart1_hex8 Pl d s = emit (uart1_send Pl) (fixed_hex 2 (unat d)) s"
  using hex_join [of "uart1_hex4 Pl" 1 d "uart1_send Pl" 1 "uart1_hex4 Pl" s]
  by (simp add: uart1_hex8_def hex4_text unat_high one_add_one del: unat_drop_bit_eq One_nat_def)

lemma hex16_text: "uart1_hex16 Pl d s = emit (uart1_send Pl) (fixed_hex 4 (unat d)) s"
  using hex_join [of "\<lambda>d. uart1_hex8 Pl (ucast d)" 2 d "uart1_send Pl" 2 "\<lambda>d. uart1_hex8 Pl (ucast d)" s]
    fixed_hex_mod [of 2 "unat d"] fixed_hex_mod [of 2 "unat d div 256"]
  by (simp add: uart1_hex16_def hex8_text unat_high unat_byte_of del: unat_drop_bit_eq)

lemma hex32_text: "uart1_hex32 Pl d s = emit (uart1_send Pl) (fixed_hex 8 (unat d)) s"
  using hex_join [of "\<lambda>d. uart1_hex16 Pl (ucast d)" 4 d "uart1_send Pl" 4 "\<lambda>d. uart1_hex16 Pl (ucast d)" s]
    fixed_hex_mod [of 4 "unat d"] fixed_hex_mod [of 4 "unat d div 65536"]
  by (simp add: uart1_hex32_def hex16_text unat_high unat_byte_of del: unat_drop_bit_eq)

text \<open>
  The hexadecimal printer of the mini UART sends the sixteen upper-case digits of
  its 64-bit argument, the highest first and leading zeroes included, through the four
  levels of splitting into halves down to a nibble.
\<close>

theorem uart1_hex64_text: "uart1_hex64 Pl d s = emit (uart1_send Pl) (fixed_hex 16 (unat d)) s"
  using hex_join [of "\<lambda>d. uart1_hex32 Pl (ucast d)" 8 d "uart1_send Pl" 8 "\<lambda>d. uart1_hex32 Pl (ucast d)" s]
    fixed_hex_mod [of 8 "unat d"] fixed_hex_mod [of 8 "unat d div 4294967296"]
  by (simp add: uart1_hex64_def hex32_text unat_high unat_byte_of del: unat_drop_bit_eq)

section \<open>Strings\<close>

text \<open>A port whose registers do not reach RAM.\<close>

definition ram_untouched :: "'h platform \<Rightarrow> bool" where
  "ram_untouched Pl \<longleftrightarrow>
     (\<forall>a s. kmem (snd (bus_get32 Pl a s)) = kmem s) \<and> (\<forall>a x s. kmem (bus_put32 Pl a x s) = kmem s)"

lemma wait_status_ram:
  assumes "ram_untouched Pl" "wait_status Pl reg bits s = Some t"
  shows "kmem t = kmem s"
proof -
  have "ram_untouched Pl \<longrightarrow> kmem t = kmem s"
  proof (rule wait_status.raw_induct [where P = "\<lambda>Pl reg bits s t. ram_untouched Pl \<longrightarrow> kmem t = kmem s", OF _ assms(2)],
      intro impI, goal_cases)
    case (1 rec Pl reg bits s t)
    obtain x u where u: "bus_get32 Pl reg s = (x, u)" by (cases "bus_get32 Pl reg s") auto
    with 1(3) have "kmem u = kmem s" by (simp add: ram_untouched_def) (metis snd_conv)
    with 1 u show ?case by (auto simp: GET32_def split: if_splits)
  qed
  with assms(1) show ?thesis by blast
qed

lemma uart0_putc_quiet: "ram_untouched Pl \<Longrightarrow> quiet (uart0_putc Pl)"
  by (auto simp: quiet_def uart0_putc_def uart0_send_def PUT32_def bind_Some_iff ram_untouched_def split: if_splits
      dest!: wait_status_ram [unfolded ram_untouched_def, rotated])

text \<open>
  A string printed by \<open>uart0_puts\<close> comes out as the same register accesses as its
  characters given one by one to \<open>uart0_putc\<close>, the carriage return before each newline
  included, as long as the port does not change the string in RAM while it is being sent.
\<close>

theorem uart0_puts_putc:
  assumes "ram_untouched Pl" "cstr (kmem s) p xs" "p \<noteq> 0"
  shows "uart0_puts Pl p s = emit (uart0_putc Pl) (map ucast xs) s"
proof -
  have "uart0_puts_loop Pl p s = emit (uart0_putc Pl) (map ucast xs) s"
    using assms(2)
  proof (induction xs arbitrary: p s)
    case Nil
    then show ?case by (simp add: uart0_puts_loop.simps)
  next
    case (Cons x xs)
    have nl: "(ucast x = (newline :: u32)) = (x = 0x0A)"
      by (simp add: word_unat_eq_iff unat_ucast_up)
    have IH: "uart0_puts_loop Pl (p + 1) t = emit (uart0_putc Pl) (map ucast xs) t" if "kmem t = kmem s" for t
      using Cons that by simp
    have ram: "kmem (bus_put32 Pl a v t) = kmem t" for a v t using assms(1) by (simp add: ram_untouched_def)
    note quiet = wait_status_ram [OF assms(1)]
    show ?case
      using Cons.prems
      by (subst uart0_puts_loop.simps)
        (auto simp: nl uart0_putc_def uart0_send_def PUT32_def IH ram dest!: quiet split: bind_splits)
  qed
  with assms(3) show ?thesis by (simp add: uart0_puts_def)
qed

text \<open>Two ports that are always ready and record what they send.\<close>

definition serial_platform :: "u32 list platform" where
  "serial_platform = \<lparr>
     bus_get32 = (\<lambda>a s. (if a = AUX_MU_LSR then 0x20 else 0, s)),
     bus_put32 = (\<lambda>a x s. if a = UART0_DR \<or> a = AUX_MU_IO then s\<lparr>khw := khw s @ [x]\<rparr> else s),
     libc_malloc = (\<lambda>n s. (0x9000, s)), libc_free = (\<lambda>p s. s), diag_printf = (\<lambda>f as s. s),
     mailbuffer_addr = 0x6FE0, local_addr = (\<lambda>_. 0x5000)\<rparr>"

lemma serial_simps [simp]:
  "uart0_send serial_platform c s = Some (s\<lparr>khw := khw s @ [c]\<rparr>)"
  "uart1_send serial_platform c s = Some (s\<lparr>khw := khw s @ [c]\<rparr>)"
  by (simp_all add: uart0_send_def uart1_send_def wait_status.simps wait_ready.simps GET32_def PUT32_def
      serial_platform_def reg_defs MMIO_BASE_def)

lemma serial_emit: "\<exists>t. emit (uart0_putc serial_platform) cs s = Some t"
  by (induction cs arbitrary: s) (simp_all add: uart0_putc_def)

theorem uart0_puts_putc_witness:
  "uart0_puts serial_platform 0x100 (kernel_state ((\<lambda>_. 0)(0x100 := 0x61, 0x101 := 0x0A)) [] 0)
     = Some (kernel_state ((\<lambda>_. 0)(0x100 := 0x61, 0x101 := 0x0A)) [0x61, 0x0D, 0x0A] 0)"
proof -
  have "ram_untouched serial_platform" by (simp add: ram_untouched_def serial_platform_def)
  then show ?thesis
    by (subst uart0_puts_putc [where xs = "[0x61, 0x0A]"]) (simp_all add: uart0_putc_def)
qed

text \<open>
  Formatted output on the PL011 changes RAM only where the devices behind the bus may
  change it: nothing that \<open>uart0_printf\<close> does itself writes to memory, except a
  \<open>%n\<close>, whose targets must be inside the region.
\<close>

theorem uart0_printf_confined:
  assumes "confined W Pl" "\<not> stores_count fmt \<or> (\<forall>p \<in> set ap. block_in W p 8)"
    and "uart0_printf Pl fmt ap s = Some (n, t)"
  shows "frame W s t"
  using uart0.printf_rel [OF assms(1) frame_refl assms(2)] assms(3)
  by (auto simp: uart0_printf_def wlp_def)

theorem uart0_printf_confined_witness:
  "\<exists>n t. uart0_printf serial_platform (literal ''%x'') [255] (kernel_state (\<lambda>_. 7) [] 0) = Some (n, t) \<and>
     frame {a. in_region 0x9000 0x1000 a} (kernel_state (\<lambda>_. 7) [] 0) t"
proof -
  let ?W = "{a. in_region 0x9000 0x1000 a}"
  have conf: "confined ?W serial_platform"
    by (auto simp: confined_def serial_platform_def frame_def block_in_def in_region_def intro: less_le_trans)
  have "literal ''%x'' = [37, 120]" by code_simp
  moreover have "printf_parse_format [120] = ([], default_format\<lparr>specifier := PRINTF_SPECIFIER_HEX_LOWER\<rparr>)"
    by code_simp
  ultimately have safe: "\<not> stores_count (literal ''%x'')" by simp
  have "\<exists>n t. uart0_printf serial_platform (literal ''%x'') [255] (kernel_state (\<lambda>_. 7) [] 0) = Some (n, t)"
    unfolding \<open>literal ''%x'' = [37, 120]\<close>
    using \<open>printf_parse_format [120] = _\<close> serial_emit [of "hex_text _ _"]
    by (auto simp: uart0_printf_def generic_printf_def printf_directive_def printf_hex_text printed_def va_next_def
        bind_Some_iff)
  with uart0_printf_confined [OF conf disjI1 [OF safe]] show ?thesis by blast
qed

end
