(* ===== verification/Power_Off.thy ===== *)
theory Power_Off
  imports Uart
begin

text \<open>
  Switching the machine off (\<open>src/drivers/power/power.c\<close>): sixteen power-state
  messages, the GPIO pins, the watchdog, and then a loop without end. The accesses through
  pointers to peripheral addresses are bus accesses.
\<close>

definition PM_RSTC :: addr where [reg_defs]: "PM_RSTC = MMIO_BASE + 0x0010001c"
definition PM_RSTS :: addr where [reg_defs]: "PM_RSTS = MMIO_BASE + 0x00100020"
definition PM_WDOG :: addr where [reg_defs]: "PM_WDOG = MMIO_BASE + 0x00100024"
definition PM_WDOG_MAGIC :: u32 where "PM_WDOG_MAGIC = 0x5a000000"
definition PM_RSTC_FULLRST :: u32 where "PM_RSTC_FULLRST = 0x20"

definition power_message :: "u32 \<Rightarrow> u32 list" where
  "power_message r = [8 * 4, MBOX_REQUEST, MBOX_TAG_SET_POWER_STATE, 8, 8, r, 0, MBOX_TAG_LAST]"

text \<open>The messages for the devices \<open>r, r + 1, \<dots>, 15\<close>; the argument counts those left.\<close>

fun power_devices :: "'h platform \<Rightarrow> nat \<Rightarrow> 'h kstate \<Rightarrow> 'h kstate option" where
  "power_devices Pl 0 s = Some s"
| "power_devices Pl (Suc k) s = do {
     let box = local_addr Pl ''power_off.box'';
     let s = s\<lparr>kmem := store_words box 0 (power_message (of_nat (15 - k))) (kmem s)\<rparr>;
     (_, s) \<leftarrow> mbox_call_raw Pl box s;
     power_devices Pl k s
   }"

fun put_all :: "'h platform \<Rightarrow> (addr \<times> u32) list \<Rightarrow> 'h kstate \<Rightarrow> 'h kstate option" where
  "put_all Pl [] s = Some s"
| "put_all Pl ((a, x) # ws) s = do { s \<leftarrow> PUT32 Pl a x s; put_all Pl ws s }"

definition power_pins :: "'h platform \<Rightarrow> 'h kstate \<Rightarrow> 'h kstate option" where
  "power_pins Pl s = put_all Pl
     [(GPFSEL0, 0), (GPFSEL1, 0), (GPFSEL2, 0), (GPFSEL3, 0), (GPFSEL4, 0), (GPFSEL5, 0), (GPPUD, 0),
      (GPPUDCLK0, 0xffffffff), (GPPUDCLK1, 0xffffffff), (GPPUDCLK0, 0), (GPPUDCLK1, 0)] s"

definition halt_request :: "'h platform \<Rightarrow> 'h kstate \<Rightarrow> 'h kstate option" where
  "halt_request Pl s = do {
     (r, s) \<leftarrow> GET32 Pl PM_RSTS s;
     let r = r AND NOT 0xfffffaaa;
     let r = r OR 0x555;
     s \<leftarrow> PUT32 Pl PM_RSTS (PM_WDOG_MAGIC OR r) s;
     s \<leftarrow> PUT32 Pl PM_WDOG (PM_WDOG_MAGIC OR 10) s;
     PUT32 Pl PM_RSTC (PM_WDOG_MAGIC OR PM_RSTC_FULLRST) s
   }"

text \<open>The final \<open>while (1)\<close>.\<close>

partial_function (option) spin :: "'h kstate \<Rightarrow> 'h kstate option" where
  "spin s = spin s"

definition power_down :: "'h platform \<Rightarrow> 'h kstate \<Rightarrow> 'h kstate option" where
  "power_down Pl s = do {
     s \<leftarrow> power_devices Pl 16 s;
     s \<leftarrow> power_pins Pl s;
     halt_request Pl s
   }"

definition power_off :: "'h platform \<Rightarrow> 'h kstate \<Rightarrow> 'h kstate option" where
  "power_off Pl s = do { s \<leftarrow> power_down Pl s; spin s }"

lemma spin_never_returns [simp]: "spin s = None"
proof (rule ccontr)
  assume "spin s \<noteq> None"
  then obtain t where "spin s = Some t" by auto
  then show False by (rule spin.raw_induct [where P = "\<lambda>s t. False", rotated])
qed

lemma power_off_never_returns: "power_off Pl s = None"
  by (simp add: power_off_def split: bind_splits)

text \<open>
  The message array of \<open>power_off\<close> is not declared with an alignment. If the
  compiler does not happen to place it at a multiple of 16, all sixteen messages are refused
  by the mailbox before anything is sent, and the refusal is not looked at: the devices stay
  on, and the code goes on to the pins and the watchdog.
\<close>

theorem unaligned_power_message_lost:
  assumes "local_addr Pl ''power_off.box'' AND 0xF \<noteq> 0"
  shows "\<exists>m. power_down Pl s = do { s \<leftarrow> power_pins Pl (s\<lparr>kmem := m\<rparr>); halt_request Pl s }"
proof -
  have "\<exists>m. power_devices Pl k s = Some (s\<lparr>kmem := m\<rparr>)" for k
  proof (induction k arbitrary: s)
    case 0
    have "s = s\<lparr>kmem := kmem s\<rparr>" by simp
    then show ?case unfolding power_devices.simps by blast
  next
    case (Suc k)
    from assms have "local_addr Pl ''power_off.box'' \<noteq> 0" by auto
    with assms have "mbox_call_raw Pl (local_addr Pl ''power_off.box'') t = Some (MBOX_ERR_PTR_ALIGN, t)" for t
      by (simp add: mbox_call_raw_def)
    with Suc [of "s\<lparr>kmem := _\<rparr>"] show ?case by (auto simp: Let_def)
  qed
  from this [of 16] show ?thesis by (auto simp: power_down_def)
qed

theorem unaligned_power_message_lost_witness:
  "\<exists>m. power_down (serial_platform\<lparr>local_addr := (\<lambda>_. 0x5008)\<rparr>) (kernel_state (\<lambda>_. 0) [] 0)
     = do { s \<leftarrow> power_pins (serial_platform\<lparr>local_addr := (\<lambda>_. 0x5008)\<rparr>) ((kernel_state (\<lambda>_. 0) [] 0)\<lparr>kmem := m\<rparr>);
            halt_request (serial_platform\<lparr>local_addr := (\<lambda>_. 0x5008)\<rparr>) s }"
  by (rule unaligned_power_message_lost) simp

end
