(* ===== verification/Fat.thy ===== *)
theory Fat
  imports Block CString Printf
begin

text \<open>
  The exFAT reader of \<open>src/fs/fat.c\<close>. A block device is a reader \<open>rd\<close> with the
  function \<open>bsize\<close> that gives the block size of the device structure; each operation takes
  the device structure and returns it as the driver leaves it. Structures of the source are
  records; the \<open>union\<close> of entry data is the list of its 31 bytes, since the code reads it
  as another member than it last wrote. An integer copied byte by byte out of a sector is the
  little-endian value of those bytes. Division by zero, where a device has no block size or a
  volume no cluster size, is that of the AArch64 instruction (quotient 0, remainder the dividend),
  and a shift by 64 or more takes the exponent modulo 64, as the processor does.
\<close>

section \<open>Data (include/fs/fat.h, dirent.h, vfs.h)\<close>

record exfat_superblock =
  partition_offset :: u64
  volume_length :: u64
  sectorsize :: u64
  clustersize :: u64
  fat_offset :: u32
  fat_length :: u32
  clusterheap_offset :: u32
  cluster_count :: u32
  rootdir_start :: u32
  volume_serialnumber :: u32
  fs_revision :: u16
  fat_cnt :: byte
  use_percent :: byte
  active_fat :: byte
  volume_dirty :: bool
  media_failure :: bool
  clear_to_zero :: bool

record exfat_cluster =
  cluster_idx :: u32
  cluster_bad :: bool
  end_of_chain :: bool

record exfat_directory_info =
  dir_super :: exfat_superblock
  dir_start_cluster :: u32

datatype dirent_type =
    DIRENT_INVALID
  | DIRENT_EOD
  | DIRENT_ALLOC_BMP
  | DIRENT_UPCASE_TABLE
  | DIRENT_VOLUME_LABEL
  | DIRENT_FILE
  | DIRENT_VOLUME_GUID
  | DIRENT_STREAM_EXT
  | DIRENT_FILE_NAME
  | DIRENT_VENDOR_EXT
  | DIRENT_VENDOR_ALLOC
  | DIRENT_TEXFAT_PADDING

record exfat_dirent_info =
  direntset_idx :: u32
  entry_type :: dirent_type
  in_use :: bool
  entry_bytes :: "byte list"
  first_cluster :: u32
  data_length :: u64

record exfat_file_contents =
  fc_super :: exfat_superblock
  start_cluster :: u32
  fc_data_length :: u64

record dirent =
  d_name :: addr
  byte_size :: u32
  is_dir :: byte
  d_opaque :: exfat_file_contents

record 'd exfat_file_opaque =
  fo_self :: addr
  fo_super :: exfat_superblock
  fo_bd :: 'd
  fo_first_cluster :: u32
  current_cluster :: u32
  block_cluster_offset :: u64
  pos_block_offset :: u64

record 'd vfs_file =
  f_self :: addr
  f_pos :: u64
  f_len :: u64
  f_flags :: u32
  f_opaque :: "'d exfat_file_opaque"

definition EXFAT_VOLFLAGS_ACTIVE_FAT :: u16 where "EXFAT_VOLFLAGS_ACTIVE_FAT = push_bit 15 1"
definition EXFAT_VOLFLAGS_VOL_DIRTY :: u16 where "EXFAT_VOLFLAGS_VOL_DIRTY = push_bit 14 1"
definition EXFAT_VOLFLAGS_MEDIA_FAILURE :: u16 where "EXFAT_VOLFLAGS_MEDIA_FAILURE = push_bit 13 1"
definition EXFAT_VOLFLAGS_CLEAR_ZERO :: u16 where "EXFAT_VOLFLAGS_CLEAR_ZERO = push_bit 12 1"
definition ENTRYTYPE_USE_MASK :: byte where "ENTRYTYPE_USE_MASK = 0x80"
definition EXFAT_DIRECTORY_ENTRY_SIZE :: u32 where "EXFAT_DIRECTORY_ENTRY_SIZE = 32"

text \<open>Sizes of the structures that are allocated (LP64).\<close>

definition sizeof_dirent :: u64 where "sizeof_dirent = 40"
definition sizeof_file_contents :: u64 where "sizeof_file_contents = 88"
definition sizeof_superblock :: u64 where "sizeof_superblock = 64"
definition sizeof_block_device :: u64 where "sizeof_block_device = 80"
definition sizeof_file_opaque :: u64 where "sizeof_file_opaque = 40"
definition sizeof_vfs_file :: u64 where "sizeof_vfs_file = 56"

section \<open>Integers in sectors\<close>

fun le_value :: "byte list \<Rightarrow> u64" where
  "le_value [] = 0"
| "le_value (b # bs) = ucast b OR push_bit 8 (le_value bs)"

definition field :: "mem \<Rightarrow> addr \<Rightarrow> nat \<Rightarrow> u64" where
  "field m p n = le_value (bytes_at m p n)"

definition slice :: "nat \<Rightarrow> nat \<Rightarrow> byte list \<Rightarrow> byte list" where
  "slice i n c = take n (drop i c)"

text \<open>The comparison of an \<open>int\<close> result with a \<open>size_t\<close>.\<close>

definition read_ok :: "int \<Rightarrow> u64 \<Rightarrow> bool" where
  "read_ok r n \<longleftrightarrow> (of_int r :: u64) = n"

section \<open>The boot sector\<close>

definition shift_one :: "byte \<Rightarrow> u64" where
  "shift_one b = push_bit (unat (b AND 63)) 1"

definition boot_fields :: "mem \<Rightarrow> addr \<Rightarrow> exfat_superblock" where
  "boot_fields m p =
     (let flags = ucast (field m (p + 106) 2) :: u16
      in \<lparr>partition_offset = field m (p + 64) 8,
          volume_length = field m (p + 72) 8,
          sectorsize = shift_one (m (p + 108)),
          clustersize = shift_one (m (p + 109)),
          fat_offset = ucast (field m (p + 80) 4),
          fat_length = ucast (field m (p + 84) 4),
          clusterheap_offset = ucast (field m (p + 88) 4),
          cluster_count = ucast (field m (p + 92) 4),
          rootdir_start = ucast (field m (p + 96) 4),
          volume_serialnumber = ucast (field m (p + 100) 4),
          fs_revision = ucast (field m (p + 104) 2),
          fat_cnt = m (p + 110),
          use_percent = m (p + 112),
          active_fat = (if flags AND EXFAT_VOLFLAGS_ACTIVE_FAT \<noteq> 0 then 1 else 0),
          volume_dirty = (flags AND EXFAT_VOLFLAGS_VOL_DIRTY \<noteq> 0),
          media_failure = (flags AND EXFAT_VOLFLAGS_MEDIA_FAILURE \<noteq> 0),
          clear_to_zero = (flags AND EXFAT_VOLFLAGS_CLEAR_ZERO \<noteq> 0)\<rparr>)"

text \<open>The buffer is not tested for null. The result is the superblock as left by the call.\<close>

definition exfat_read_boot_block ::
    "('d, 'h) reader \<Rightarrow> ('d \<Rightarrow> u64) \<Rightarrow> 'h platform \<Rightarrow> 'd \<Rightarrow> exfat_superblock \<Rightarrow> 'h kstate \<Rightarrow>
     (int \<times> exfat_superblock \<times> 'd \<times> 'h kstate) option" where
  "exfat_read_boot_block rd bsize Pl d sb s = do {
     let block_size = bsize d;
     (buf, s) \<leftarrow> malloc Pl block_size s;
     (blk_err, d, s) \<leftarrow> rd Pl d buf block_size 0 s;
     if \<not> read_ok blk_err block_size then do {
       s \<leftarrow> free Pl buf s;
       Some (-1, sb, d, s\<lparr>errno := EIO\<rparr>)
     }
     else do {
       let sb = boot_fields (kmem s) buf;
       s \<leftarrow> free Pl buf s;
       Some (0, sb, d, s)
     }
   }"

section \<open>The file allocation table\<close>

definition fat_entry_pos :: "u64 \<Rightarrow> exfat_superblock \<Rightarrow> u32 \<Rightarrow> u64 \<times> u64" where
  "fat_entry_pos block_size sb fat_idx =
     (let block_fat_entries = block_size div 4;
          active_fat_blocks_offset = ucast (ucast (active_fat sb) * fat_length sb);
          fat_start = (ucast (fat_offset sb) + active_fat_blocks_offset) * block_size;
          block_idx = (fat_start + ucast fat_idx) div block_fat_entries;
          idx_in_block = (fat_start + ucast fat_idx) mod block_fat_entries
      in (block_idx, idx_in_block))"

definition fat_idx_to_cluster_idx ::
    "('d, 'h) reader \<Rightarrow> ('d \<Rightarrow> u64) \<Rightarrow> 'h platform \<Rightarrow> 'd \<Rightarrow> exfat_superblock \<Rightarrow> u32 \<Rightarrow> 'h kstate \<Rightarrow>
     (u32 \<times> 'd \<times> 'h kstate) option" where
  "fat_idx_to_cluster_idx rd bsize Pl d sb fat_idx s = do {
     let block_size = bsize d;
     let (block_idx, idx_in_block) = fat_entry_pos block_size sb fat_idx;
     (buf, s) \<leftarrow> malloc Pl block_size s;
     if buf = 0 then Some (1, d, s\<lparr>errno := ENOMEM\<rparr>)
     else do {
       (blk_err, d, s) \<leftarrow> rd Pl d buf block_size (ucast block_idx) s;
       if \<not> read_ok blk_err block_size then do {
         s \<leftarrow> free Pl buf (s\<lparr>errno := EIO\<rparr>);
         Some (1, d, s)
       }
       else do {
         let idx = load32 (kmem s) (buf + 4 * idx_in_block);
         s \<leftarrow> free Pl buf s;
         Some (idx, d, s)
       }
     }
   }"

definition exfat_interpret_fat_entry ::
    "('d, 'h) reader \<Rightarrow> ('d \<Rightarrow> u64) \<Rightarrow> 'h platform \<Rightarrow> 'd \<Rightarrow> exfat_superblock \<Rightarrow> u32 \<Rightarrow> 'h kstate \<Rightarrow>
     (exfat_cluster \<times> 'd \<times> 'h kstate) option" where
  "exfat_interpret_fat_entry rd bsize Pl d sb fat_idx s = do {
     let s = s\<lparr>errno := 0\<rparr>;
     (idx, d, s) \<leftarrow> fat_idx_to_cluster_idx rd bsize Pl d sb fat_idx s;
     Some (\<lparr>cluster_idx = idx, cluster_bad = (idx = 0xFFFFFFF7), end_of_chain = (idx = 0xFFFFFFFF)\<rparr>, d, s)
   }"

definition cluster_to_block :: "u32 \<Rightarrow> exfat_superblock \<Rightarrow> u64" where
  "cluster_to_block idx sb = ucast (idx - 2) * clustersize sb + ucast (clusterheap_offset sb)"

definition directory_start_block :: "exfat_directory_info \<Rightarrow> u64" where
  "directory_start_block dir = cluster_to_block (dir_start_cluster dir) (dir_super dir)"

section \<open>Directory entries\<close>

text \<open>The type of an entry; \<open>None\<close> when the code is not known.\<close>

definition exfat_dirent_interpret_entrytype :: "byte \<Rightarrow> dirent_type option \<times> bool" where
  "exfat_dirent_interpret_entrytype e =
     (let use = (e AND ENTRYTYPE_USE_MASK \<noteq> 0);
          c = e AND NOT ENTRYTYPE_USE_MASK
      in (if c = 0x00 then Some (if use then DIRENT_INVALID else DIRENT_EOD)
          else if c = 0x01 then Some DIRENT_ALLOC_BMP
          else if c = 0x02 then Some DIRENT_UPCASE_TABLE
          else if c = 0x03 then Some DIRENT_VOLUME_LABEL
          else if c = 0x05 then Some DIRENT_FILE
          else if c = 0x20 then Some DIRENT_VOLUME_GUID
          else if c = 0x40 then Some DIRENT_STREAM_EXT
          else if c = 0x41 then Some DIRENT_FILE_NAME
          else if c = 0x60 then Some DIRENT_VENDOR_EXT
          else if c = 0x61 then Some DIRENT_VENDOR_ALLOC
          else if c = 0x21 then Some DIRENT_TEXFAT_PADDING
          else None, use))"

text \<open>Assigning a member of the union overwrites its first bytes.\<close>

definition set_member :: "byte list \<Rightarrow> exfat_dirent_info \<Rightarrow> exfat_dirent_info" where
  "set_member bs ed = ed\<lparr>entry_bytes := bs @ drop (length bs) (entry_bytes ed)\<rparr>"

definition set_extent :: "byte list \<Rightarrow> exfat_dirent_info \<Rightarrow> exfat_dirent_info" where
  "set_extent c ed =
     ed\<lparr>first_cluster := ucast (le_value (slice 20 4 c)), data_length := le_value (slice 24 8 c)\<rparr>"

text \<open>The label: \<open>str_from_wchar\<close> from the third byte of the entry into a zeroed array of 12 bytes.\<close>

definition volume_label :: "byte list \<Rightarrow> byte \<Rightarrow> byte list" where
  "volume_label c len =
     (let m = poke (\<lambda>_. 0) 0x100 (drop 2 c)
      in bytes_at (snd (str_from_wchar 0x200 0x100 (ucast len) m)) 0x200 12)"

definition bitmap_chunk :: "byte list \<Rightarrow> byte list" where
  "bitmap_chunk c = c ! 1 # replicate 18 0"

definition upcase_chunk :: "byte list \<Rightarrow> byte list" where
  "upcase_chunk c = replicate 3 0 @ [c ! 2, 0, 0, 0] @ replicate 12 0"

definition file_chunk :: "byte list \<Rightarrow> byte list" where
  "file_chunk c = c ! 1 # slice 2 2 c @ slice 4 2 c @ [0, 0] @ slice 8 4 c @ slice 12 4 c @ slice 16 4 c
     @ [c ! 20, c ! 21, c ! 22, c ! 23, c ! 24] @ replicate 7 0"

definition volguid_chunk :: "byte list \<Rightarrow> byte list" where
  "volguid_chunk c = c ! 1 # slice 2 2 c @ slice 4 2 c @ slice 6 16 c @ replicate 10 0"

definition strext_chunk :: "byte list \<Rightarrow> byte list" where
  "strext_chunk c = c ! 1 # 0 # c ! 3 # slice 4 2 c @ [0, 0] @ slice 8 8 c @ replicate 4 0"

definition fname_chunk :: "byte list \<Rightarrow> byte list" where
  "fname_chunk c = c ! 1 # slice 2 30 c"

definition exfat_read_directory_entry_data ::
    "exfat_dirent_info \<Rightarrow> byte list \<Rightarrow> 'h kstate \<Rightarrow> int \<times> exfat_dirent_info \<times> 'h kstate" where
  "exfat_read_directory_entry_data ed c s =
     (let (ty, use) = exfat_dirent_interpret_entrytype (c ! 0);
          ed = ed\<lparr>in_use := use\<rparr>
      in case ty of
           None \<Rightarrow> (-1, ed, s\<lparr>errno := EINVAL\<rparr>)
         | Some ty \<Rightarrow>
             (let ed = ed\<lparr>entry_type := ty\<rparr>
              in case ty of
                   DIRENT_EOD \<Rightarrow> (0, ed, s)
                 | DIRENT_ALLOC_BMP \<Rightarrow> (0, set_extent c (set_member (bitmap_chunk c) ed), s)
                 | DIRENT_UPCASE_TABLE \<Rightarrow> (0, set_extent c (set_member (upcase_chunk c) ed), s)
                 | DIRENT_VOLUME_LABEL \<Rightarrow>
                     (if c ! 1 > 11 then (-1, ed, s\<lparr>errno := EINVAL\<rparr>)
                      else (0, set_member (c ! 1 # volume_label c (c ! 1)) ed, s))
                 | DIRENT_FILE \<Rightarrow> (0, set_member (file_chunk c) ed, s)
                 | DIRENT_VOLUME_GUID \<Rightarrow> (0, set_member (volguid_chunk c) ed, s)
                 | DIRENT_STREAM_EXT \<Rightarrow> (0, set_extent c (set_member (strext_chunk c) ed), s)
                 | DIRENT_FILE_NAME \<Rightarrow> (0, set_member (fname_chunk c) ed, s)
                 | DIRENT_VENDOR_EXT \<Rightarrow> (0, ed, s)
                 | DIRENT_VENDOR_ALLOC \<Rightarrow> (0, set_extent c ed, s)
                 | DIRENT_TEXFAT_PADDING \<Rightarrow> (-1, ed, s\<lparr>errno := ENOSYS\<rparr>)
                 | DIRENT_INVALID \<Rightarrow> (-1, ed, s\<lparr>errno := EIO\<rparr>)))"

definition dirent_pos :: "u64 \<Rightarrow> exfat_directory_info \<Rightarrow> u32 \<Rightarrow> u64 \<times> u32" where
  "dirent_pos block_size dir i =
     (let dir_start = directory_start_block dir;
          dirent_addr = dir_start * block_size + ucast (EXFAT_DIRECTORY_ENTRY_SIZE * i)
      in (dirent_addr div block_size, ucast (dirent_addr mod block_size)))"

definition exfat_read_directory_entry ::
    "('d, 'h) reader \<Rightarrow> ('d \<Rightarrow> u64) \<Rightarrow> 'h platform \<Rightarrow> 'd \<Rightarrow> exfat_directory_info \<Rightarrow> exfat_dirent_info \<Rightarrow>
     'h kstate \<Rightarrow> (int \<times> exfat_dirent_info \<times> 'd \<times> 'h kstate) option" where
  "exfat_read_directory_entry rd bsize Pl d dir ed s = do {
     let block_size = bsize d;
     let (dirent_blk, dirent_offset) = dirent_pos block_size dir (direntset_idx ed);
     (buf, s) \<leftarrow> malloc Pl block_size s;
     if buf = 0 then Some (-1, ed, d, s\<lparr>errno := ENOMEM\<rparr>)
     else do {
       (read_cnt, d, s) \<leftarrow> rd Pl d buf block_size (ucast dirent_blk) s;
       if \<not> read_ok read_cnt block_size then do {
         s \<leftarrow> free Pl buf (s\<lparr>errno := EIO\<rparr>);
         Some (-1, ed, d, s)
       }
       else do {
         let contents = bytes_at (kmem s) (buf + ucast dirent_offset) 32;
         s \<leftarrow> free Pl buf s;
         let (err, ed, s) = exfat_read_directory_entry_data ed contents s;
         Some (err, ed, d, s)
       }
     }
   }"

section \<open>Clusters\<close>

definition exfat_read_cluster_to_buf ::
    "('d, 'h) reader \<Rightarrow> 'h platform \<Rightarrow> 'd \<Rightarrow> exfat_superblock \<Rightarrow> u32 \<Rightarrow> addr \<Rightarrow> u64 \<Rightarrow> 'h kstate \<Rightarrow>
     (int \<times> 'd \<times> 'h kstate) option" where
  "exfat_read_cluster_to_buf rd Pl d sb idx buf buf_size s = do {
     let cluster_start_block = ucast (clusterheap_offset sb) + clustersize sb * ucast idx;
     if buf = 0 then Some (-1, d, s\<lparr>errno := EINVAL\<rparr>)
     else if buf_size \<noteq> clustersize sb then Some (-1, d, s\<lparr>errno := EINVAL\<rparr>)
     else do {
       (read_cnt, d, s) \<leftarrow> rd Pl d buf buf_size (ucast cluster_start_block) s;
       if \<not> read_ok read_cnt buf_size then Some (-1, d, s\<lparr>errno := EIO\<rparr>)
       else Some (0, d, s\<lparr>errno := 0\<rparr>)
     }
   }"

section \<open>Directories\<close>

text \<open>
  An automatic \<open>struct exfat_dirent_info\<close> starts as what RAM holds at its address \<open>p\<close>.
  The union is at offset 17, the first cluster at 48 and the length at 56. It is stored back
  where \<open>str_from_wchar\<close> reads the name part out of it: the byte after the 15 characters of
  the name part is the low byte of the first cluster.
\<close>

definition uninit_dirent :: "mem \<Rightarrow> addr \<Rightarrow> exfat_dirent_info" where
  "uninit_dirent m p =
     \<lparr>direntset_idx = 0, entry_type = DIRENT_INVALID, in_use = False, entry_bytes = bytes_at m (p + 17) 31,
      first_cluster = load32 m (p + 48), data_length = field m (p + 56) 8\<rparr>"

definition store_dirent :: "addr \<Rightarrow> exfat_dirent_info \<Rightarrow> mem \<Rightarrow> mem" where
  "store_dirent p ed m = store32 (poke m (p + 17) (entry_bytes ed)) (p + 48) (first_cluster ed)"

definition secondary_count :: "exfat_dirent_info \<Rightarrow> byte" where
  "secondary_count ed = entry_bytes ed ! 0"

definition directory_attribute :: "exfat_dirent_info \<Rightarrow> byte" where
  "directory_attribute ed = (if bit (entry_bytes ed ! 3) 4 then 1 else 0)"

definition name_length :: "exfat_dirent_info \<Rightarrow> byte" where
  "name_length ed = entry_bytes ed ! 2"

text \<open>
  The name parts. The counter is an \<open>int\<close>, compared after conversion to the unsigned
  64-bit \<open>name_cnt\<close>.
\<close>

partial_function (option) read_name_parts ::
    "('d, 'h) reader \<Rightarrow> ('d \<Rightarrow> u64) \<Rightarrow> 'h platform \<Rightarrow> exfat_directory_info \<Rightarrow> u64 \<Rightarrow> i32 \<Rightarrow> addr \<Rightarrow>
     exfat_dirent_info \<Rightarrow> 'd \<Rightarrow> 'h kstate \<Rightarrow> (int \<times> 'd \<times> 'h kstate) option" where
  "read_name_parts rd bsize Pl dir name_cnt i name_ptr ed d s =
     (if scast i < name_cnt then do {
        let ed = ed\<lparr>direntset_idx := direntset_idx ed + 1\<rparr>;
        (err, ed, d, s) \<leftarrow> exfat_read_directory_entry rd bsize Pl d dir ed s;
        if err \<noteq> 0 then Some (-1, d, s\<lparr>errno := EINVAL\<rparr>)
        else do {
          let p = local_addr Pl ''read_file_direntset.ed'';
          let m = store_dirent p ed (kmem s);
          let (n, m) = str_from_wchar name_ptr (p + 18) 15 m;
          read_name_parts rd bsize Pl dir name_cnt (i + 1) (name_ptr + n) ed d (s\<lparr>kmem := m\<rparr>)
        }
      }
      else Some (0, d, s))"

declare read_name_parts.simps [code]

text \<open>
  The entry set of one file; \<open>None\<close> in the result stands for a return of -1. The
  allocation of the name is not tested.
\<close>

definition read_file_direntset ::
    "('d, 'h) reader \<Rightarrow> ('d \<Rightarrow> u64) \<Rightarrow> 'h platform \<Rightarrow> exfat_directory_info \<Rightarrow> exfat_dirent_info \<Rightarrow> 'd \<Rightarrow>
     'h kstate \<Rightarrow> (dirent option \<times> 'd \<times> 'h kstate) option" where
  "read_file_direntset rd bsize Pl dir first d s = do {
     let name_cnt = ucast (secondary_count first) - 1;
     let is_directory = directory_attribute first;
     let ed = (uninit_dirent (kmem s) (local_addr Pl ''read_file_direntset.ed''))
       \<lparr>direntset_idx := direntset_idx first + 1\<rparr>;
     (err, ed, d, s) \<leftarrow> exfat_read_directory_entry rd bsize Pl d dir ed s;
     if err \<noteq> 0 then Some (None, d, s)
     else if entry_type ed \<noteq> DIRENT_STREAM_EXT then Some (None, d, s\<lparr>errno := EINVAL\<rparr>)
     else do {
       (contents, s) \<leftarrow> malloc Pl sizeof_file_contents s;
       if contents = 0 then Some (None, d, s\<lparr>errno := ENOMEM\<rparr>)
       else do {
         (name, s) \<leftarrow> malloc Pl (ucast (name_length ed) + 1) s;
         let fc = \<lparr>fc_super = dir_super dir, start_cluster = first_cluster ed, fc_data_length = data_length ed\<rparr>;
         let de = \<lparr>d_name = name, byte_size = ucast (data_length ed), is_dir = is_directory, d_opaque = fc\<rparr>;
         (err, d, s) \<leftarrow> read_name_parts rd bsize Pl dir name_cnt 0 name ed d s;
         Some (if err \<noteq> 0 then None else Some de, d, s)
       }
     }
   }"

text \<open>
  The list of files of a directory, in order; the empty list is the null pointer, which is
  also what an error gives.
\<close>

partial_function (option) readdir_loop ::
    "('d, 'h) reader \<Rightarrow> ('d \<Rightarrow> u64) \<Rightarrow> 'h platform \<Rightarrow> exfat_directory_info \<Rightarrow> dirent list \<Rightarrow>
     exfat_dirent_info \<Rightarrow> 'd \<Rightarrow> 'h kstate \<Rightarrow> (dirent list \<times> 'd \<times> 'h kstate) option" where
  "readdir_loop rd bsize Pl dir res ed d s =
     (if entry_type ed = DIRENT_EOD then Some (res, d, s)
      else do {
        (err, ed, d, s) \<leftarrow> exfat_read_directory_entry rd bsize Pl d dir ed s;
        if err \<noteq> 0 then Some ([], d, s)
        else if entry_type ed = DIRENT_FILE then do {
          (_, s) \<leftarrow> malloc Pl sizeof_dirent s;
          (f, d, s) \<leftarrow> read_file_direntset rd bsize Pl dir ed d s;
          (case f of
             None \<Rightarrow> Some ([], d, s)
           | Some f \<Rightarrow> readdir_loop rd bsize Pl dir (res @ [f])
               (ed\<lparr>direntset_idx := direntset_idx ed + ucast (secondary_count ed) + 1\<rparr>) d s)
        }
        else readdir_loop rd bsize Pl dir res (ed\<lparr>direntset_idx := direntset_idx ed + 1\<rparr>) d s
      })"

declare readdir_loop.simps [code]

definition exfat_readdir_fromblock ::
    "('d, 'h) reader \<Rightarrow> ('d \<Rightarrow> u64) \<Rightarrow> 'h platform \<Rightarrow> exfat_superblock \<Rightarrow> u64 \<Rightarrow> 'd \<Rightarrow> 'h kstate \<Rightarrow>
     (dirent list \<times> 'd \<times> 'h kstate) option" where
  "exfat_readdir_fromblock rd bsize Pl sb dir_start_block d s =
     (let dir = \<lparr>dir_super = sb,
            dir_start_cluster = ucast ((dir_start_block - ucast (clusterheap_offset sb)) div clustersize sb + 2)\<rparr>;
          ed = uninit_dirent (kmem s) (local_addr Pl ''exfat_readdir_fromblock.edirent'')
      in readdir_loop rd bsize Pl dir [] (ed\<lparr>direntset_idx := 0, entry_type := DIRENT_INVALID\<rparr>) d s)"

section \<open>Files\<close>

datatype file_mode = FILE_MODE_R | FILE_MODE_INVALID

definition file_mode_value :: "file_mode \<Rightarrow> u64" where
  "file_mode_value md = (case md of FILE_MODE_R \<Rightarrow> 0 | FILE_MODE_INVALID \<Rightarrow> 1)"

text \<open>The mode is given by its characters.\<close>

definition get_file_mode :: "byte list \<Rightarrow> file_mode" where
  "get_file_mode md = (if md = literal ''r'' then FILE_MODE_R else FILE_MODE_INVALID)"

text \<open>
  \<open>view\<close> is what the driver finds behind the copy of \<open>struct block_device\<close> that the file
  keeps: the copy has the generic structure only, and a driver that has embedded it in a larger
  structure sees, after it, whatever the allocator left there.
\<close>

definition exfat_fopen ::
    "('d \<Rightarrow> addr \<Rightarrow> 'h kstate \<Rightarrow> 'd) \<Rightarrow> 'h platform \<Rightarrow> dirent \<Rightarrow> byte list \<Rightarrow> 'd \<Rightarrow> 'h kstate \<Rightarrow>
     ('d vfs_file option \<times> 'h kstate) option" where
  "exfat_fopen view Pl file md d s = do {
     (fp, s) \<leftarrow> malloc Pl sizeof_vfs_file s;
     if fp = 0 then Some (None, s\<lparr>errno := ENOMEM\<rparr>)
     else do {
       let pos = file_mode_value (get_file_mode md);
       if pos = file_mode_value FILE_MODE_INVALID then Some (None, s\<lparr>errno := EINVAL\<rparr>)
       else do {
         (opaque, s) \<leftarrow> malloc Pl sizeof_file_opaque s;
         if opaque = 0 then Some (None, s\<lparr>errno := ENOMEM\<rparr>)
         else do {
           (super, s) \<leftarrow> malloc Pl sizeof_superblock s;
           if super = 0 then do {
             s \<leftarrow> free Pl opaque s;
             Some (None, s\<lparr>errno := ENOMEM\<rparr>)
           }
           else do {
             (bdp, s) \<leftarrow> malloc Pl sizeof_block_device s;
             if bdp = 0 then do {
               s \<leftarrow> free Pl opaque s;
               Some (None, s\<lparr>errno := ENOMEM\<rparr>)
             }
             else do {
               let first = start_cluster (d_opaque file);
               let op = \<lparr>fo_self = opaque, fo_super = fc_super (d_opaque file), fo_bd = view d bdp s,
                 fo_first_cluster = first, current_cluster = first, block_cluster_offset = 0, pos_block_offset = 0\<rparr>;
               Some (Some \<lparr>f_self = fp, f_pos = pos, f_len = ucast (byte_size file), f_flags = 0, f_opaque = op\<rparr>, s)
             }
           }
         }
       }
     }
   }"

text \<open>A read whose result nobody looks at; the block number is cut to 32 bits.\<close>

definition device_read ::
    "('d, 'h) reader \<Rightarrow> 'h platform \<Rightarrow> addr \<Rightarrow> u64 \<Rightarrow> u64 \<Rightarrow> 'd exfat_file_opaque \<Rightarrow> 'h kstate \<Rightarrow>
     ('d exfat_file_opaque \<times> 'h kstate) option" where
  "device_read rd Pl p n block op s = do {
     (_, d, s) \<leftarrow> rd Pl (fo_bd op) p n (ucast block) s;
     Some (op\<lparr>fo_bd := d\<rparr>, s)
   }"

definition next_cluster ::
    "('d, 'h) reader \<Rightarrow> ('d \<Rightarrow> u64) \<Rightarrow> 'h platform \<Rightarrow> 'd exfat_file_opaque \<Rightarrow> 'h kstate \<Rightarrow>
     ('d exfat_file_opaque \<times> 'h kstate) option" where
  "next_cluster rd bsize Pl op s = do {
     (c, d, s) \<leftarrow> fat_idx_to_cluster_idx rd bsize Pl (fo_bd op) (fo_super op) (current_cluster op) s;
     Some (op\<lparr>fo_bd := d, current_cluster := c\<rparr>, s)
   }"

text \<open>The rest of the current block, then the rest of the current cluster.\<close>

definition fread_first_cluster ::
    "('d, 'h) reader \<Rightarrow> ('d \<Rightarrow> u64) \<Rightarrow> 'h platform \<Rightarrow> addr \<Rightarrow> addr \<Rightarrow> 'd exfat_file_opaque \<Rightarrow> 'h kstate \<Rightarrow>
     (u64 \<times> 'd exfat_file_opaque \<times> 'h kstate) option" where
  "fread_first_cluster rd bsize Pl ptr tmp_buf op s = do {
     let block = cluster_to_block (current_cluster op) (fo_super op) + block_cluster_offset op;
     (op, s) \<leftarrow> device_read rd Pl tmp_buf (bsize (fo_bd op)) block op s;
     let read_size = bsize (fo_bd op) - pos_block_offset op;
     let s = s\<lparr>kmem := snd (memcpy ptr (tmp_buf + pos_block_offset op) read_size (kmem s))\<rparr>;
     let bytes_read = read_size;
     let op = op\<lparr>pos_block_offset := 0, block_cluster_offset := block_cluster_offset op + 1\<rparr>;
     if block_cluster_offset op = clustersize (fo_super op) then do {
       (op, s) \<leftarrow> next_cluster rd bsize Pl (op\<lparr>block_cluster_offset := 0\<rparr>) s;
       Some (bytes_read, op, s)
     }
     else do {
       let block = cluster_to_block (current_cluster op) (fo_super op);
       let read_size = bsize (fo_bd op) * (clustersize (fo_super op) - block_cluster_offset op);
       (op, s) \<leftarrow> device_read rd Pl (ptr + bytes_read) read_size block op s;
       let bytes_read = bytes_read + read_size;
       (op, s) \<leftarrow> next_cluster rd bsize Pl (op\<lparr>pos_block_offset := 0, block_cluster_offset := 0\<rparr>) s;
       Some (bytes_read, op, s)
     }
   }"

text \<open>The bytes left over after whole clusters, and the number of whole clusters.\<close>

definition fread_counts :: "u64 \<Rightarrow> u64 \<Rightarrow> u64 \<Rightarrow> u64 \<Rightarrow> u64 \<times> u64" where
  "fread_counts block_size cluster_size n bytes_read =
     (let loose_bytes = (n - bytes_read) mod (cluster_size * block_size)
      in (loose_bytes, (n - bytes_read - loose_bytes) div cluster_size div block_size))"

fun fread_clusters ::
    "('d, 'h) reader \<Rightarrow> ('d \<Rightarrow> u64) \<Rightarrow> 'h platform \<Rightarrow> addr \<Rightarrow> nat \<Rightarrow> u64 \<Rightarrow> 'd exfat_file_opaque \<Rightarrow> 'h kstate \<Rightarrow>
     (u64 \<times> 'd exfat_file_opaque \<times> 'h kstate) option" where
  "fread_clusters rd bsize Pl ptr 0 bytes_read op s = Some (bytes_read, op, s)"
| "fread_clusters rd bsize Pl ptr (Suc k) bytes_read op s = do {
     let n = clustersize (fo_super op) * bsize (fo_bd op);
     (_, d, s) \<leftarrow> exfat_read_cluster_to_buf rd Pl (fo_bd op) (fo_super op) (current_cluster op)
       (ptr + bytes_read) n s;
     let op = op\<lparr>fo_bd := d\<rparr>;
     let bytes_read = bytes_read + clustersize (fo_super op) * bsize (fo_bd op);
     (op, s) \<leftarrow> next_cluster rd bsize Pl op s;
     fread_clusters rd bsize Pl ptr k bytes_read op s
   }"

text \<open>The remaining whole blocks, and the block that holds the rest.\<close>

definition fread_rest ::
    "('d, 'h) reader \<Rightarrow> ('d \<Rightarrow> u64) \<Rightarrow> 'h platform \<Rightarrow> addr \<Rightarrow> addr \<Rightarrow> u64 \<Rightarrow> u64 \<Rightarrow> 'd exfat_file_opaque \<Rightarrow>
     'h kstate \<Rightarrow> (u64 \<times> 'd exfat_file_opaque \<times> 'h kstate) option" where
  "fread_rest rd bsize Pl ptr tmp_buf loose_bytes bytes_read op s = do {
     let block = cluster_to_block (current_cluster op) (fo_super op);
     let read_size = (loose_bytes div bsize (fo_bd op)) * bsize (fo_bd op);
     (op, s) \<leftarrow> device_read rd Pl (ptr + bytes_read) read_size block op s;
     let bytes_read = bytes_read + read_size;
     let op = op\<lparr>block_cluster_offset := read_size div bsize (fo_bd op)\<rparr>;
     let loose_bytes = loose_bytes - read_size;
     let block = block + block_cluster_offset op;
     let read_size = bsize (fo_bd op);
     (op, s) \<leftarrow> device_read rd Pl tmp_buf read_size block op s;
     let bytes_read = bytes_read + read_size;
     let s = s\<lparr>kmem := snd (memcpy (ptr + bytes_read) tmp_buf loose_bytes (kmem s))\<rparr>;
     Some (bytes_read, op\<lparr>pos_block_offset := loose_bytes\<rparr>, s)
   }"

definition exfat_fread ::
    "('d, 'h) reader \<Rightarrow> ('d \<Rightarrow> u64) \<Rightarrow> 'h platform \<Rightarrow> addr \<Rightarrow> u64 \<Rightarrow> 'd vfs_file \<Rightarrow> 'h kstate \<Rightarrow>
     (u64 \<times> 'd vfs_file \<times> 'h kstate) option" where
  "exfat_fread rd bsize Pl ptr n stream s = do {
     let op = f_opaque stream;
     (tmp_buf, s) \<leftarrow> malloc Pl (bsize (fo_bd op)) s;
     if tmp_buf = 0 then Some (0, stream, s\<lparr>errno := ENOMEM\<rparr>)
     else do {
       let n = (if f_len stream \<le> f_pos stream + n then f_len stream - f_pos stream else n);
       (bytes_read, op, s) \<leftarrow> fread_first_cluster rd bsize Pl ptr tmp_buf op s;
       let (loose_bytes, clusters_count) =
         fread_counts (bsize (fo_bd op)) (clustersize (fo_super op)) n bytes_read;
       (bytes_read, op, s) \<leftarrow> fread_clusters rd bsize Pl ptr (unat clusters_count) bytes_read op s;
       (bytes_read, op, s) \<leftarrow> fread_rest rd bsize Pl ptr tmp_buf loose_bytes bytes_read op s;
       s \<leftarrow> free Pl tmp_buf s;
       Some (bytes_read, stream\<lparr>f_pos := f_pos stream + bytes_read, f_opaque := op\<rparr>, s)
     }
   }"

definition exfat_fclose :: "'h platform \<Rightarrow> 'd vfs_file \<Rightarrow> 'h kstate \<Rightarrow> (int \<times> 'h kstate) option" where
  "exfat_fclose Pl stream s = do {
     s \<leftarrow> free Pl (fo_self (f_opaque stream)) s;
     s \<leftarrow> free Pl (f_self stream) s;
     Some (0, s)
   }"

end
