(* ===== verification/Fat_Spec.thy ===== *)
theory Fat_Spec
  imports Fat Emmc_Data
begin

text \<open>
  What the exFAT reader gets right and wrong: the boot sector and the entries of a file are
  decoded as they are laid out on the volume; the rest of the chain from a file to its bytes
  is examined function by function. The lemmas over an arbitrary device are proved in the
  context of \<open>block_reader\<close>; the SD card's driver is the device of the kernel.
\<close>

section \<open>Little-endian fields\<close>

fun le_bytes :: "nat \<Rightarrow> u64 \<Rightarrow> byte list" where
  "le_bytes 0 v = []"
| "le_bytes (Suc n) v = ucast v # le_bytes n (drop_bit 8 v)"

lemma length_le_bytes [simp]: "length (le_bytes n v) = n"
  by (induction n arbitrary: v) auto

lemma le_value_bytes: "le_value (le_bytes n v) = take_bit (8 * n) v"
proof (induction n arbitrary: v)
  case (Suc n)
  show ?case
    unfolding le_bytes.simps le_value.simps Suc
    by (rule bit_word_eqI) (auto simp: bit_simps not_less)
qed simp

lemma le_value_4: "(ucast (le_value (le_bytes 4 (ucast x))) :: u32) = x"
  unfolding le_value_bytes by (rule bit_word_eqI) (simp add: bit_simps)

lemma le_value_2: "(ucast (le_value (le_bytes 2 (ucast x))) :: u16) = x"
  unfolding le_value_bytes by (rule bit_word_eqI) (simp add: bit_simps)

lemma le_value_8: "le_value (le_bytes 8 x) = x"
  unfolding le_value_bytes by (simp add: take_bit_word_eq_self)

lemmas le_fields = le_value_2 le_value_4 le_value_8

section \<open>The boot sector\<close>

text \<open>
  The main boot sector of the exFAT specification for a volume with the geometry of \<open>sb\<close>:
  byte offsets, little-endian fields, sizes as powers of two, and the volume flags, whose
  bits 0 to 3 are the active table, the dirty, the failure and the clear-to-zero flags.
\<close>

definition boot_image :: "mem \<Rightarrow> addr \<Rightarrow> exfat_superblock \<Rightarrow> u16 \<Rightarrow> bool" where
  "boot_image m p sb vflags \<longleftrightarrow>
     bytes_at m (p + 64) 8 = le_bytes 8 (partition_offset sb) \<and>
     bytes_at m (p + 72) 8 = le_bytes 8 (volume_length sb) \<and>
     bytes_at m (p + 80) 4 = le_bytes 4 (ucast (fat_offset sb)) \<and>
     bytes_at m (p + 84) 4 = le_bytes 4 (ucast (fat_length sb)) \<and>
     bytes_at m (p + 88) 4 = le_bytes 4 (ucast (clusterheap_offset sb)) \<and>
     bytes_at m (p + 92) 4 = le_bytes 4 (ucast (cluster_count sb)) \<and>
     bytes_at m (p + 96) 4 = le_bytes 4 (ucast (rootdir_start sb)) \<and>
     bytes_at m (p + 100) 4 = le_bytes 4 (ucast (volume_serialnumber sb)) \<and>
     bytes_at m (p + 104) 2 = le_bytes 2 (ucast (fs_revision sb)) \<and>
     bytes_at m (p + 106) 2 = le_bytes 2 (ucast vflags) \<and>
     (\<exists>i < 64. m (p + 108) = of_nat i \<and> sectorsize sb = 2 ^ i) \<and>
     (\<exists>i < 64. m (p + 109) = of_nat i \<and> clustersize sb = 2 ^ i) \<and>
     m (p + 110) = fat_cnt sb \<and> m (p + 112) = use_percent sb"

lemma shift_one_power: "i < 64 \<Longrightarrow> shift_one (of_nat i) = 2 ^ i"
proof -
  assume i: "i < 64"
  have "(of_nat i :: byte) AND 63 = take_bit 6 (of_nat i)"
    by (simp add: take_bit_eq_mask mask_eq_exp_minus_1)
  also have "\<dots> = of_nat i"
    using i by (simp add: take_bit_of_nat take_bit_nat_eq_self)
  finally have "unat ((of_nat i :: byte) AND 63) = i"
    using i by (simp only: unsigned_of_nat) (simp add: take_bit_nat_eq_self)
  then show ?thesis by (simp add: shift_one_def push_bit_of_1)
qed

lemma boot_fields_image:
  assumes "boot_image m p sb vflags" "vflags < 16"
  shows "boot_fields m p = sb\<lparr>active_fat := 0, volume_dirty := False, media_failure := False, clear_to_zero := False\<rparr>"
proof -
  have low: "vflags AND push_bit k 1 = 0" if "4 \<le> k" for k
  proof -
    have "vflags = take_bit 4 vflags"
      using assms(2)
      by (simp add: word_unat_eq_iff unsigned_take_bit_eq take_bit_nat_eq_self word_less_nat_alt)
    then have "\<not> bit vflags k" using that by (metis bit_take_bit_iff not_less)
    then show ?thesis by (auto intro!: bit_word_eqI simp: bit_simps)
  qed
  have "sectorsize (boot_fields m p) = sectorsize sb" "clustersize (boot_fields m p) = clustersize sb"
    using assms(1) by (auto simp: boot_image_def boot_fields_def Let_def shift_one_power)
  then show ?thesis
    using assms(1) low [of 15] low [of 14] low [of 13] low [of 12]
    by (cases sb) (simp add: boot_image_def boot_fields_def Let_def field_def le_fields
        EXFAT_VOLFLAGS_ACTIVE_FAT_def EXFAT_VOLFLAGS_VOL_DIRTY_def EXFAT_VOLFLAGS_MEDIA_FAILURE_def
        EXFAT_VOLFLAGS_CLEAR_ZERO_def)
qed

text \<open>A disk image as a device: blocks of 512 bytes, every read complete.\<close>

definition disk_read :: "(mem, 'h) reader" where
  "disk_read Pl d p n b s =
     Some (sint (ucast n :: i32), d,
       s\<lparr>kmem := (\<lambda>a. if in_region p n a then d (512 * ucast b + (a - p)) else kmem s a)\<rparr>)"

definition disk_block :: "mem \<Rightarrow> u64" where
  "disk_block d = 512"

text \<open>A platform without devices whose allocator always hands out the same block.\<close>

definition bare_platform :: "unit platform" where
  "bare_platform = \<lparr>bus_get32 = (\<lambda>a s. (0, s)), bus_put32 = (\<lambda>a x s. s),
     libc_malloc = (\<lambda>n s. (0x9000, s)), libc_free = (\<lambda>p s. s), diag_printf = (\<lambda>f as s. s),
     mailbuffer_addr = 0x6FE0, local_addr = (\<lambda>_. 0x5000)\<rparr>"

lemma bare_platform_simps [simp]:
  "malloc bare_platform n s = Some (0x9000, s)" "free bare_platform q s = Some s"
  "kprintf bare_platform f as s = Some s" "local_addr bare_platform v = 0x5000"
  by (simp_all add: bare_platform_def malloc_def free_def kprintf_def)

text \<open>
  C21: reading the boot sector of a volume gives back the geometry the volume was formatted
  with, whatever the superblock held before. The four volume flags are the exception:
  whatever combination of the flags the specification defines is set on the volume, the first
  table is taken for the active one and the volume for clean, because the masks name the bits
  15 to 12 instead of 0 to 3.
\<close>

theorem boot_block_roundtrip:
  assumes "malloc Pl (bsize d) s = Some (p, s1)" "rd Pl d p (bsize d) 0 s1 = Some (r, d', s2)"
    and "read_ok r (bsize d)" "boot_image (kmem s2) p vol vflags" "vflags < 16"
  shows "\<exists>t. exfat_read_boot_block rd bsize Pl d sb s =
     Some (0, vol\<lparr>active_fat := 0, volume_dirty := False, media_failure := False, clear_to_zero := False\<rparr>, d', t)"
  using assms
  by (simp add: exfat_read_boot_block_def boot_fields_image free_def)

text \<open>An image with one byte set: 2 ^ 9 bytes in a sector, 2 ^ 3 sectors in a cluster, active table 1.\<close>

definition small_volume :: exfat_superblock where
  "small_volume = \<lparr>partition_offset = 0, volume_length = 0x800, sectorsize = 512, clustersize = 8, fat_offset = 128,
     fat_length = 32, clusterheap_offset = 192, cluster_count = 200, rootdir_start = 4, volume_serialnumber = 7,
     fs_revision = 0x100, fat_cnt = 2, use_percent = 5, active_fat = 1, volume_dirty = True, media_failure = False,
     clear_to_zero = False\<rparr>"

definition small_disk :: mem where
  "small_disk = poke (\<lambda>_. 0) 64
     (le_bytes 8 0 @ le_bytes 8 0x800 @ le_bytes 4 128 @ le_bytes 4 32 @ le_bytes 4 192 @ le_bytes 4 200 @ le_bytes 4 4
      @ le_bytes 4 7 @ le_bytes 2 0x100 @ le_bytes 2 3 @ [9, 3, 2, 0, 5])"

text \<open>What a read of a whole block puts in the buffer.\<close>

lemma bytes_at_window:
  assumes "unat k + n \<le> 512"
  shows "bytes_at (\<lambda>a. if in_region p 512 a then d (a - p) else m a) (p + k) n = bytes_at d k n"
proof (rule nth_equalityI)
  fix i
  assume i: "i < length (bytes_at (\<lambda>a. if in_region p 512 a then d (a - p) else m a) (p + k) n)"
  then have u: "unat (of_nat i :: u64) = i" "unat k + i < 512"
    using assms by (simp_all add: unsigned_of_nat take_bit_nat_eq_self)
  then have "unat (k + of_nat i) = unat k + i" by (subst unat_plus_if') simp
  with u have "in_region p 512 (p + k + of_nat i)"
    by (simp add: in_region_def word_less_nat_alt add.assoc)
  then show "bytes_at (\<lambda>a. if in_region p 512 a then d (a - p) else m a) (p + k) n ! i = bytes_at d k n ! i"
    using i by (simp add: nth_bytes_at add.assoc)
qed simp

lemma byte_window: "k < 512 \<Longrightarrow> (\<lambda>a. if in_region p 512 a then d (a - p) else m a) (p + k) = d k"
  by (simp add: in_region_def)

lemma small_disk_fields:
  "bytes_at small_disk 64 8 = le_bytes 8 0" "bytes_at small_disk 72 8 = le_bytes 8 0x800"
  "bytes_at small_disk 80 4 = le_bytes 4 128" "bytes_at small_disk 84 4 = le_bytes 4 32"
  "bytes_at small_disk 88 4 = le_bytes 4 192" "bytes_at small_disk 92 4 = le_bytes 4 200"
  "bytes_at small_disk 96 4 = le_bytes 4 4" "bytes_at small_disk 100 4 = le_bytes 4 7"
  "bytes_at small_disk 104 2 = le_bytes 2 0x100" "bytes_at small_disk 106 2 = le_bytes 2 3"
  "small_disk 108 = 9" "small_disk 109 = 3" "small_disk 110 = 2" "small_disk 112 = 5"
  by code_simp+

lemma small_disk_image:
  "boot_image (\<lambda>a. if in_region p 512 a then small_disk (a - p) else m a) p small_volume 3"
proof -
  have "\<exists>i < 64. (9 :: byte) = of_nat i \<and> (512 :: u64) = 2 ^ i" by (rule exI [of _ 9]) simp
  moreover have "\<exists>i < 64. (3 :: byte) = of_nat i \<and> (8 :: u64) = 2 ^ i" by (rule exI [of _ 3]) simp
  ultimately show ?thesis
    unfolding boot_image_def
    by (simp add: bytes_at_window byte_window [of _ p small_disk m] small_disk_fields del: le_bytes.simps)
      (simp add: small_volume_def)
qed

lemma disk_read_block:
  "disk_read Pl d p 512 b s =
     Some (512, d, s\<lparr>kmem := (\<lambda>a. if in_region p 512 a then d (512 * ucast b + (a - p)) else kmem s a)\<rparr>)"
  by (simp add: disk_read_def)

lemma read_ok_512 [simp]: "read_ok 512 512"
  by (simp add: read_ok_def)

theorem boot_block_roundtrip_witness:
  "\<exists>t. exfat_read_boot_block disk_read disk_block bare_platform small_disk (small_volume\<lparr>clustersize := 1\<rparr>)
       (kernel_state (\<lambda>_. 0) () 0) =
     Some (0, small_volume\<lparr>active_fat := 0, volume_dirty := False, media_failure := False, clear_to_zero := False\<rparr>,
       small_disk, t)"
proof (rule boot_block_roundtrip [where vflags = 3])
  show "malloc bare_platform (disk_block small_disk) (kernel_state (\<lambda>_. 0) () 0) = Some (0x9000, kernel_state (\<lambda>_. 0) () 0)"
    by simp
  show "disk_read bare_platform small_disk 0x9000 (disk_block small_disk) 0 (kernel_state (\<lambda>_. 0) () 0) =
      Some (512, small_disk, kernel_state (\<lambda>a. if in_region 0x9000 512 a then small_disk (a - 0x9000) else 0) () 0)"
    by (simp add: disk_block_def disk_read_block cong: if_cong)
qed (use small_disk_image [where p = "0x9000" and m = "\<lambda>_. 0"] in \<open>simp_all add: disk_block_def\<close>)

section \<open>The file allocation table\<close>

text \<open>
  C22: the block of the file allocation table that is read for a cluster is not the block
  the entry is in. With blocks of \<open>4 k\<close> bytes the index inside the block is right, but the
  block number counts the start of the table four times: it is
  \<open>4 * start + fat_idx div k\<close> where the entry is in block \<open>start + fat_idx div k\<close>,
  so the chain of a file is followed correctly only if the table starts at block 0.
\<close>

theorem fat_entry_block:
  assumes "bs = 4 * k" "0 < k" "k < 2 ^ 28"
    and "start = ucast (fat_offset sb) + ucast (ucast (active_fat sb) * fat_length sb)"
  shows "fat_entry_pos bs sb i = (4 * start + ucast i div k, ucast i mod k)"
proof -
  have k: "unat k < 2 ^ 28" "0 < unat k" using assms(2,3) by (simp_all add: word_less_nat_alt)
  have small: "unat (ucast x :: u64) < 2 ^ 32" for x :: u32
    using unsigned_less [of x, where ?'a = nat] by (simp add: unat_ucast_up)
  have s: "unat start < 2 ^ 33"
    unfolding assms(4) using small [of "fat_offset sb"] small [of "ucast (active_fat sb) * fat_length sb"]
    by (subst unat_plus_if') simp
  have k4: "unat (4 * k) = 4 * unat k" using k by (simp add: unat_word_ariths)
  have bs4: "4 * k div 4 = k"
    using k k4 by (simp add: word_unat_eq_iff unat_div)
  have lt: "unat start * (4 * unat k) < 2 ^ 33 * 2 ^ 30"
    using k s by (intro mult_strict_mono) simp_all
  have "unat (start * (4 * k)) = unat start * (4 * unat k) mod 2 ^ LENGTH(64)"
    by (simp only: unat_word_ariths(2) [of start "4 * k"] k4)
  also have "\<dots> = unat start * (4 * unat k)"
    by (rule mod_less) (use lt in simp)
  finally have m: "unat (start * (4 * k)) = unat start * (4 * unat k)" .
  have sum: "unat (start * (4 * k) + ucast i) = unat start * (4 * unat k) + unat i"
  proof -
    have "unat i < 2 ^ 32" using small [of i] by (simp add: unat_ucast_up)
    moreover have "2 ^ 33 * 2 ^ 30 + 2 ^ 32 < (2 :: nat) ^ LENGTH(64)" by simp
    ultimately have "unat start * (4 * unat k) + unat i < 2 ^ LENGTH(64)" using lt by linarith
    then show ?thesis by (subst unat_plus_if') (simp add: unat_ucast_up m)
  qed
  have q: "unat (4 * start + ucast i div k) = 4 * unat start + unat i div unat k"
  proof -
    have "unat i div unat k < 2 ^ 32"
      using small [of i] by (simp add: unat_ucast_up) (meson div_le_dividend le_less_trans)
    moreover have "unat (4 * start) = 4 * unat start" using s by (simp add: unat_word_ariths)
    ultimately show ?thesis using s by (subst unat_plus_if') (simp add: unat_div unat_ucast_up)
  qed
  have shape: "unat start * (4 * unat k) + unat i = unat i + 4 * unat start * unat k" by simp
  have "(start * (4 * k) + ucast i) div k = 4 * start + ucast i div k"
    unfolding word_unat_eq_iff q unat_div sum shape using k(2) by simp
  moreover have "(start * (4 * k) + ucast i) mod k = ucast i mod k"
    unfolding word_unat_eq_iff unat_mod sum shape by (simp add: unat_ucast_up)
  ultimately show ?thesis
    unfolding fat_entry_pos_def Let_def assms(1) bs4 assms(4) [symmetric] by (simp only:)
qed

theorem fat_entry_block_witness:
  "fat_entry_pos 512 small_volume 5 = (4 * (128 + 32), 5)"
  using fat_entry_block [of 512 128 _ small_volume 5, OF _ _ _ refl] by (simp add: small_volume_def)

section \<open>Directory entries\<close>

text \<open>The 32 bytes of a file entry and of a stream extension entry, after the specification.\<close>

definition file_entry :: "byte \<Rightarrow> u16 \<Rightarrow> u16 \<Rightarrow> byte list \<Rightarrow> byte list" where
  "file_entry sc checksum attrs stamps =
     [0x85, sc] @ le_bytes 2 (ucast checksum) @ le_bytes 2 (ucast attrs) @ [0, 0] @ stamps"

definition stream_entry :: "byte \<Rightarrow> byte \<Rightarrow> u16 \<Rightarrow> u64 \<Rightarrow> u32 \<Rightarrow> u64 \<Rightarrow> byte list" where
  "stream_entry fl nl hash valid first len =
     [0xC0, fl, 0, nl] @ le_bytes 2 (ucast hash) @ [0, 0] @ le_bytes 8 valid @ [0, 0, 0, 0]
     @ le_bytes 4 (ucast first) @ le_bytes 8 len"

lemma entry_type_values:
  "exfat_dirent_interpret_entrytype 0x85 = (Some DIRENT_FILE, True)"
  "exfat_dirent_interpret_entrytype 0xC0 = (Some DIRENT_STREAM_EXT, True)"
  by code_simp+

lemma slice_append: "length xs = i \<Longrightarrow> length ys = n \<Longrightarrow> slice i n (xs @ ys @ zs) = ys"
  by (simp add: slice_def)

lemma attribute_bit: "(bit (ucast (drop_bit 0 (ucast attrs :: u64)) :: byte) 4) = bit (attrs :: u16) 4"
  by (simp add: bit_simps)

text \<open>
  C23: the two entries that describe a file are decoded as the specification lays them out:
  from the file entry the number of further entries and the directory attribute, from the stream
  extension the length of the name, the first cluster and the size, each at its full width, and
  neither of them is refused.
\<close>

theorem file_set_decoded:
  "let (r1, f, s1) = exfat_read_directory_entry_data ed (file_entry sc checksum attrs stamps) s;
       (r2, x, s2) = exfat_read_directory_entry_data ed' (stream_entry fl nl hash valid first len) s'
   in r1 = 0 \<and> entry_type f = DIRENT_FILE \<and> in_use f \<and> secondary_count f = sc \<and>
      directory_attribute f = (if bit attrs 4 then 1 else 0) \<and> s1 = s \<and>
      r2 = 0 \<and> entry_type x = DIRENT_STREAM_EXT \<and> in_use x \<and> name_length x = nl \<and>
      first_cluster x = first \<and> data_length x = len \<and> s2 = s'"
proof -
  let ?f = "file_entry sc checksum attrs stamps" and ?x = "stream_entry fl nl hash valid first len"
  have f: "?f ! 0 = 0x85" "?f ! 1 = sc" "slice 2 2 ?f = le_bytes 2 (ucast checksum)" "slice 4 2 ?f = le_bytes 2 (ucast attrs)"
    by (simp_all add: file_entry_def slice_def)
  have x: "?x ! 0 = 0xC0" "?x ! 3 = nl" by (simp_all add: stream_entry_def)
  have x20: "slice 20 4 ?x = le_bytes 4 (ucast first)"
    using slice_append [of "[0xC0, fl, 0, nl] @ le_bytes 2 (ucast hash) @ [0, 0] @ le_bytes 8 valid @ [0, 0, 0, 0]" 20
        "le_bytes 4 (ucast first)" 4 "le_bytes 8 len"]
    by (simp add: stream_entry_def del: le_bytes.simps)
  have x24: "slice 24 8 ?x = le_bytes 8 len"
    using slice_append [of "[0xC0, fl, 0, nl] @ le_bytes 2 (ucast hash) @ [0, 0] @ le_bytes 8 valid @ [0, 0, 0, 0]
        @ le_bytes 4 (ucast first)" 24 "le_bytes 8 len" 8 "[]"]
    by (simp add: stream_entry_def del: le_bytes.simps)
  have a: "directory_attribute (ed\<lparr>in_use := True, entry_type := DIRENT_FILE, entry_bytes := file_chunk ?f @ ys\<rparr>)
      = (if bit attrs 4 then 1 else 0)" for ys
    using f attribute_bit [of attrs]
    by (simp add: directory_attribute_def file_chunk_def nth_append numeral_2_eq_2)
  have n: "strext_chunk ?x ! 2 = nl"
    using x by (simp add: strext_chunk_def)
  then have n2: "(strext_chunk ?x @ ys) ! 2 = nl" for ys
    by (simp add: nth_append strext_chunk_def)
  have c: "(file_chunk ?f @ ys) ! 0 = sc" for ys using f by (simp add: file_chunk_def)
  show ?thesis
    unfolding exfat_read_directory_entry_data_def Let_def f(1) x(1) entry_type_values
    by (simp add: set_member_def set_extent_def a n2 c x20 x24 le_fields secondary_count_def name_length_def)
qed

text \<open>
  An entry that is no longer in use is read as if it were. Except for the code 0, the
  type, the data and the outcome of an entry do not depend on its in-use bit, and no caller
  looks at it: the entries of a deleted file are decoded, and listed, like those of a live one.
\<close>

theorem deleted_entry_decoded:
  assumes "e AND 0x7F \<noteq> 0"
  shows "exfat_read_directory_entry_data ed ((e AND 0x7F) # c) s =
     (let (r, ed', t) = exfat_read_directory_entry_data ed ((e OR 0x80) # c) s in (r, ed'\<lparr>in_use := False\<rparr>, t))"
proof -
  have code: "(e AND 0x7F) AND NOT ENTRYTYPE_USE_MASK = e AND 0x7F" "(e OR 0x80) AND NOT ENTRYTYPE_USE_MASK = e AND 0x7F"
    "(e AND 0x7F) AND ENTRYTYPE_USE_MASK = 0" "(e OR 0x80) AND ENTRYTYPE_USE_MASK = 0x80"
  proof -
    have low: "(0x7F :: byte) = mask 7" and high: "(0x80 :: int) = push_bit 7 1"
      by (simp_all add: mask_eq_exp_minus_1)
    have top: "bit (0x80 :: int) n \<longleftrightarrow> n = 7" for n
      unfolding high bit_push_bit_iff by (auto simp: bit_1_iff)
    show "(e AND 0x7F) AND NOT ENTRYTYPE_USE_MASK = e AND 0x7F" "(e OR 0x80) AND NOT ENTRYTYPE_USE_MASK = e AND 0x7F"
      "(e AND 0x7F) AND ENTRYTYPE_USE_MASK = 0" "(e OR 0x80) AND ENTRYTYPE_USE_MASK = 0x80"
      unfolding ENTRYTYPE_USE_MASK_def low by (rule bit_word_eqI, auto simp: bit_simps top)+
  qed
  have ty: "exfat_dirent_interpret_entrytype (e AND 0x7F) = (fst (exfat_dirent_interpret_entrytype (e OR 0x80)), False)"
    "snd (exfat_dirent_interpret_entrytype (e OR 0x80))"
    using assms by (simp_all add: exfat_dirent_interpret_entrytype_def Let_def code)
  have same: "bitmap_chunk (x # c) = bitmap_chunk (y # c)" "upcase_chunk (x # c) = upcase_chunk (y # c)"
    "file_chunk (x # c) = file_chunk (y # c)" "volguid_chunk (x # c) = volguid_chunk (y # c)"
    "strext_chunk (x # c) = strext_chunk (y # c)" "fname_chunk (x # c) = fname_chunk (y # c)"
    "volume_label (x # c) n = volume_label (y # c) n" "set_extent (x # c) d = set_extent (y # c) d" for x y n d
    by (simp_all add: bitmap_chunk_def upcase_chunk_def file_chunk_def volguid_chunk_def strext_chunk_def
        fname_chunk_def volume_label_def set_extent_def slice_def)
  obtain ty' use where t: "exfat_dirent_interpret_entrytype (e OR 0x80) = (ty', use)" "use"
    using ty(2) by (cases "exfat_dirent_interpret_entrytype (e OR 0x80)") auto
  show ?thesis
    unfolding exfat_read_directory_entry_data_def
    using same [where x = "e AND 0x7F" and y = "e OR 0x80"] ty(1) t
    by (auto simp: Let_def set_member_def set_extent_def split: option.splits dirent_type.splits)
qed

theorem deleted_entry_decoded_witness:
  "entry_type (fst (snd (exfat_read_directory_entry_data (uninit_dirent (\<lambda>_. 0) 0) (0x05 # replicate 31 0) (kernel_state (\<lambda>_. 0) () 0))))
     = DIRENT_FILE"
proof -
  have "exfat_dirent_interpret_entrytype 0x85 = (Some DIRENT_FILE, True)" by code_simp
  with deleted_entry_decoded [of 5 "uninit_dirent (\<lambda>_. 0) 0" "replicate 31 0" "kernel_state (\<lambda>_. 0) () 0"]
  show ?thesis by (simp add: exfat_read_directory_entry_data_def set_member_def)
qed

section \<open>Names\<close>

lemma poke_at:
  "length xs \<le> 2 ^ 64 \<Longrightarrow> poke m p xs a = (if unat (a - p) < length xs then xs ! unat (a - p) else m a)"
proof (induction xs arbitrary: m p)
  case (Cons x xs)
  show ?case
  proof (cases "a = p")
    case True
    have "unat (- 1 :: u64) = 2 ^ 64 - 1" by (simp add: unsigned_minus_1_eq_mask mask_eq_exp_minus_1)
    with True Cons show ?thesis by simp
  next
    case False
    then have "unat (a - (p + 1)) = unat (a - p) - 1" "0 < unat (a - p)"
      using unat_minus_one [of "a - p"] by (simp_all add: diff_diff_eq unat_gt_0)
    with False Cons show ?thesis by (auto simp: nth_Cons')
  qed
qed simp

text \<open>The loop of \<open>str_from_wchar\<close> when it is its counter that stops it.\<close>

lemma str_from_wchar_loop_full:
  assumes "\<And>i. i < k \<Longrightarrow> m (ptr + of_nat (2 * i)) \<noteq> 0"
    and "\<And>i j. i < k \<Longrightarrow> j \<le> k \<Longrightarrow> dest + of_nat i \<noteq> ptr + of_nat (2 * j)"
    and "unat x + k = unat n"
  shows "str_from_wchar_loop dest ptr n x m =
     (if m (ptr + of_nat (2 * k)) \<noteq> 0 then n + 1 else n, dest + of_nat k,
      poke m dest (map (\<lambda>i. m (ptr + of_nat (2 * i))) [0..<k]))"
  using assms
proof (induction k arbitrary: dest ptr x m)
  case 0
  then have "x = n" by (simp add: word_unat_eq_iff)
  then show ?case by (simp add: str_from_wchar_loop.simps)
next
  case (Suc k)
  have x: "x < n" using Suc.prems(3) by (simp add: word_less_nat_alt)
  let ?m = "m(dest := m ptr)"
  have other: "?m (ptr + 2 + of_nat (2 * i)) = m (ptr + of_nat (2 * Suc i))" if "i \<le> k" for i
    using Suc.prems(2) [of 0 "Suc i"] that by (simp add: add.assoc)
  have loop: "str_from_wchar_loop (dest + 1) (ptr + 2) n (x + 1) ?m =
     (if ?m (ptr + 2 + of_nat (2 * k)) \<noteq> 0 then n + 1 else n, dest + 1 + of_nat k,
      poke ?m (dest + 1) (map (\<lambda>i. ?m (ptr + 2 + of_nat (2 * i))) [0..<k]))"
  proof (rule Suc.IH)
    show "?m (ptr + 2 + of_nat (2 * i)) \<noteq> 0" if "i < k" for i
      using Suc.prems(1) [of "Suc i"] other [of i] that by simp
    show "dest + 1 + of_nat i \<noteq> ptr + 2 + of_nat (2 * j)" if "i < k" "j \<le> k" for i j
      using Suc.prems(2) [of "Suc i" "Suc j"] that by (simp add: add.assoc add.left_commute)
    show "unat (x + 1) + k = unat n"
      using Suc.prems(3) word_less_Suc_unat [OF x] by simp
  qed
  have maps: "map (\<lambda>i. ?m (ptr + 2 + of_nat (2 * i))) [0..<k] = map (\<lambda>i. m (ptr + of_nat (2 * Suc i))) [0..<k]"
    using other by (intro map_cong) auto
  have cons: "map (\<lambda>i. m (ptr + of_nat (2 * i))) [0..<Suc k]
      = m ptr # map (\<lambda>i. m (ptr + of_nat (2 * Suc i))) [0..<k]"
    by (simp only: upt_conv_Cons [of 0 "Suc k"] zero_less_Suc list.map map_Suc_upt [symmetric] map_map comp_def) simp
  have "m ptr \<noteq> 0" using Suc.prems(1) [of 0] by simp
  then show ?case
    unfolding cons
    by (subst str_from_wchar_loop.simps)
      (simp only: x if_True loop maps other [OF order_refl] poke.simps, simp add: add.assoc del: fun_upd_apply)
qed

lemma cstr_map:
  "(\<And>i. i < k \<Longrightarrow> f i \<noteq> 0 \<and> m (p + of_nat i) = f i) \<Longrightarrow> m (p + of_nat k) = 0 \<Longrightarrow> cstr m p (map f [0..<k])"
  using cstr_append [of m p "map f [0..<k]" "[]"] by simp

text \<open>The bytes of an entry in RAM: the name part and the byte after it.\<close>

lemma store_dirent_name:
  assumes "length (entry_bytes ed) = 31"
  shows "i < 15 \<Longrightarrow> store_dirent p ed m (p + 18 + of_nat (2 * i)) = entry_bytes ed ! (2 * i + 1)"
    and "store_dirent p ed m (p + 48) = ucast (first_cluster ed)"
proof -
  assume i: "i < 15"
  have o: "p + 18 + of_nat (2 * i) - (p + 48) = of_nat (2 * i) - 30"
    and o': "p + 18 + of_nat (2 * i) - (p + 17) = of_nat (2 * i + 1)" by simp_all
  have "unat (of_nat (2 * i + 1) :: u64) = 2 * i + 1"
    using i by (simp only: unsigned_of_nat) (simp add: take_bit_nat_eq_self)
  then have at: "poke m (p + 17) (entry_bytes ed) (p + 18 + of_nat (2 * i)) = entry_bytes ed ! (2 * i + 1)"
    using i assms by (subst poke_at) (simp_all only: o', simp_all)
  have "i \<in> {0..<15}" using i by simp
  then have "\<not> (of_nat (2 * i) - 30 :: u64) < 4"
    by (simp add: atLeastLessThan_nat_numeral) auto
  then have "\<not> in_region (p + 48 + 0) 4 (p + 18 + of_nat (2 * i))"
    unfolding in_region_def add_0_right o .
  with at show "store_dirent p ed m (p + 18 + of_nat (2 * i)) = entry_bytes ed ! (2 * i + 1)"
    by (simp add: store_dirent_def write_word_outside)
next
  have "a + 1 \<noteq> a" "a + 2 \<noteq> a" "a + 3 \<noteq> a" for a :: addr by simp_all
  then show "store_dirent p ed m (p + 48) = ucast (first_cluster ed)"
    by (simp add: store_dirent_def write_word_def Let_def) (rule bit_word_eqI, simp add: bit_simps byte_mask)
qed



section \<open>Reading a file\<close>

lemma unat_2p: "k < 64 \<Longrightarrow> unat ((2 :: u64) ^ k) = 2 ^ k"
proof -
  assume k: "k < 64"
  have "(2 :: u64) ^ k = of_nat (2 ^ k)" by simp
  then show ?thesis using k by (simp only: unsigned_of_nat) (simp add: take_bit_nat_eq_self)
qed

text \<open>
  The whole clusters of a file are never read. The size that \<open>exfat_fread\<close> passes for a
  cluster is in bytes, and it is compared with the number of sectors in a cluster: on a device
  with blocks of more than one byte the call fails with \<open>EINVAL\<close>, and the device and the
  buffer are left as they are. (The caller does not look at the result.)
\<close>

theorem whole_cluster_refused:
  assumes "bs = 2 ^ b" "0 < b" "clustersize sb = 2 ^ c" "b + c < 64"
  shows "exfat_read_cluster_to_buf rd Pl d sb idx p (clustersize sb * bs) s = Some (-1, d, s\<lparr>errno := EINVAL\<rparr>)"
proof -
  have "clustersize sb * bs = 2 ^ (c + b)" using assms(1,3) by (simp add: power_add)
  moreover have "(2 :: u64) ^ (c + b) \<noteq> 2 ^ c"
    using assms(2,4) unat_2p [of "c + b"] unat_2p [of c] by (simp add: word_unat_eq_iff)
  ultimately show ?thesis using assms(3) by (simp add: exfat_read_cluster_to_buf_def)
qed

theorem whole_cluster_refused_witness:
  "exfat_read_cluster_to_buf disk_read bare_platform small_disk small_volume 5 0x9000 (clustersize small_volume * 512)
      (kernel_state (\<lambda>_. 0) () 0) = Some (-1, small_disk, (kernel_state (\<lambda>_. 0) () 0)\<lparr>errno := EINVAL\<rparr>)"
  by (rule whole_cluster_refused [where b = 9 and c = 3]) (simp_all add: small_volume_def)

text \<open>A device whose block size does not change when it is read.\<close>

definition steady :: "('d, 'h) reader \<Rightarrow> ('d \<Rightarrow> u64) \<Rightarrow> bool" where
  "steady rd bsize \<longleftrightarrow> (\<forall>Pl d p n b s r d' t. rd Pl d p n b s = Some (r, d', t) \<longrightarrow> bsize d' = bsize d)"

text \<open>What the steps of a read keep of the file.\<close>

definition same_file :: "('d \<Rightarrow> u64) \<Rightarrow> 'd exfat_file_opaque \<Rightarrow> 'd exfat_file_opaque \<Rightarrow> bool" where
  "same_file bsize op op' \<longleftrightarrow> bsize (fo_bd op') = bsize (fo_bd op) \<and> fo_super op' = fo_super op"

lemma steadyD: "steady rd bsize \<Longrightarrow> rd Pl d p n b s = Some (r, d', t) \<Longrightarrow> bsize d' = bsize d"
  unfolding steady_def by blast

lemma device_read_same:
  "steady rd bsize \<Longrightarrow> device_read rd Pl p n b op s = Some (op', t) \<Longrightarrow>
   \<exists>d. op' = op\<lparr>fo_bd := d\<rparr> \<and> bsize d = bsize (fo_bd op)"
  by (auto simp: device_read_def bind_Some_iff dest: steadyD)

lemma fat_lookup_steady:
  "steady rd bsize \<Longrightarrow> fat_idx_to_cluster_idx rd bsize Pl d sb i s = Some (c, d', t) \<Longrightarrow> bsize d' = bsize d"
  by (auto simp: fat_idx_to_cluster_idx_def Let_def bind_Some_iff split: if_split_asm prod.splits dest: steadyD)

lemma cluster_steady:
  "steady rd bsize \<Longrightarrow> exfat_read_cluster_to_buf rd Pl d sb i p n s = Some (r, d', t) \<Longrightarrow> bsize d' = bsize d"
  by (auto simp: exfat_read_cluster_to_buf_def Let_def bind_Some_iff split: if_split_asm dest: steadyD)

lemma next_cluster_same:
  "steady rd bsize \<Longrightarrow> next_cluster rd bsize Pl op s = Some (op', t) \<Longrightarrow> same_file bsize op op'"
  by (auto simp: next_cluster_def bind_Some_iff same_file_def dest: fat_lookup_steady)

lemma fread_first_cluster_size:
  assumes "steady rd bsize" "block_cluster_offset op = 0" "pos_block_offset op = 0"
    and "fread_first_cluster rd bsize Pl ptr tmp op s = Some (n, op', t)"
  shows "n = clustersize (fo_super op) * bsize (fo_bd op) \<and> same_file bsize op op'"
  using assms(2-4)
  by (auto simp: fread_first_cluster_def Let_def bind_Some_iff same_file_def algebra_simps split: if_split_asm
      dest!: device_read_same [OF assms(1)] next_cluster_same [OF assms(1)])

lemma fread_clusters_size:
  assumes "steady rd bsize"
  shows "fread_clusters rd bsize Pl ptr k n op s = Some (n', op', t) \<Longrightarrow>
     n' = n + of_nat k * (clustersize (fo_super op) * bsize (fo_bd op)) \<and> same_file bsize op op'"
proof (induction k arbitrary: n op s)
  case 0
  then show ?case by (simp add: same_file_def)
next
  case (Suc k)
  from Suc.prems obtain r d s1 op1 s2 where
    c: "exfat_read_cluster_to_buf rd Pl (fo_bd op) (fo_super op) (current_cluster op) (ptr + n)
       (clustersize (fo_super op) * bsize (fo_bd op)) s = Some (r, d, s1)"
    and nx: "next_cluster rd bsize Pl (op\<lparr>fo_bd := d\<rparr>) s1 = Some (op1, s2)"
    and rest: "fread_clusters rd bsize Pl ptr k (n + clustersize (fo_super op) * bsize d) op1 s2 = Some (n', op', t)"
    by (auto simp: Let_def bind_Some_iff)
  have d: "bsize d = bsize (fo_bd op)" by (rule cluster_steady [OF assms c])
  from next_cluster_same [OF assms nx] d have "same_file bsize op op1" by (simp add: same_file_def)
  with Suc.IH [OF rest] d show ?case by (simp add: same_file_def algebra_simps)
qed

lemma fread_rest_size:
  assumes "steady rd bsize" "fread_rest rd bsize Pl ptr tmp l n op s = Some (n', op', t)"
  shows "n' = n + l div bsize (fo_bd op) * bsize (fo_bd op) + bsize (fo_bd op)"
  using assms(2)
  by (auto simp: fread_rest_def Let_def bind_Some_iff dest!: device_read_same [OF assms(1)])

lemma fread_counts_short:
  assumes "bs = 2 ^ b" "cs = 2 ^ c" "b + c < 64" "unat m < 2 ^ (b + c)"
  shows "fst (fread_counts bs cs m (cs * bs)) = m"
    and "unat (snd (fread_counts bs cs m (cs * bs))) = 2 ^ (64 - (b + c)) - 1"
proof -
  let ?J = "2 ^ (b + c) :: nat"
  have p: "cs * bs = 2 ^ (b + c)" using assms(1,2) by (simp add: power_add)
  have J: "unat (cs * bs) = ?J" unfolding p using assms(3) by (rule unat_2p)
  have le: "?J \<le> 2 ^ 64" using assms(3) by (intro power_increasing) simp_all
  obtain k where k: "(2 :: nat) ^ 64 = ?J * k" "k = 2 ^ (64 - (b + c))"
    using assms(3) by (metis le_add_diff_inverse less_imp_le_nat power_add)
  have kpos: "0 < k" by (simp add: k(2))
  have lt: "m < cs * bs" using assms(4) by (simp only: word_less_nat_alt J)
  have N: "unat (m - cs * bs) = 2 ^ 64 + unat m - ?J"
    using lt J assms(4) by (subst unat_sub_if') (simp add: word_le_nat_alt not_le word_less_nat_alt)
  have split: "2 ^ 64 + unat m - ?J = unat m + (k - 1) * ?J"
  proof -
    have "(k - 1) * ?J = ?J * k - ?J" by (simp add: diff_mult_distrib mult.commute)
    with le show ?thesis unfolding k(1) by simp
  qed
  have l: "unat ((m - cs * bs) mod (cs * bs)) = unat m"
    unfolding unat_mod N J split using assms(4) by simp
  then show "fst (fread_counts bs cs m (cs * bs)) = m"
    by (simp add: fread_counts_def Let_def word_unat_eq_iff)
  from l have m: "(m - cs * bs) mod (cs * bs) = m" by (simp add: word_unat_eq_iff)
  have "unat (m - cs * bs - m) = (k - 1) * ?J"
  proof -
    have "m \<le> m - cs * bs" using N split by (simp add: word_le_nat_alt)
    then show ?thesis unfolding unat_sub [OF \<open>m \<le> m - cs * bs\<close>] N split by simp
  qed
  then have "unat (m - cs * bs - m) div unat cs div unat bs = k - 1"
    unfolding div_mult2_eq [symmetric] using assms(1-3) unat_2p [of b] unat_2p [of c]
    by (simp add: power_add ac_simps)
  then show "unat (snd (fread_counts bs cs m (cs * bs))) = 2 ^ (64 - (b + c)) - 1"
    by (simp add: fread_counts_def Let_def m unat_div k(2))
qed

lemma counts_case:
  "(case fread_counts bs cs n k of (l, q) \<Rightarrow> g l q) = g (fst (fread_counts bs cs n k)) (snd (fread_counts bs cs n k))"
  by (simp add: case_prod_beta)


text \<open>On the disk image every step of a read returns.\<close>

lemma disk_steps_return:
  "\<exists>op' t. device_read disk_read bare_platform p n b op s = Some (op', t)"
  "\<exists>op' t. next_cluster disk_read disk_block bare_platform op s = Some (op', t)"
  "\<exists>r d' t. exfat_read_cluster_to_buf disk_read bare_platform d sb i p n s = Some (r, d', t)"
  by (auto simp: device_read_def next_cluster_def fat_idx_to_cluster_idx_def exfat_read_cluster_to_buf_def disk_read_def
      Let_def case_prod_beta)

lemma disk_clusters_return:
  "\<exists>n' op' t. fread_clusters disk_read disk_block bare_platform p k n op s = Some (n', op', t)"
proof (induction k arbitrary: n op s)
  case (Suc k)
  obtain r d t where "exfat_read_cluster_to_buf disk_read bare_platform (fo_bd op) (fo_super op) (current_cluster op)
      (p + n) (clustersize (fo_super op) * disk_block (fo_bd op)) s = Some (r, d, t)"
    using disk_steps_return(3) by blast
  moreover obtain op2 u where "next_cluster disk_read disk_block bare_platform (op\<lparr>fo_bd := d\<rparr>) t = Some (op2, u)"
    using disk_steps_return(2) by blast
  ultimately show ?case using Suc.IH by (simp add: Let_def)
qed simp

lemma disk_fread_parts_return:
  "\<exists>n' op' t. fread_first_cluster disk_read disk_block bare_platform p tmp op s = Some (n', op', t)"
  "\<exists>n' op' t. fread_rest disk_read disk_block bare_platform p tmp l k op s = Some (n', op', t)"
  by (auto simp: fread_first_cluster_def fread_rest_def Let_def device_read_def next_cluster_def
      fat_idx_to_cluster_idx_def disk_read_def case_prod_beta)

lemma disk_fread_returns:
  "\<exists>r f' t. exfat_fread disk_read disk_block bare_platform p n f s = Some (r, f', t)"
proof -
  define m where "m = (if f_len f \<le> f_pos f + n then f_len f - f_pos f else n)"
  obtain n1 op1 t1 where 1: "fread_first_cluster disk_read disk_block bare_platform p 0x9000 (f_opaque f) s = Some (n1, op1, t1)"
    using disk_fread_parts_return(1) by blast
  obtain l q where lq: "fread_counts (disk_block (fo_bd op1)) (clustersize (fo_super op1)) m n1 = (l, q)"
    by (cases "fread_counts (disk_block (fo_bd op1)) (clustersize (fo_super op1)) m n1") auto
  obtain n2 op2 t2 where 2: "fread_clusters disk_read disk_block bare_platform p (unat q) n1 op1 t1 = Some (n2, op2, t2)"
    using disk_clusters_return by blast
  obtain n3 op3 t3 where 3: "fread_rest disk_read disk_block bare_platform p 0x9000 l n2 op2 t2 = Some (n3, op3, t3)"
    using disk_fread_parts_return(2) by blast
  show ?thesis
    unfolding exfat_fread_def Let_def m_def [symmetric] by (simp add: 1 lq 2 3)
qed

definition small_file :: "mem vfs_file" where
  "small_file = \<lparr>f_self = 0x9000, f_pos = 0, f_len = 100, f_flags = 0,
     f_opaque = \<lparr>fo_self = 0x9000, fo_super = small_volume, fo_bd = small_disk, fo_first_cluster = 5, current_cluster = 5,
       block_cluster_offset = 0, pos_block_offset = 0\<rparr>\<rparr>"


section \<open>What the reader leaves alone\<close>

context block_reader
begin

lemma wlp_caseI: "(\<And>a b. wlp (f a b) Q) \<Longrightarrow> wlp (case p of (a, b) \<Rightarrow> f a b) Q"
  by (cases p) simp

lemma device_stage:
  "env W Pl \<Longrightarrow> inv d \<Longrightarrow> block_in W p n \<Longrightarrow> frame W s0 s \<Longrightarrow>
   wlp (rd Pl d p n b s) (\<lambda>(r, d', t). frame W s0 t \<and> inv d' \<and> bsize d' = bsize d)"
  by (rule wlp_mono [OF read_stage]) auto

lemma boot_stage:
  assumes "env W Pl" "inv d" "bsize d \<le> 0x1000" "frame W s0 s"
  shows "wlp (exfat_read_boot_block rd bsize Pl d sb s)
     (\<lambda>(r, sb', d', t). frame W s0 t \<and> inv d' \<and> bsize d' = bsize d \<and> (r = 0 \<or> r = -1 \<and> sb' = sb))"
  unfolding exfat_read_boot_block_def Let_def
  using env_confined [OF assms(1)] assms
  by - (rule device_stage frame_rules wlp_intros wlp_bindI | assumption | erule conjE | simp)+

lemma fat_stage:
  assumes "env W Pl" "inv d" "bsize d \<le> 0x1000" "frame W s0 s"
  shows "wlp (fat_idx_to_cluster_idx rd bsize Pl d sb i s)
     (\<lambda>(c, d', t). frame W s0 t \<and> inv d' \<and> bsize d' = bsize d)"
  unfolding fat_idx_to_cluster_idx_def Let_def case_prod_beta [of _ "fat_entry_pos _ _ _"]
  using env_confined [OF assms(1)] assms
  by - (rule device_stage frame_rules wlp_intros wlp_bindI | assumption | erule conjE | simp)+

lemma entry_stage:
  assumes "env W Pl" "inv d" "bsize d \<le> 0x1000" "frame W s0 s"
  shows "wlp (exfat_read_directory_entry rd bsize Pl d dir ed s)
     (\<lambda>(r, ed', d', t). frame W s0 t \<and> inv d' \<and> bsize d' = bsize d \<and> (r = 0 \<or> r = -1))"
proof -
  have data: "frame W s0 t \<and> (r = 0 \<or> r = -1)"
    if "frame W s0 u" "exfat_read_directory_entry_data ed c u = (r, x, t)" for u t c r x
    using that
    by (auto simp: exfat_read_directory_entry_data_def Let_def case_prod_beta
        split: option.splits dirent_type.splits if_split_asm)
  have finish: "wlp (let (r, x, t) = exfat_read_directory_entry_data ed c u in Some (r, x, dd, t))
       (\<lambda>(r, ed', d', t). frame W s0 t \<and> inv d' \<and> bsize d' = bsize d \<and> (r = 0 \<or> r = -1))"
    if "frame W s0 u" "inv dd" "bsize dd = bsize d" for u c dd
    using that data by (auto split: prod.splits)
  show ?thesis
    unfolding exfat_read_directory_entry_def
    using env_confined [OF assms(1)] assms
    by - (rule finish device_stage frame_rules wlp_intros wlp_let_step wlp_caseI wlp_bindI | assumption | erule conjE | simp)+
qed

end



end
