(* ===== verification/Fat_Dir.thy ===== *)
theory Fat_Dir
  imports Fat_Spec
begin

text \<open>
  What a directory is, and that the reader lists it. A directory is abstractly the sequence of
  its 32-byte entries; the relation \<open>dir_lists\<close> says which files they describe. On a device
  that delivers its blocks, the loops of \<open>exfat_readdir_fromblock\<close> return and compute just
  these files, in order.
\<close>

section \<open>Entries of a directory on disk\<close>

definition disk_entry :: "mem \<Rightarrow> exfat_directory_info \<Rightarrow> u32 \<Rightarrow> byte list" where
  "disk_entry d dir i =
     (let (blk, off) = dirent_pos 512 dir i
      in bytes_at d (512 * ucast (ucast blk :: u32) + ucast off) 32)"

text \<open>An entry lies inside one block.\<close>

lemma dirent_offset_inside:
  assumes "dirent_pos 512 dir i = (blk, off)"
  shows "unat (ucast off :: u64) + 32 \<le> 512"
proof -
  define a where "a = directory_start_block dir * 512 + ucast (EXFAT_DIRECTORY_ENTRY_SIZE * i)"
  have off: "off = ucast (a mod 512)" using assms by (simp add: dirent_pos_def Let_def a_def)
  have "32 dvd unat (directory_start_block dir * 512)"
    unfolding unat_word_ariths by (intro dvd_mod dvd_mult) simp_all
  moreover have "32 dvd unat (EXFAT_DIRECTORY_ENTRY_SIZE * i)"
    unfolding unat_word_ariths EXFAT_DIRECTORY_ENTRY_SIZE_def by (intro dvd_mod dvd_mult2) simp_all
  ultimately have "32 dvd unat a"
    unfolding a_def unat_word_ariths(1) by (intro dvd_mod dvd_add) (simp_all add: unat_ucast_up)
  then have "32 dvd unat (a mod 512)" unfolding unat_mod by (intro dvd_mod) simp_all
  moreover have lt: "unat (a mod 512) < 512" by (simp add: unat_mod)
  moreover have "unat (ucast off :: u64) = unat (a mod 512)"
    using lt by (simp add: off unat_ucast_up unsigned_ucast_eq unsigned_take_bit_eq take_bit_nat_eq_self)
  ultimately show ?thesis by presburger
qed

text \<open>A successful read of an entry depends on the disk only.\<close>

lemma disk_entry_read:
  assumes "\<And>n s. fst (libc_malloc Pl n s) \<noteq> 0"
  shows "\<exists>u. exfat_read_directory_entry disk_read disk_block Pl d dir ed s =
     (case exfat_read_directory_entry_data ed (disk_entry d dir (direntset_idx ed)) u of (r, x, t) \<Rightarrow> Some (r, x, d, t))"
proof -
  obtain blk off where pos: "dirent_pos 512 dir (direntset_idx ed) = (blk, off)"
    by (cases "dirent_pos 512 dir (direntset_idx ed)") auto
  obtain p s1 where m: "libc_malloc Pl 512 s = (p, s1)" by (cases "libc_malloc Pl 512 s") auto
  with assms [of 512 s] have p: "p \<noteq> 0" by simp
  let ?m = "\<lambda>a. if in_region p 512 a then d (512 * ucast (ucast blk :: u32) + (a - p)) else kmem s1 a"
  have "bytes_at ?m (p + ucast off) 32 = bytes_at (\<lambda>x. d (512 * ucast (ucast blk :: u32) + x)) (ucast off) 32"
    using bytes_at_window [OF dirent_offset_inside [OF pos], of p "\<lambda>x. d (512 * ucast (ucast blk :: u32) + x)" "kmem s1"] .
  also have "\<dots> = disk_entry d dir (direntset_idx ed)"
    by (rule nth_equalityI) (simp_all add: disk_entry_def pos nth_bytes_at add.assoc)
  finally show ?thesis
    using p
    by (intro exI [of _ "libc_free Pl p (s1\<lparr>kmem := ?m\<rparr>)"]) (auto simp: exfat_read_directory_entry_def disk_block_def malloc_def free_def m pos disk_read_block
        split: prod.splits)
qed

section \<open>What a directory lists\<close>

text \<open>The type of an entry, and which entries can be read.\<close>

definition kind :: "byte list \<Rightarrow> dirent_type option" where
  "kind e = fst (exfat_dirent_interpret_entrytype (e ! 0))"

definition readable :: "byte list \<Rightarrow> bool" where
  "readable e \<longleftrightarrow> (case kind e of None \<Rightarrow> False
     | Some ty \<Rightarrow> ty \<noteq> DIRENT_INVALID \<and> ty \<noteq> DIRENT_TEXFAT_PADDING \<and> (ty = DIRENT_VOLUME_LABEL \<longrightarrow> e ! 1 \<le> 11))"

lemma readable_data:
  assumes "readable e"
  shows "\<exists>x. exfat_read_directory_entry_data ed e s = (0, x, s) \<and> entry_type x = the (kind e) \<and>
     direntset_idx x = direntset_idx ed"
  using assms
  by (auto simp: readable_def kind_def exfat_read_directory_entry_data_def Let_def case_prod_beta set_member_def
      set_extent_def split: option.splits dirent_type.splits)

record file_info =
  info_directory :: bool
  info_size :: u64
  info_cluster :: u32

text \<open>The file that a file entry and the stream extension after it describe.\<close>

definition described :: "byte list \<Rightarrow> byte list \<Rightarrow> file_info" where
  "described f x = \<lparr>info_directory = bit (f ! 4) 4, info_size = le_value (slice 24 8 x),
     info_cluster = ucast (le_value (slice 20 4 x))\<rparr>"

inductive dir_lists :: "(u32 \<Rightarrow> byte list) \<Rightarrow> u32 \<Rightarrow> file_info list \<Rightarrow> bool" for E where
  dir_end: "kind (E i) = Some DIRENT_EOD \<Longrightarrow> dir_lists E i []"
| dir_skip: "readable (E i) \<Longrightarrow> kind (E i) \<noteq> Some DIRENT_EOD \<Longrightarrow> kind (E i) \<noteq> Some DIRENT_FILE \<Longrightarrow>
    dir_lists E (i + 1) fs \<Longrightarrow> dir_lists E i fs"
| dir_file: "kind (E i) = Some DIRENT_FILE \<Longrightarrow> E i ! 1 = sc \<Longrightarrow> 0 < sc \<Longrightarrow>
    kind (E (i + 1)) = Some DIRENT_STREAM_EXT \<Longrightarrow>
    (\<forall>j. 2 \<le> j \<longrightarrow> j \<le> unat sc \<longrightarrow> readable (E (i + of_nat j))) \<Longrightarrow>
    dir_lists E (i + ucast sc + 1) fs \<Longrightarrow> dir_lists E i (described (E i) (E (i + 1)) # fs)"

text \<open>The part of a listed file that its directory entries determine, the size cut to 32 bits.\<close>

definition listed_as :: "dirent \<Rightarrow> file_info \<Rightarrow> bool" where
  "listed_as de fi \<longleftrightarrow> is_dir de = (if info_directory fi then 1 else 0) \<and> byte_size de = ucast (info_size fi) \<and>
     start_cluster (d_opaque de) = info_cluster fi \<and> fc_data_length (d_opaque de) = info_size fi"

section \<open>The listing\<close>

lemma disk_entry_ok:
  assumes "\<And>n s. fst (libc_malloc Pl n s) \<noteq> 0" "readable (disk_entry d dir (direntset_idx ed))"
  shows "\<exists>x t. exfat_read_directory_entry disk_read disk_block Pl d dir ed s = Some (0, x, d, t) \<and>
     entry_type x = the (kind (disk_entry d dir (direntset_idx ed))) \<and> direntset_idx x = direntset_idx ed \<and>
     (\<exists>u. exfat_read_directory_entry_data ed (disk_entry d dir (direntset_idx ed)) u = (0, x, t))"
proof -
  obtain u where u: "exfat_read_directory_entry disk_read disk_block Pl d dir ed s =
     (case exfat_read_directory_entry_data ed (disk_entry d dir (direntset_idx ed)) u of (r, x, t) \<Rightarrow> Some (r, x, d, t))"
    using disk_entry_read [OF assms(1)] by blast
  obtain x where "exfat_read_directory_entry_data ed (disk_entry d dir (direntset_idx ed)) u = (0, x, u)"
    "entry_type x = the (kind (disk_entry d dir (direntset_idx ed)))" "direntset_idx x = direntset_idx ed"
    using readable_data [OF assms(2)] by blast
  with u show ?thesis by auto
qed

lemma scast_small: "unat (i :: i32) < 2 ^ 31 \<Longrightarrow> scast i = (of_nat (unat i) :: u64)"
proof -
  assume i: "unat i < 2 ^ 31"
  have u: "uint i = int (unat i)" by (rule uint_nat)
  have "signed_take_bit 31 (int (unat i)) = int (unat i)"
  proof (rule signed_take_bit_int_eq_self)
    have "int (unat i) < int (2 ^ 31)" using i by (rule iffD2 [OF of_nat_less_iff])
    then show "int (unat i) < 2 ^ 31" by (simp only: of_nat_power of_nat_numeral)
    show "- (2 ^ 31) \<le> int (unat i)" by (rule order_trans [of _ 0]) simp_all
  qed
  moreover have "sint i = signed_take_bit 31 (uint i)" by (simp add: sint_uint)
  ultimately have "sint i = int (unat i)" by (simp only: u)
  then show ?thesis by (simp add: scast_eq)
qed

lemma name_parts_return:
  assumes "\<And>n s. fst (libc_malloc Pl n s) \<noteq> 0" "n < 2 ^ 31"
  shows "(\<And>j. 1 \<le> j \<Longrightarrow> j \<le> k \<Longrightarrow> readable (disk_entry d dir (direntset_idx ed + of_nat j))) \<Longrightarrow> unat i + k = n \<Longrightarrow>
    \<exists>t. read_name_parts disk_read disk_block Pl dir (of_nat n) i p ed d s = Some (0, d, t)"
proof (induction k arbitrary: i p ed s)
  case 0
  then have "scast i = (of_nat n :: u64)" using scast_small [of i] assms(2) by simp
  then show ?case by (simp add: read_name_parts.simps)
next
  case (Suc k)
  have i: "unat i < n" "unat i < 2 ^ 31" using Suc.prems(2) assms(2) by simp_all
  have more: "scast i < (of_nat n :: u64)"
    unfolding scast_small [OF i(2)] using i assms(2)
    by (simp only: word_less_nat_alt unsigned_of_nat) (simp add: take_bit_nat_eq_self)
  have i1: "unat (i + 1) = Suc (unat i)"
    using i by (subst unat_plus_if') simp
  let ?ed = "ed\<lparr>direntset_idx := direntset_idx ed + 1\<rparr>"
  have "readable (disk_entry d dir (direntset_idx ?ed))"
    using Suc.prems(1) [of 1] by simp
  from disk_entry_ok [OF assms(1) this, of s] obtain x t where
    x: "exfat_read_directory_entry disk_read disk_block Pl d dir ?ed s = Some (0, x, d, t)"
      "direntset_idx x = direntset_idx ed + 1" by auto
  obtain m q where m: "str_from_wchar p (local_addr Pl ''read_file_direntset.ed'' + 18) 15
      (store_dirent (local_addr Pl ''read_file_direntset.ed'') x (kmem t)) = (m, q)"
    by (metis surj_pair)
  have "\<exists>u. read_name_parts disk_read disk_block Pl dir (of_nat n) (i + 1) (p + m) x d (t\<lparr>kmem := q\<rparr>) = Some (0, d, u)"
  proof (rule Suc.IH)
    show "readable (disk_entry d dir (direntset_idx x + of_nat j))" if "1 \<le> j" "j \<le> k" for j
      using Suc.prems(1) [of "Suc j"] that x(2) by (simp add: ac_simps)
  qed (use i1 Suc.prems(2) in simp)
  with x m show ?case
    by (subst read_name_parts.simps) (simp add: more Let_def)
qed

lemma length_slice: "i + n \<le> length c \<Longrightarrow> length (slice i n c) = n"
  by (simp add: slice_def)

lemma file_data:
  assumes "exfat_read_directory_entry_data ed e u = (0, x, t)" "kind e = Some DIRENT_FILE" "length e = 32"
  shows "secondary_count x = e ! 1 \<and> directory_attribute x = (if bit (e ! 4) 4 then 1 else 0)"
proof -
  have "entry_bytes x = file_chunk e @ drop (length (file_chunk e)) (entry_bytes ed)"
    using assms by (auto simp: exfat_read_directory_entry_data_def kind_def Let_def case_prod_beta set_member_def)
  moreover have "slice 4 2 e ! 0 = e ! 4" using assms(3) by (simp add: slice_def)
  ultimately show ?thesis
    using assms(3)
    by (simp add: secondary_count_def directory_attribute_def file_chunk_def nth_append nth_Cons' length_slice)
qed

lemma stream_data:
  assumes "exfat_read_directory_entry_data ed e u = (0, x, t)" "kind e = Some DIRENT_STREAM_EXT"
  shows "data_length x = le_value (slice 24 8 e) \<and> first_cluster x = ucast (le_value (slice 20 4 e))"
  using assms
  by (auto simp: exfat_read_directory_entry_data_def kind_def Let_def case_prod_beta set_extent_def)

lemma length_disk_entry [simp]: "length (disk_entry d dir i) = 32"
  by (simp add: disk_entry_def case_prod_beta)

lemma direntset_listed:
  assumes alloc: "\<And>n s. fst (libc_malloc Pl n s) \<noteq> 0"
    and first: "exfat_read_directory_entry_data ed0 (disk_entry d dir i) u0 = (0, ed, t0)" "direntset_idx ed = i"
      "kind (disk_entry d dir i) = Some DIRENT_FILE"
    and sc: "disk_entry d dir i ! 1 = sc" "0 < sc"
    and stream: "kind (disk_entry d dir (i + 1)) = Some DIRENT_STREAM_EXT"
    and names: "\<And>j. 2 \<le> j \<Longrightarrow> j \<le> unat sc \<Longrightarrow> readable (disk_entry d dir (i + of_nat j))"
  shows "\<exists>de t. read_file_direntset disk_read disk_block Pl dir ed d s = Some (Some de, d, t) \<and>
     listed_as de (described (disk_entry d dir i) (disk_entry d dir (i + 1)))"
proof -
  from file_data [OF first(1,3)] sc have f: "secondary_count ed = sc"
    "directory_attribute ed = (if bit (disk_entry d dir i ! 4) 4 then 1 else 0)" by simp_all
  let ?ed = "(uninit_dirent (kmem s) (local_addr Pl ''read_file_direntset.ed''))\<lparr>direntset_idx := i + 1\<rparr>"
  have "readable (disk_entry d dir (direntset_idx ?ed))" using stream by (simp add: readable_def)
  from disk_entry_ok [OF alloc this, of s] stream obtain x t u where
    x: "exfat_read_directory_entry disk_read disk_block Pl d dir ?ed s = Some (0, x, d, t)"
      "entry_type x = DIRENT_STREAM_EXT" "direntset_idx x = i + 1"
      "exfat_read_directory_entry_data ?ed (disk_entry d dir (i + 1)) u = (0, x, t)" by auto
  obtain p1 t1 where m1: "libc_malloc Pl sizeof_file_contents t = (p1, t1)" by (metis surj_pair)
  with alloc [of sizeof_file_contents t] have p1: "p1 \<noteq> 0" by simp
  obtain p2 t2 where m2: "libc_malloc Pl (ucast (name_length x) + 1) t1 = (p2, t2)" by (metis surj_pair)
  have sc': "0 < unat sc" "unat sc < 256"
    using sc(2) unsigned_less [of sc, where ?'a = nat] by (simp_all add: word_less_nat_alt)
  have cnt: "ucast sc - 1 = (of_nat (unat sc - 1) :: u64)"
    using sc' by (simp add: of_nat_diff)
  have "\<exists>t3. read_name_parts disk_read disk_block Pl dir (of_nat (unat sc - 1)) 0 p2 x d t2 = Some (0, d, t3)"
  proof (rule name_parts_return [OF alloc])
    show "readable (disk_entry d dir (direntset_idx x + of_nat j))" if "1 \<le> j" "j \<le> unat sc - 1" for j
      using names [of "Suc j"] that sc' x(3) by (simp add: ac_simps)
  qed (use sc' in simp_all)
  then obtain t3 where n: "read_name_parts disk_read disk_block Pl dir (ucast sc - 1) 0 p2 x d t2 = Some (0, d, t3)"
    unfolding cnt by blast
  from stream_data [OF x(4) stream] f show ?thesis
    by (simp add: read_file_direntset_def Let_def f first(2) x(1,2) malloc_def m1 p1 m2 n listed_as_def described_def)
qed

lemma readdir_lists:
  assumes alloc: "\<And>n s. fst (libc_malloc Pl n s) \<noteq> 0"
  shows "dir_lists (disk_entry d dir) i fs \<Longrightarrow> direntset_idx ed = i \<Longrightarrow> entry_type ed \<noteq> DIRENT_EOD \<Longrightarrow>
    \<exists>ds t. readdir_loop disk_read disk_block Pl dir res ed d s = Some (res @ ds, d, t) \<and> list_all2 listed_as ds fs"
proof (induction i fs arbitrary: res ed s rule: dir_lists.induct)
  case (dir_end i)
  then have "readable (disk_entry d dir (direntset_idx ed))" by (simp add: readable_def)
  from disk_entry_ok [OF alloc this, of s] dir_end obtain x t where
    "exfat_read_directory_entry disk_read disk_block Pl d dir ed s = Some (0, x, d, t)" "entry_type x = DIRENT_EOD"
    by auto
  with dir_end show ?case
    by (intro exI [of _ "[]"] exI [of _ t]) (subst readdir_loop.simps, simp, simp add: readdir_loop.simps)
next
  case (dir_skip i fs)
  from dir_skip have "readable (disk_entry d dir (direntset_idx ed))" by simp
  from disk_entry_ok [OF alloc this, of s] dir_skip(1-3,6) obtain x t where
    x: "exfat_read_directory_entry disk_read disk_block Pl d dir ed s = Some (0, x, d, t)"
      "entry_type x \<noteq> DIRENT_EOD" "entry_type x \<noteq> DIRENT_FILE" "direntset_idx x = i"
    by (auto simp: readable_def split: option.splits)
  have "direntset_idx (x\<lparr>direntset_idx := direntset_idx x + 1\<rparr>) = i + 1" using x(4) by simp
  from dir_skip.IH [OF this] x(2) obtain ds u where
    "readdir_loop disk_read disk_block Pl dir res (x\<lparr>direntset_idx := direntset_idx x + 1\<rparr>) d t = Some (res @ ds, d, u)"
    "list_all2 listed_as ds fs" by fastforce
  with x dir_skip.prems show ?case
    by (subst readdir_loop.simps) simp
next
  case (dir_file i sc fs)
  from dir_file have "readable (disk_entry d dir (direntset_idx ed))" by (simp add: readable_def)
  from disk_entry_ok [OF alloc this, of s] dir_file(1,8) obtain x t u where
    x: "exfat_read_directory_entry disk_read disk_block Pl d dir ed s = Some (0, x, d, t)"
      "entry_type x = DIRENT_FILE" "direntset_idx x = i"
      "exfat_read_directory_entry_data ed (disk_entry d dir i) u = (0, x, t)" by auto
  obtain p t1 where m: "libc_malloc Pl sizeof_dirent t = (p, t1)" by (metis surj_pair)
  from direntset_listed [OF alloc x(4,3) dir_file(1-4), of t1] dir_file(5) obtain de t2 where
    de: "read_file_direntset disk_read disk_block Pl dir x d t1 = Some (Some de, d, t2)"
      "listed_as de (described (disk_entry d dir i) (disk_entry d dir (i + 1)))" by blast
  have sc: "secondary_count x = sc"
    using file_data [OF x(4) dir_file(1)] dir_file(2) by simp
  let ?x = "x\<lparr>direntset_idx := direntset_idx x + ucast (secondary_count x) + 1\<rparr>"
  have "direntset_idx ?x = i + ucast sc + 1" "entry_type ?x \<noteq> DIRENT_EOD" using x(2,3) sc by simp_all
  from dir_file.IH [OF this, of "res @ [de]" t2] obtain ds v where
    "readdir_loop disk_read disk_block Pl dir (res @ [de]) ?x d t2 = Some (res @ [de] @ ds, d, v)"
    "list_all2 listed_as ds fs" by auto
  with x de dir_file.prems m show ?case
    by (intro exI [of _ "de # ds"] exI [of _ v]) (subst readdir_loop.simps, simp add: malloc_def)
qed


text \<open>A root directory with one file, of 100 bytes from cluster 5, whose name is \<open>a\<close>.\<close>

definition root_entries :: "byte list" where
  "root_entries = file_entry 2 0 0 (replicate 24 0) @ stream_entry 0 1 0 100 5 100
     @ [0xC1, 0, 0x61, 0] @ replicate 28 0"

definition root_disk :: mem where
  "root_disk a = (let k = unat (a - 106496) in if k < 96 then root_entries ! k else 0)"

lemma root_disk_entries:
  "disk_entry root_disk \<lparr>dir_super = small_volume, dir_start_cluster = 4\<rparr> 0 = take 32 root_entries"
  "disk_entry root_disk \<lparr>dir_super = small_volume, dir_start_cluster = 4\<rparr> 1 = take 32 (drop 32 root_entries)"
  "disk_entry root_disk \<lparr>dir_super = small_volume, dir_start_cluster = 4\<rparr> 2 = drop 64 root_entries"
  "disk_entry root_disk \<lparr>dir_super = small_volume, dir_start_cluster = 4\<rparr> 3 = replicate 32 0"
  by code_simp+

lemma root_entry_facts:
  "kind (take 32 root_entries) = Some DIRENT_FILE" "root_entries ! Suc 0 = 2"
  "kind (take 32 (drop 32 root_entries)) = Some DIRENT_STREAM_EXT" "readable (drop 64 root_entries)"
  "kind (replicate 32 0) = Some DIRENT_EOD"
  "described (take 32 root_entries) (take 32 (drop 32 root_entries)) = \<lparr>info_directory = False, info_size = 100, info_cluster = 5\<rparr>"
  by code_simp+


end
