(* ===== verification/Framebuf.thy ===== *)
theory Framebuf
  imports CString Uart
begin

text \<open>
  The frame buffer: its property messages (\<open>src/kernel/framebuf.c\<close>) and drawing into it
  (\<open>src/drivers/graphics/fb_pixels.c\<close>). Automatic variables whose address is passed on are
  words of RAM at the platform's address for them; a variable that no call has stored has the
  value RAM holds there.
\<close>

section \<open>Codes (include/drivers/framebuf.h, fb_pixels.h, hw/mbox.h)\<close>

definition FB_SUCCESS :: u64 where "FB_SUCCESS = 0x80000000"
definition FB_ERR_UNKNOWN :: u64 where "FB_ERR_UNKNOWN = 0x80000001"
definition FB_ERR_NULLPTR :: u64 where "FB_ERR_NULLPTR = 0x80000002"

definition FB_PIX_SUCCESS :: u64 where "FB_PIX_SUCCESS = 0x81000000"
definition FB_PIX_ERR_NULLPTR :: u64 where "FB_PIX_ERR_NULLPTR = 0x81000001"
definition FB_PIX_ERR_DIMS_TOO_LARGE :: u64 where "FB_PIX_ERR_DIMS_TOO_LARGE = 0x81000002"

datatype framebuf_attr_action = FB_ATTR_GET | FB_ATTR_TEST | FB_ATTR_SET

definition PIX_ORDER_RGBA :: u32 where "PIX_ORDER_RGBA = 0"
definition PIX_ORDER_BGRA :: u32 where "PIX_ORDER_BGRA = 1"

definition MBOX_TAG_FB_ALLOC :: u32 where "MBOX_TAG_FB_ALLOC = 0x00040001"
definition MBOX_TAG_FB_RELEASE :: u32 where "MBOX_TAG_FB_RELEASE = 0x00048001"
definition MBOX_TAG_FB_BLANK_SCREEN :: u32 where "MBOX_TAG_FB_BLANK_SCREEN = 0x00040002"
definition MBOX_TAG_FB_GET_DIMS :: u32 where "MBOX_TAG_FB_GET_DIMS = 0x00040003"
definition MBOX_TAG_FB_TEST_DIMS :: u32 where "MBOX_TAG_FB_TEST_DIMS = 0x00044003"
definition MBOX_TAG_FB_SET_DIMS :: u32 where "MBOX_TAG_FB_SET_DIMS = 0x00048003"
definition MBOX_TAG_FB_GET_VIRT_DIMS :: u32 where "MBOX_TAG_FB_GET_VIRT_DIMS = 0x00040004"
definition MBOX_TAG_FB_TEST_VIRT_DIMS :: u32 where "MBOX_TAG_FB_TEST_VIRT_DIMS = 0x00044004"
definition MBOX_TAG_FB_SET_VIRT_DIMS :: u32 where "MBOX_TAG_FB_SET_VIRT_DIMS = 0x00048004"
definition MBOX_TAG_FB_GET_DEPTH :: u32 where "MBOX_TAG_FB_GET_DEPTH = 0x00040005"
definition MBOX_TAG_FB_TEST_DEPTH :: u32 where "MBOX_TAG_FB_TEST_DEPTH = 0x00044005"
definition MBOX_TAG_FB_SET_DEPTH :: u32 where "MBOX_TAG_FB_SET_DEPTH = 0x00048005"
definition MBOX_TAG_FB_GET_PIX_ORD :: u32 where "MBOX_TAG_FB_GET_PIX_ORD = 0x00040006"
definition MBOX_TAG_FB_TEST_PIX_ORD :: u32 where "MBOX_TAG_FB_TEST_PIX_ORD = 0x00044006"
definition MBOX_TAG_FB_SET_PIX_ORD :: u32 where "MBOX_TAG_FB_SET_PIX_ORD = 0x00048006"
definition MBOX_TAG_FB_GET_PITCH :: u32 where "MBOX_TAG_FB_GET_PITCH = 0x00040008"

section \<open>Property messages\<close>

definition put_local :: "'h platform \<Rightarrow> string \<Rightarrow> u32 \<Rightarrow> 'h kstate \<Rightarrow> 'h kstate" where
  "put_local Pl x v s = s\<lparr>kmem := store32 (kmem s) (local_addr Pl x) v\<rparr>"

definition get_local :: "'h platform \<Rightarrow> string \<Rightarrow> u64 \<Rightarrow> 'h kstate \<Rightarrow> u32" where
  "get_local Pl x off s = load32 (kmem s) (local_addr Pl x + off)"

text \<open>The common ending: any mailbox error is returned as it is.\<close>

definition fb_result :: "u64 \<Rightarrow> u64" where
  "fb_result err = (if err \<noteq> MBOX_SUCCESS then err else FB_SUCCESS)"

definition fb_alloc :: "'h platform \<Rightarrow> u32 \<Rightarrow> 'h kstate \<Rightarrow> (u64 \<times> 'h kstate) option" where
  "fb_alloc Pl alignment s = do {
     let s = put_local Pl ''fb_alloc.alignment'' alignment s;
     (err, s) \<leftarrow> mbox_prop_call Pl (local_addr Pl ''fb_alloc.mbox'') MBOX_TAG_FB_ALLOC 8
       (local_addr Pl ''fb_alloc.alignment'') (local_addr Pl ''fb_alloc.response'') s;
     if err \<noteq> MBOX_SUCCESS then Some (err, s)
     else Some (FB_SUCCESS, s\<lparr>framebuf := \<lparr>base_addr = get_local Pl ''fb_alloc.response'' 0 s,
       mem_size = get_local Pl ''fb_alloc.response'' 4 s\<rparr>, framebuf_enabled := 1\<rparr>)
   }"

definition fb_release :: "'h platform \<Rightarrow> 'h kstate \<Rightarrow> (u64 \<times> 'h kstate) option" where
  "fb_release Pl s = do {
     (err, s) \<leftarrow> mbox_prop_call Pl (local_addr Pl ''fb_release.mbox'') MBOX_TAG_FB_RELEASE 0 0 0 s;
     if err \<noteq> MBOX_SUCCESS then Some (err, s)
     else Some (FB_SUCCESS, s\<lparr>framebuf := \<lparr>base_addr = 0, mem_size = 0\<rparr>, framebuf_enabled := 0\<rparr>)
   }"

definition fb_dims ::
    "'h platform \<Rightarrow> framebuf_attr_action \<Rightarrow> addr \<Rightarrow> addr \<Rightarrow> 'h kstate \<Rightarrow> (u64 \<times> 'h kstate) option" where
  "fb_dims Pl act dims result s = do {
     let msize = 8;
     let tag = (case act of
         FB_ATTR_GET \<Rightarrow> MBOX_TAG_FB_GET_DIMS
       | FB_ATTR_SET \<Rightarrow> MBOX_TAG_FB_SET_DIMS
       | FB_ATTR_TEST \<Rightarrow> MBOX_TAG_FB_TEST_DIMS);
     (err, s) \<leftarrow> mbox_prop_call Pl (local_addr Pl ''fb_dims.mbox'') tag ((msize - 6) * 4) dims result s;
     Some (fb_result err, s)
   }"

definition fb_vdims ::
    "'h platform \<Rightarrow> framebuf_attr_action \<Rightarrow> addr \<Rightarrow> addr \<Rightarrow> 'h kstate \<Rightarrow> (u64 \<times> 'h kstate) option" where
  "fb_vdims Pl act dims result s = do {
     let msize = 8;
     let tag = (case act of
         FB_ATTR_GET \<Rightarrow> MBOX_TAG_FB_GET_VIRT_DIMS
       | FB_ATTR_SET \<Rightarrow> MBOX_TAG_FB_SET_VIRT_DIMS
       | FB_ATTR_TEST \<Rightarrow> MBOX_TAG_FB_TEST_VIRT_DIMS);
     (err, s) \<leftarrow> mbox_prop_call Pl (local_addr Pl ''fb_vdims.mbox'') tag ((msize - 6) * 4) dims result s;
     Some (fb_result err, s)
   }"

definition fb_blank_screen :: "'h platform \<Rightarrow> bool \<Rightarrow> 'h kstate \<Rightarrow> (u64 \<times> 'h kstate) option" where
  "fb_blank_screen Pl on s = do {
     let input = (if on then 1 else 0);
     let s = put_local Pl ''fb_blank_screen.input'' input s;
     (err, s) \<leftarrow> mbox_prop_call Pl (local_addr Pl ''fb_blank_screen.mbox'') MBOX_TAG_FB_BLANK_SCREEN 4
       (local_addr Pl ''fb_blank_screen.input'') (local_addr Pl ''fb_blank_screen.result'') s;
     if err \<noteq> MBOX_SUCCESS then Some (err, s)
     else if get_local Pl ''fb_blank_screen.result'' 0 s \<noteq> get_local Pl ''fb_blank_screen.input'' 0 s
     then Some (FB_ERR_UNKNOWN, s)
     else Some (FB_SUCCESS, s)
   }"

definition fb_bit_depth ::
    "'h platform \<Rightarrow> framebuf_attr_action \<Rightarrow> addr \<Rightarrow> addr \<Rightarrow> 'h kstate \<Rightarrow> (u64 \<times> 'h kstate) option" where
  "fb_bit_depth Pl act depth result s =
     (if result = 0 then Some (FB_ERR_NULLPTR, s)
      else if act \<noteq> FB_ATTR_GET \<and> depth = 0 then Some (FB_ERR_NULLPTR, s)
      else do {
        let tag = (case act of
            FB_ATTR_GET \<Rightarrow> MBOX_TAG_FB_GET_DEPTH
          | FB_ATTR_SET \<Rightarrow> MBOX_TAG_FB_SET_DEPTH
          | FB_ATTR_TEST \<Rightarrow> MBOX_TAG_FB_TEST_DEPTH);
        (err, s) \<leftarrow> mbox_prop_call Pl (local_addr Pl ''fb_bit_depth.mbox'') tag 4 depth result s;
        Some (fb_result err, s)
      })"

definition fb_get_pitch :: "'h platform \<Rightarrow> addr \<Rightarrow> 'h kstate \<Rightarrow> (u64 \<times> 'h kstate) option" where
  "fb_get_pitch Pl result s =
     (if result = 0 then Some (FB_ERR_NULLPTR, s)
      else do {
        (err, s) \<leftarrow> mbox_prop_call Pl (local_addr Pl ''fb_get_pitch.mbox'') MBOX_TAG_FB_GET_PITCH 4 0 result s;
        Some (fb_result err, s)
      })"

text \<open>
  \<open>pix_order\<close> is a pointer to one of the two orders; any other value leaves the message without
  input. The result is stored only when it is one of the two.
\<close>

definition fb_pix_order ::
    "'h platform \<Rightarrow> framebuf_attr_action \<Rightarrow> addr \<Rightarrow> addr \<Rightarrow> 'h kstate \<Rightarrow> (u64 \<times> 'h kstate) option" where
  "fb_pix_order Pl act pix_order result s =
     (if result = 0 then Some (FB_ERR_NULLPTR, s)
      else if act \<noteq> FB_ATTR_GET \<and> pix_order = 0 then Some (FB_ERR_NULLPTR, s)
      else do {
        let s = put_local Pl ''fb_pix_order.pix_order_rgba'' PIX_ORDER_RGBA s;
        let s = put_local Pl ''fb_pix_order.pix_order_bgra'' PIX_ORDER_BGRA s;
        let tag = (case act of
            FB_ATTR_GET \<Rightarrow> MBOX_TAG_FB_GET_PIX_ORD
          | FB_ATTR_SET \<Rightarrow> MBOX_TAG_FB_SET_PIX_ORD
          | FB_ATTR_TEST \<Rightarrow> MBOX_TAG_FB_TEST_PIX_ORD);
        let inp = (if pix_order \<noteq> 0 \<and> load32 (kmem s) pix_order = PIX_ORDER_RGBA
            then local_addr Pl ''fb_pix_order.pix_order_rgba''
          else if pix_order \<noteq> 0 \<and> load32 (kmem s) pix_order = PIX_ORDER_BGRA
            then local_addr Pl ''fb_pix_order.pix_order_bgra'' else 0);
        (err, s) \<leftarrow> mbox_prop_call Pl (local_addr Pl ''fb_pix_order.mbox'') tag 4 inp
          (local_addr Pl ''fb_pix_order.result_uint'') s;
        if err \<noteq> MBOX_SUCCESS then Some (err, s)
        else do {
          let r = get_local Pl ''fb_pix_order.result_uint'' 0 s;
          Some (FB_SUCCESS,
            if r = PIX_ORDER_RGBA \<or> r = PIX_ORDER_BGRA then s\<lparr>kmem := store32 (kmem s) result r\<rparr> else s)
        }
      })"

section \<open>Drawing\<close>

text \<open>
  What every drawing function asks for first. The results of the three calls are not looked
  at: after an error the variables keep what RAM held at their place.
\<close>

definition fb_geometry ::
    "'h platform \<Rightarrow> string \<Rightarrow> 'h kstate \<Rightarrow> (u32 \<times> u32 \<times> u32 \<times> u32 \<times> 'h kstate) option" where
  "fb_geometry Pl f s = do {
     (_, s) \<leftarrow> fb_dims Pl FB_ATTR_GET 0 (local_addr Pl (f @ ''.display_info'')) s;
     (_, s) \<leftarrow> fb_bit_depth Pl FB_ATTR_GET 0 (local_addr Pl (f @ ''.depth'')) s;
     let byte_depth = drop_bit 3 (get_local Pl (f @ ''.depth'') 0 s);
     (_, s) \<leftarrow> fb_get_pitch Pl (local_addr Pl (f @ ''.pitch'')) s;
     Some (get_local Pl (f @ ''.display_info'') 0 s, get_local Pl (f @ ''.display_info'') 4 s,
       byte_depth, get_local Pl (f @ ''.pitch'') 0 s, s)
   }"

text \<open>The bound, and the two lines printed when it is exceeded.\<close>

definition pos_too_large :: "u32 \<Rightarrow> u32 \<Rightarrow> u32 \<Rightarrow> u32 \<Rightarrow> bool" where
  "pos_too_large w h x y \<longleftrightarrow> x > w \<or> y > h"

definition report_pos :: "'h platform \<Rightarrow> u32 \<Rightarrow> u32 \<Rightarrow> u32 \<Rightarrow> u32 \<Rightarrow> 'h kstate \<Rightarrow> (u64 \<times> 'h kstate) option" where
  "report_pos Pl w h x y s = do {
     (_, s) \<leftarrow> uart0_printf Pl (literal ''Error! pos too large!'' @ [0x0A]) [] s;
     (_, s) \<leftarrow> uart0_printf Pl (literal ''Dims: (%d, %d), pos: (%d, %d)'' @ [0x0A])
       [ucast w, ucast h, ucast x, ucast y] s;
     Some (FB_PIX_ERR_DIMS_TOO_LARGE, s)
   }"

text \<open>The loop of \<open>set_pixel\<close>; \<open>color\<close> is the memory its pointer argument points to.\<close>

fun pixel_bytes :: "(nat \<Rightarrow> byte) \<Rightarrow> addr \<Rightarrow> nat \<Rightarrow> mem \<Rightarrow> mem" where
  "pixel_bytes color p 0 m = m"
| "pixel_bytes color p (Suc n) m = (pixel_bytes color p n m)(p + of_nat n := color n)"

definition set_pixel ::
    "'h platform \<Rightarrow> u32 \<Rightarrow> u32 \<Rightarrow> (nat \<Rightarrow> byte) option \<Rightarrow> 'h kstate \<Rightarrow> (u64 \<times> 'h kstate) option" where
  "set_pixel Pl x y color s = do {
     let fb = ucast (base_addr (framebuf s));
     case color of None \<Rightarrow> Some (FB_PIX_ERR_NULLPTR, s)
     | Some color \<Rightarrow> do {
         (w, h, byte_depth, pitch, s) \<leftarrow> fb_geometry Pl ''set_pixel'' s;
         if pos_too_large w h x y then report_pos Pl w h x y s
         else do {
           let offset = ucast (y * pitch + x * byte_depth);
           Some (FB_PIX_SUCCESS, s\<lparr>kmem := pixel_bytes color (fb + offset) (unat byte_depth) (kmem s)\<rparr>)
         }
       }
   }"

text \<open>One row of a rectangle: the offset is advanced before each pixel is stored.\<close>

fun rect_pixels :: "addr \<Rightarrow> u64 \<Rightarrow> addr \<Rightarrow> nat \<Rightarrow> mem \<Rightarrow> mem" where
  "rect_pixels color depth p 0 m = m"
| "rect_pixels color depth p (Suc n) m =
     (let p = p + depth in rect_pixels color depth p n (snd (memcpy p color depth m)))"

definition rect_row :: "addr \<Rightarrow> u32 \<Rightarrow> u32 \<Rightarrow> u32 \<Rightarrow> addr \<Rightarrow> mem \<Rightarrow> mem" where
  "rect_row color_ptr color byte_depth wd p m =
     (if byte_depth = 1 then snd (memset p (color AND 0xff) (ucast wd) m)
      else rect_pixels color_ptr (ucast byte_depth) p (unat wd) m)"

definition row_offset :: "u32 \<Rightarrow> u32 \<Rightarrow> u32 \<Rightarrow> u32 \<Rightarrow> nat \<Rightarrow> u64" where
  "row_offset x y byte_depth pitch j = (ucast y + of_nat j) * ucast pitch + ucast (x * byte_depth)"

definition set_rectangle ::
    "'h platform \<Rightarrow> u32 \<Rightarrow> u32 \<Rightarrow> u32 \<Rightarrow> u32 \<Rightarrow> u32 \<Rightarrow> 'h kstate \<Rightarrow> (u64 \<times> 'h kstate) option" where
  "set_rectangle Pl x y wd ht color s = do {
     let fb = ucast (base_addr (framebuf s));
     let s = put_local Pl ''set_rectangle.color'' color s;
     (w, h, byte_depth, pitch, s) \<leftarrow> fb_geometry Pl ''set_rectangle'' s;
     if pos_too_large w h x y then report_pos Pl w h x y s
     else do {
       let m = fold (\<lambda>j. rect_row (local_addr Pl ''set_rectangle.color'') color byte_depth wd
           (fb + row_offset x y byte_depth pitch j)) [0..<unat ht] (kmem s);
       Some (FB_PIX_SUCCESS, s\<lparr>kmem := m\<rparr>)
     }
   }"

definition swap_bytes :: "addr \<Rightarrow> addr \<Rightarrow> addr \<Rightarrow> u64 \<Rightarrow> mem \<Rightarrow> mem" where
  "swap_bytes buf a b n m =
     (let m = snd (memcpy buf a n m);
          m = snd (memcpy a b n m)
      in snd (memcpy b buf n m))"

definition fb_swap_rectangle ::
    "'h platform \<Rightarrow> u32 \<Rightarrow> u32 \<Rightarrow> u32 \<Rightarrow> u32 \<Rightarrow> u32 \<Rightarrow> u32 \<Rightarrow> 'h kstate \<Rightarrow> (u64 \<times> 'h kstate) option" where
  "fb_swap_rectangle Pl xa ya xb yb w h s = do {
     let fb = ucast (base_addr (framebuf s));
     (dw, dh, byte_depth, pitch, s) \<leftarrow> fb_geometry Pl ''fb_swap_rectangle'' s;
     if pos_too_large dw dh xa ya then report_pos Pl dw dh xa ya s
     else if pos_too_large dw dh xb yb then report_pos Pl dw dh xb yb s
     else if xa = 0 \<and> xb = 0 \<and> w = dw then do {
       let buf_sz = ucast (byte_depth * w * h);
       (buf, s) \<leftarrow> malloc Pl buf_sz s;
       let s = s\<lparr>kmem := swap_bytes buf (fb + ucast (ya * pitch)) (fb + ucast (yb * pitch)) buf_sz (kmem s)\<rparr>;
       s \<leftarrow> free Pl buf s;
       Some (FB_PIX_SUCCESS, s)
     }
     else do {
       let buf_sz = ucast (byte_depth * w);
       (buf, s) \<leftarrow> malloc Pl buf_sz s;
       let m = fold (\<lambda>j. swap_bytes buf (fb + row_offset xa ya byte_depth pitch j)
           (fb + row_offset xb yb byte_depth pitch j) buf_sz) [0..<unat h] (kmem s);
       s \<leftarrow> free Pl buf (s\<lparr>kmem := m\<rparr>);
       Some (FB_PIX_SUCCESS, s)
     }
   }"

definition fb_cpy_rectangle ::
    "'h platform \<Rightarrow> u32 \<Rightarrow> u32 \<Rightarrow> u32 \<Rightarrow> u32 \<Rightarrow> u32 \<Rightarrow> u32 \<Rightarrow> 'h kstate \<Rightarrow> (u64 \<times> 'h kstate) option" where
  "fb_cpy_rectangle Pl x_src y_src x_dst y_dst w h s = do {
     let fb = ucast (base_addr (framebuf s));
     (dw, dh, byte_depth, pitch, s) \<leftarrow> fb_geometry Pl ''fb_cpy_rectangle'' s;
     if pos_too_large dw dh x_src y_src then report_pos Pl dw dh x_src y_src s
     else if pos_too_large dw dh x_dst y_dst then report_pos Pl dw dh x_dst y_dst s
     else if x_src = 0 \<and> x_dst = 0 \<and> w = dw then do {
       let m = snd (memcpy (fb + ucast (y_dst * pitch)) (fb + ucast (y_src * pitch)) (ucast (h * pitch)) (kmem s));
       Some (FB_PIX_SUCCESS, s\<lparr>kmem := m\<rparr>)
     }
     else do {
       let m = fold (\<lambda>j m. snd (memcpy (fb + row_offset x_dst y_dst byte_depth pitch j)
           (fb + row_offset x_src y_src byte_depth pitch j) (ucast (w * byte_depth)) m)) [0..<unat h] (kmem s);
       Some (FB_PIX_SUCCESS, s\<lparr>kmem := m\<rparr>)
     }
   }"

definition px_offset :: "u64 \<Rightarrow> u64 \<Rightarrow> u64 \<Rightarrow> byte \<Rightarrow> u64" where
  "px_offset x y bit_pitch depth = y * bit_pitch + x * ucast depth"

end
