(* ===== verification/Font.thy ===== *)
theory Font
  imports Prelude
begin

text \<open>
  The console font (\<open>src/fonts/bizcat_font.c\<close>): glyphs of 8 by 16 pixels, a byte for each row,
  bit 7 the leftmost pixel. The array is declared with 256 glyphs and has 236 initialisers;
  the C language fills the rest with zeroes.
\<close>

definition char_width :: u16 where "char_width = 8"
definition char_height :: u16 where "char_height = 16"
definition char_spacing :: u16 where "char_spacing = 0"
definition line_spacing :: u16 where "line_spacing = 0"

definition bizcat_rows :: "byte list list" where
  "bizcat_rows = [
   [0, 0xD6, 0xAA, 0xD6, 0x82, 0xD6, 0x82, 0xBA, 0xAA, 0xAA, 0xBA, 0x82, 0xD6, 0x82, 0x82, 0x80],
   [0, 0, 0, 0, 0, 0, 0, 0, 0, 0, 0, 0, 0, 0, 0, 0],
   [0, 0, 0, 0, 0, 0, 0, 0, 0, 0, 0, 0, 0, 0, 0, 0],
   [0, 0, 0, 0, 0, 0, 0, 0, 0, 0, 0, 0, 0, 0, 0, 0],
   [0, 0, 0, 0, 0, 0, 0, 0, 0, 0, 0, 0, 0, 0, 0, 0],
   [0, 0, 0, 0, 0, 0, 0, 0, 0, 0, 0, 0, 0, 0, 0, 0],
   [0, 0, 0, 0, 0, 0, 0, 0, 0, 0, 0, 0, 0, 0, 0, 0],
   [0, 0, 0, 0, 0, 0, 0, 0, 0, 0, 0, 0, 0, 0, 0, 0],
   [0, 0, 0, 0, 0, 0, 0, 0, 0, 0, 0, 0, 0, 0, 0, 0],
   [0, 0, 0, 0, 0, 0, 0, 0, 0, 0, 0, 0, 0, 0, 0, 0],
   [0, 0, 0, 0, 0, 0, 0, 0, 0, 0, 0, 0, 0, 0, 0, 0],
   [0, 0, 0, 0, 0, 0, 0, 0, 0, 0, 0, 0, 0, 0, 0, 0],
   [0, 0, 0, 0, 0, 0, 0, 0, 0, 0, 0, 0, 0, 0, 0, 0],
   [0, 0, 0, 0, 0, 0, 0, 0, 0, 0, 0, 0, 0, 0, 0, 0],
   [0, 0, 0, 0, 0, 0, 0, 0, 0, 0, 0, 0, 0, 0, 0, 0],
   [0, 0, 0, 0, 0, 0, 0, 0, 0, 0, 0, 0, 0, 0, 0, 0],
   [0, 0, 0, 0, 0, 0, 0, 0, 0, 0, 0, 0, 0, 0, 0, 0],
   [0, 0, 0, 0, 0, 0, 0, 0, 0, 0, 0, 0, 0, 0, 0, 0],
   [0, 0, 0, 0, 0, 0, 0, 0, 0, 0, 0, 0, 0, 0, 0, 0],
   [0, 0, 0, 0, 0, 0, 0, 0, 0, 0, 0, 0, 0, 0, 0, 0],
   [0, 0xD6, 0xAA, 0xD6, 0x82, 0xD6, 0x82, 0xBA, 0xAA, 0xAA, 0xBA, 0x82, 0xD6, 0x82, 0x82, 0x82],
   [0, 0xD6, 0xAA, 0xD6, 0x82, 0xD6, 0x82, 0xBA, 0xAA, 0xAA, 0xBA, 0x82, 0xD6, 0x82, 0x82, 0x82],
   [0, 0xD6, 0xAA, 0xD6, 0x82, 0xD6, 0x82, 0xBA, 0xAA, 0xAA, 0xBA, 0x82, 0xD6, 0x82, 0x82, 0x82],
   [0, 0xD6, 0xAA, 0xD6, 0x82, 0xD6, 0x82, 0xBA, 0xAA, 0xAA, 0xBA, 0x82, 0xD6, 0x82, 0x82, 0x82],
   [0, 0xD6, 0xAA, 0xD6, 0x82, 0xD6, 0x82, 0xBA, 0xAA, 0xAA, 0xBA, 0x82, 0xD6, 0x82, 0x82, 0x82],
   [0, 0xD6, 0xAA, 0xD6, 0x82, 0xD6, 0x82, 0xBA, 0xAA, 0xAA, 0xBA, 0x82, 0xD6, 0x82, 0x82, 0x82],
   [0, 0xD6, 0xAA, 0xD6, 0x82, 0xD6, 0x82, 0xBA, 0xAA, 0xAA, 0xBA, 0x82, 0xD6, 0x82, 0x82, 0x82],
   [0, 0xD6, 0xAA, 0xD6, 0x82, 0xD6, 0x82, 0xBA, 0xAA, 0xAA, 0xBA, 0x82, 0xD6, 0x82, 0x82, 0x82],
   [0, 0xD6, 0xAA, 0xD6, 0x82, 0xD6, 0x82, 0xBA, 0xAA, 0xAA, 0xBA, 0x82, 0xD6, 0x82, 0x82, 0x82],
   [0, 0xD6, 0xAA, 0xD6, 0x82, 0xD6, 0x82, 0xBA, 0xAA, 0xAA, 0xBA, 0x82, 0xD6, 0x82, 0x82, 0x82],
   [0, 0xD6, 0xAA, 0xD6, 0x82, 0xD6, 0x82, 0xBA, 0xAA, 0xAA, 0xBA, 0x82, 0xD6, 0x82, 0x82, 0x82],
   [0, 0xD6, 0xAA, 0xD6, 0x82, 0xD6, 0x82, 0xBA, 0xAA, 0xAA, 0xBA, 0x82, 0xD6, 0x82, 0x82, 0x80],
   [0, 0, 0, 0, 0, 0, 0, 0, 0, 0, 0, 0, 0, 0, 0, 0],
   [0, 0, 0, 0x30, 0x30, 0x30, 0x30, 0x30, 0x30, 0x30, 0, 0x30, 0x30, 0, 0, 0],
   [0, 0, 0x6C, 0x6C, 0x6C, 0x6C, 0x6C, 0, 0, 0, 0, 0, 0, 0, 0, 0],
   [0, 0, 0, 0x6C, 0x6C, 0xFE, 0xFE, 0x6C, 0x6C, 0xFE, 0xFE, 0x6C, 0x6C, 0, 0, 0],
   [0, 0, 0x30, 0x30, 0x7C, 0xFC, 0xC0, 0xF8, 0x7C, 0x0C, 0xFC, 0xF8, 0x30, 0x30, 0, 0],
   [0, 0, 0, 0xE0, 0xA6, 0xEE, 0x1C, 0x38, 0x70, 0xEE, 0xCA, 0x0E, 0, 0, 0, 0],
   [0, 0, 0, 0x70, 0xF8, 0xD8, 0xF8, 0x76, 0xFE, 0xDC, 0xCC, 0xFE, 0x76, 0, 0, 0],
   [0, 0, 0x18, 0x18, 0x18, 0x38, 0x30, 0, 0, 0, 0, 0, 0, 0, 0, 0],
   [0, 0, 0x18, 0x38, 0x30, 0x70, 0x60, 0x60, 0x60, 0x60, 0x70, 0x30, 0x38, 0x18, 0, 0],
   [0, 0, 0x60, 0x70, 0x30, 0x38, 0x18, 0x18, 0x18, 0x18, 0x38, 0x30, 0x70, 0x60, 0, 0],
   [0, 0, 0, 0, 0, 0x6C, 0x6C, 0x38, 0xFE, 0xFE, 0x38, 0x6C, 0x6C, 0, 0, 0],
   [0, 0, 0, 0, 0, 0x30, 0x30, 0x30, 0xFC, 0xFC, 0x30, 0x30, 0x30, 0, 0, 0],
   [0, 0, 0, 0, 0, 0, 0, 0, 0, 0, 0x18, 0x18, 0x18, 0x38, 0x30, 0],
   [0, 0, 0, 0, 0, 0, 0, 0, 0xFE, 0xFE, 0, 0, 0, 0, 0, 0],
   [0, 0, 0, 0, 0, 0, 0, 0, 0, 0, 0, 0x18, 0x18, 0, 0, 0],
   [0, 0, 0x06, 0x06, 0x0C, 0x0C, 0x18, 0x18, 0x30, 0x30, 0x60, 0x60, 0xC0, 0xC0, 0, 0],
   [0, 0, 0, 0x7C, 0xFE, 0xC6, 0xCE, 0xDE, 0xF6, 0xE6, 0xC6, 0xFE, 0x7C, 0, 0, 0],
   [0, 0, 0, 0x18, 0x38, 0x78, 0x58, 0x18, 0x18, 0x18, 0x18, 0x18, 0x18, 0, 0, 0],
   [0, 0, 0, 0x7C, 0xFE, 0xC6, 0x0E, 0x1C, 0x38, 0x70, 0xE0, 0xFE, 0xFE, 0, 0, 0],
   [0, 0, 0, 0xFE, 0xFE, 0x0C, 0x18, 0x3C, 0x0E, 0x06, 0xC6, 0xFE, 0x7C, 0, 0, 0],
   [0, 0, 0, 0x0C, 0x1C, 0x3C, 0x7C, 0xEC, 0xCC, 0xFE, 0xFE, 0x0C, 0x0C, 0, 0, 0],
   [0, 0, 0, 0xFE, 0xFE, 0xC0, 0xFC, 0xFE, 0x06, 0x06, 0xC6, 0xFE, 0x7C, 0, 0, 0],
   [0, 0, 0, 0x3C, 0x7C, 0xE0, 0xC0, 0xFC, 0xFE, 0xC6, 0xC6, 0xFE, 0x7C, 0, 0, 0],
   [0, 0, 0, 0xFE, 0xFE, 0x06, 0x0E, 0x1C, 0x18, 0x38, 0x30, 0x30, 0x30, 0, 0, 0],
   [0, 0, 0, 0x7C, 0xFE, 0xC6, 0xC6, 0x7C, 0xFE, 0xC6, 0xC6, 0xFE, 0x7C, 0, 0, 0],
   [0, 0, 0, 0x7C, 0xFE, 0xC6, 0xC6, 0xFE, 0x7E, 0x06, 0x0E, 0x7C, 0x78, 0, 0, 0],
   [0, 0, 0, 0, 0, 0, 0x18, 0x18, 0, 0, 0x18, 0x18, 0, 0, 0, 0],
   [0, 0, 0, 0, 0, 0, 0x18, 0x18, 0, 0, 0x18, 0x18, 0x18, 0x38, 0x30, 0],
   [0, 0, 0, 0x0C, 0x1C, 0x38, 0x70, 0xE0, 0xE0, 0x70, 0x38, 0x1C, 0x0C, 0, 0, 0],
   [0, 0, 0, 0, 0, 0xFE, 0xFE, 0, 0, 0xFE, 0xFE, 0, 0, 0, 0, 0],
   [0, 0, 0, 0xC0, 0xE0, 0x70, 0x38, 0x1C, 0x1C, 0x38, 0x70, 0xE0, 0xC0, 0, 0, 0],
   [0, 0, 0, 0x7C, 0xFE, 0xC6, 0x06, 0x0E, 0x3C, 0x30, 0, 0x30, 0x30, 0, 0, 0],
   [0, 0, 0, 0x7C, 0xFE, 0xC6, 0xD6, 0xDE, 0xDE, 0xDC, 0xC0, 0xFC, 0x7C, 0, 0, 0],
   [0, 0, 0, 0x10, 0x38, 0x38, 0x6C, 0x6C, 0xC6, 0xFE, 0xFE, 0xC6, 0xC6, 0, 0, 0],
   [0, 0, 0, 0xFC, 0xFE, 0x66, 0x66, 0x7C, 0x7E, 0x66, 0x66, 0xFE, 0xFC, 0, 0, 0],
   [0, 0, 0, 0x3C, 0x7E, 0xE6, 0xC0, 0xC0, 0xC0, 0xC0, 0xE6, 0x7E, 0x3C, 0, 0, 0],
   [0, 0, 0, 0xF8, 0xFC, 0xCC, 0xC6, 0xC6, 0xC6, 0xC6, 0xCC, 0xFC, 0xF8, 0, 0, 0],
   [0, 0, 0, 0xFE, 0xFE, 0xC0, 0xC0, 0xFC, 0xFC, 0xC0, 0xC0, 0xFE, 0xFE, 0, 0, 0],
   [0, 0, 0, 0xFE, 0xFE, 0xC0, 0xC0, 0xFC, 0xFC, 0xC0, 0xC0, 0xC0, 0xC0, 0, 0, 0],
   [0, 0, 0, 0x3C, 0x7E, 0xE6, 0xC0, 0xDE, 0xDE, 0xC6, 0xE6, 0x7E, 0x3C, 0, 0, 0],
   [0, 0, 0, 0xC6, 0xC6, 0xC6, 0xC6, 0xFE, 0xFE, 0xC6, 0xC6, 0xC6, 0xC6, 0, 0, 0],
   [0, 0, 0, 0xFC, 0xFC, 0x30, 0x30, 0x30, 0x30, 0x30, 0x30, 0xFC, 0xFC, 0, 0, 0],
   [0, 0, 0, 0x06, 0x06, 0x06, 0x06, 0x06, 0x06, 0x06, 0xCE, 0xFC, 0x78, 0, 0, 0],
   [0, 0, 0, 0xC6, 0xCE, 0xDC, 0xF8, 0xF0, 0xF0, 0xF8, 0xDC, 0xCE, 0xC6, 0, 0, 0],
   [0, 0, 0, 0xC0, 0xC0, 0xC0, 0xC0, 0xC0, 0xC0, 0xC0, 0xC0, 0xFE, 0xFE, 0, 0, 0],
   [0, 0, 0, 0xC6, 0xC6, 0xEE, 0xFE, 0xFE, 0xD6, 0xD6, 0xC6, 0xC6, 0xC6, 0, 0, 0],
   [0, 0, 0, 0xC6, 0xC6, 0xE6, 0xF6, 0xF6, 0xDE, 0xDE, 0xCE, 0xC6, 0xC6, 0, 0, 0],
   [0, 0, 0, 0x38, 0x7C, 0xEE, 0xC6, 0xC6, 0xC6, 0xC6, 0xEE, 0x7C, 0x38, 0, 0, 0],
   [0, 0, 0, 0xFC, 0xFE, 0xC6, 0xC6, 0xFE, 0xFC, 0xC0, 0xC0, 0xC0, 0xC0, 0, 0, 0],
   [0, 0, 0, 0x7C, 0xFE, 0xC6, 0xC6, 0xC6, 0xDE, 0xDE, 0xCC, 0xFE, 0x76, 0, 0, 0],
   [0, 0, 0, 0xFC, 0xFE, 0xC6, 0xC6, 0xFE, 0xFC, 0xF8, 0xDC, 0xCE, 0xC6, 0, 0, 0],
   [0, 0, 0, 0x7C, 0xFE, 0xC6, 0xE0, 0x78, 0x3C, 0x0E, 0xC6, 0xFE, 0x7C, 0, 0, 0],
   [0, 0, 0, 0xFC, 0xFC, 0x30, 0x30, 0x30, 0x30, 0x30, 0x30, 0x30, 0x30, 0, 0, 0],
   [0, 0, 0, 0xC6, 0xC6, 0xC6, 0xC6, 0xC6, 0xC6, 0xC6, 0xC6, 0xFE, 0x7C, 0, 0, 0],
   [0, 0, 0, 0xC6, 0xC6, 0xC6, 0xC6, 0x6C, 0x6C, 0x6C, 0x38, 0x38, 0x38, 0, 0, 0],
   [0, 0, 0, 0xC6, 0xC6, 0xD6, 0xD6, 0xD6, 0xD6, 0xFE, 0x7C, 0x6C, 0x6C, 0, 0, 0],
   [0, 0, 0, 0xC6, 0xC6, 0x6C, 0x6C, 0x38, 0x38, 0x6C, 0x6C, 0xC6, 0xC6, 0, 0, 0],
   [0, 0, 0, 0xCC, 0xCC, 0xCC, 0x78, 0x78, 0x30, 0x30, 0x30, 0x30, 0x30, 0, 0, 0],
   [0, 0, 0, 0xFE, 0xFE, 0x06, 0x0C, 0x18, 0x30, 0x60, 0xC0, 0xFE, 0xFE, 0, 0, 0],
   [0, 0, 0x7C, 0x7C, 0x60, 0x60, 0x60, 0x60, 0x60, 0x60, 0x60, 0x60, 0x7C, 0x7C, 0, 0],
   [0, 0, 0xC0, 0xC0, 0x60, 0x60, 0x30, 0x30, 0x18, 0x18, 0x0C, 0x0C, 0x06, 0x06, 0, 0],
   [0, 0, 0x7C, 0x7C, 0x0C, 0x0C, 0x0C, 0x0C, 0x0C, 0x0C, 0x0C, 0x0C, 0x7C, 0x7C, 0, 0],
   [0, 0, 0x10, 0x38, 0x7C, 0xEE, 0xC6, 0, 0, 0, 0, 0, 0, 0, 0, 0],
   [0, 0, 0, 0, 0, 0, 0, 0, 0, 0, 0, 0, 0xFE, 0xFE, 0, 0],
   [0, 0, 0x30, 0x30, 0x30, 0x38, 0x18, 0, 0, 0, 0, 0, 0, 0, 0, 0],
   [0, 0, 0, 0, 0, 0x3C, 0x7E, 0x06, 0x7E, 0xFE, 0xC6, 0xFE, 0x7E, 0, 0, 0],
   [0, 0, 0xC0, 0xC0, 0xC0, 0xD8, 0xFC, 0xEE, 0xC6, 0xC6, 0xEE, 0xFC, 0xD8, 0, 0, 0],
   [0, 0, 0, 0, 0, 0x3C, 0x7E, 0xE6, 0xC0, 0xC0, 0xE6, 0x7E, 0x3C, 0, 0, 0],
   [0, 0, 0x06, 0x06, 0x06, 0x36, 0x7E, 0xEE, 0xC6, 0xC6, 0xEE, 0x7E, 0x36, 0, 0, 0],
   [0, 0, 0, 0, 0, 0x38, 0x7C, 0xC6, 0xFE, 0xFE, 0xC0, 0x7C, 0x3C, 0, 0, 0],
   [0, 0, 0x1E, 0x3E, 0x30, 0xFC, 0xFC, 0x30, 0x30, 0x30, 0x30, 0x30, 0x30, 0, 0, 0],
   [0, 0, 0, 0, 0, 0x36, 0x7E, 0xEE, 0xC6, 0xC6, 0xEE, 0x7E, 0x36, 0x0E, 0x7C, 0x78],
   [0, 0, 0xC0, 0xC0, 0xC0, 0xDC, 0xFE, 0xE6, 0xC6, 0xC6, 0xC6, 0xC6, 0xC6, 0, 0, 0],
   [0, 0, 0x18, 0x18, 0, 0x78, 0x78, 0x18, 0x18, 0x18, 0x18, 0x18, 0x18, 0, 0, 0],
   [0, 0, 0x0C, 0x0C, 0, 0x3C, 0x3C, 0x0C, 0x0C, 0x0C, 0x0C, 0x0C, 0x0C, 0x1C, 0xF8, 0xF0],
   [0, 0, 0xC0, 0xC0, 0xC0, 0xC6, 0xCE, 0xDC, 0xF8, 0xF8, 0xDC, 0xCE, 0xC6, 0, 0, 0],
   [0, 0, 0x78, 0x78, 0x18, 0x18, 0x18, 0x18, 0x18, 0x18, 0x18, 0x18, 0x18, 0, 0, 0],
   [0, 0, 0, 0, 0, 0xEC, 0xFE, 0xD6, 0xD6, 0xD6, 0xD6, 0xD6, 0xD6, 0, 0, 0],
   [0, 0, 0, 0, 0, 0xDC, 0xFE, 0xE6, 0xC6, 0xC6, 0xC6, 0xC6, 0xC6, 0, 0, 0],
   [0, 0, 0, 0, 0, 0x38, 0x7C, 0xEE, 0xC6, 0xC6, 0xEE, 0x7C, 0x38, 0, 0, 0],
   [0, 0, 0, 0, 0, 0xD8, 0xFC, 0xEE, 0xC6, 0xC6, 0xEE, 0xFC, 0xD8, 0xC0, 0xC0, 0xC0],
   [0, 0, 0, 0, 0, 0x36, 0x7E, 0xEE, 0xC6, 0xC6, 0xEE, 0x7E, 0x36, 0x06, 0x06, 0x06],
   [0, 0, 0, 0, 0, 0xDC, 0xFE, 0xE6, 0xC0, 0xC0, 0xC0, 0xC0, 0xC0, 0, 0, 0],
   [0, 0, 0, 0, 0, 0x7C, 0xFE, 0xC0, 0xFC, 0x7E, 0x06, 0xFE, 0x7C, 0, 0, 0],
   [0, 0, 0x30, 0x30, 0x30, 0xFE, 0xFE, 0x30, 0x30, 0x30, 0x30, 0x3E, 0x1E, 0, 0, 0],
   [0, 0, 0, 0, 0, 0xC6, 0xC6, 0xC6, 0xC6, 0xC6, 0xCE, 0xFE, 0x76, 0, 0, 0],
   [0, 0, 0, 0, 0, 0xC6, 0xC6, 0xC6, 0x6C, 0x6C, 0x38, 0x38, 0x10, 0, 0, 0],
   [0, 0, 0, 0, 0, 0xC6, 0xC6, 0xD6, 0xD6, 0xD6, 0xFE, 0x6C, 0x6C, 0, 0, 0],
   [0, 0, 0, 0, 0, 0xC6, 0xEE, 0x7C, 0x38, 0x38, 0x7C, 0xEE, 0xC6, 0, 0, 0],
   [0, 0, 0, 0, 0, 0xC6, 0xC6, 0xC6, 0x6C, 0x6C, 0x7C, 0x38, 0x18, 0x38, 0xF0, 0xE0],
   [0, 0, 0, 0, 0, 0xFE, 0xFE, 0x0C, 0x18, 0x30, 0x60, 0xFE, 0xFE, 0, 0, 0],
   [0, 0, 0x0E, 0x1E, 0x18, 0x18, 0x38, 0xF0, 0xF0, 0x38, 0x18, 0x18, 0x1E, 0x0E, 0, 0],
   [0, 0, 0x30, 0x30, 0x30, 0x30, 0x30, 0x30, 0x30, 0x30, 0x30, 0x30, 0x30, 0x30, 0, 0],
   [0, 0, 0xE0, 0xF0, 0x30, 0x30, 0x38, 0x1E, 0x1E, 0x38, 0x30, 0x30, 0xF0, 0xE0, 0, 0],
   [0, 0, 0, 0, 0, 0x66, 0xF6, 0xDE, 0xCC, 0, 0, 0, 0, 0, 0, 0],
   [0, 0, 0, 0xCC, 0xCC, 0x30, 0x30, 0xCC, 0xCC, 0x30, 0x30, 0xCC, 0xCC, 0, 0, 0],
   [0, 0xD6, 0xAA, 0xD6, 0x82, 0xD6, 0x82, 0xBA, 0xAA, 0xAA, 0xBA, 0x82, 0xD6, 0x82, 0x82, 0x80],
   [0, 0, 0, 0, 0, 0, 0, 0, 0, 0, 0, 0, 0, 0, 0, 0],
   [0, 0, 0, 0, 0, 0, 0, 0, 0, 0, 0, 0, 0, 0, 0, 0],
   [0, 0, 0, 0, 0, 0, 0, 0, 0, 0, 0, 0, 0, 0, 0, 0],
   [0, 0, 0, 0, 0, 0, 0, 0, 0, 0, 0, 0, 0, 0, 0, 0],
   [0, 0, 0, 0, 0, 0, 0, 0, 0, 0, 0, 0, 0, 0, 0, 0],
   [0, 0, 0, 0, 0, 0, 0, 0, 0, 0, 0, 0, 0, 0, 0, 0],
   [0, 0, 0, 0, 0, 0, 0, 0, 0, 0, 0, 0, 0, 0, 0, 0],
   [0, 0, 0, 0, 0, 0, 0, 0, 0, 0, 0, 0, 0, 0, 0, 0],
   [0, 0, 0, 0, 0, 0, 0, 0, 0, 0, 0, 0, 0, 0, 0, 0],
   [0, 0, 0, 0, 0, 0, 0, 0, 0, 0, 0, 0, 0, 0, 0, 0],
   [0, 0, 0, 0, 0, 0, 0, 0, 0, 0, 0, 0, 0, 0, 0, 0],
   [0, 0, 0, 0, 0, 0, 0, 0, 0, 0, 0, 0, 0, 0, 0, 0],
   [0, 0, 0, 0, 0, 0, 0, 0, 0, 0, 0, 0, 0, 0, 0, 0],
   [0, 0, 0, 0, 0, 0, 0, 0, 0, 0, 0, 0, 0, 0, 0, 0],
   [0, 0, 0, 0, 0, 0, 0, 0, 0, 0, 0, 0, 0, 0, 0, 0],
   [0, 0xD6, 0xAA, 0xD6, 0x82, 0xD6, 0x82, 0xBA, 0xAA, 0xAA, 0xBA, 0x82, 0xD6, 0x82, 0x82, 0x80],
   [0, 0, 0, 0, 0, 0, 0, 0, 0, 0, 0, 0, 0, 0, 0, 0],
   [0, 0, 0, 0, 0, 0, 0, 0, 0, 0, 0, 0, 0, 0, 0, 0],
   [0, 0, 0, 0, 0, 0, 0, 0, 0, 0, 0, 0, 0, 0, 0, 0],
   [0, 0, 0, 0, 0, 0, 0, 0, 0, 0, 0, 0, 0, 0, 0, 0],
   [0, 0, 0, 0, 0, 0, 0, 0, 0, 0, 0, 0, 0, 0, 0, 0],
   [0, 0, 0, 0, 0, 0, 0, 0, 0, 0, 0, 0, 0, 0, 0, 0],
   [0, 0, 0, 0, 0, 0, 0, 0, 0, 0, 0, 0, 0, 0, 0, 0],
   [0, 0, 0, 0, 0, 0, 0, 0, 0, 0, 0, 0, 0, 0, 0, 0],
   [0, 0, 0, 0, 0, 0, 0, 0, 0, 0, 0, 0, 0, 0, 0, 0],
   [0, 0, 0, 0, 0, 0, 0, 0, 0, 0, 0, 0, 0, 0, 0, 0],
   [0, 0, 0, 0, 0, 0, 0, 0, 0, 0, 0, 0, 0, 0, 0, 0],
   [0, 0, 0, 0, 0, 0, 0, 0, 0, 0, 0, 0, 0, 0, 0, 0],
   [0, 0, 0, 0, 0, 0, 0, 0, 0, 0, 0, 0, 0, 0, 0, 0],
   [0, 0, 0, 0, 0, 0, 0, 0, 0, 0, 0, 0, 0, 0, 0, 0],
   [0, 0, 0, 0, 0, 0, 0, 0, 0, 0, 0, 0, 0, 0, 0, 0],
   [0, 0, 0, 0x30, 0x30, 0, 0x30, 0x30, 0x30, 0x30, 0x30, 0x30, 0x30, 0, 0, 0],
   [0, 0, 0, 0x18, 0x18, 0x7E, 0xFE, 0xD8, 0xD8, 0xFE, 0x7E, 0x18, 0x18, 0, 0, 0],
   [0, 0, 0x3C, 0x7E, 0x66, 0x60, 0xF8, 0xF8, 0x60, 0x60, 0xE0, 0xFE, 0xFE, 0, 0, 0],
   [0, 0, 0xCC, 0xCC, 0xCC, 0x78, 0xFC, 0xFC, 0x30, 0xFC, 0xFC, 0x30, 0x30, 0, 0, 0],
   [0, 0, 0x38, 0x7C, 0xC6, 0x82, 0xBA, 0xA2, 0xBA, 0x82, 0xC6, 0x7C, 0x38, 0, 0, 0],
   [0, 0x38, 0x0C, 0x3C, 0x6C, 0x3C, 0, 0x7C, 0x7C, 0, 0, 0, 0, 0, 0, 0],
   [0, 0, 0, 0, 0, 0x36, 0x6C, 0xD8, 0xD8, 0x6C, 0x36, 0, 0, 0, 0, 0],
   [0, 0, 0x38, 0x7C, 0xC6, 0xB2, 0xAA, 0xB2, 0xAA, 0xAA, 0xC6, 0x7C, 0x38, 0, 0, 0],
   [0, 0x38, 0x7C, 0x6C, 0x7C, 0x38, 0, 0, 0, 0, 0, 0, 0, 0, 0, 0],
   [0, 0x38, 0x6C, 0x6C, 0x6C, 0x38, 0, 0x7C, 0x7C, 0, 0, 0, 0, 0, 0, 0],
   [0, 0, 0, 0, 0, 0xD8, 0x6C, 0x36, 0x36, 0x6C, 0xD8, 0, 0, 0, 0, 0],
   [0, 0, 0, 0x18, 0x18, 0, 0x18, 0x78, 0xE0, 0xC0, 0xC6, 0xFE, 0x7C, 0, 0, 0],
   [0x70, 0x7C, 0x1C, 0x10, 0x38, 0x38, 0x6C, 0x6C, 0xC6, 0xFE, 0xFE, 0xC6, 0xC6, 0, 0, 0],
   [0x1C, 0x7C, 0x70, 0x10, 0x38, 0x38, 0x6C, 0x6C, 0xC6, 0xFE, 0xFE, 0xC6, 0xC6, 0, 0, 0],
   [0x38, 0x7C, 0xEE, 0x10, 0x38, 0x38, 0x6C, 0x6C, 0xC6, 0xFE, 0xFE, 0xC6, 0xC6, 0, 0, 0],
   [0x76, 0xFE, 0xDC, 0x10, 0x38, 0x38, 0x6C, 0x6C, 0xC6, 0xFE, 0xFE, 0xC6, 0xC6, 0, 0, 0],
   [0, 0x6C, 0x6C, 0x10, 0x38, 0x38, 0x6C, 0x6C, 0xC6, 0xFE, 0xFE, 0xC6, 0xC6, 0, 0, 0],
   [0x38, 0x6C, 0x6C, 0x38, 0x38, 0x38, 0x6C, 0x6C, 0xC6, 0xFE, 0xFE, 0xC6, 0xC6, 0, 0, 0],
   [0, 0, 0, 0x1E, 0x3E, 0x78, 0xF8, 0xDE, 0xDE, 0xF8, 0xF8, 0xDE, 0xDE, 0, 0, 0],
   [0, 0, 0, 0x3C, 0x7E, 0xE6, 0xC0, 0xC0, 0xC0, 0xC0, 0xE6, 0x7E, 0x3C, 0x18, 0x78, 0x30],
   [0x70, 0x7C, 0x1C, 0, 0xFE, 0xFE, 0xC0, 0xFC, 0xFC, 0xC0, 0xC0, 0xFE, 0xFE, 0, 0, 0],
   [0x1C, 0x7C, 0x70, 0, 0xFE, 0xFE, 0xC0, 0xFC, 0xFC, 0xC0, 0xC0, 0xFE, 0xFE, 0, 0, 0],
   [0x38, 0x7C, 0xEE, 0, 0xFE, 0xFE, 0xC0, 0xFC, 0xFC, 0xC0, 0xC0, 0xFE, 0xFE, 0, 0, 0],
   [0, 0x6C, 0x6C, 0, 0xFE, 0xFE, 0xC0, 0xFC, 0xFC, 0xC0, 0xC0, 0xFE, 0xFE, 0, 0, 0],
   [0xE0, 0xF8, 0x38, 0, 0xFC, 0xFC, 0x30, 0x30, 0x30, 0x30, 0x30, 0xFC, 0xFC, 0, 0, 0],
   [0x1C, 0x7C, 0x70, 0, 0xFC, 0xFC, 0x30, 0x30, 0x30, 0x30, 0x30, 0xFC, 0xFC, 0, 0, 0],
   [0x30, 0x78, 0xCC, 0, 0xFC, 0xFC, 0x30, 0x30, 0x30, 0x30, 0x30, 0xFC, 0xFC, 0, 0, 0],
   [0, 0xCC, 0xCC, 0, 0xFC, 0xFC, 0x30, 0x30, 0x30, 0x30, 0x30, 0xFC, 0xFC, 0, 0, 0],
   [0, 0, 0, 0x78, 0x7C, 0x6C, 0x66, 0xF6, 0xF6, 0x66, 0x6C, 0x7C, 0x78, 0, 0, 0],
   [0x76, 0xFE, 0xDC, 0, 0xC6, 0xC6, 0xE6, 0xF6, 0xFE, 0xDE, 0xCE, 0xC6, 0xC6, 0, 0, 0],
   [0x70, 0x7C, 0x1C, 0, 0x38, 0x7C, 0xEE, 0xC6, 0xC6, 0xC6, 0xEE, 0x7C, 0x38, 0, 0, 0],
   [0x1C, 0x7C, 0x70, 0, 0x38, 0x7C, 0xEE, 0xC6, 0xC6, 0xC6, 0xEE, 0x7C, 0x38, 0, 0, 0],
   [0x38, 0x7C, 0xEE, 0, 0x38, 0x7C, 0xEE, 0xC6, 0xC6, 0xC6, 0xEE, 0x7C, 0x38, 0, 0, 0],
   [0x76, 0xFE, 0xDC, 0, 0x38, 0x7C, 0xEE, 0xC6, 0xC6, 0xC6, 0xEE, 0x7C, 0x38, 0, 0, 0],
   [0, 0x6C, 0x6C, 0, 0x38, 0x7C, 0xEE, 0xC6, 0xC6, 0xC6, 0xEE, 0x7C, 0x38, 0, 0, 0],
   [0, 0, 0, 0, 0xC6, 0xEE, 0x7C, 0x38, 0x38, 0x7C, 0xEE, 0xC6, 0, 0, 0, 0],
   [0, 0, 0, 0x36, 0x7E, 0xEC, 0xDE, 0xDE, 0xF6, 0xF6, 0x6E, 0xFC, 0xD8, 0, 0, 0],
   [0x70, 0x7C, 0x1C, 0, 0xC6, 0xC6, 0xC6, 0xC6, 0xC6, 0xC6, 0xC6, 0xFE, 0x7C, 0, 0, 0],
   [0x1C, 0x7C, 0x70, 0, 0xC6, 0xC6, 0xC6, 0xC6, 0xC6, 0xC6, 0xC6, 0xFE, 0x7C, 0, 0, 0],
   [0x38, 0x7C, 0xEE, 0, 0xC6, 0xC6, 0xC6, 0xC6, 0xC6, 0xC6, 0xC6, 0xFE, 0x7C, 0, 0, 0],
   [0, 0x6C, 0x6C, 0, 0xC6, 0xC6, 0xC6, 0xC6, 0xC6, 0xC6, 0xC6, 0xFE, 0x7C, 0, 0, 0],
   [0x38, 0xF8, 0xE0, 0, 0xCC, 0xCC, 0xCC, 0xFC, 0x78, 0x30, 0x30, 0x30, 0x30, 0, 0, 0],
   [0, 0, 0, 0xC0, 0xC0, 0xFC, 0xFE, 0xC6, 0xC6, 0xFE, 0xFC, 0xC0, 0xC0, 0, 0, 0],
   [0, 0, 0x78, 0xFC, 0xCC, 0xCC, 0xD8, 0xDC, 0xCE, 0xC6, 0xC6, 0xDE, 0xDC, 0, 0, 0],
   [0, 0x70, 0x7C, 0x1C, 0, 0x3C, 0x7E, 0x06, 0x7E, 0xFE, 0xC6, 0xFE, 0x7E, 0, 0, 0],
   [0, 0x1C, 0x7C, 0x70, 0, 0x3C, 0x7E, 0x06, 0x7E, 0xFE, 0xC6, 0xFE, 0x7E, 0, 0, 0],
   [0, 0x38, 0x7C, 0xEE, 0, 0x3C, 0x7E, 0x06, 0x7E, 0xFE, 0xC6, 0xFE, 0x7E, 0, 0, 0],
   [0, 0x76, 0xFE, 0xDC, 0, 0x3C, 0x7E, 0x06, 0x7E, 0xFE, 0xC6, 0xFE, 0x7E, 0, 0, 0],
   [0, 0, 0x6C, 0x6C, 0, 0x3C, 0x7E, 0x06, 0x7E, 0xFE, 0xC6, 0xFE, 0x7E, 0, 0, 0],
   [0, 0x38, 0x6C, 0x6C, 0x38, 0x3C, 0x7E, 0x06, 0x7E, 0xFE, 0xC6, 0xFE, 0x7E, 0, 0, 0],
   [0, 0, 0, 0, 0, 0x7C, 0xFE, 0x36, 0x7E, 0xFC, 0xD8, 0xFE, 0x7C, 0, 0, 0],
   [0, 0, 0, 0, 0, 0x3C, 0x7E, 0xE6, 0xC0, 0xC0, 0xE6, 0x7E, 0x3C, 0x18, 0x78, 0x30],
   [0, 0x70, 0x7C, 0x1C, 0, 0x38, 0x7C, 0xC6, 0xFE, 0xFE, 0xC0, 0x7C, 0x3C, 0, 0, 0],
   [0, 0x1C, 0x7C, 0x70, 0, 0x38, 0x7C, 0xC6, 0xFE, 0xFE, 0xC0, 0x7C, 0x3C, 0, 0, 0],
   [0, 0x38, 0x7C, 0xEE, 0, 0x38, 0x7C, 0xC6, 0xFE, 0xFE, 0xC0, 0x7C, 0x3C, 0, 0, 0],
   [0, 0, 0x6C, 0x6C, 0, 0x38, 0x7C, 0xC6, 0xFE, 0xFE, 0xC0, 0x7C, 0x3C, 0, 0, 0],
   [0, 0x70, 0x7C, 0x1C, 0, 0x78, 0x78, 0x18, 0x18, 0x18, 0x18, 0x18, 0x18, 0, 0, 0],
   [0, 0x1C, 0x7C, 0x70, 0, 0x78, 0x78, 0x18, 0x18, 0x18, 0x18, 0x18, 0x18, 0, 0, 0],
   [0, 0x38, 0x7C, 0xEE, 0, 0x78, 0x78, 0x18, 0x18, 0x18, 0x18, 0x18, 0x18, 0, 0, 0],
   [0, 0, 0x6C, 0x6C, 0, 0x78, 0x78, 0x18, 0x18, 0x18, 0x18, 0x18, 0x18, 0, 0, 0],
   [0, 0, 0x30, 0x3C, 0x78, 0x1C, 0x3C, 0x7E, 0xEE, 0xC6, 0xEE, 0x7C, 0x38, 0, 0, 0],
   [0, 0x76, 0xFE, 0xDC, 0, 0xDC, 0xFE, 0xE6, 0xC6, 0xC6, 0xC6, 0xC6, 0xC6, 0, 0, 0],
   [0, 0x70, 0x7C, 0x1C, 0, 0x38, 0x7C, 0xEE, 0xC6, 0xC6, 0xEE, 0x7C, 0x38, 0, 0, 0],
   [0, 0x1C, 0x7C, 0x70, 0, 0x38, 0x7C, 0xEE, 0xC6, 0xC6, 0xEE, 0x7C, 0x38, 0, 0, 0],
   [0, 0x38, 0x7C, 0xEE, 0, 0x38, 0x7C, 0xEE, 0xC6, 0xC6, 0xEE, 0x7C, 0x38, 0, 0, 0],
   [0, 0x76, 0xFE, 0xDC, 0, 0x38, 0x7C, 0xEE, 0xC6, 0xC6, 0xEE, 0x7C, 0x38, 0, 0, 0],
   [0, 0, 0x6C, 0x6C, 0, 0x38, 0x7C, 0xEE, 0xC6, 0xC6, 0xEE, 0x7C, 0x38, 0, 0, 0],
   [0, 0, 0, 0, 0x30, 0x30, 0, 0xFC, 0xFC, 0, 0x30, 0x30, 0, 0, 0, 0],
   [0, 0, 0, 0, 0, 0x36, 0x7E, 0xEC, 0xDE, 0xF6, 0x6E, 0xFC, 0xD8, 0, 0, 0],
   [0, 0x70, 0x7C, 0x1C, 0, 0xC6, 0xC6, 0xC6, 0xC6, 0xC6, 0xCE, 0xFE, 0x76, 0, 0, 0],
   [0, 0x1C, 0x7C, 0x70, 0, 0xC6, 0xC6, 0xC6, 0xC6, 0xC6, 0xCE, 0xFE, 0x76, 0, 0, 0],
   [0, 0x38, 0x7C, 0xEE, 0, 0xC6, 0xC6, 0xC6, 0xC6, 0xC6, 0xCE, 0xFE, 0x76, 0, 0, 0],
   [0, 0, 0x6C, 0x6C, 0, 0xC6, 0xC6, 0xC6, 0xC6, 0xC6, 0xCE, 0xFE, 0x76, 0, 0, 0],
   [0, 0x1C, 0x7C, 0x70, 0, 0xC6, 0xC6, 0xC6, 0x6C, 0x6C, 0x7C, 0x38, 0x18, 0x38, 0xF0, 0xE0],
   [0, 0, 0xC0, 0xC0, 0xC0, 0xD8, 0xFC, 0xEE, 0xC6, 0xC6, 0xEE, 0xFC, 0xD8, 0xC0, 0xC0, 0xC0],
   [0, 0, 0x6C, 0x6C, 0, 0xC6, 0xC6, 0xC6, 0x6C, 0x6C, 0x7C, 0x38, 0x18, 0x38, 0xF0, 0xE0]]"

definition bizcat_font_glyphs :: "byte \<Rightarrow> byte list" where
  "bizcat_font_glyphs c =
     (if unat c < length bizcat_rows then bizcat_rows ! unat c else replicate 16 0)"

lemma length_bizcat_rows [simp]: "length bizcat_rows = 236"
  by (simp add: bizcat_rows_def)

lemma bizcat_row_facts: "list_all (\<lambda>r. length r = 16 \<and> list_all even r) bizcat_rows"
  by (simp add: bizcat_rows_def)

end
