(* ===== verification/Console.thy ===== *)
theory Console
  imports Framebuf Font
begin

text \<open>
  The text console on the frame buffer (\<open>src/drivers/graphics/console.c\<close>) and the kernel's
  \<open>printf\<close> (\<open>src/kernel/printf.c\<close>), which writes to the serial port and to the console.
\<close>

section \<open>The console\<close>

definition CONSOLE_SUCCESS :: u64 where "CONSOLE_SUCCESS = 0x82000000"
definition CONSOLE_ERR_ARG_TOO_LARGE :: u64 where "CONSOLE_ERR_ARG_TOO_LARGE = 0x82000001"
definition CONSOLE_ERR_INVALID_ARGS :: u64 where "CONSOLE_ERR_INVALID_ARGS = 0x82000002"

definition CONFIG_CONSOLE_MIN_ROWS_BELOW :: u32 where "CONFIG_CONSOLE_MIN_ROWS_BELOW = 1"

definition with_console :: "(console_info \<Rightarrow> console_info) \<Rightarrow> 'h kstate \<Rightarrow> 'h kstate" where
  "with_console f s = s\<lparr>console_descriptor := f (console_descriptor s)\<rparr>"

definition console_init :: "'h platform \<Rightarrow> 'h kstate \<Rightarrow> (u64 \<times> 'h kstate) option" where
  "console_init Pl s = do {
     let s = with_console (\<lambda>d. d\<lparr>fg_color := NOT 0, bg_color := 0, cons_col := 0, cons_row := 0\<rparr>) s;
     (err, s) \<leftarrow> fb_dims Pl FB_ATTR_GET 0 (local_addr Pl ''console_init.fb_dimensions'') s;
     if err \<noteq> FB_SUCCESS then Some (err, s)
     else do {
       let cols = get_local Pl ''console_init.fb_dimensions'' 0 s div ucast char_width;
       let rows = get_local Pl ''console_init.fb_dimensions'' 4 s div ucast char_height;
       let s = with_console (\<lambda>d. d\<lparr>cons_cols := cols, cons_rows := rows, cons_enabled := 1\<rparr>) s;
       Some (CONSOLE_SUCCESS, s\<lparr>console_putc_enabled := True\<rparr>)
     }
   }"

text \<open>
  Bytes of the descriptor from a given offset on: the colours are passed to the pixel
  functions as pointers to them. Past the last field is what RAM holds after the variable.
\<close>

definition descriptor_words :: "console_info \<Rightarrow> u32 list" where
  "descriptor_words d = [fg_color d, bg_color d, fg_reset_color d, bg_reset_color d,
     cons_col d, cons_row d, cons_cols d, cons_rows d]"

definition descriptor_bytes :: "'h platform \<Rightarrow> 'h kstate \<Rightarrow> nat \<Rightarrow> nat \<Rightarrow> byte" where
  "descriptor_bytes Pl s off i =
     (let n = off + i
      in if n < 32 then ucast (drop_bit (8 * (n mod 4)) (descriptor_words (console_descriptor s) ! (n div 4)))
         else if n = 32 then cons_enabled (console_descriptor s)
         else kmem s (local_addr Pl ''console_descriptor'' + of_nat n))"

text \<open>
  The test of one pixel. A read outside the bitmap and a shift by a negative amount have no
  defined result.
\<close>

definition bitmap_bit :: "byte list \<Rightarrow> u32 \<Rightarrow> u32 \<Rightarrow> u32 \<Rightarrow> bool option" where
  "bitmap_bit bitmap bmp_w cur_x cur_y =
     (let i = unat (cur_y * bmp_w div 8)
      in if i < length bitmap \<and> cur_x \<le> 8
         then Some (drop_bit (unat (8 - cur_x)) (ucast (bitmap ! i) :: i32) AND 1 \<noteq> 0) else None)"

fun bitmap_columns ::
    "'h platform \<Rightarrow> byte list \<Rightarrow> u32 \<Rightarrow> u32 \<Rightarrow> u32 \<Rightarrow> u32 \<Rightarrow> nat \<Rightarrow> u32 \<Rightarrow> u32 list \<Rightarrow> 'h kstate
     \<Rightarrow> (u64 \<times> 'h kstate) option" where
  "bitmap_columns Pl bitmap bmp_w bmp_h x y fg cur_y [] s = Some (CONSOLE_SUCCESS, s)"
| "bitmap_columns Pl bitmap bmp_w bmp_h x y fg cur_y (cur_x # xs) s = do {
     let fb_x = x * bmp_w + cur_x;
     let fb_y = y * bmp_h + cur_y;
     b \<leftarrow> bitmap_bit bitmap bmp_w cur_x cur_y;
     if b then do {
       (err, s) \<leftarrow> set_pixel Pl fb_x fb_y (Some (descriptor_bytes Pl s fg)) s;
       if err \<noteq> FB_PIX_SUCCESS then Some (err, s)
       else bitmap_columns Pl bitmap bmp_w bmp_h x y fg cur_y xs s
     }
     else bitmap_columns Pl bitmap bmp_w bmp_h x y fg cur_y xs s
   }"

fun bitmap_lines ::
    "'h platform \<Rightarrow> byte list \<Rightarrow> u32 \<Rightarrow> u32 \<Rightarrow> u32 \<Rightarrow> u32 \<Rightarrow> nat \<Rightarrow> u32 list \<Rightarrow> 'h kstate
     \<Rightarrow> (u64 \<times> 'h kstate) option" where
  "bitmap_lines Pl bitmap bmp_w bmp_h x y fg [] s = Some (CONSOLE_SUCCESS, s)"
| "bitmap_lines Pl bitmap bmp_w bmp_h x y fg (cur_y # ys) s = do {
     (err, s) \<leftarrow> bitmap_columns Pl bitmap bmp_w bmp_h x y fg cur_y (map of_nat [0..<unat bmp_w]) s;
     if err \<noteq> CONSOLE_SUCCESS then Some (err, s)
     else bitmap_lines Pl bitmap bmp_w bmp_h x y fg ys s
   }"

text \<open>The colours are given as offsets in the descriptor; the background colour is not used.\<close>

definition console_write_from_bitmap_with_colors ::
    "'h platform \<Rightarrow> byte list \<Rightarrow> u32 \<Rightarrow> u32 \<Rightarrow> u32 \<Rightarrow> u32 \<Rightarrow> nat \<Rightarrow> nat \<Rightarrow> 'h kstate
     \<Rightarrow> (u64 \<times> 'h kstate) option" where
  "console_write_from_bitmap_with_colors Pl bitmap bmp_w bmp_h x y fg bg s =
     bitmap_lines Pl bitmap bmp_w bmp_h x y fg (map of_nat [0..<unat bmp_h]) s"

definition console_get_fg_color :: "'h kstate \<Rightarrow> u32" where
  "console_get_fg_color s = fg_color (console_descriptor s)"

definition console_get_bg_color :: "'h kstate \<Rightarrow> u32" where
  "console_get_bg_color s = bg_color (console_descriptor s)"

definition console_set_fg_color :: "u32 \<Rightarrow> 'h kstate \<Rightarrow> 'h kstate" where
  "console_set_fg_color color s = with_console (\<lambda>d. d\<lparr>fg_color := color\<rparr>) s"

definition console_set_bg_color :: "u32 \<Rightarrow> 'h kstate \<Rightarrow> 'h kstate" where
  "console_set_bg_color color s = with_console (\<lambda>d. d\<lparr>bg_color := color\<rparr>) s"

definition console_store_reset_colors :: "'h kstate \<Rightarrow> 'h kstate" where
  "console_store_reset_colors s =
     with_console (\<lambda>d. d\<lparr>fg_reset_color := fg_color d, bg_reset_color := bg_color d\<rparr>) s"

definition console_set_tmp_fg_color :: "u32 \<Rightarrow> 'h kstate \<Rightarrow> 'h kstate" where
  "console_set_tmp_fg_color color s = console_set_fg_color color (console_store_reset_colors s)"

definition console_set_tmp_bg_color :: "u32 \<Rightarrow> 'h kstate \<Rightarrow> 'h kstate" where
  "console_set_tmp_bg_color color s = console_set_bg_color color (console_store_reset_colors s)"

definition console_reset_colors :: "'h kstate \<Rightarrow> 'h kstate" where
  "console_reset_colors s =
     with_console (\<lambda>d. d\<lparr>fg_color := fg_reset_color d, bg_color := bg_reset_color d\<rparr>) s"

definition console_write_character_at_pos ::
    "'h platform \<Rightarrow> byte \<Rightarrow> u32 \<Rightarrow> u32 \<Rightarrow> 'h kstate \<Rightarrow> (u64 \<times> 'h kstate) option" where
  "console_write_character_at_pos Pl c x y s = do {
     let bitmap = bizcat_font_glyphs c;
     (err, s) \<leftarrow> console_write_from_bitmap_with_colors Pl bitmap (ucast char_width) (ucast char_height) x y 0 4 s;
     if err \<noteq> CONSOLE_SUCCESS then Some (err, s) else Some (CONSOLE_SUCCESS, s)
   }"

definition console_scroll_down :: "'h platform \<Rightarrow> u32 \<Rightarrow> 'h kstate \<Rightarrow> (u64 \<times> 'h kstate) option" where
  "console_scroll_down Pl rows_count s = do {
     let d = console_descriptor s;
     let y = rows_count * ucast char_height;
     let w = cons_cols d * ucast char_width;
     let h = (cons_rows d - rows_count) * ucast char_height;
     let bg = console_get_bg_color s;
     (err, s) \<leftarrow> fb_cpy_rectangle Pl 0 y 0 0 w h s;
     if err \<noteq> FB_PIX_SUCCESS then Some (err, s)
     else do {
       let y = (cons_rows (console_descriptor s) - rows_count) * ucast char_height;
       let h = rows_count * ucast char_height;
       (err, s) \<leftarrow> set_rectangle Pl 0 y w h bg s;
       if err \<noteq> FB_PIX_SUCCESS then Some (err, s) else Some (CONSOLE_SUCCESS, s)
     }
   }"

definition console_next_pos :: "'h platform \<Rightarrow> 'h kstate \<Rightarrow> 'h kstate option" where
  "console_next_pos Pl s = do {
     let s = with_console (\<lambda>d. d\<lparr>cons_col := cons_col d + 1\<rparr>) s;
     if cons_col (console_descriptor s) = cons_cols (console_descriptor s) then do {
       let s = with_console (\<lambda>d. d\<lparr>cons_col := 0, cons_row := cons_row d + 1\<rparr>) s;
       if cons_row (console_descriptor s) = cons_rows (console_descriptor s) then do {
         let s = with_console (\<lambda>d. d\<lparr>cons_row := cons_row d - 1\<rparr>) s;
         (_, s) \<leftarrow> console_scroll_down Pl 1 s;
         Some s
       }
       else Some s
     }
     else Some s
   }"

definition console_write_character :: "'h platform \<Rightarrow> byte \<Rightarrow> 'h kstate \<Rightarrow> (u64 \<times> 'h kstate) option" where
  "console_write_character Pl c s = do {
     (err, s) \<leftarrow> console_write_character_at_pos Pl c
       (cons_col (console_descriptor s)) (cons_row (console_descriptor s)) s;
     if err \<noteq> CONSOLE_SUCCESS then Some (err, s)
     else do {
       s \<leftarrow> console_next_pos Pl s;
       Some (CONSOLE_SUCCESS, s)
     }
   }"

definition console_erase_character :: "'h platform \<Rightarrow> 'h kstate \<Rightarrow> (u64 \<times> 'h kstate) option" where
  "console_erase_character Pl s = do {
     let d = console_descriptor s;
     let x = cons_col d * ucast char_width;
     let y = cons_row d * ucast char_height;
     let w = ucast char_width;
     let h = ucast char_height;
     (err, s) \<leftarrow> set_rectangle Pl x y w h (bg_color d) s;
     if err \<noteq> FB_PIX_SUCCESS then Some (err, s) else Some (CONSOLE_SUCCESS, s)
   }"

definition console_erase_row :: "'h platform \<Rightarrow> u32 \<Rightarrow> 'h kstate \<Rightarrow> (u64 \<times> 'h kstate) option" where
  "console_erase_row Pl rnum s = do {
     let d = console_descriptor s;
     let y = rnum * ucast char_height;
     let w = cons_cols d * ucast char_width;
     let h = ucast char_height;
     (err, s) \<leftarrow> set_rectangle Pl 0 y w h (bg_color d) s;
     if err \<noteq> FB_PIX_SUCCESS then Some (err, s) else Some (CONSOLE_SUCCESS, s)
   }"

definition console_swap_row :: "'h platform \<Rightarrow> u32 \<Rightarrow> u32 \<Rightarrow> 'h kstate \<Rightarrow> (u64 \<times> 'h kstate) option" where
  "console_swap_row Pl rnum_a rnum_b s =
     (if rnum_a = rnum_b then Some (CONSOLE_ERR_INVALID_ARGS, s)
      else do {
        let y_a = rnum_a * ucast char_height;
        let y_b = rnum_b * ucast char_height;
        let w = cons_cols (console_descriptor s) * ucast char_width;
        let h = ucast char_height;
        (err, s) \<leftarrow> fb_swap_rectangle Pl 0 y_a 0 y_b w h s;
        if err \<noteq> FB_PIX_SUCCESS then Some (err, s) else Some (CONSOLE_SUCCESS, s)
      })"

definition console_putc :: "'h platform \<Rightarrow> 'h putc_fun" where
  "console_putc Pl c s = do {
     let scroll_limit = cons_rows (console_descriptor s) - CONFIG_CONSOLE_MIN_ROWS_BELOW;
     if \<not> (cons_enabled (console_descriptor s) \<noteq> 0 \<and> framebuf_enabled s \<noteq> 0) then Some s
     else if c = 0x0A then do {
       let s = with_console (\<lambda>d. d\<lparr>cons_col := 0, cons_row := cons_row d + 1\<rparr>) s;
       if cons_row (console_descriptor s) = scroll_limit then do {
         let s = with_console (\<lambda>d. d\<lparr>cons_row := cons_row d - 1\<rparr>) s;
         (_, s) \<leftarrow> console_scroll_down Pl 1 s;
         Some s
       }
       else Some s
     }
     else do {
       (_, s) \<leftarrow> console_erase_character Pl s;
       (_, s) \<leftarrow> console_write_character Pl (ucast c) s;
       Some s
     }
   }"

definition console_printf :: "'h platform \<Rightarrow> byte list \<Rightarrow> va_list \<Rightarrow> 'h kstate \<Rightarrow> (i32 \<times> 'h kstate) option" where
  "console_printf Pl fmt ap s = generic_printf (console_putc Pl) fmt ap s"

section \<open>The kernel's \<open>printf\<close>\<close>

definition merge_count :: "i32 \<Rightarrow> i32 \<Rightarrow> i32" where
  "merge_count count c = (if count = 0 then c else if count = c then c else -1)"

definition printf_on :: "bool \<Rightarrow> 'h putc_fun \<Rightarrow> byte list \<Rightarrow> va_list \<Rightarrow> i32 \<Rightarrow> 'h kstate \<Rightarrow> (i32 \<times> 'h kstate) option" where
  "printf_on enabled putc fmt ap count s =
     (if enabled then do {
        (c, s) \<leftarrow> generic_printf putc fmt ap s;
        Some (merge_count count c, s)
      } else Some (count, s))"

text \<open>The second serial port is configured out (\<open>PRINTF_USE_UART1\<close> is 0).\<close>

definition kernel_printf :: "'h platform \<Rightarrow> byte list \<Rightarrow> va_list \<Rightarrow> 'h kstate \<Rightarrow> (i32 \<times> 'h kstate) option" where
  "kernel_printf Pl fmt ap s = do {
     let count = 0;
     (count, s) \<leftarrow> printf_on (uart0_putc_enabled s) (uart0_putc Pl) fmt ap count s;
     (count, s) \<leftarrow> printf_on (console_putc_enabled s) (console_putc Pl) fmt ap count s;
     Some (count, s)
   }"

text \<open>A call of \<open>printf\<close> whose count is not used.\<close>

definition print :: "'h platform \<Rightarrow> byte list \<Rightarrow> va_list \<Rightarrow> 'h kstate \<Rightarrow> 'h kstate option" where
  "print Pl fmt ap s = do { (_, s) \<leftarrow> kernel_printf Pl fmt ap s; Some s }"

text \<open>The address of a string literal.\<close>

definition lit :: "'h platform \<Rightarrow> string \<Rightarrow> addr" where
  "lit Pl x = local_addr Pl (CHR 0x22 # x @ [CHR 0x22])"

end
