(* ===== verification/Framebuf_Spec.thy ===== *)
theory Framebuf_Spec
  imports Framebuf
begin

text \<open>
  Which bytes of RAM \<open>set_rectangle\<close> changes, and an answering screen on which the drawing
  functions run.
\<close>

section \<open>What a rectangle covers\<close>

lemma unat_minus_cases:
  "unat (b - d :: u64) = (if unat d \<le> unat b then unat b - unat d else 2 ^ 64 + unat b - unat d)"
  using unat_sub_if' [of b d] by (auto simp: add.commute [of "2 ^ 64"] split: if_splits)

lemma in_region_split:
  assumes "unat (d :: u64) * Suc n < 2 ^ 64"
  shows "in_region q (d * of_nat (Suc n)) a \<longleftrightarrow> in_region q d a \<or> in_region (q + d) (d * of_nat n) a"
    and "in_region (q + d) (d * of_nat n) a \<Longrightarrow> (a - (q + d)) mod d = (a - q) mod d"
    and "in_region (q + d) (d * of_nat n) a \<Longrightarrow> \<not> in_region q d a"
proof -
  let ?x = "unat (a - q)"
  have bound: "unat d * k < 2 ^ 64" if "k \<le> Suc n" for k
    using assms that by (meson le_less_trans mult_le_mono2)
  have len: "unat (d * of_nat k) = unat d * k" if "k \<le> Suc n" for k
    using bound [OF that] by (cases "unat d = 0") (simp_all add: unat_word_ariths unsigned_of_nat take_bit_nat_def mod_mult_right_eq)
  have sub: "unat (a - (q + d)) = (if unat d \<le> ?x then ?x - unat d else 2 ^ 64 + ?x - unat d)"
    unfolding diff_diff_eq [symmetric] by (rule unat_minus_cases)
  have high: "unat d \<le> ?x" if "in_region (q + d) (d * of_nat n) a"
    using that sub bound [of n] len [of n] assms by (auto simp: in_region_def word_less_nat_alt split: if_splits)
  show "in_region q (d * of_nat (Suc n)) a \<longleftrightarrow> in_region q d a \<or> in_region (q + d) (d * of_nat n) a"
    using high sub len [of n] len [of "Suc n"] by (auto simp del: of_nat_Suc simp: in_region_def word_less_nat_alt)
  show "(a - (q + d)) mod d = (a - q) mod d" if "in_region (q + d) (d * of_nat n) a"
    using high [OF that] sub by (simp add: word_unat_eq_iff unat_mod le_mod_geq)
  show "\<not> in_region q d a" if "in_region (q + d) (d * of_nat n) a"
    using high [OF that] by (simp add: in_region_def word_less_nat_alt)
qed

lemma word_mod_below: "in_region q ((d :: u64) * k) a \<Longrightarrow> b mod d < d"
  by (cases "d = 0") (simp_all add: in_region_def word_less_nat_alt unat_mod unat_gt_0)

lemma region_mod: "in_region q (d :: u64) a \<Longrightarrow> (a - q) mod d = a - q"
  by (simp add: in_region_def word_less_nat_alt word_unat_eq_iff unat_mod)

lemma rect_pixels_spec:
  assumes "unat (d :: u64) * n < 2 ^ 64" "\<And>k. k < d \<Longrightarrow> \<not> in_region (p + d) (d * of_nat n) (c + k)"
  shows "rect_pixels c d p n m =
    (\<lambda>a. if in_region (p + d) (d * of_nat n) a then m (c + (a - (p + d)) mod d) else m a)"
  using assms
proof (induction n arbitrary: p m)
  case 0
  then show ?case by (simp add: in_region_def)
next
  case (Suc n)
  note split = in_region_split [OF Suc.prems(1), of "p + d"]
  have sep: "d \<le> (p + d) - c"
  proof (rule ccontr)
    assume "\<not> d \<le> p + d - c"
    then have "p + d - c < d" by simp
    from this Suc.prems(2) [OF this] split(1) [of "p + d"] show False
      by (simp add: in_region_self word_gt_0 del: of_nat_Suc)
  qed
  have out: "\<not> in_region (p + d) d (c + k)" "\<not> in_region (p + d + d) (d * of_nat n) (c + k)" if "k < d" for k
    using Suc.prems(2) [OF that] split(1) [of "c + k"] by blast+
  have "unat d * n < 2 ^ 64" using Suc.prems(1) by simp
  from Suc.IH [OF this out(2)] have "rect_pixels c d p (Suc n) m a =
      (if in_region (p + d + d) (d * of_nat n) a then snd (memcpy (p + d) c d m) (c + (a - (p + d + d)) mod d)
       else snd (memcpy (p + d) c d m) a)" for a
    by (simp add: Let_def)
  moreover have "snd (memcpy (p + d) c d m) a = (if in_region (p + d) d a then m (c + (a - (p + d))) else m a)" for a
    using memcpy_copies [of d "p + d" c m] sep by simp
  ultimately show ?case
    unfolding fun_eq_iff split(1) using split(2,3) out(1) word_mod_below region_mod by metis
qed

text \<open>
  The first byte of pixel \<open>(i, j)\<close>, and the size of a buffer that holds a rectangle
  together with one more column on its right.
\<close>

definition pixel_at :: "addr \<Rightarrow> u32 \<Rightarrow> u32 \<Rightarrow> nat \<Rightarrow> nat \<Rightarrow> addr" where
  "pixel_at fb pitch byte_depth i j = fb + of_nat (j * unat pitch + i * unat byte_depth)"

definition rect_extent :: "u32 \<Rightarrow> u32 \<Rightarrow> u32 \<Rightarrow> u32 \<Rightarrow> u32 \<Rightarrow> u32 \<Rightarrow> nat" where
  "rect_extent pitch byte_depth x y wd ht =
     (unat y + unat ht) * unat pitch + (unat x + unat wd + 1) * unat byte_depth"

lemma rect_extent_row:
  assumes "j < unat ht"
  shows "(unat y + j) * unat pitch + unat x * unat byte_depth + unat byte_depth + unat byte_depth * unat wd
      \<le> rect_extent pitch byte_depth x y wd ht"
proof -
  have "(unat y + j) * unat pitch \<le> (unat y + unat ht) * unat pitch"
    by (rule mult_right_mono) (use assms in auto)
  moreover have "(unat x + unat wd + 1) * unat byte_depth = unat x * unat byte_depth + unat byte_depth + unat byte_depth * unat wd"
    by (simp add: algebra_simps)
  ultimately show ?thesis unfolding rect_extent_def by linarith
qed

lemma unat_row_offset:
  assumes "unat x * unat byte_depth < 2 ^ 32" "rect_extent pitch byte_depth x y wd ht < 2 ^ 64" "j < unat ht"
  shows "unat (row_offset x y byte_depth pitch j) = (unat y + j) * unat pitch + unat x * unat byte_depth"
proof -
  have "(unat y + j) * unat pitch + unat x * unat byte_depth < 2 ^ 64"
    using rect_extent_row [OF assms(3), of y pitch x byte_depth wd] assms(2) by linarith
  moreover have "ucast (x * byte_depth) = (of_nat (unat x * unat byte_depth) :: u64)"
    using assms(1)
    by (simp add: word_unat_eq_iff unat_ucast_up unat_word_ariths unsigned_of_nat take_bit_nat_def del: of_nat_mult)
  then have "row_offset x y byte_depth pitch j = of_nat ((unat y + j) * unat pitch + unat x * unat byte_depth)"
    by (simp add: row_offset_def algebra_simps)
  ultimately show ?thesis by (simp add: unsigned_of_nat take_bit_nat_def del: of_nat_add of_nat_mult)
qed

lemma row_facts:
  assumes "unat x * unat byte_depth < 2 ^ 32" "rect_extent pitch byte_depth x y wd ht < 2 ^ 64" "j < unat ht"
    and "unat byte_depth dvd unat pitch"
    and "in_region (fb + row_offset x y byte_depth pitch j + ucast byte_depth) (ucast byte_depth * of_nat (unat wd)) a"
  shows "(a - (fb + row_offset x y byte_depth pitch j + ucast byte_depth)) mod ucast byte_depth = (a - fb) mod ucast byte_depth"
    and "unat (a - fb) < rect_extent pitch byte_depth x y wd ht"
proof -
  let ?d = "ucast byte_depth :: u64" and ?r = "row_offset x y byte_depth pitch j"
  define t where "t = a - (fb + ?r + ?d)"
  note r = unat_row_offset [OF assms(1-3)]
  note sum = rect_extent_row [OF assms(3), of y pitch x byte_depth wd]
  then have "unat byte_depth * unat wd < 2 ^ 64" using assms(2) by linarith
  then have t: "unat t < unat byte_depth * unat wd"
    using assms(5) by (simp add: t_def in_region_def word_less_nat_alt unat_word_ariths unat_ucast_up)
  have "a - fb = ?r + ?d + t" by (simp add: t_def)
  then have off: "unat (a - fb) = (unat y + j) * unat pitch + unat x * unat byte_depth + unat byte_depth + unat t"
    using sum t assms(2) r by (simp add: unat_word_ariths unat_ucast_up mod_simps)
  with sum t show "unat (a - fb) < rect_extent pitch byte_depth x y wd ht" by linarith
  have "((unat y + j) * unat pitch + unat x * unat byte_depth + unat byte_depth) mod unat byte_depth = 0"
    using assms(4) by simp
  then have "unat (a - fb) mod unat byte_depth = unat t mod unat byte_depth"
    unfolding off by (metis add_0 mod_add_left_eq)
  then show "(a - (fb + ?r + ?d)) mod ?d = (a - fb) mod ?d"
    by (simp add: t_def [symmetric] word_unat_eq_iff unat_mod unat_ucast_up)
qed

lemma in_region_offset:
  assumes "n + len < 2 ^ 64"
  shows "in_region (fb + of_nat n) (of_nat len) a \<longleftrightarrow> n \<le> unat (a - fb) \<and> unat (a - fb) < n + len"
proof -
  have "unat (of_nat n :: u64) = n" "unat (of_nat len :: u64) = len"
    using assms by (simp_all add: unsigned_of_nat take_bit_nat_eq_self)
  then show ?thesis
    using assms unat_minus_cases [of "a - fb" "of_nat n"] unsigned_less [of "a - fb", where ?'a = nat]
    unfolding in_region_def word_less_nat_alt diff_diff_eq [symmetric] by (auto split: if_splits)
qed

definition row_region :: "addr \<Rightarrow> u32 \<Rightarrow> u32 \<Rightarrow> u32 \<Rightarrow> u32 \<Rightarrow> u32 \<Rightarrow> nat \<Rightarrow> addr \<Rightarrow> bool" where
  "row_region fb pitch byte_depth x y wd j a \<longleftrightarrow>
     in_region (fb + row_offset x y byte_depth pitch j + ucast byte_depth) (ucast byte_depth * of_nat (unat wd)) a"

lemma rect_rows_spec:
  assumes "unat x * unat byte_depth < 2 ^ 32" "rect_extent pitch byte_depth x y wd ht < 2 ^ 64"
    and "unat byte_depth dvd unat pitch" "byte_depth \<noteq> 1"
    and colour: "\<And>k. k < unat byte_depth \<Longrightarrow> rect_extent pitch byte_depth x y wd ht \<le> unat (cp + of_nat k - fb)"
    and "n \<le> unat ht"
  shows "fold (\<lambda>j. rect_row cp color byte_depth wd (fb + row_offset x y byte_depth pitch j)) [0..<n] m =
    (\<lambda>a. if \<exists>j < n. row_region fb pitch byte_depth x y wd j a
         then m (cp + (a - fb) mod ucast byte_depth) else m a)"
  using assms(6)
proof (induction n)
  case (Suc n)
  let ?d = "ucast byte_depth :: u64" and ?R = "row_region fb pitch byte_depth x y wd"
  have out: "\<not> ?R j (cp + k)" if "k < ?d" "j < unat ht" for j k
  proof
    assume "?R j (cp + k)"
    from row_facts(2) [OF assms(1,2) that(2) assms(3) this [unfolded row_region_def]] colour [of "unat k"] that(1)
    show False by (simp add: word_less_nat_alt unat_ucast_up)
  qed
  have "unat ?d * unat wd < 2 ^ 64"
    using rect_extent_row [OF Suc_le_lessD [OF Suc.prems], of y pitch x byte_depth wd] assms(2)
    by (simp add: unat_ucast_up)
  from rect_pixels_spec [OF this, of "fb + row_offset x y byte_depth pitch n" cp] out Suc.prems
  have row: "rect_row cp color byte_depth wd (fb + row_offset x y byte_depth pitch n) m' a =
      (if ?R n a then m' (cp + (a - fb) mod ?d) else m' a)" for m' a
    using row_facts(1) [OF assms(1,2) _ assms(3), where j = n and fb = fb and a = a] assms(4)
    by (auto simp: rect_row_def row_region_def)
  have below: "(a - fb) mod ?d < ?d" if "?R n a" for a
    using that word_mod_below unfolding row_region_def by blast
  have "fold (\<lambda>j. rect_row cp color byte_depth wd (fb + row_offset x y byte_depth pitch j)) [0..<n] m =
      (\<lambda>a. if \<exists>j < n. ?R j a then m (cp + (a - fb) mod ?d) else m a)"
    using Suc by simp
  then show ?case
    using out below Suc.prems by (fastforce simp: fun_eq_iff row less_Suc_eq)
qed simp

lemma row_region_pixels:
  assumes "unat x * unat byte_depth < 2 ^ 32" "rect_extent pitch byte_depth x y wd ht < 2 ^ 64" "j < unat ht"
  shows "row_region fb pitch byte_depth x y wd j a \<longleftrightarrow>
    (\<exists>i. unat x < i \<and> i \<le> unat x + unat wd \<and> in_region (pixel_at fb pitch byte_depth i (unat y + j)) (ucast byte_depth) a)"
proof -
  let ?D = "unat byte_depth" and ?A = "unat (a - fb)"
  let ?r = "(unat y + j) * unat pitch"
  note sum = rect_extent_row [OF assms(3), of y pitch x byte_depth wd]
  have "row_offset x y byte_depth pitch j + ucast byte_depth = of_nat (?r + unat x * ?D + ?D)"
    by (simp only: unat_row_offset [OF assms, symmetric] of_nat_add) simp
  moreover have "(ucast byte_depth :: u64) * of_nat (unat wd) = of_nat (?D * unat wd)"
    by simp
  moreover have "?r + unat x * ?D + ?D + ?D * unat wd < 2 ^ 64" using sum assms(2) by linarith
  ultimately have row: "row_region fb pitch byte_depth x y wd j a \<longleftrightarrow>
      ?r + unat x * ?D + ?D \<le> ?A \<and> ?A < ?r + unat x * ?D + ?D + ?D * unat wd"
    unfolding row_region_def add.assoc [of fb] by (metis in_region_offset)
  have pixel: "in_region (pixel_at fb pitch byte_depth i (unat y + j)) (ucast byte_depth) a \<longleftrightarrow>
      ?r + i * ?D \<le> ?A \<and> ?A < ?r + i * ?D + ?D" if "i \<le> unat x + unat wd" for i
  proof -
    have "i * ?D \<le> (unat x + unat wd) * ?D" using that by (rule mult_right_mono) simp
    then have "?r + i * ?D + ?D < 2 ^ 64" using sum assms(2) by (simp add: algebra_simps)
    from in_region_offset [OF this, of fb a] show ?thesis by (simp add: pixel_at_def)
  qed
  show ?thesis
  proof
    assume "row_region fb pitch byte_depth x y wd j a"
    with row have lo: "(unat x + 1) * ?D \<le> ?A - ?r" and hi: "?A - ?r < (unat x + unat wd + 1) * ?D" and r: "?r \<le> ?A"
      by (auto simp: algebra_simps)
    define i where "i = (?A - ?r) div ?D"
    have "0 < ?D" using lo hi by (cases "?D = 0") auto
    then have "unat x + 1 \<le> i" "i < unat x + unat wd + 1"
      using lo hi by (simp_all add: i_def less_eq_div_iff_mult_less_eq div_less_iff_less_mult)
    moreover have "i * ?D \<le> ?A - ?r" "?A - ?r < i * ?D + ?D"
      using \<open>0 < ?D\<close> div_mult_mod_eq [of "?A - ?r" ?D] mod_less_divisor [of ?D "?A - ?r"] unfolding i_def by linarith+
    ultimately show "\<exists>i. unat x < i \<and> i \<le> unat x + unat wd \<and>
        in_region (pixel_at fb pitch byte_depth i (unat y + j)) (ucast byte_depth) a"
      using r pixel [of i] by (intro exI [of _ i] conjI) linarith+
  next
    assume "\<exists>i. unat x < i \<and> i \<le> unat x + unat wd \<and>
        in_region (pixel_at fb pitch byte_depth i (unat y + j)) (ucast byte_depth) a"
    then obtain i where i: "unat x < i" "i \<le> unat x + unat wd" "?r + i * ?D \<le> ?A" "?A < ?r + i * ?D + ?D"
      using pixel by auto
    have "(unat x + 1) * ?D \<le> i * ?D" "i * ?D \<le> (unat x + unat wd) * ?D"
      by (rule mult_right_mono; use i in simp)+
    with i show "row_region fb pitch byte_depth x y wd j a"
      unfolding row by (simp add: algebra_simps)
  qed
qed

lemma ex_shift: "(\<exists>j < n. P (y + j)) \<longleftrightarrow> (\<exists>j. y \<le> j \<and> j < y + n \<and> P (j :: nat))"
  by (metis le_add1 le_iff_add nat_add_left_cancel_less)

lemma set_rectangle_pixels:
  assumes "fb_geometry Pl ''set_rectangle'' (put_local Pl ''set_rectangle.color'' color s)
      = Some (w, h, byte_depth, pitch, s1)"
    and "x \<le> w" "y \<le> h" "byte_depth \<noteq> 1" "unat byte_depth dvd unat pitch"
    and "unat x * unat byte_depth < 2 ^ 32" "rect_extent pitch byte_depth x y wd ht < 2 ^ 64"
    and "\<forall>k < unat byte_depth. rect_extent pitch byte_depth x y wd ht
       \<le> unat (local_addr Pl ''set_rectangle.color'' + of_nat k - ucast (base_addr (framebuf s)))"
  shows "set_rectangle Pl x y wd ht color s = Some (FB_PIX_SUCCESS, s1\<lparr>kmem := \<lambda>a.
     if \<exists>j i. unat y \<le> j \<and> j < unat y + unat ht \<and> unat x < i \<and> i \<le> unat x + unat wd \<and>
          in_region (pixel_at (ucast (base_addr (framebuf s))) pitch byte_depth i j) (ucast byte_depth) a
     then kmem s1 (local_addr Pl ''set_rectangle.color''
        + (a - ucast (base_addr (framebuf s))) mod ucast byte_depth)
     else kmem s1 a\<rparr>)"
proof -
  let ?fb = "ucast (base_addr (framebuf s)) :: addr" and ?cp = "local_addr Pl ''set_rectangle.color''"
  have col: "\<And>k. k < unat byte_depth \<Longrightarrow> rect_extent pitch byte_depth x y wd ht \<le> unat (?cp + of_nat k - ?fb)"
    using assms(8) by blast
  have rows: "(\<exists>j < unat ht. row_region ?fb pitch byte_depth x y wd j a) \<longleftrightarrow>
      (\<exists>j i. unat y \<le> j \<and> j < unat y + unat ht \<and> unat x < i \<and> i \<le> unat x + unat wd \<and>
          in_region (pixel_at ?fb pitch byte_depth i j) (ucast byte_depth) a)" for a
  proof -
    let ?P = "\<lambda>j. \<exists>i. unat x < i \<and> i \<le> unat x + unat wd \<and>
      in_region (pixel_at ?fb pitch byte_depth i j) (ucast byte_depth) a"
    have "(\<exists>j < unat ht. row_region ?fb pitch byte_depth x y wd j a) \<longleftrightarrow> (\<exists>j < unat ht. ?P (unat y + j))"
      using row_region_pixels [OF assms(6,7)] by blast
    also have "\<dots> \<longleftrightarrow> (\<exists>j. unat y \<le> j \<and> j < unat y + unat ht \<and> ?P j)"
      by (rule ex_shift)
    finally show ?thesis by blast
  qed
  have "\<not> pos_too_large w h x y" using assms(2,3) by (simp add: pos_too_large_def not_less)
  with rect_rows_spec [OF assms(6,7,5,4) col order.refl, of color "kmem s1"] assms(1) show ?thesis
    by (simp add: set_rectangle_def Let_def rows)
qed

text \<open>
  C30: \<open>set_rectangle\<close> paints one column too far to the right: on a screen of more (or less) than
  8 bits a pixel, the rectangle at column \<open>x\<close> of width \<open>wd\<close> is drawn over the columns
  \<open>x + 1\<close> to \<open>x + wd\<close> of its rows, each pixel with the bytes of the colour; every other byte of
  RAM, those of column \<open>x\<close> included, keeps its value.
\<close>

theorem set_rectangle_one_right:
  assumes "fb_geometry Pl ''set_rectangle'' (put_local Pl ''set_rectangle.color'' color s)
      = Some (w, h, byte_depth, pitch, s1)"
    and "x \<le> w" "y \<le> h" "byte_depth \<noteq> 1" "unat byte_depth dvd unat pitch"
    and "unat x * unat byte_depth < 2 ^ 32" "rect_extent pitch byte_depth x y wd ht < 2 ^ 64"
    and "\<forall>k < unat byte_depth. rect_extent pitch byte_depth x y wd ht
       \<le> unat (local_addr Pl ''set_rectangle.color'' + of_nat k - ucast (base_addr (framebuf s)))"
  shows "set_rectangle Pl x y wd ht color s = Some (FB_PIX_SUCCESS, s1\<lparr>kmem := \<lambda>a.
     if \<exists>j i. unat y \<le> j \<and> j < unat y + unat ht \<and> unat x < i \<and> i \<le> unat x + unat wd \<and>
          in_region (pixel_at (ucast (base_addr (framebuf s))) pitch byte_depth i j) (ucast byte_depth) a
     then kmem s1 (local_addr Pl ''set_rectangle.color''
        + (a - ucast (base_addr (framebuf s))) mod ucast byte_depth)
     else kmem s1 a\<rparr>)"
  using assms by (rule set_rectangle_pixels)

text \<open>
  A screen of 16 by 32 pixels of 32 bits: the mailbox answers a message as soon as it is
  written.
\<close>

definition screen_answer :: "addr \<Rightarrow> mem \<Rightarrow> mem" where
  "screen_answer p m =
     (let tag = get_word m p 2;
          m = set_word p 1 MBOX_RESPONSE m
      in if tag = MBOX_TAG_FB_GET_DIMS then set_word p 6 32 (set_word p 5 16 m)
         else if tag = MBOX_TAG_FB_GET_DEPTH then set_word p 5 32 m
         else if tag = MBOX_TAG_FB_GET_PITCH then set_word p 5 64 m else m)"

definition screen_locals :: "(string \<times> addr) list" where
  "screen_locals =
     [(''fb_dims.mbox'', 0x1000), (''fb_bit_depth.mbox'', 0x1020), (''fb_get_pitch.mbox'', 0x1040),
      (''set_rectangle.display_info'', 0x1080), (''set_rectangle.depth'', 0x1088), (''set_rectangle.pitch'', 0x108C),
      (''set_pixel.display_info'', 0x1080), (''set_pixel.depth'', 0x1088), (''set_pixel.pitch'', 0x108C),
      (''fb_cpy_rectangle.display_info'', 0x1080), (''fb_cpy_rectangle.depth'', 0x1088), (''fb_cpy_rectangle.pitch'', 0x108C),
      (''set_rectangle.color'', 0x1090)]"

definition screen_platform :: "u32 platform" where
  "screen_platform = \<lparr>
     bus_get32 = (\<lambda>a s. (if a = MBOX_READ then khw s else 0, s)),
     bus_put32 = (\<lambda>a x s. if a = MBOX_WRITE
        then s\<lparr>khw := x, kmem := screen_answer (ucast (x AND 0xFFFFFFF0)) (kmem s)\<rparr> else s),
     libc_malloc = (\<lambda>n s. (0x9000, s)), libc_free = (\<lambda>p s. s), diag_printf = (\<lambda>f as s. s),
     mailbuffer_addr = 0x1000, local_addr = (\<lambda>x. case map_of screen_locals x of Some a \<Rightarrow> a | None \<Rightarrow> 0x1100)\<rparr>"

lemma screen_local [simp]:
  "local_addr screen_platform ''fb_dims.mbox'' = 0x1000"
  "local_addr screen_platform ''fb_bit_depth.mbox'' = 0x1020"
  "local_addr screen_platform ''fb_get_pitch.mbox'' = 0x1040"
  "local_addr screen_platform ''set_rectangle.display_info'' = 0x1080"
  "local_addr screen_platform ''set_rectangle.depth'' = 0x1088"
  "local_addr screen_platform ''set_rectangle.pitch'' = 0x108C"
  "local_addr screen_platform ''set_rectangle.color'' = 0x1090"
  by (simp_all add: screen_platform_def screen_locals_def)
lemma screen_ports [simp]:
  "wait_status screen_platform MBOX_WRITE_STATUS bits s = Some s"
  "wait_status screen_platform MBOX_READ_STATUS bits s = Some s"
  "GET32 screen_platform MBOX_READ s = Some (khw s, s)"
  "PUT32 screen_platform MBOX_WRITE x s = Some (s\<lparr>khw := x, kmem := screen_answer (ucast (x AND 0xFFFFFFF0)) (kmem s)\<rparr>)"
  by (simp_all add: wait_status.simps GET32_def PUT32_def screen_platform_def reg_defs)

lemma set_word_outside:
  assumes "\<not> in_region p 0x20 a" "i < 8"
  shows "set_word p i v m a = m a"
proof -
  have "\<not> in_region (word_addr p i + 0) 4 a"
  proof
    assume "in_region (word_addr p i + 0) 4 a"
    then have lt: "unat (a - (p + 4 * ucast i)) < 4" by (simp add: in_region_def word_addr_def word_less_nat_alt)
    have i: "unat i < 8" using assms(2) by (simp add: word_less_nat_alt)
    have "unat (4 * ucast i :: u64) = 4 * unat i"
      using i by (simp add: unat_word_ariths unat_ucast_up)
    moreover have "a - p = 4 * ucast i + (a - (p + 4 * ucast i))" by simp
    then have "unat (a - p) \<le> unat (4 * ucast i :: u64) + unat (a - (p + 4 * ucast i))"
      using unat_plus_if' [of "4 * ucast i :: u64" "a - (p + 4 * ucast i)"] by (metis le_less_linear diff_le_self order.refl)
    ultimately have "unat (a - p) < 32" using lt i by linarith
    with assms(1) show False by (simp add: in_region_def word_less_nat_alt)
  qed
  then show ?thesis unfolding set_word_def by (rule write_word_outside)
qed

lemma fill_short [simp]: "fill_values p 0 5 5 5 m = m" "fill_values p 0 5 6 5 m = set_word p 5 0 m"
  by (subst fill_values.simps, simp)+

lemma short_message [simp]:
  "prop_message p tag 4 0 0 m = set_word p 6 MBOX_TAG_LAST (set_word p 4 0 (set_word p 3 4 (set_word p 2 tag
     (set_word p 1 MBOX_REQUEST (set_word p 0 28 m)))))"
  "prop_message p tag 8 0 0 m = set_word p 7 MBOX_TAG_LAST (set_word p 5 0 (set_word p 4 0 (set_word p 3 8 (set_word p 2 tag
     (set_word p 1 MBOX_REQUEST (set_word p 0 32 m))))))"
  by (simp_all add: prop_message_def buf_count_def Let_def)

lemma message_outside:
  assumes "\<not> in_region p 0x20 a" "n = 4 \<or> n = 8"
  shows "screen_answer p (prop_message p tag n 0 0 m) a = m a"
  using assms by (auto simp: screen_answer_def Let_def set_word_outside)

lemma message_words:
  assumes "n = 4 \<or> n = 8" "M = screen_answer p (prop_message p tag n 0 0 m)"
  shows "get_word M p 1 = MBOX_RESPONSE"
    and "tag = MBOX_TAG_FB_GET_DIMS \<Longrightarrow> get_word M p 5 = 16 \<and> get_word M p 6 = 32"
    and "tag = MBOX_TAG_FB_GET_DEPTH \<Longrightarrow> get_word M p 5 = 32"
    and "tag = MBOX_TAG_FB_GET_PITCH \<Longrightarrow> get_word M p 5 = 64"
  using assms
  by (auto simp: screen_answer_def Let_def
    MBOX_TAG_FB_GET_DIMS_def MBOX_TAG_FB_GET_DEPTH_def MBOX_TAG_FB_GET_PITCH_def)

text \<open>What a call of the screen leaves alone.\<close>

definition kept :: "'h kstate \<Rightarrow> 'h kstate \<Rightarrow> bool" where
  "kept s t \<longleftrightarrow> console_descriptor t = console_descriptor s \<and> framebuf t = framebuf s \<and> framebuf_enabled t = framebuf_enabled s \<and>
     (\<forall>a. \<not> in_region 0x1000 0x90 a \<longrightarrow> kmem t a = kmem s a)"

lemma in_region_inside:
  assumes "in_region (q + of_nat k) (of_nat l) a" "k + l \<le> L" "L < 2 ^ 64"
  shows "in_region q (of_nat L) a"
  using assms in_region_offset [of k l q a] in_region_offset [of 0 L q a] by simp

lemma screen_call:
  assumes "p \<in> {0x1000, 0x1020, 0x1040}" "n = 4 \<or> n = 8" "res \<in> {0x1080, 0x1088, 0x108C}"
    "res = 0x1080 \<or> n = 4"
    "M = screen_answer p (prop_message p tag n 0 0 (kmem s))"
  shows "\<exists>t. mbox_prop_call screen_platform p tag n 0 res s = Some (MBOX_SUCCESS, t) \<and>
     load32 (kmem t) res = get_word M p 5 \<and>
     (n = 8 \<longrightarrow> load32 (kmem t) (res + 4) = get_word M p 6) \<and>
     (\<forall>a. \<not> in_region p 0x20 a \<and> \<not> in_region res n a \<longrightarrow> kmem t a = kmem s a) \<and> kept s t"
proof -
  have apart: "res + j \<noteq> p + 20 + k" if "j < n" "k < n" for j k
  proof
    assume "res + j = p + 20 + k"
    then have "unat (res + j - p) = unat (20 + k)" by simp
    with that assms show False by (auto simp: unat_plus_if' word_less_nat_alt split: if_splits)
  qed
  have "copy_result res p n 0 m = Some (\<lambda>a. if a - res < n then m (p + 20 + (a - res)) else m a)" for m
    using copy_result_spec [of n res p 0 m] apart assms(2) by auto
  moreover have "p AND 0xF = 0" "p \<noteq> 0" "ucast (ucast (p OR 8) AND 0xFFFFFFF0 :: u32) = p"
    using assms(1) by auto
  ultimately have call: "mbox_prop_call screen_platform p tag n 0 res s = Some (MBOX_SUCCESS,
      s\<lparr>khw := ucast (p OR 8), kmem := \<lambda>a. if a - res < n then M (p + 20 + (a - res)) else M a\<rparr>)"
    using message_words(1) [OF assms(2) assms(5)] assms(3,5)
    by (auto simp: mbox_prop_call_def mbox_prop_call_internal_def mbox_command_start_def
        mbox_command_wait_def MBOX_CH_PROP_W_def Let_def MBOX_SUCCESS_def)
  have keep: "M a = kmem s a" if "\<not> in_region p 0x20 a" for a
    using message_outside [OF that assms(2)] assms(5) by simp
  have inner: "in_region 0x1000 0x90 a" if "in_region p 0x20 a \<or> in_region res n a" for a
    using that assms(1-4) in_region_inside [of "0x1000" 0 32 a 144] in_region_inside [of "0x1000" 32 32 a 144]
      in_region_inside [of "0x1000" 64 32 a 144] in_region_inside [of "0x1000" 128 4 a 144] in_region_inside [of "0x1000" 128 8 a 144]
      in_region_inside [of "0x1000" 136 4 a 144] in_region_inside [of "0x1000" 140 4 a 144] by auto
  have "load32 (\<lambda>a. if a - res < n then M (p + 20 + (a - res)) else M a) res = get_word M p 5"
    "n = 8 \<Longrightarrow> load32 (\<lambda>a. if a - res < n then M (p + 20 + (a - res)) else M a) (res + 4) = get_word M p 6"
    using assms(2) by (auto simp: read_word_def get_word_def word_addr_def add.assoc)
  with call keep inner show ?thesis
    by (auto simp: kept_def in_region_def)
qed

lemma kept_trans: "kept s t \<Longrightarrow> kept t u \<Longrightarrow> kept s u"
  by (simp add: kept_def)

lemma screen_geometry:
  assumes "f \<in> {''set_pixel'', ''set_rectangle'', ''fb_cpy_rectangle''}"
  shows "\<exists>t. fb_geometry screen_platform f s = Some (16, 32, 4, 64, t) \<and> kept s t"
proof -
  have locals: "local_addr screen_platform (f @ ''.display_info'') = 0x1080"
    "local_addr screen_platform (f @ ''.depth'') = 0x1088" "local_addr screen_platform (f @ ''.pitch'') = 0x108C"
    using assms by (auto simp: screen_platform_def screen_locals_def)
  obtain t where t: "mbox_prop_call screen_platform 0x1000 MBOX_TAG_FB_GET_DIMS 8 0 0x1080 s = Some (MBOX_SUCCESS, t)"
      "load32 (kmem t) 0x1080 = 16" "load32 (kmem t) 0x1084 = 32" "kept s t"
    using screen_call [of "0x1000" 8 "0x1080" _ MBOX_TAG_FB_GET_DIMS s] message_words(2) [OF _ refl refl, of 8 "0x1000" "kmem s"] by auto
  obtain u where u: "mbox_prop_call screen_platform 0x1020 MBOX_TAG_FB_GET_DEPTH 4 0 0x1088 t = Some (MBOX_SUCCESS, u)"
      "load32 (kmem u) 0x1088 = 32" "kept t u" "\<forall>a. \<not> in_region 0x1020 0x20 a \<and> \<not> in_region 0x1088 4 a \<longrightarrow> kmem u a = kmem t a"
    using screen_call [of "0x1020" 4 "0x1088" _ MBOX_TAG_FB_GET_DEPTH t] message_words(3) [OF _ refl refl, of 4 "0x1020" "kmem t"] by auto
  obtain v where v: "mbox_prop_call screen_platform 0x1040 MBOX_TAG_FB_GET_PITCH 4 0 0x108C u = Some (MBOX_SUCCESS, v)"
      "load32 (kmem v) 0x108C = 64" "kept u v" "\<forall>a. \<not> in_region 0x1040 0x20 a \<and> \<not> in_region 0x108C 4 a \<longrightarrow> kmem v a = kmem u a"
    using screen_call [of "0x1040" 4 "0x108C" _ MBOX_TAG_FB_GET_PITCH u] message_words(4) [OF _ refl refl, of 4 "0x1040" "kmem u"] by auto
  have "kmem v a = kmem t a" if "a \<in> {0x1080, 0x1081, 0x1082, 0x1083, 0x1084, 0x1085, 0x1086, 0x1087}" for a
    using that u(4) v(4) by (auto simp: in_region_def)
  then have "load32 (kmem v) 0x1080 = 16" "load32 (kmem v) 0x1084 = 32"
    using t(2,3) by (simp_all add: read_word_def)
  with t u v show ?thesis
    by (auto simp: fb_geometry_def fb_dims_def fb_bit_depth_def fb_get_pitch_def get_local_def locals
        intro: kept_trans)
qed

theorem set_rectangle_one_right_witness:
  "\<exists>t. set_rectangle screen_platform 1 2 3 1 0xAABBCCDD
       (kernel_state (\<lambda>_. 7) 0 0\<lparr>framebuf := \<lparr>base_addr = 0x8000, mem_size = 0x800\<rparr>\<rparr>) = Some (FB_PIX_SUCCESS, t) \<and>
     load32 (kmem t) 0x8084 = 0x07070707 \<and> load32 (kmem t) 0x8088 = 0xAABBCCDD \<and> load32 (kmem t) 0x8090 = 0xAABBCCDD"
proof -
  let ?s = "kernel_state (\<lambda>_. 7) 0 0\<lparr>framebuf := \<lparr>base_addr = 0x8000, mem_size = 0x800\<rparr>\<rparr> :: u32 kstate"
  obtain u where u: "fb_geometry screen_platform ''set_rectangle''
        (put_local screen_platform ''set_rectangle.color'' 0xAABBCCDD ?s) = Some (16, 32, 4, 64, u)"
      "kept (put_local screen_platform ''set_rectangle.color'' 0xAABBCCDD ?s) u"
    using screen_geometry [of "''set_rectangle''"] by blast
  have k: "(\<forall>k < 4. P k) = (P 0 \<and> P 1 \<and> P 2 \<and> P (3 :: nat))" for P
    by (auto simp: less_Suc_eq numeral_eq_Suc)
  have pix: "(\<exists>j \<ge> 2. j < 3 \<and> (\<exists>i > Suc 0. i \<le> 4 \<and> Q i j)) \<longleftrightarrow> Q 2 2 \<or> Q 3 2 \<or> Q 4 (2 :: nat)" (is "?l \<longleftrightarrow> ?r") for Q
  proof
    assume ?l
    then obtain i j where "2 \<le> j" "j < 3" "Suc 0 < i" "i \<le> 4" "Q i j" by blast
    moreover from this have "j = 2" "i = 2 \<or> i = 3 \<or> i = 4" by auto
    ultimately show ?r by auto
  next
    assume ?r
    then obtain i where "Suc 0 < i" "i \<le> 4" "Q i 2" by (elim disjE) (auto intro: that [of 2] that [of 3] that [of 4])
    then show ?l by (intro exI [of _ 2]) auto
  qed
  have old: "kmem u a = (if a = 0x1090 then 0xDD else if a = 0x1091 then 0xCC else if a = 0x1092 then 0xBB
      else if a = 0x1093 then 0xAA else 7)" if "\<not> in_region 0x1000 0x90 a" for a
    using u(2) that by (simp add: kept_def put_local_def write_word_def)
  have dvd: "unat (4 :: u32) dvd unat (64 :: u32)" by simp
  have extent: "unat (1 :: u32) * unat (4 :: u32) < 2 ^ 32" "rect_extent 64 4 1 2 3 1 < 2 ^ 64"
    by (simp_all add: rect_extent_def)
  have apart: "\<forall>k < unat (4 :: u32). rect_extent 64 4 1 2 3 1 \<le> unat (local_addr screen_platform ''set_rectangle.color''
      + of_nat k - ucast (base_addr (framebuf ?s)))"
    by (simp add: rect_extent_def k)
  from set_rectangle_one_right [OF u(1) _ _ _ dvd extent apart]
  obtain t where t: "set_rectangle screen_platform 1 2 3 1 0xAABBCCDD ?s = Some (FB_PIX_SUCCESS, t)"
    "\<And>a. kmem t a = (if \<exists>j i. 2 \<le> j \<and> j < 3 \<and> Suc 0 < i \<and> i \<le> 4 \<and> in_region (pixel_at 0x8000 64 4 i j) 4 a
       then kmem u (0x1090 + (a - 0x8000) mod 4) else kmem u a)"
    by (simp cong: if_cong)
  then have mem: "kmem t a = (if in_region 0x8088 4 a \<or> in_region 0x808C 4 a \<or> in_region 0x8090 4 a
       then kmem u (0x1090 + (a - 0x8000) mod 4) else kmem u a)" for a
    by (simp add: pix pixel_at_def)
  have "load32 (kmem t) 0x8084 = 0x07070707 \<and> load32 (kmem t) 0x8088 = 0xAABBCCDD \<and> load32 (kmem t) 0x8090 = 0xAABBCCDD"
    by (simp add: read_word_def mem old in_region_def)
  with t(1) show ?thesis by blast
qed

end
