(* ===== verification/Console_Spec.thy ===== *)
theory Console_Spec
  imports Console Framebuf_Spec
begin

text \<open>
  The cursor of the console against an abstract description of its movements, what a newline on
  the last row leads to, and what the font shows.
\<close>

section \<open>Drawing leaves the console alone\<close>

text \<open>The kernel's variables of the screen, and devices that do not reach them.\<close>

definition screen_vars :: "'h kstate \<Rightarrow> console_info \<times> byte \<times> mem_info" where
  "screen_vars s = (console_descriptor s, framebuf_enabled s, framebuf s)"

definition keeps_screen :: "'h platform \<Rightarrow> bool" where
  "keeps_screen Pl \<longleftrightarrow>
     (\<forall>a s. screen_vars (snd (bus_get32 Pl a s)) = screen_vars s) \<and>
     (\<forall>a x s. screen_vars (bus_put32 Pl a x s) = screen_vars s)"

named_theorems screen_rules

lemma screen_vars_kmem [simp]: "screen_vars (s\<lparr>kmem := m\<rparr>) = screen_vars s"
  by (simp add: screen_vars_def)

lemma GET32_screen [screen_rules]:
  "keeps_screen Pl \<Longrightarrow> screen_vars s = v \<Longrightarrow> wlp (GET32 Pl a s) (\<lambda>(x, t). screen_vars t = v)"
  by (auto simp: GET32_def keeps_screen_def split: prod.splits) (metis snd_conv)

lemma PUT32_screen [screen_rules]:
  "keeps_screen Pl \<Longrightarrow> screen_vars s = v \<Longrightarrow> wlp (PUT32 Pl a x s) (\<lambda>t. screen_vars t = v)"
  by (simp add: PUT32_def keeps_screen_def)

lemma wait_status_screen [screen_rules]:
  assumes "keeps_screen Pl" "screen_vars s = v"
  shows "wlp (wait_status Pl reg bits s) (\<lambda>t. screen_vars t = v)"
proof (rule wlpI)
  fix t
  assume ret: "wait_status Pl reg bits s = Some t"
  have "keeps_screen Pl \<longrightarrow> screen_vars s = v \<longrightarrow> screen_vars t = v"
    apply (rule wait_status.raw_induct
        [where P = "\<lambda>Pl reg bits s t. keeps_screen Pl \<longrightarrow> screen_vars s = v \<longrightarrow> screen_vars t = v", OF _ ret])
    apply (auto simp: bind_Some_iff split: if_splits dest!: GET32_screen [THEN wlpD, rotated 2])
    done
  with assms show "screen_vars t = v" by blast
qed

lemma mbox_start_screen [screen_rules]:
  "keeps_screen Pl \<Longrightarrow> screen_vars s = v \<Longrightarrow> wlp (mbox_command_start Pl ch mbox s) (\<lambda>(e, t). screen_vars t = v)"
  unfolding mbox_command_start_def Let_def
  by (rule wlp_intros screen_rules wlp_bindI | assumption | simp)+

lemma mbox_wait_screen [screen_rules]:
  "keeps_screen Pl \<Longrightarrow> screen_vars s = v \<Longrightarrow> wlp (mbox_command_wait Pl ch mbox s) (\<lambda>(e, t). screen_vars t = v)"
  unfolding mbox_command_wait_def Let_def
  by (rule wlp_intros screen_rules wlp_bindI | assumption | simp)+

lemma prop_call_screen [screen_rules]:
  "keeps_screen Pl \<Longrightarrow> screen_vars s = v \<Longrightarrow> wlp (mbox_prop_call Pl mbox tag n inp res s) (\<lambda>(e, t). screen_vars t = v)"
  unfolding mbox_prop_call_def mbox_prop_call_internal_def Let_def
  by (rule wlp_intros screen_rules wlp_bindI wlp_any(1) | assumption | simp)+

lemma fb_dims_screen [screen_rules]:
  "keeps_screen Pl \<Longrightarrow> screen_vars s = v \<Longrightarrow> wlp (fb_dims Pl act dims res s) (\<lambda>(e, t). screen_vars t = v)"
  unfolding fb_dims_def Let_def
  by (rule wlp_intros screen_rules | assumption | simp)+

lemma fb_bit_depth_screen [screen_rules]:
  "keeps_screen Pl \<Longrightarrow> screen_vars s = v \<Longrightarrow> wlp (fb_bit_depth Pl act depth res s) (\<lambda>(e, t). screen_vars t = v)"
  unfolding fb_bit_depth_def Let_def
  by (rule wlp_intros screen_rules | assumption | simp)+

lemma fb_get_pitch_screen [screen_rules]:
  "keeps_screen Pl \<Longrightarrow> screen_vars s = v \<Longrightarrow> wlp (fb_get_pitch Pl res s) (\<lambda>(e, t). screen_vars t = v)"
  unfolding fb_get_pitch_def Let_def
  by (rule wlp_intros screen_rules | assumption | simp)+

lemma fb_geometry_screen [screen_rules]:
  "keeps_screen Pl \<Longrightarrow> screen_vars s = v \<Longrightarrow> wlp (fb_geometry Pl f s) (\<lambda>(w, h, d, p, t). screen_vars t = v)"
  unfolding fb_geometry_def Let_def
  by (rule wlp_intros screen_rules | assumption | simp)+

lemma uart0_putc_screen [screen_rules]:
  "keeps_screen Pl \<Longrightarrow> screen_vars s = v \<Longrightarrow> wlp (uart0_putc Pl c s) (\<lambda>t. screen_vars t = v)"
  unfolding uart0_putc_def uart0_send_def
  by (rule wlp_bindI wlp_ifI screen_rules | assumption | simp)+

text \<open>Formatted output on the serial port does not reach the variables of the screen either.\<close>

interpretation screen0: char_sink uart0_putc "\<lambda>_ :: unit. keeps_screen" "\<lambda>_ s t. screen_vars t = screen_vars s" "\<lambda>_ _. True"
  by unfold_locales (auto dest: uart0_putc_screen [THEN wlpD])

lemma uart0_printf_screen [screen_rules]:
  "keeps_screen Pl \<Longrightarrow> screen_vars s = v \<Longrightarrow> wlp (uart0_printf Pl fmt ap s) (\<lambda>(n, t). screen_vars t = v)"
  using screen0.printf_rel [of Pl s s fmt ap] by (simp add: uart0_printf_def)

lemma report_pos_screen [screen_rules]:
  "keeps_screen Pl \<Longrightarrow> screen_vars s = v \<Longrightarrow> wlp (report_pos Pl w h x y s) (\<lambda>(e, t). screen_vars t = v)"
  unfolding report_pos_def
  by (rule wlp_intros screen_rules | assumption | simp)+

lemma wlp_bind_geometryI [wlp_intros]:
  "wlp m (\<lambda>(w, h, d, p, t). R t) \<Longrightarrow> (\<And>w h d p t. R t \<Longrightarrow> wlp (f w h d p t) Q) \<Longrightarrow>
   wlp (Option.bind m (\<lambda>(w, h, d, p, t). f w h d p t)) Q"
  by (auto simp: wlp_def bind_Some_iff)

lemma set_pixel_screen [screen_rules]:
  "keeps_screen Pl \<Longrightarrow> screen_vars s = v \<Longrightarrow> wlp (set_pixel Pl x y c s) (\<lambda>(e, t). screen_vars t = v)"
  unfolding set_pixel_def Let_def
  by (cases c) (simp, (simp only: option.case, (rule wlp_intros screen_rules | assumption | simp)+))

lemma set_rectangle_screen [screen_rules]:
  "keeps_screen Pl \<Longrightarrow> screen_vars s = v \<Longrightarrow> wlp (set_rectangle Pl x y w h c s) (\<lambda>(e, t). screen_vars t = v)"
  unfolding set_rectangle_def Let_def put_local_def
  by (rule wlp_intros screen_rules | assumption | simp)+

lemma fb_cpy_rectangle_screen [screen_rules]:
  "keeps_screen Pl \<Longrightarrow> screen_vars s = v \<Longrightarrow> wlp (fb_cpy_rectangle Pl a b c d w h s) (\<lambda>(e, t). screen_vars t = v)"
  unfolding fb_cpy_rectangle_def Let_def
  by (rule wlp_intros screen_rules | assumption | simp)+

lemma scroll_down_screen [screen_rules]:
  "keeps_screen Pl \<Longrightarrow> screen_vars s = v \<Longrightarrow> wlp (console_scroll_down Pl n s) (\<lambda>(e, t). screen_vars t = v)"
  unfolding console_scroll_down_def Let_def
  by (rule wlp_intros screen_rules | assumption | simp)+

lemma erase_character_screen [screen_rules]:
  "keeps_screen Pl \<Longrightarrow> screen_vars s = v \<Longrightarrow> wlp (console_erase_character Pl s) (\<lambda>(e, t). screen_vars t = v)"
  unfolding console_erase_character_def Let_def
  by (rule wlp_intros screen_rules | assumption | simp)+

lemma bitmap_columns_screen [screen_rules]:
  "keeps_screen Pl \<Longrightarrow> screen_vars s = v \<Longrightarrow>
   wlp (bitmap_columns Pl bm bw bh x y fg cy xs s) (\<lambda>(e, t). screen_vars t = v)"
proof (induction xs arbitrary: s)
  case (Cons a xs)
  note IH = Cons.IH [OF Cons.prems(1)]
  show ?case
    unfolding bitmap_columns.simps Let_def
    by (rule wlp_intros screen_rules IH wlp_bindI wlp_any(1) Cons.prems | assumption | simp)+
qed simp

lemma bitmap_lines_screen [screen_rules]:
  "keeps_screen Pl \<Longrightarrow> screen_vars s = v \<Longrightarrow>
   wlp (bitmap_lines Pl bm bw bh x y fg ys s) (\<lambda>(e, t). screen_vars t = v)"
proof (induction ys arbitrary: s)
  case (Cons a ys)
  note IH = Cons.IH [OF Cons.prems(1)]
  show ?case
    unfolding bitmap_lines.simps
    by (rule wlp_intros screen_rules IH Cons.prems | assumption | simp)+
qed simp

lemma write_at_pos_screen [screen_rules]:
  "keeps_screen Pl \<Longrightarrow> screen_vars s = v \<Longrightarrow>
   wlp (console_write_character_at_pos Pl c x y s) (\<lambda>(e, t). screen_vars t = v)"
  unfolding console_write_character_at_pos_def console_write_from_bitmap_with_colors_def Let_def
  by (rule wlp_intros screen_rules | assumption | simp)+

section \<open>The cursor\<close>

text \<open>
  How a character moves the cursor \<open>(col, row)\<close> of a console of \<open>cols\<close> by \<open>rows\<close> characters:
  a newline scrolls when it reaches the row above the last one, a character that fills a row
  when it reaches the end of the last one. A character that could not be drawn
  (\<open>cursor_failed\<close>) leaves the cursor where it is.
\<close>

definition newline_pos :: "u32 \<Rightarrow> u32 \<Rightarrow> u32" where
  "newline_pos rows row = (if row + 1 = rows - CONFIG_CONSOLE_MIN_ROWS_BELOW then row else row + 1)"

definition advance_pos :: "u32 \<Rightarrow> u32 \<Rightarrow> u32 \<times> u32 \<Rightarrow> u32 \<times> u32" where
  "advance_pos cols rows p =
     (case p of (col, row) \<Rightarrow>
        if col + 1 \<noteq> cols then (col + 1, row)
        else if row + 1 = rows then (0, row) else (0, row + 1))"

inductive cursor_steps :: "u32 \<Rightarrow> u32 \<Rightarrow> u32 \<times> u32 \<Rightarrow> u32 list \<Rightarrow> u32 \<times> u32 \<Rightarrow> bool" for cols rows where
  cursor_end: "cursor_steps cols rows p [] p"
| cursor_newline: "cursor_steps cols rows (0, newline_pos rows row) cs q \<Longrightarrow>
     cursor_steps cols rows (col, row) (0x0A # cs) q"
| cursor_char: "c \<noteq> 0x0A \<Longrightarrow> cursor_steps cols rows (advance_pos cols rows p) cs q \<Longrightarrow>
     cursor_steps cols rows p (c # cs) q"
| cursor_failed: "c \<noteq> 0x0A \<Longrightarrow> cursor_steps cols rows p cs q \<Longrightarrow> cursor_steps cols rows p (c # cs) q"

inductive_cases cursor_endE: "cursor_steps cols rows p [] q"
inductive_cases cursor_stepE: "cursor_steps cols rows p (c # cs) q"

definition cursor :: "'h kstate \<Rightarrow> u32 \<times> u32" where
  "cursor s = (cons_col (console_descriptor s), cons_row (console_descriptor s))"

definition place :: "u32 \<times> u32 \<Rightarrow> console_info \<Rightarrow> console_info" where
  "place p d = d\<lparr>cons_col := fst p, cons_row := snd p\<rparr>"

definition console_on :: "'h kstate \<Rightarrow> bool" where
  "console_on s \<longleftrightarrow> cons_enabled (console_descriptor s) \<noteq> 0 \<and> framebuf_enabled s \<noteq> 0"

lemma place_simps [simp]:
  "cons_cols (place p d) = cons_cols d" "cons_rows (place p d) = cons_rows d"
  "cons_enabled (place p d) = cons_enabled d"
  "cons_col (place p d) = fst p" "cons_row (place p d) = snd p" "place p (place q d) = place p d"
  by (simp_all add: place_def)

lemma place_self: "place (cursor s) (console_descriptor s) = console_descriptor s"
  by (simp add: place_def cursor_def)

lemma screen_vars_place:
  "screen_vars (with_console f s) = (f (console_descriptor s), framebuf_enabled s, framebuf s)"
  by (simp add: screen_vars_def with_console_def)

lemma scrolled:
  assumes "keeps_screen Pl" "console_scroll_down Pl n s = Some (e, t)"
  shows "screen_vars t = screen_vars s"
  using scroll_down_screen [OF assms(1) refl, THEN wlpD, OF assms(2)] by simp

lemma row_back: "cons_row d + 1 = r \<Longrightarrow> d\<lparr>cons_col := 0, cons_row := r - 1\<rparr> = d\<lparr>cons_col := 0\<rparr>"
  by (cases d) auto

lemma console_next_pos_cursor:
  assumes "keeps_screen Pl" "console_next_pos Pl s = Some t"
  defines "d \<equiv> console_descriptor s"
  shows "screen_vars t = (place (advance_pos (cons_cols d) (cons_rows d) (cursor s)) d, framebuf_enabled s, framebuf s)"
  using assms(2) unfolding d_def
  by (auto simp: console_next_pos_def bind_Some_iff screen_vars_def with_console_def advance_pos_def cursor_def place_def
      row_back dest!: scrolled [OF assms(1)] split: if_splits prod.splits)

lemma console_putc_newline:
  assumes "keeps_screen Pl" "console_putc Pl 0x0A s = Some t" "console_on s"
  defines "d \<equiv> console_descriptor s"
  shows "screen_vars t = (place (0, newline_pos (cons_rows d) (cons_row d)) d, framebuf_enabled s, framebuf s)"
  using assms(2,3) unfolding d_def
  by (auto simp: console_putc_def console_on_def bind_Some_iff screen_vars_def with_console_def newline_pos_def place_def Let_def
      row_back dest!: scrolled [OF assms(1)] split: if_splits prod.splits)

lemma console_putc_char:
  assumes "keeps_screen Pl" "console_putc Pl c s = Some t" "console_on s" "c \<noteq> 0x0A"
  defines "d \<equiv> console_descriptor s"
  shows "screen_vars t = screen_vars s \<or>
    screen_vars t = (place (advance_pos (cons_cols d) (cons_rows d) (cursor s)) d, framebuf_enabled s, framebuf s)"
proof -
  from assms(2-4) obtain e u where u: "console_erase_character Pl s = Some (e, u)"
    and w: "\<exists>e. console_write_character Pl (ucast c) u = Some (e, t)"
    by (auto simp: console_putc_def console_on_def bind_Some_iff Let_def)
  have su: "screen_vars u = screen_vars s"
    using erase_character_screen [OF assms(1) refl, THEN wlpD, OF u] by simp
  from w obtain e' v where v: "console_write_character_at_pos Pl (ucast c) (cons_col (console_descriptor u))
        (cons_row (console_descriptor u)) u = Some (e', v)"
      and t: "t = v \<or> console_next_pos Pl v = Some t"
    by (auto simp: console_write_character_def bind_Some_iff split: if_splits)
  have sv: "screen_vars v = screen_vars s"
    using write_at_pos_screen [OF assms(1) su, THEN wlpD, OF v] by simp
  from t show ?thesis
  proof
    assume "console_next_pos Pl v = Some t"
    from console_next_pos_cursor [OF assms(1) this] sv show ?thesis
      by (simp add: d_def screen_vars_def cursor_def)
  qed (simp add: sv)
qed

lemma text_cursor:
  assumes "keeps_screen Pl" "console_on s" "emit (console_putc Pl) cs s = Some t"
  shows "console_descriptor t = place (cursor t) (console_descriptor s) \<and>
    cursor_steps (cons_cols (console_descriptor s)) (cons_rows (console_descriptor s)) (cursor s) cs (cursor t)"
  using assms(2,3)
proof (induction cs arbitrary: s)
  case Nil
  then show ?case by (simp add: place_self cursor_end)
next
  case (Cons c cs)
  from Cons.prems(2) obtain u where u: "console_putc Pl c s = Some u" and t: "emit (console_putc Pl) cs u = Some t"
    by (auto simp: bind_Some_iff)
  let ?d = "console_descriptor s"
  consider "c = 0x0A" "console_descriptor u = place (0, newline_pos (cons_rows ?d) (cons_row ?d)) ?d"
      "framebuf_enabled u = framebuf_enabled s"
    | "c \<noteq> 0x0A" "console_descriptor u = ?d" "framebuf_enabled u = framebuf_enabled s"
    | "c \<noteq> 0x0A" "console_descriptor u = place (advance_pos (cons_cols ?d) (cons_rows ?d) (cursor s)) ?d"
      "framebuf_enabled u = framebuf_enabled s"
    using console_putc_newline [OF assms(1)] console_putc_char [OF assms(1) u Cons.prems(1)] u Cons.prems(1)
    unfolding screen_vars_def by (cases "c = 0x0A") fastforce+
  then show ?case
  proof cases
    case 1
    with Cons.IH [OF _ t] Cons.prems(1) show ?thesis
      by (auto simp: console_on_def cursor_def intro: cursor_newline)
  next
    case 2
    with Cons.IH [OF _ t] Cons.prems(1) show ?thesis
      by (auto simp: console_on_def cursor_def intro: cursor_failed)
  next
    case 3
    with Cons.IH [OF _ t] Cons.prems(1) show ?thesis
      by (auto simp: console_on_def cursor_def intro: cursor_char)
  qed
qed

lemma advance_stays:
  assumes "fst p < cols"
  shows "fst (advance_pos cols rows p) < cols" "snd p < rows \<Longrightarrow> snd (advance_pos cols rows p) < rows"
proof -
  have step: "a + 1 < b" if "a < b" "a + 1 \<noteq> b" for a b :: u32
    using that by (meson inc_le order_le_less)
  show "fst (advance_pos cols rows p) < cols" "snd p < rows \<Longrightarrow> snd (advance_pos cols rows p) < rows"
    using assms by (auto simp: advance_pos_def step word_gt_0 split: prod.splits if_splits)
qed

lemma cursor_stays:
  "cursor_steps cols rows p cs q \<Longrightarrow> fst p < cols \<Longrightarrow>
   fst q < cols \<and> (0x0A \<notin> set cs \<longrightarrow> snd p < rows \<longrightarrow> snd q < rows)"
proof (induction rule: cursor_steps.induct)
  case (cursor_newline row cs q col)
  then have "0 < cols" by (metis fst_conv le_less_trans word_zero_le)
  with cursor_newline show ?case by simp
next
  case (cursor_char c p cs q)
  then show ?case using advance_stays [of p cols rows] by auto
qed auto


text \<open>
  Text without a newline keeps the cursor on the screen, also where it wraps at the end
  of the last row.
\<close>

theorem text_stays_on_screen:
  assumes "keeps_screen Pl" "console_on s" "emit (console_putc Pl) cs s = Some t" "0x0A \<notin> set cs"
    and "cons_col (console_descriptor s) < cons_cols (console_descriptor s)"
    and "cons_row (console_descriptor s) < cons_rows (console_descriptor s)"
  shows "cons_col (console_descriptor t) < cons_cols (console_descriptor t) \<and>
    cons_row (console_descriptor t) < cons_rows (console_descriptor t)"
  using text_cursor [OF assms(1-3)] cursor_stays assms(4-6) by (auto simp: cursor_def) (metis fst_conv snd_conv place_simps(1,2))+

text \<open>
  C29: a newline on the last row leaves the screen: when the cursor has reached the last row by
  filling the row above, the newline neither scrolls nor stops, but moves the cursor to the row
  after the last one. The next character is still taken there: its cell, the 16 pixel rows
  after the last row of the frame buffer, is erased without an error, over whatever RAM holds
  behind the frame buffer.
\<close>

theorem newline_leaves_screen:
  assumes "console_on s" "cons_row (console_descriptor s) + 1 = cons_rows (console_descriptor s)"
    and "t = with_console (place (0, cons_rows (console_descriptor s))) s"
    and "fb_geometry Pl ''set_rectangle'' (put_local Pl ''set_rectangle.color'' (bg_color (console_descriptor s)) t)
      = Some (w, h, byte_depth, pitch, u)"
    and "h = cons_rows (console_descriptor s) * 16" "byte_depth \<noteq> 1" "unat byte_depth dvd unat pitch"
    and "rect_extent pitch byte_depth 0 h 8 16 < 2 ^ 64"
    and "\<forall>k < unat byte_depth. rect_extent pitch byte_depth 0 h 8 16
       \<le> unat (local_addr Pl ''set_rectangle.color'' + of_nat k - ucast (base_addr (framebuf s)))"
  shows "console_putc Pl 0x0A s = Some t \<and>
    console_erase_character Pl t = Some (CONSOLE_SUCCESS, u\<lparr>kmem := \<lambda>a.
      if \<exists>j i. unat h \<le> j \<and> j < unat h + 16 \<and> 0 < i \<and> i \<le> 8 \<and>
           in_region (pixel_at (ucast (base_addr (framebuf s))) pitch byte_depth i j) (ucast byte_depth) a
      then kmem u (local_addr Pl ''set_rectangle.color'' + (a - ucast (base_addr (framebuf s))) mod ucast byte_depth)
      else kmem u a\<rparr>)"
proof
  show "console_putc Pl 0x0A s = Some t"
    using assms(1-3) by (simp add: console_putc_def console_on_def with_console_def place_def CONFIG_CONSOLE_MIN_ROWS_BELOW_def)
  have fb: "framebuf t = framebuf s" and d: "cons_col (console_descriptor t) = 0" "bg_color (console_descriptor t) = bg_color (console_descriptor s)"
    "cons_row (console_descriptor t) * 16 = h"
    using assms(3,5) by (simp_all add: with_console_def place_def)
  have "set_rectangle Pl 0 h 8 16 (bg_color (console_descriptor s)) t = Some (FB_PIX_SUCCESS, u\<lparr>kmem := \<lambda>a.
      if \<exists>j i. unat h \<le> j \<and> j < unat h + unat (16 :: u32) \<and> unat (0 :: u32) < i \<and> i \<le> unat (0 :: u32) + unat (8 :: u32) \<and>
           in_region (pixel_at (ucast (base_addr (framebuf t))) pitch byte_depth i j) (ucast byte_depth) a
      then kmem u (local_addr Pl ''set_rectangle.color'' + (a - ucast (base_addr (framebuf t))) mod ucast byte_depth)
      else kmem u a\<rparr>)"
    by (rule set_rectangle_pixels [OF assms(4)]) (use assms(6-9) fb in simp_all)
  then show "console_erase_character Pl t = Some (CONSOLE_SUCCESS, u\<lparr>kmem := \<lambda>a.
      if \<exists>j i. unat h \<le> j \<and> j < unat h + 16 \<and> 0 < i \<and> i \<le> 8 \<and>
           in_region (pixel_at (ucast (base_addr (framebuf s))) pitch byte_depth i j) (ucast byte_depth) a
      then kmem u (local_addr Pl ''set_rectangle.color'' + (a - ucast (base_addr (framebuf s))) mod ucast byte_depth)
      else kmem u a\<rparr>)"
    by (simp add: console_erase_character_def Let_def d fb char_width_def char_height_def cong: if_cong)
qed

section \<open>The font\<close>

text \<open>Pixel \<open>(x, y)\<close> of a character's glyph, bit 7 of each row being the leftmost.\<close>

definition glyph_pixel :: "byte \<Rightarrow> nat \<Rightarrow> nat \<Rightarrow> bool" where
  "glyph_pixel c x y = bit (bizcat_font_glyphs c ! y) (7 - x)"

lemma glyph_facts: "length (bizcat_font_glyphs c) = 16" "y < 16 \<Longrightarrow> even (bizcat_font_glyphs c ! y)"
proof -
  have "length (bizcat_font_glyphs c) = 16 \<and> list_all even (bizcat_font_glyphs c)"
    using bizcat_row_facts by (simp add: bizcat_font_glyphs_def list_all_length)
  then show "length (bizcat_font_glyphs c) = 16" "y < 16 \<Longrightarrow> even (bizcat_font_glyphs c ! y)"
    by (simp_all add: list_all_length)
qed

lemma bitmap_bit_glyph:
  assumes "length g = 16" "x < 8" "y < 16"
  shows "bitmap_bit g 8 (of_nat x) (of_nat y) = Some (bit (g ! y) (8 - x))"
proof -
  have y: "unat (of_nat y * 8 div 8 :: u32) = y"
    using assms(3) by (simp add: unat_div unat_word_ariths unsigned_of_nat take_bit_nat_eq_self)
  have x: "unat (8 - of_nat x :: u32) = 8 - x" "of_nat x \<le> (8 :: u32)"
    using assms(2) by (simp_all add: unat_sub word_le_nat_alt unsigned_of_nat take_bit_nat_eq_self)
  have b: "(drop_bit k (ucast b :: i32) AND 1 \<noteq> 0) = bit b k" for k and b :: byte
  proof -
    have "bit b k" if "bit (ucast b :: i32) k" using that by (simp add: bit_simps)
    moreover have "bit (ucast b :: i32) k" if "bit b k" using that bit_imp_le_length [OF that] by (simp add: bit_simps)
    ultimately show ?thesis by (auto simp: and_one_eq bit_iff_odd_drop_bit odd_iff_mod_2_eq_one)
  qed
  show ?thesis using assms(1,3) by (simp add: bitmap_bit_def Let_def x y b)
qed

text \<open>
  C31: every glyph is drawn whole, one column to the right: of the 8 columns of a character's
  cell, column 0 is never drawn and column \<open>x\<close> shows the glyph's column \<open>x - 1\<close>; the glyph's
  own last column, which has no place left, is empty for every character of the font.
\<close>

theorem glyph_one_right:
  assumes "x < 8" "y < 16"
  shows "bitmap_bit (bizcat_font_glyphs c) (ucast char_width) (of_nat x) (of_nat y) = Some (0 < x \<and> glyph_pixel c (x - 1) y)
    \<and> \<not> glyph_pixel c 7 y"
proof (cases "x = 0")
  case True
  with bitmap_bit_glyph [OF glyph_facts(1) assms, of c] glyph_facts(2) [OF assms(2), of c]
    bit_imp_le_length [of "bizcat_font_glyphs c ! y" 8]
  show ?thesis by (auto simp: glyph_pixel_def char_width_def bit_0)
next
  case False
  then have "7 - (x - 1) = 8 - x" using assms(1) by simp
  with False bitmap_bit_glyph [OF glyph_facts(1) assms, of c] glyph_facts(2) [OF assms(2), of c]
  show ?thesis by (simp add: glyph_pixel_def char_width_def bit_0)
qed

theorem glyph_one_right_witness:
  "bitmap_bit (bizcat_font_glyphs 0x41) (ucast char_width) (of_nat 1) (of_nat 8) = Some (0 < (1 :: nat) \<and> glyph_pixel 0x41 (1 - 1) 8)
    \<and> \<not> glyph_pixel 0x41 7 8"
  by (rule glyph_one_right) simp_all

text \<open>The last twenty characters of the font have no glyph.\<close>

lemma undrawn_columns:
  assumes "bm = replicate 16 0" "cy < 16"
  shows "\<forall>i \<in> set xs. i < 8 \<Longrightarrow> bitmap_columns Pl bm 8 bh x y fg (of_nat cy) (map of_nat xs) s = Some (CONSOLE_SUCCESS, s)"
  using assms bitmap_bit_glyph [of bm _ cy] by (induction xs) auto

lemma undrawn_lines:
  assumes "bm = replicate 16 0"
  shows "\<forall>i \<in> set ys. i < 16 \<Longrightarrow> bitmap_lines Pl bm 8 bh x y fg (map of_nat ys) s = Some (CONSOLE_SUCCESS, s)"
proof (induction ys)
  case (Cons a ys)
  have "bitmap_columns Pl bm 8 bh x y fg (of_nat a) (map of_nat [0..<unat (8 :: u32)]) s = Some (CONSOLE_SUCCESS, s)"
    by (rule undrawn_columns [OF assms]) (use Cons.prems in auto)
  with Cons show ?case by (simp del: upt_Suc)
qed simp

lemma write_blank:
  assumes "bizcat_font_glyphs c = replicate 16 0"
  shows "console_write_character_at_pos Pl c x y s = Some (CONSOLE_SUCCESS, s)"
proof -
  have "bitmap_lines Pl (replicate 16 0) 8 bh x y fg (map of_nat [0..<unat (16 :: u32)]) s = Some (CONSOLE_SUCCESS, s)" for bh fg
    by (rule undrawn_lines [OF refl]) simp
  then show ?thesis
    unfolding console_write_character_at_pos_def console_write_from_bitmap_with_colors_def assms char_width_def char_height_def
    by (simp del: upt_Suc)
qed

text \<open>
  The font's table is twenty glyphs short of the 256 it is declared with, so the
  characters from 236 on are drawn as blanks: nothing is written to the frame buffer and
  success is reported.
\<close>

theorem last_characters_blank:
  assumes "236 \<le> unat c"
  shows "console_write_character_at_pos Pl c x y s = Some (CONSOLE_SUCCESS, s)"
  by (rule write_blank) (use assms in \<open>simp add: bizcat_font_glyphs_def\<close>)

theorem last_characters_blank_witness:
  "console_write_character_at_pos screen_platform 0xFC 0 0 (kernel_state (\<lambda>_. 7) 0 0)
     = Some (CONSOLE_SUCCESS, kernel_state (\<lambda>_. 7) 0 0)"
  by (rule last_characters_blank) simp

section \<open>A console of two rows of two characters\<close>

definition corner_console :: "u32 kstate" where
  "corner_console = kernel_state (\<lambda>_. 7) 0 0\<lparr>framebuf := \<lparr>base_addr = 0x8000, mem_size = 0x800\<rparr>, framebuf_enabled := 1,
     console_descriptor := \<lparr>fg_color = 0xFFFFFFFF, bg_color = 0x11223344, fg_reset_color = 0, bg_reset_color = 0,
       cons_col = 0, cons_row = 1, cons_cols = 2, cons_rows = 2, cons_enabled = 1\<rparr>\<rparr>"

lemma screen_keeps: "keeps_screen screen_platform"
  by (simp add: keeps_screen_def screen_platform_def screen_vars_def)

lemma screen_rectangle_returns:
  assumes "x \<le> 16" "y \<le> 32"
  shows "\<exists>t. set_rectangle screen_platform x y w h c s = Some (FB_PIX_SUCCESS, t)"
proof -
  obtain u where "fb_geometry screen_platform ''set_rectangle'' (put_local screen_platform ''set_rectangle.color'' c s)
      = Some (16, 32, 4, 64, u)"
    using screen_geometry [of "''set_rectangle''"] by blast
  moreover have "\<not> pos_too_large 16 32 x y" using assms by (simp add: pos_too_large_def not_less)
  ultimately show ?thesis by (simp add: set_rectangle_def Let_def)
qed

lemma corner_on: "console_on corner_console" "cons_col (console_descriptor corner_console) = 0"
  "cons_row (console_descriptor corner_console) = 1" "cons_cols (console_descriptor corner_console) = 2"
  "cons_rows (console_descriptor corner_console) = 2" "bg_color (console_descriptor corner_console) = 0x11223344"
  "framebuf corner_console = \<lparr>base_addr = 0x8000, mem_size = 0x800\<rparr>"
  by (simp_all add: corner_console_def console_on_def)

text \<open>A blank character fits on the last row.\<close>

lemma corner_char: "\<exists>u. console_putc screen_platform 1 corner_console = Some u \<and>
    screen_vars u = (place (1, 1) (console_descriptor corner_console), framebuf_enabled corner_console, framebuf corner_console)"
proof -
  obtain e where e: "console_erase_character screen_platform corner_console = Some (CONSOLE_SUCCESS, e)"
    using screen_rectangle_returns [of 0 16 8 16 "bg_color (console_descriptor corner_console)" corner_console]
    by (auto simp: console_erase_character_def corner_on char_width_def char_height_def)
  have v: "screen_vars e = screen_vars corner_console"
    using erase_character_screen [OF screen_keeps refl, THEN wlpD, OF e] by simp
  have "bizcat_font_glyphs 1 = replicate 16 0"
    by (simp add: bizcat_font_glyphs_def bizcat_rows_def numeral_eq_Suc)
  from write_blank [OF this] have w: "console_write_character_at_pos screen_platform 1 x y e = Some (CONSOLE_SUCCESS, e)" for x y .
  have d: "console_descriptor e = console_descriptor corner_console" "framebuf_enabled e = framebuf_enabled corner_console"
    "framebuf e = framebuf corner_console"
    using v by (simp_all add: screen_vars_def)
  have n: "console_next_pos screen_platform e = Some (with_console (place (1, 1)) e)"
    using d(1) by (simp add: console_next_pos_def with_console_def place_def corner_on)
  have "console_putc screen_platform 1 corner_console = Some (with_console (place (1, 1)) e)"
    using corner_on(1) e w n by (simp add: console_putc_def console_on_def console_write_character_def)
  then show ?thesis by (simp add: screen_vars_place d)
qed

lemma corner_text: "\<exists>t. emit (console_putc screen_platform) [1, 0x0A] corner_console = Some t"
proof -
  obtain u where u: "console_putc screen_platform 1 corner_console = Some u"
    "console_descriptor u = place (1, 1) (console_descriptor corner_console)"
    using corner_char by (auto simp: screen_vars_def)
  then show ?thesis
    by (simp add: console_putc_def [of _ newline] with_console_def CONFIG_CONSOLE_MIN_ROWS_BELOW_def corner_on)
qed


theorem text_stays_on_screen_witness:
  "\<exists>t. emit (console_putc screen_platform) [1] corner_console = Some t \<and>
     cons_row (console_descriptor t) < cons_rows (console_descriptor t)"
proof -
  obtain t where t: "emit (console_putc screen_platform) [1] corner_console = Some t"
    using corner_char by auto
  from text_stays_on_screen [OF screen_keeps corner_on(1) t] t show ?thesis
    by (simp add: corner_on)
qed

theorem newline_leaves_screen_witness:
  "\<exists>t v. console_putc screen_platform 0x0A corner_console = Some t \<and>
     console_erase_character screen_platform t = Some (CONSOLE_SUCCESS, v) \<and>
     kmem corner_console 0x8804 = 7 \<and> kmem v 0x8804 = 0x44"
proof -
  let ?t = "with_console (place (0, cons_rows (console_descriptor corner_console))) corner_console"
  let ?p = "put_local screen_platform ''set_rectangle.color'' (bg_color (console_descriptor corner_console)) ?t"
  obtain u where u: "fb_geometry screen_platform ''set_rectangle'' ?p = Some (16, 32, 4, 64, u)" "kept ?p u"
    using screen_geometry [of "''set_rectangle''"] by blast
  have last: "cons_row (console_descriptor corner_console) + 1 = cons_rows (console_descriptor corner_console)"
    and rows: "(32 :: u32) = cons_rows (console_descriptor corner_console) * 16"
    by (simp_all add: corner_on)
  have dvd: "unat (4 :: u32) dvd unat (64 :: u32)" and ext: "rect_extent 64 4 0 32 8 16 < 2 ^ 64"
    by (simp_all add: rect_extent_def)
  have k: "(\<forall>k < 4. P k) = (P 0 \<and> P 1 \<and> P 2 \<and> P (3 :: nat))" for P
    by (auto simp: less_Suc_eq numeral_eq_Suc)
  have apart: "\<forall>k < unat (4 :: u32). rect_extent 64 4 0 32 8 16 \<le> unat (local_addr screen_platform ''set_rectangle.color''
      + of_nat k - ucast (base_addr (framebuf corner_console)))"
    by (simp add: rect_extent_def k corner_on)
  have "\<exists>j i. unat (32 :: u32) \<le> j \<and> j < unat (32 :: u32) + 16 \<and> 0 < i \<and> i \<le> 8 \<and>
      in_region (pixel_at (ucast (base_addr (framebuf corner_console))) 64 4 i j) (ucast (4 :: u32)) 0x8804"
    by (rule exI [of _ 32], rule exI [of _ 1]) (simp add: pixel_at_def in_region_def corner_on)
  with newline_leaves_screen [OF corner_on(1) last refl u(1) rows _ dvd ext apart]
  obtain v where "console_putc screen_platform 0x0A corner_console = Some ?t"
    "console_erase_character screen_platform ?t = Some (CONSOLE_SUCCESS, v)" "kmem v 0x8804 = kmem u 0x1090"
    by (simp add: corner_on)
  moreover have "kmem u 0x1090 = 0x44"
    using u(2) by (simp add: kept_def put_local_def write_word_def in_region_def corner_on with_console_def)
  ultimately show ?thesis by (intro exI conjI) (assumption | simp add: corner_console_def)+
qed

end
