(* ===== verification/Fs_Util.thy ===== *)
theory Fs_Util
  imports Fat Console
begin

text \<open>
  Listing directories (\<open>src/fs/util.c\<close>): \<open>ls\<close> with an absolute path, and the listing of the
  whole tree. A list of directory entries is a pointer into the linked list that the reader
  has built; the empty list is the null pointer.
\<close>

section \<open>The root directory of a volume\<close>

text \<open>An automatic \<open>struct exfat_superblock\<close> that no call has filled in: what RAM holds there.\<close>

definition local_super :: "mem \<Rightarrow> addr \<Rightarrow> exfat_superblock" where
  "local_super m p =
     \<lparr>partition_offset = field m p 8, volume_length = field m (p + 8) 8,
      sectorsize = field m (p + 16) 8, clustersize = field m (p + 24) 8,
      fat_offset = load32 m (p + 32), fat_length = load32 m (p + 36),
      clusterheap_offset = load32 m (p + 40), cluster_count = load32 m (p + 44),
      rootdir_start = load32 m (p + 48), volume_serialnumber = load32 m (p + 52),
      fs_revision = ucast (field m (p + 56) 2), fat_cnt = m (p + 58), use_percent = m (p + 59),
      active_fat = m (p + 60), volume_dirty = (m (p + 61) \<noteq> 0), media_failure = (m (p + 62) \<noteq> 0),
      clear_to_zero = (m (p + 63) \<noteq> 0)\<rparr>"

text \<open>The result of reading the boot block is not looked at.\<close>

definition read_root ::
    "('d, 'h) reader \<Rightarrow> ('d \<Rightarrow> u64) \<Rightarrow> 'h platform \<Rightarrow> string \<Rightarrow> 'd \<Rightarrow> 'h kstate \<Rightarrow>
     (exfat_superblock \<times> dirent list \<times> 'd \<times> 'h kstate) option" where
  "read_root rd bsize Pl x d s = do {
     (_, sb, d, s) \<leftarrow> exfat_read_boot_block rd bsize Pl d (local_super (kmem s) (local_addr Pl x)) s;
     let rootdir_block = cluster_to_block (rootdir_start sb) sb;
     (ds, d, s) \<leftarrow> exfat_readdir_fromblock rd bsize Pl sb rootdir_block d s;
     Some (sb, ds, d, s)
   }"

definition read_subdir ::
    "('d, 'h) reader \<Rightarrow> ('d \<Rightarrow> u64) \<Rightarrow> 'h platform \<Rightarrow> exfat_superblock \<Rightarrow> dirent \<Rightarrow> 'd \<Rightarrow> 'h kstate \<Rightarrow>
     (dirent list \<times> 'd \<times> 'h kstate) option" where
  "read_subdir rd bsize Pl sb e d s =
     exfat_readdir_fromblock rd bsize Pl sb (cluster_to_block (start_cluster (d_opaque e)) sb) d s"

section \<open>\<open>ls\<close>\<close>

definition SLASH :: byte where "SLASH = 0x2F"

fun find_entry :: "mem \<Rightarrow> addr \<Rightarrow> dirent list \<Rightarrow> dirent list option" where
  "find_entry m p [] = Some []"
| "find_entry m p (e # es) = do {
     r \<leftarrow> strcmp m p (d_name e);
     if r \<noteq> 0 then find_entry m p es else Some (e # es)
   }"

partial_function (option) part_end :: "mem \<Rightarrow> addr \<Rightarrow> i32 \<Rightarrow> i32 option" where
  "part_end m p i =
     (if m (p + scast i) \<noteq> SLASH \<and> m (p + scast i) \<noteq> 0 then part_end m p (i + 1) else Some i)"

declare part_end.simps [code]

text \<open>One round per part of the path; \<open>None\<close> in the result is a return of -1.\<close>

partial_function (option) ls_walk ::
    "('d, 'h) reader \<Rightarrow> ('d \<Rightarrow> u64) \<Rightarrow> 'h platform \<Rightarrow> exfat_superblock \<Rightarrow> addr \<Rightarrow> addr \<Rightarrow> i32 \<Rightarrow>
     dirent list \<Rightarrow> 'd \<Rightarrow> 'h kstate \<Rightarrow> (dirent list option \<times> 'd \<times> 'h kstate) option" where
  "ls_walk rd bsize Pl sb path path2 i ds d s = do {
     n \<leftarrow> strlen (kmem s) path;
     if scast i \<le> n then do {
       let i = (if kmem s (path2 + scast i) = SLASH then i + 1 else i);
       let j = i;
       i \<leftarrow> part_end (kmem s) path2 i;
       let s = s\<lparr>kmem := (kmem s)(path2 + scast i := 0)\<rparr>;
       ds \<leftarrow> find_entry (kmem s) (path2 + scast j) ds;
       let i = i + 1;
       (case ds of
          [] \<Rightarrow> Some (None, d, s\<lparr>errno := EINVAL\<rparr>)
        | e # _ \<Rightarrow>
            if is_dir e = 0 then Some (None, d, s\<lparr>errno := ENOTDIR\<rparr>)
            else do {
              (ds, d, s) \<leftarrow> read_subdir rd bsize Pl sb e d s;
              ls_walk rd bsize Pl sb path path2 i ds d s
            })
     }
     else Some (Some ds, d, s)
   }"

declare ls_walk.simps [code]

fun ls_print :: "'h platform \<Rightarrow> dirent list \<Rightarrow> 'h kstate \<Rightarrow> 'h kstate option" where
  "ls_print Pl [] s = Some s"
| "ls_print Pl (e # es) s = do {
     (_, s) \<leftarrow> kernel_printf Pl (literal ''%s'') [d_name e] s;
     s \<leftarrow> (if is_dir e \<noteq> 0 then do {
             (_, s) \<leftarrow> kernel_printf Pl (literal ''/'') [] s;
             Some s
           } else Some s);
     (_, s) \<leftarrow> kernel_printf Pl [0x0A] [] s;
     ls_print Pl es s
   }"

text \<open>The copy of the path is not tested for null and not given back.\<close>

definition ls ::
    "('d, 'h) reader \<Rightarrow> ('d \<Rightarrow> u64) \<Rightarrow> 'h platform \<Rightarrow> addr \<Rightarrow> 'd \<Rightarrow> 'h kstate \<Rightarrow>
     (int \<times> 'd \<times> 'h kstate) option" where
  "ls rd bsize Pl path d s = do {
     (sb, ds, d, s) \<leftarrow> read_root rd bsize Pl ''ls.exfat_info'' d s;
     n \<leftarrow> strlen (kmem s) path;
     (path2, s) \<leftarrow> malloc Pl (n + 1) s;
     (_, m) \<leftarrow> strcpy path2 path (kmem s);
     n \<leftarrow> strlen m path;
     let s = s\<lparr>kmem := snd (memset (path2 + n) 0 1 m)\<rparr>;
     n \<leftarrow> strlen (kmem s) path;
     (r, d, s) \<leftarrow> (if \<not> (kmem s path = SLASH \<and> n = 1)
        then ls_walk rd bsize Pl sb path path2 0 ds d s else Some (Some ds, d, s));
     (case r of
        None \<Rightarrow> Some (-1, d, s)
      | Some ds \<Rightarrow> do {
          s \<leftarrow> ls_print Pl ds s;
          Some (0, d, s)
        })
   }"

section \<open>The tree\<close>

definition CONFIG_COLOR_TEST_PASS :: u32 where "CONFIG_COLOR_TEST_PASS = 0x00ff00"
definition sizeof_dirent_chain :: u64 where "sizeof_dirent_chain = 16"

fun print_depth :: "'h platform \<Rightarrow> nat \<Rightarrow> 'h kstate \<Rightarrow> 'h kstate option" where
  "print_depth Pl 0 s = Some s"
| "print_depth Pl (Suc n) s = do {
     (_, s) \<leftarrow> kernel_printf Pl (literal ''| '') [] s;
     print_depth Pl n s
   }"

text \<open>Leaving the directories that have no entries left: the chain holds the entries to go on after.\<close>

fun leave_dirs :: "dirent list \<Rightarrow> dirent list list \<Rightarrow> dirent list \<times> dirent list list" where
  "leave_dirs it [] = (it, [])"
| "leave_dirs it (c # chain) = (if it = [] then leave_dirs (tl c) chain else (it, c # chain))"

text \<open>
  \<open>chain\<close> holds, innermost first, the rest of the list at the directory that was entered;
  its length is \<open>tree_depth\<close>.
\<close>

partial_function (option) tree_loop ::
    "('d, 'h) reader \<Rightarrow> ('d \<Rightarrow> u64) \<Rightarrow> 'h platform \<Rightarrow> exfat_superblock \<Rightarrow> dirent list \<Rightarrow> dirent list list \<Rightarrow>
     'd \<Rightarrow> 'h kstate \<Rightarrow> ('d \<times> 'h kstate) option" where
  "tree_loop rd bsize Pl sb it chain d s =
     (case it of
        [] \<Rightarrow> if chain = [] then Some (d, s) else None
      | e # es \<Rightarrow> do {
          s \<leftarrow> print_depth Pl (length chain) s;
          let s = (if is_dir e \<noteq> 0 then console_set_tmp_fg_color CONFIG_COLOR_TEST_PASS s else s);
          (_, s) \<leftarrow> kernel_printf Pl (literal ''%s'') [d_name e] s;
          (if is_dir e \<noteq> 0 then do {
             (_, s) \<leftarrow> kernel_printf Pl (literal ''/'') [] (console_reset_colors s);
             (p, s) \<leftarrow> malloc Pl sizeof_dirent_chain s;
             if p = 0 then Some (d, s\<lparr>errno := ENOMEM\<rparr>)
             else do {
               (sub, d, s) \<leftarrow> read_subdir rd bsize Pl sb e d s;
               (_, s) \<leftarrow> kernel_printf Pl [0x0A] [] s;
               let (it, chain) = leave_dirs sub (it # chain);
               tree_loop rd bsize Pl sb it chain d s
             }
           }
           else do {
             (_, s) \<leftarrow> kernel_printf Pl [0x0A] [] s;
             let (it, chain) = leave_dirs es chain;
             tree_loop rd bsize Pl sb it chain d s
           })
        })"

declare tree_loop.simps [code]

definition test_printtree ::
    "('d, 'h) reader \<Rightarrow> ('d \<Rightarrow> u64) \<Rightarrow> 'h platform \<Rightarrow> 'd \<Rightarrow> 'h kstate \<Rightarrow> ('d \<times> 'h kstate) option" where
  "test_printtree rd bsize Pl d s = do {
     (sb, ds, d, s) \<leftarrow> read_root rd bsize Pl ''test_printtree.exfat_info'' d s;
     tree_loop rd bsize Pl sb ds [] d s
   }"

end
