(* ===== verification/Shell.thy ===== *)
theory Shell
  imports Fs_Util Power_Off Timer
begin

text \<open>
  The shell (\<open>src/kernel/shell.c\<close>): reading a line, finding its command, and the commands.
  Strings are pointers into RAM; a string literal is at the address the platform gives for it,
  and so are the static line buffer and the automatic variables. The vector of
  arguments is the list of its pointers and the list of commands the list of its cells. A
  function pointer is a member of \<open>shell_fun\<close>. \<open>realloc\<close> is a parameter (\<open>rl\<close>), since
  \<open>src/mm/malloc.c\<close> is not modelled.
\<close>

section \<open>State\<close>

datatype shell_fun =
    SHELL_CMD_TREE
  | SHELL_CMD_SHUTDOWN
  | SHELL_CMD_LS
  | SHELL_CMD_PWD
  | SHELL_CMD_CD
  | SHELL_CMD_CAT
  | SHELL_CMD_ASCIIART
  | SHELL_CMD_REVERSE_ARGV
  | SHELL_CMD_GRAPHICS

record shell_command =
  cmd_fun :: shell_fun
  cmd_str :: addr
  cmd_at :: addr
  cell_at :: addr

datatype process_state =
    PROC_STATE_NEW
  | PROC_STATE_READY
  | PROC_STATE_RUNNING
  | PROC_STATE_BLOCKED
  | PROC_STATE_TERMINATED

text \<open>
  The root file system is represented by its block device: the functions of the
  \<open>struct fs\<close> that \<open>kernel_main\<close> fills in are those of the exFAT reader.
\<close>

record 'd process_env =
  pid :: u64
  proc_state :: process_state
  wdir :: addr
  root_dev :: 'd

text \<open>The static variables of \<open>shell.c\<close>, and the one of \<open>strtok\<close>.\<close>

record shell_state =
  shell_all_cmds :: "shell_command list"
  strtok_last :: addr

definition SHELL_LINE_CAPACITY :: nat where "SHELL_LINE_CAPACITY = 64"

definition line_buf :: "'h platform \<Rightarrow> addr" where
  "line_buf Pl = local_addr Pl ''shell_input_buf''"

type_synonym 'h realloc_fun = "addr \<Rightarrow> u64 \<Rightarrow> 'h kstate \<Rightarrow> addr \<times> 'h kstate"

section \<open>Reading a line\<close>

definition echo :: "'h platform \<Rightarrow> byte \<Rightarrow> 'h kstate \<Rightarrow> 'h kstate option" where
  "echo Pl c s = do { s \<leftarrow> uart0_putc Pl (ucast c) s; console_putc Pl (ucast c) s }"

text \<open>\<open>k\<close> characters can still be stored, the next one at index \<open>i\<close>.\<close>

fun getline_loop :: "'h platform \<Rightarrow> nat \<Rightarrow> nat \<Rightarrow> 'h kstate \<Rightarrow> (int \<times> 'h kstate) option" where
  "getline_loop Pl 0 i s = Some (-1, s\<lparr>errno := E2BIG\<rparr>)"
| "getline_loop Pl (Suc k) i s = do {
     (c, s) \<leftarrow> uart0_getc Pl s;
     if c = 0x0A then do {
       s \<leftarrow> echo Pl c (s\<lparr>kmem := (kmem s)(line_buf Pl + of_nat i := 0)\<rparr>);
       Some (0, s)
     }
     else do {
       s \<leftarrow> echo Pl c (s\<lparr>kmem := (kmem s)(line_buf Pl + of_nat i := c)\<rparr>);
       getline_loop Pl k (Suc i) s
     }
   }"

definition shell_getline :: "'h platform \<Rightarrow> 'd process_env \<Rightarrow> addr \<Rightarrow> 'h kstate \<Rightarrow> (int \<times> 'h kstate) option" where
  "shell_getline Pl env prompt s =
     (if prompt = 0 then Some (-1, s\<lparr>errno := EINVAL\<rparr>)
      else do {
        s \<leftarrow> print Pl (literal ''%s%s'') [wdir env, prompt] s;
        getline_loop Pl SHELL_LINE_CAPACITY 0 s
      })"

section \<open>Commands\<close>

definition shell_cmd_shutdown :: "'h platform \<Rightarrow> 'h kstate \<Rightarrow> (int \<times> 'h kstate) option" where
  "shell_cmd_shutdown Pl s = do {
     s \<leftarrow> power_off Pl s;
     Some (-1, s\<lparr>errno := EPERM\<rparr>)
   }"

definition shell_cmd_ls ::
    "('d, 'h) reader \<Rightarrow> ('d \<Rightarrow> u64) \<Rightarrow> 'h platform \<Rightarrow> addr list \<Rightarrow> 'd process_env \<Rightarrow> 'h kstate \<Rightarrow>
     (int \<times> 'd process_env \<times> 'h kstate) option" where
  "shell_cmd_ls rd bsize Pl argv env s = do {
     wdirlen \<leftarrow> strlen (kmem s) (wdir env);
     let relpath = (if length argv > 1 then argv ! 1 else lit Pl '''');
     relpathlen \<leftarrow> strlen (kmem s) relpath;
     (path, s) \<leftarrow> malloc Pl (scast ((ucast wdirlen :: i32) + ucast relpathlen + 1)) s;
     (_, m) \<leftarrow> strcpy path (wdir env) (kmem s);
     (_, m) \<leftarrow> strcpy (path + scast (ucast wdirlen :: i32)) relpath m;
     let m = snd (memset (path + scast (ucast wdirlen :: i32) + scast (ucast relpathlen :: i32)) 0 1 m);
     (ret, d, s) \<leftarrow> ls rd bsize Pl path (root_dev env) (s\<lparr>kmem := m\<rparr>);
     s \<leftarrow> free Pl path s;
     Some (ret, env\<lparr>root_dev := d\<rparr>, s)
   }"

definition shell_cmd_pwd :: "'h platform \<Rightarrow> 'd process_env \<Rightarrow> 'h kstate \<Rightarrow> (int \<times> 'h kstate) option" where
  "shell_cmd_pwd Pl env s = do {
     s \<leftarrow> print Pl (literal ''%s'' @ [0x0A]) [wdir env] s;
     Some (0, s)
   }"

text \<open>
  The lengths are of type \<open>int\<close>. The result of \<open>malloc\<close> is not tested, and the old working
  directory is not given back.
\<close>

definition shell_cmd_cd ::
    "'h platform \<Rightarrow> addr list \<Rightarrow> 'd process_env \<Rightarrow> 'h kstate \<Rightarrow> (int \<times> 'd process_env \<times> 'h kstate) option" where
  "shell_cmd_cd Pl argv env s =
     (if length argv = 1 then Some (0, env\<lparr>wdir := lit Pl ''/''\<rparr>, s)
      else if length argv > 2 then Some (-1, env, s\<lparr>errno := E2BIG\<rparr>)
      else if kmem s (argv ! 1) = SLASH then Some (0, env\<lparr>wdir := argv ! 1\<rparr>, s)
      else do {
        n \<leftarrow> strlen (kmem s) (wdir env);
        let wdirlen = (ucast n :: i32);
        let sep = (if kmem s (wdir env + scast (wdirlen - 1)) \<noteq> SLASH then 1 else 0);
        n \<leftarrow> strlen (kmem s) (argv ! 1);
        let tgtdirlen = (ucast n :: i32);
        let nul = (if kmem s (argv ! 1 + scast (tgtdirlen - 1)) \<noteq> SLASH then 1 else 0);
        (newwdir, s) \<leftarrow> malloc Pl (scast (wdirlen + sep + tgtdirlen + nul)) s;
        (_, m) \<leftarrow> strcpy newwdir (wdir env) (kmem s);
        let m = (if sep \<noteq> 0 then snd (memset (newwdir + scast wdirlen) (ucast SLASH) 1 m) else m);
        (_, m) \<leftarrow> strcpy (newwdir + scast wdirlen + scast sep) (argv ! 1) m;
        let m = snd (memset (newwdir + scast wdirlen + scast sep + scast tgtdirlen - 1 + scast nul) 0 1 m);
        Some (0, env\<lparr>wdir := newwdir\<rparr>, s\<lparr>kmem := m\<rparr>)
      })"

subsection \<open>\<open>cat\<close>\<close>

definition sizeof_dirs_ll :: u64 where "sizeof_dirs_ll = 24"

text \<open>The loop over the parts of the path allocates a cell in each round and never takes the next part.\<close>

partial_function (option) cat_parts :: "'h platform \<Rightarrow> addr \<Rightarrow> addr \<Rightarrow> addr \<Rightarrow> 'h kstate \<Rightarrow> (addr \<times> 'h kstate) option" where
  "cat_parts Pl tok top_lvl prev s =
     (if tok \<noteq> 0 \<and> kmem s tok \<noteq> 0 then do {
        (cell, s) \<leftarrow> malloc Pl sizeof_dirs_ll s;
        let m = store_le 8 tok cell (kmem s);
        let m = store_le 4 0 (cell + 8) m;
        (if prev \<noteq> 0 then cat_parts Pl tok top_lvl prev (s\<lparr>kmem := store_le 8 cell (prev + 16) m\<rparr>)
         else cat_parts Pl tok cell cell (s\<lparr>kmem := m\<rparr>))
      }
      else Some (top_lvl, s))"

declare cat_parts.simps [code]

text \<open>
  The search for the file. An empty directory is dereferenced, which has no defined result;
  \<open>None\<close> inside the result is the return of -1.
\<close>

fun cat_find :: "'h platform \<Rightarrow> addr \<Rightarrow> dirent list \<Rightarrow> 'h kstate \<Rightarrow> (dirent option \<times> 'h kstate) option" where
  "cat_find Pl level [] s = None"
| "cat_find Pl level (e # es) s = do {
     r \<leftarrow> strcmp (kmem s) (d_name e) level;
     if r = 0 then Some (Some e, s)
     else if es = [] then do {
       s \<leftarrow> print Pl (literal ''ERROR: no such file or directory!'' @ [0x0A]) [] s;
       Some (None, s\<lparr>errno := ENOENT\<rparr>)
     }
     else cat_find Pl level es s
   }"

partial_function (option) cat_descend ::
    "('d, 'h) reader \<Rightarrow> ('d \<Rightarrow> u64) \<Rightarrow> 'h platform \<Rightarrow> exfat_superblock \<Rightarrow> addr \<Rightarrow> u64 \<Rightarrow> 'd \<Rightarrow> 'h kstate \<Rightarrow>
     (dirent option \<times> 'd \<times> 'h kstate) option" where
  "cat_descend rd bsize Pl sb cell this_dir_block d s = do {
     (ds, d, s) \<leftarrow> exfat_readdir_fromblock rd bsize Pl sb this_dir_block d s;
     (f, s) \<leftarrow> cat_find Pl (field (kmem s) cell 8) ds s;
     (case f of
        None \<Rightarrow> Some (None, d, s)
      | Some e \<Rightarrow> do {
          let this_dir_block = cluster_to_block (start_cluster (d_opaque e)) sb;
          let cell = field (kmem s) (cell + 16) 8;
          s \<leftarrow> print Pl (literal ''A'') [] s;
          if is_dir e = 0 then Some (Some e, d, s)
          else cat_descend rd bsize Pl sb cell this_dir_block d s
        })
   }"

declare cat_descend.simps [code]

definition cat_note :: "byte list" where
  "cat_note = literal ''[NOTE] This command is a work in progress and currently doesn'' @ [0x27]
     @ literal ''t work at all'' @ [0x0A]"

definition shell_cmd_cat ::
    "('d, 'h) reader \<Rightarrow> ('d \<Rightarrow> u64) \<Rightarrow> ('d \<Rightarrow> addr \<Rightarrow> 'h kstate \<Rightarrow> 'd) \<Rightarrow> 'h platform \<Rightarrow> addr list \<Rightarrow>
     'd process_env \<Rightarrow> 'h kstate \<Rightarrow> (int \<times> 'd process_env \<times> 'h kstate) option" where
  "shell_cmd_cat rd bsize view Pl argv env s = do {
     s \<leftarrow> print Pl cat_note [] s;
     if length argv < 2 then Some (-1, env, s\<lparr>errno := EINVAL\<rparr>)
     else do {
       n \<leftarrow> strlen (kmem s) (argv ! 1);
       (path, s) \<leftarrow> malloc Pl (n + 1) s;
       (_, m) \<leftarrow> strcpy path (argv ! 1) (kmem s);
       n \<leftarrow> strlen m path;
       (pathtok, s) \<leftarrow> malloc Pl (n + 1) (s\<lparr>kmem := m\<rparr>);
       (_, m) \<leftarrow> strcpy pathtok path (kmem s);
       (tok, next_lvl, m) \<leftarrow> strtok_r pathtok (lit Pl ''/'') (Some pathtok) m;
       (top_lvl, s) \<leftarrow> malloc Pl sizeof_dirs_ll (s\<lparr>kmem := m\<rparr>);
       let s = s\<lparr>kmem := store_le 8 pathtok top_lvl (kmem s)\<rparr>;
       (top_lvl, s) \<leftarrow> cat_parts Pl tok top_lvl 0 s;
       (cell, s) \<leftarrow> malloc Pl sizeof_dirs_ll s;
       let s = s\<lparr>kmem := store_le 8 (case next_lvl of None \<Rightarrow> 0 | Some p \<Rightarrow> p) cell (kmem s)\<rparr>;
       (_, sb, d, s) \<leftarrow> exfat_read_boot_block rd bsize Pl (root_dev env)
         (local_super (kmem s) (local_addr Pl ''shell_cmd_cat.super'')) s;
       (f, d, s) \<leftarrow> cat_descend rd bsize Pl sb top_lvl (cluster_to_block (rootdir_start sb) sb) d s;
       (case f of
          None \<Rightarrow> Some (-1, env\<lparr>root_dev := d\<rparr>, s)
        | Some e \<Rightarrow> do {
            (fp, s) \<leftarrow> exfat_fopen view Pl e (literal ''r'') d s;
            fp \<leftarrow> fp;
            let fread_buf = local_addr Pl ''shell_cmd_cat.fread_buf'';
            (_, fp, s) \<leftarrow> exfat_fread rd bsize Pl fread_buf 4 fp s;
            s \<leftarrow> print Pl (literal ''%c%c%c%c'' @ [0x0A])
              [ucast (kmem s fread_buf), ucast (kmem s (fread_buf + 1)),
               ucast (kmem s (fread_buf + 2)), ucast (kmem s (fread_buf + 3))] s;
            (_, s) \<leftarrow> exfat_fclose Pl fp s;
            Some (-1, env\<lparr>root_dev := d\<rparr>, s\<lparr>errno := ENOSYS\<rparr>)
          })
     }
   }"

section \<open>Demonstration commands\<close>

definition asciiart_lines :: "byte list list" where
  "asciiart_lines = [
   [0x20, 0x20, 0x20, 0x20, 0x20, 0x20, 0x20, 0x2C, 0x2D, 0x2D, 0x2E, 0x2D, 0x2D, 0x2D, 0x2D, 0x2D, 0x2E,
    0x2D, 0x2D, 0x2E, 0x0A],
   [0x20, 0x20, 0x20, 0x20, 0x20, 0x20, 0x20, 0x7C, 0x2D, 0x2D, 0x7C, 0x2D, 0x2D, 0x2D, 0x2D, 0x2D, 0x7C,
    0x2D, 0x2D, 0x7C, 0x0A],
   [0x20, 0x20, 0x20, 0x20, 0x20, 0x20, 0x20, 0x7C, 0x2D, 0x2D, 0x7C, 0x20, 0x20, 0x20, 0x20, 0x20, 0x7C,
    0x2D, 0x2D, 0x7C, 0x0A],
   [0x20, 0x20, 0x20, 0x20, 0x20, 0x20, 0x20, 0x7C, 0x20, 0x20, 0x7C, 0x2D, 0x2D, 0x2D, 0x2D, 0x2D, 0x7C,
    0x20, 0x20, 0x7C, 0x0A],
   [0x20, 0x20, 0x20, 0x20, 0x20, 0x5F, 0x5F, 0x7C, 0x2D, 0x2D, 0x7C, 0x20, 0x20, 0x20, 0x20, 0x20, 0x7C,
    0x2D, 0x2D, 0x7C, 0x5F, 0x5F, 0x0A],
   [0x20, 0x20, 0x20, 0x20, 0x2F, 0x20, 0x20, 0x7C, 0x20, 0x20, 0x7C, 0x2D, 0x2D, 0x2D, 0x2D, 0x2D, 0x7C,
    0x20, 0x20, 0x7C, 0x20, 0x20, 0x5C, 0x0A],
   [0x20, 0x20, 0x20, 0x2F, 0x20, 0x20, 0x20, 0x5C, 0x5F, 0x5F, 0x7C, 0x2D, 0x2D, 0x2D, 0x2D, 0x2D, 0x7C,
    0x5F, 0x5F, 0x2F, 0x20, 0x20, 0x20, 0x5C, 0x0A],
   [0x20, 0x20, 0x2F, 0x20, 0x20, 0x20, 0x5F, 0x5F, 0x5F, 0x5F, 0x5F, 0x5F, 0x2D, 0x2D, 0x2D, 0x5F, 0x5F,
    0x5F, 0x5F, 0x5F, 0x5F, 0x20, 0x20, 0x20, 0x5C, 0x2F, 0x5C, 0x0A],
   [0x20, 0x2F, 0x20, 0x20, 0x20, 0x2F, 0x20, 0x20, 0x31, 0x31, 0x20, 0x20, 0x31, 0x20, 0x32, 0x20, 0x2F,
    0x20, 0x31, 0x20, 0x20, 0x5C, 0x20, 0x20, 0x20, 0x5C, 0x2F, 0x0A],
   [0x7B, 0x20, 0x20, 0x20, 0x2F, 0x31, 0x30, 0x20, 0x20, 0x20, 0x20, 0x52, 0x4F, 0x4C, 0x45, 0x58, 0x20,
    0x20, 0x20, 0x20, 0x20, 0x32, 0x5C, 0x20, 0x20, 0x20, 0x7D, 0x0A],
   [0x7C, 0x20, 0x20, 0x7B, 0x20, 0x20, 0x20, 0x20, 0x20, 0x2C, 0x5F, 0x2E, 0x20, 0x20, 0x20, 0x20, 0x2F,
    0x20, 0x20, 0x2C, 0x5F, 0x2E, 0x20, 0x7D, 0x20, 0x20, 0x7C, 0x2D, 0x2C, 0x0A],
   [0x7C, 0x20, 0x20, 0x7C, 0x39, 0x20, 0x20, 0x7B, 0x20, 0x20, 0x20, 0x7D, 0x20, 0x20, 0x4F, 0x2D, 0x2D,
    0x7B, 0x2D, 0x20, 0x7D, 0x20, 0x33, 0x7C, 0x20, 0x20, 0x7C, 0x20, 0x7C, 0x0A],
   [0x7C, 0x20, 0x20, 0x7B, 0x20, 0x20, 0x20, 0x60, 0x2D, 0x27, 0x20, 0x20, 0x2F, 0x20, 0x20, 0x20, 0x20,
    0x60, 0x2D, 0x27, 0x20, 0x20, 0x20, 0x7D, 0x20, 0x20, 0x7C, 0x2D, 0x27, 0x0A],
   [0x7B, 0x20, 0x20, 0x20, 0x5C, 0x38, 0x20, 0x20, 0x20, 0x37, 0x20, 0x2F, 0x20, 0x20, 0x20, 0x20, 0x20,
    0x35, 0x20, 0x20, 0x20, 0x34, 0x2F, 0x20, 0x20, 0x20, 0x7D, 0x0A],
   [0x20, 0x5C, 0x20, 0x20, 0x20, 0x60, 0x2D, 0x2D, 0x2D, 0x2D, 0x2D, 0x2D, 0x5F, 0x36, 0x5F, 0x2D, 0x2D,
    0x2D, 0x2D, 0x2D, 0x2D, 0x27, 0x20, 0x20, 0x20, 0x2F, 0x5C, 0x0A],
   [0x20, 0x20, 0x5C, 0x20, 0x20, 0x20, 0x20, 0x20, 0x5F, 0x5F, 0x7C, 0x2D, 0x2D, 0x2D, 0x2D, 0x2D, 0x7C,
    0x5F, 0x5F, 0x20, 0x20, 0x20, 0x20, 0x20, 0x2F, 0x5C, 0x2F, 0x0A],
   [0x20, 0x20, 0x20, 0x5C, 0x20, 0x20, 0x20, 0x2F, 0x20, 0x20, 0x7C, 0x2D, 0x2D, 0x2D, 0x2D, 0x2D, 0x7C,
    0x20, 0x20, 0x5C, 0x20, 0x20, 0x20, 0x2F, 0x0A],
   [0x20, 0x20, 0x20, 0x20, 0x5C, 0x20, 0x20, 0x7C, 0x2D, 0x2D, 0x7C, 0x20, 0x20, 0x20, 0x20, 0x20, 0x7C,
    0x2D, 0x2D, 0x7C, 0x20, 0x20, 0x2F, 0x0A],
   [0x20, 0x20, 0x20, 0x20, 0x20, 0x2D, 0x2D, 0x7C, 0x20, 0x20, 0x7C, 0x2D, 0x2D, 0x2D, 0x2D, 0x2D, 0x7C,
    0x20, 0x20, 0x7C, 0x2D, 0x2D, 0x0A],
   [0x20, 0x20, 0x20, 0x20, 0x20, 0x20, 0x20, 0x7C, 0x2D, 0x2D, 0x7C, 0x20, 0x20, 0x20, 0x20, 0x20, 0x7C,
    0x2D, 0x2D, 0x7C, 0x0A],
   [0x20, 0x20, 0x20, 0x20, 0x20, 0x20, 0x20, 0x7C, 0x2D, 0x2D, 0x7C, 0x2D, 0x2D, 0x2D, 0x2D, 0x2D, 0x7C,
    0x2D, 0x2D, 0x7C, 0x0A],
   [0x20, 0x20, 0x20, 0x20, 0x20, 0x20, 0x20, 0x60, 0x2D, 0x2D, 0x27, 0x2D, 0x2D, 0x2D, 0x2D, 0x2D, 0x60,
    0x2D, 0x2D, 0x27, 0x0A]]"

text \<open>The picture has no percent sign, so it is printed as it is.\<close>

definition shell_cmd_asciiart :: "'h platform \<Rightarrow> 'h kstate \<Rightarrow> (int \<times> 'h kstate) option" where
  "shell_cmd_asciiart Pl s = do {
     s \<leftarrow> print Pl (concat asciiart_lines) [] s;
     Some (0, s)
   }"

fun print_reversed :: "'h platform \<Rightarrow> addr \<Rightarrow> nat \<Rightarrow> 'h kstate \<Rightarrow> 'h kstate option" where
  "print_reversed Pl p 0 s = Some s"
| "print_reversed Pl p (Suc j) s = do {
     let c = kmem s (p + of_nat j);
     s \<leftarrow> print Pl (literal ''%c'') [ucast c] s;
     print_reversed Pl p j s
   }"

fun reverse_args :: "'h platform \<Rightarrow> addr list \<Rightarrow> 'h kstate \<Rightarrow> 'h kstate option" where
  "reverse_args Pl [] s = Some s"
| "reverse_args Pl (p # ps) s = do {
     n \<leftarrow> strlen (kmem s) p;
     s \<leftarrow> print_reversed Pl p (unat n) s;
     s \<leftarrow> print Pl (literal '' '') [] s;
     reverse_args Pl ps s
   }"

text \<open>From the last argument to the first one after the command (for strings of less than \<open>2 ^ 31\<close> characters).\<close>

definition shell_cmd_reverse_argv :: "'h platform \<Rightarrow> addr list \<Rightarrow> 'h kstate \<Rightarrow> (int \<times> 'h kstate) option" where
  "shell_cmd_reverse_argv Pl argv s = do {
     s \<leftarrow> reverse_args Pl (rev (tl argv)) s;
     s \<leftarrow> print Pl [0x0A] [] s;
     Some (-1, s)
   }"

subsection \<open>The moving box\<close>

record box_state =
  box_x :: i32
  box_y :: i32
  box_v_x :: i32
  box_v_y :: i32
  bg_color1 :: u32
  bg_color2 :: u32
  bg_color3 :: u32
  bg_color4 :: u32
  frame_counter :: u64
  show_boxes :: bool

definition box_start :: box_state where
  "box_start = \<lparr>box_x = 100, box_y = 100, box_v_x = 0, box_v_y = 0,
     bg_color1 = 0x00777777, bg_color2 = 0x00777777, bg_color3 = 0x00777777, bg_color4 = 0x00777777,
     frame_counter = 1, show_boxes = False\<rparr>"

definition box_w :: u32 where "box_w = 100"
definition box_h :: u32 where "box_h = 100"

definition fb_width :: "'h platform \<Rightarrow> 'h kstate \<Rightarrow> u32" where
  "fb_width Pl s = get_local Pl ''shell_cmd_graphics.fb'' 0 s"

definition fb_height :: "'h platform \<Rightarrow> 'h kstate \<Rightarrow> u32" where
  "fb_height Pl s = get_local Pl ''shell_cmd_graphics.fb'' 4 s"

definition next_colors :: "box_state \<Rightarrow> box_state" where
  "next_colors b =
     (if show_boxes b then b\<lparr>bg_color1 := 0x00000077, bg_color2 := 0x00007700,
        bg_color3 := 0x00770000, bg_color4 := 0x00770077\<rparr>
      else b\<lparr>bg_color1 := 0x00777777, bg_color2 := 0x00777777,
        bg_color3 := 0x00777777, bg_color4 := 0x00777777\<rparr>)"

text \<open>A key moves the box or leaves the loop (\<open>None\<close>).\<close>

definition box_key :: "byte \<Rightarrow> box_state \<Rightarrow> box_state option" where
  "box_key r b =
     (if r = c8 CHR ''w'' then Some (b\<lparr>box_v_y := -4\<rparr>)
      else if r = c8 CHR ''a'' then Some (b\<lparr>box_v_x := -4\<rparr>)
      else if r = c8 CHR ''s'' then Some (b\<lparr>box_v_y := 4\<rparr>)
      else if r = c8 CHR ''d'' then Some (b\<lparr>box_v_x := 4\<rparr>)
      else if r = c8 CHR '' '' then Some (b\<lparr>box_v_x := 0, box_v_y := 0\<rparr>)
      else if r = c8 CHR ''q'' then None
      else if r = c8 CHR ''b'' then Some (b\<lparr>show_boxes := \<not> show_boxes b\<rparr>)
      else Some b)"

text \<open>The sum with the width of the box is unsigned, the comparison with 0 is not.\<close>

definition bounce :: "u32 \<Rightarrow> u32 \<Rightarrow> i32 \<Rightarrow> i32 \<Rightarrow> i32 \<times> i32" where
  "bounce len limit pos v =
     (let v = (if sint (pos + v) < 0 \<or> pos + v + len \<ge> limit then v * -1 else v)
      in (pos + v, v))"

definition box_move :: "u32 \<Rightarrow> u32 \<Rightarrow> box_state \<Rightarrow> box_state" where
  "box_move w h b =
     (let (x, vx) = bounce box_w w (box_x b) (box_v_x b);
          (y, vy) = bounce box_h h (box_y b) (box_v_y b)
      in b\<lparr>box_x := x, box_v_x := vx, box_y := y, box_v_y := vy\<rparr>)"

definition box_background :: "'h platform \<Rightarrow> box_state \<Rightarrow> 'h kstate \<Rightarrow> 'h kstate option" where
  "box_background Pl b s = do {
     (_, s) \<leftarrow> set_rectangle Pl 0 0 (box_x b) (fb_height Pl s) (bg_color1 b) s;
     (_, s) \<leftarrow> set_rectangle Pl (box_x b) 0 (fb_width Pl s - box_x b - 1) (box_y b) (bg_color2 b) s;
     (_, s) \<leftarrow> set_rectangle Pl (box_x b) (box_y b + box_h) (fb_width Pl s - box_x b - 1)
       (fb_height Pl s - (box_y b + box_h)) (bg_color3 b) s;
     (_, s) \<leftarrow> set_rectangle Pl (box_x b + box_w) (box_y b) (fb_width Pl s - (box_x b + box_w) - 1)
       box_h (bg_color4 b) s;
     Some s
   }"

definition poll_key :: "'h platform \<Rightarrow> box_state \<Rightarrow> 'h kstate \<Rightarrow> (box_state option \<times> 'h kstate) option" where
  "poll_key Pl b s = do {
     (x, s) \<leftarrow> GET32 Pl UART0_FR s;
     if x AND 0x10 = 0 then do {
       (r, s) \<leftarrow> GET32 Pl UART0_DR s;
       Some (box_key (ucast r) b, s)
     }
     else Some (Some b, s)
   }"

partial_function (option) graphics_loop :: "'h platform \<Rightarrow> box_state \<Rightarrow> 'h kstate \<Rightarrow> 'h kstate option" where
  "graphics_loop Pl b s = do {
     (frame_tw, s) \<leftarrow> register_timer Pl 16667 s;
     s \<leftarrow> print Pl (literal ''Frame %d, box: (%d, %d)'' @ [0x0D])
       [frame_counter b, ucast (box_x b), ucast (box_y b)] s;
     let b = b\<lparr>frame_counter := frame_counter b + 1\<rparr>;
     s \<leftarrow> box_background Pl b s;
     let b = next_colors b;
     (b, s) \<leftarrow> poll_key Pl b s;
     (case b of
        None \<Rightarrow> Some s
      | Some b \<Rightarrow> do {
          (_, s) \<leftarrow> set_rectangle Pl (box_x b) (box_y b) box_w box_h 0x00ffff00 s;
          let b = box_move (fb_width Pl s) (fb_height Pl s) b;
          s \<leftarrow> wait_timer Pl frame_tw s;
          graphics_loop Pl b s
        })
   }"

declare graphics_loop.simps [code]

definition shell_cmd_graphics :: "'h platform \<Rightarrow> 'h kstate \<Rightarrow> (int \<times> 'h kstate) option" where
  "shell_cmd_graphics Pl s = do {
     (_, s) \<leftarrow> fb_dims Pl FB_ATTR_GET 0 (local_addr Pl ''shell_cmd_graphics.fb'') s;
     s \<leftarrow> graphics_loop Pl box_start (with_console (\<lambda>d. d\<lparr>cons_enabled := 0\<rparr>) s);
     s \<leftarrow> print Pl [0x0A] [] s;
     Some (-1, (with_console (\<lambda>d. d\<lparr>cons_enabled := 1\<rparr>) s)\<lparr>errno := ENOSYS\<rparr>)
   }"

section \<open>Finding and running a command\<close>

definition run_command ::
    "('d, 'h) reader \<Rightarrow> ('d \<Rightarrow> u64) \<Rightarrow> ('d \<Rightarrow> addr \<Rightarrow> 'h kstate \<Rightarrow> 'd) \<Rightarrow> 'h platform \<Rightarrow> shell_fun \<Rightarrow> addr list \<Rightarrow>
     'd process_env \<Rightarrow> 'h kstate \<Rightarrow> (int \<times> 'd process_env \<times> 'h kstate) option" where
  "run_command rd bsize view Pl f argv env s =
     (let plain = (\<lambda>m. do { (r, s) \<leftarrow> m; Some (r, env, s) })
      in case f of
           SHELL_CMD_TREE \<Rightarrow> do { (d, s) \<leftarrow> test_printtree rd bsize Pl (root_dev env) s; Some (0, env\<lparr>root_dev := d\<rparr>, s) }
         | SHELL_CMD_SHUTDOWN \<Rightarrow> plain (shell_cmd_shutdown Pl s)
         | SHELL_CMD_LS \<Rightarrow> shell_cmd_ls rd bsize Pl argv env s
         | SHELL_CMD_PWD \<Rightarrow> plain (shell_cmd_pwd Pl env s)
         | SHELL_CMD_CD \<Rightarrow> shell_cmd_cd Pl argv env s
         | SHELL_CMD_CAT \<Rightarrow> shell_cmd_cat rd bsize view Pl argv env s
         | SHELL_CMD_ASCIIART \<Rightarrow> plain (shell_cmd_asciiart Pl s)
         | SHELL_CMD_REVERSE_ARGV \<Rightarrow> plain (shell_cmd_reverse_argv Pl argv s)
         | SHELL_CMD_GRAPHICS \<Rightarrow> plain (shell_cmd_graphics Pl s))"

text \<open>
  The vector of arguments: \<open>argcap\<close> doubles when it is full. A store through a null vector has
  no defined result.
\<close>

partial_function (option) split_args ::
    "'h realloc_fun \<Rightarrow> 'h platform \<Rightarrow> addr \<Rightarrow> addr option \<Rightarrow> addr \<Rightarrow> i32 \<Rightarrow> addr list \<Rightarrow> 'h kstate \<Rightarrow>
     (addr \<times> addr option \<times> addr list \<times> 'h kstate) option" where
  "split_args rl Pl arg next_arg vec argcap args s =
     (if arg \<noteq> 0 then
        (if vec = 0 then None
         else do {
           let args = args @ [arg];
           (arg, next_arg, m) \<leftarrow> strtok_r 0 (lit Pl '' '') next_arg (kmem s);
           let s = s\<lparr>kmem := m\<rparr>;
           (if of_nat (length args) = argcap then
              (let (vec, s) = rl vec (8 * scast (argcap * 2)) s
               in split_args rl Pl arg next_arg vec (argcap * 2) args s)
            else split_args rl Pl arg next_arg vec argcap args s)
         })
      else Some (vec, next_arg, args, s))"

declare split_args.simps [code]

fun find_command :: "mem \<Rightarrow> addr \<Rightarrow> shell_command list \<Rightarrow> shell_command option option" where
  "find_command m argv0 [] = Some None"
| "find_command m argv0 (c # cs) = do {
     r \<leftarrow> strcmp m argv0 (cmd_str c);
     if r = 0 then Some (Some c) else find_command m argv0 cs
   }"

definition shell_execute_command ::
    "'h realloc_fun \<Rightarrow> ('d, 'h) reader \<Rightarrow> ('d \<Rightarrow> u64) \<Rightarrow> ('d \<Rightarrow> addr \<Rightarrow> 'h kstate \<Rightarrow> 'd) \<Rightarrow> 'h platform \<Rightarrow>
     'd process_env \<Rightarrow> shell_state \<Rightarrow> 'h kstate \<Rightarrow> (int \<times> 'd process_env \<times> shell_state \<times> 'h kstate) option" where
  "shell_execute_command rl rd bsize view Pl env st s = do {
     n \<leftarrow> strlen (kmem s) (line_buf Pl);
     if n = 0 then Some (0, env, st, s)
     else do {
       (cmdline, s) \<leftarrow> malloc Pl (of_nat SHELL_LINE_CAPACITY) s;
       (_, m) \<leftarrow> strcpy cmdline (line_buf Pl) (kmem s);
       (vec, s) \<leftarrow> malloc Pl 8 (s\<lparr>kmem := m\<rparr>);
       (arg, next_arg, m) \<leftarrow> strtok_r (line_buf Pl) (lit Pl '' '') (Some (line_buf Pl)) (kmem s);
       (vec, next_arg, args, s) \<leftarrow> split_args rl Pl arg next_arg vec 1 [] (s\<lparr>kmem := m\<rparr>);
       if vec = 0 then None
       else do {
         let argv = args @ [case next_arg of None \<Rightarrow> 0 | Some p \<Rightarrow> p];
         (argv0, last_call, m) \<leftarrow> strtok (line_buf Pl) (lit Pl '' '') (strtok_last st) (kmem s);
         let s = s\<lparr>kmem := m\<rparr>;
         let st = st\<lparr>strtok_last := last_call\<rparr>;
         let argv0 = (if argv0 = 0 then line_buf Pl else argv0);
         c \<leftarrow> find_command (kmem s) argv0 (shell_all_cmds st);
         (case c of
            None \<Rightarrow> do {
              s \<leftarrow> print Pl (literal ''Error: '' @ [0x27] @ literal ''%s'' @ [0x27] @ literal '' is not a known command'' @ [0x0A])
                [argv0] s;
              s \<leftarrow> free Pl cmdline s;
              Some (0, env, st, s)
            }
          | Some c \<Rightarrow> do {
              (ret, env, s) \<leftarrow> run_command rd bsize view Pl (cmd_fun c) argv env s;
              s \<leftarrow> free Pl cmdline s;
              Some (ret, env, st, s)
            })
       }
     }
   }"

text \<open>The cell of the list is stored through without a test.\<close>

definition add_command ::
    "'h platform \<Rightarrow> addr \<Rightarrow> shell_fun \<Rightarrow> shell_state \<Rightarrow> 'h kstate \<Rightarrow> (int \<times> shell_state \<times> 'h kstate) option" where
  "add_command Pl str f st s = do {
     (cmd, s) \<leftarrow> malloc Pl 16 s;
     if cmd = 0 then Some (-1, st, s\<lparr>errno := ENOMEM\<rparr>)
     else do {
       (this, s) \<leftarrow> malloc Pl 16 s;
       if this = 0 then None
       else Some (0, st\<lparr>shell_all_cmds := shell_all_cmds st
         @ [\<lparr>cmd_fun = f, cmd_str = str, cmd_at = cmd, cell_at = this\<rparr>]\<rparr>, s)
     }
   }"

fun add_commands :: "'h platform \<Rightarrow> (string \<times> shell_fun) list \<Rightarrow> shell_state \<Rightarrow> 'h kstate \<Rightarrow> (shell_state \<times> 'h kstate) option" where
  "add_commands Pl [] st s = Some (st, s)"
| "add_commands Pl ((x, f) # cs) st s = do {
     (_, st, s) \<leftarrow> add_command Pl (lit Pl x) f st s;
     add_commands Pl cs st s
   }"

definition shell_commands :: "(string \<times> shell_fun) list" where
  "shell_commands =
     [(''shutdown'', SHELL_CMD_SHUTDOWN), (''exit'', SHELL_CMD_SHUTDOWN), (''tree'', SHELL_CMD_TREE),
      (''cd'', SHELL_CMD_CD), (''ls'', SHELL_CMD_LS), (''pwd'', SHELL_CMD_PWD), (''cat'', SHELL_CMD_CAT),
      (''clock'', SHELL_CMD_ASCIIART), (''rev'', SHELL_CMD_REVERSE_ARGV), (''graphics'', SHELL_CMD_GRAPHICS)]"

definition shell_init :: "'h platform \<Rightarrow> shell_state \<Rightarrow> 'h kstate \<Rightarrow> (int \<times> shell_state \<times> 'h kstate) option" where
  "shell_init Pl st s = do {
     (st, s) \<leftarrow> add_commands Pl shell_commands st s;
     Some (0, st, s)
   }"

fun free_commands :: "'h platform \<Rightarrow> shell_command list \<Rightarrow> 'h kstate \<Rightarrow> 'h kstate option" where
  "free_commands Pl [] s = Some s"
| "free_commands Pl (c # cs) s = do {
     s \<leftarrow> free Pl (cmd_at c) s;
     s \<leftarrow> free Pl (cell_at c) s;
     free_commands Pl cs s
   }"

definition shell_destroy :: "'h platform \<Rightarrow> shell_state \<Rightarrow> 'h kstate \<Rightarrow> (shell_state \<times> 'h kstate) option" where
  "shell_destroy Pl st s = do {
     s \<leftarrow> free_commands Pl (shell_all_cmds st) s;
     Some (st\<lparr>shell_all_cmds := []\<rparr>, s)
   }"

text \<open>One round of the endless loop of \<open>kernel_main\<close>; a line that could not be read is executed as well.\<close>

definition shell_round ::
    "'h realloc_fun \<Rightarrow> ('d, 'h) reader \<Rightarrow> ('d \<Rightarrow> u64) \<Rightarrow> ('d \<Rightarrow> addr \<Rightarrow> 'h kstate \<Rightarrow> 'd) \<Rightarrow> 'h platform \<Rightarrow>
     'd process_env \<Rightarrow> shell_state \<Rightarrow> 'h kstate \<Rightarrow> ('d process_env \<times> shell_state \<times> 'h kstate) option" where
  "shell_round rl rd bsize view Pl env st s = do {
     (_, s) \<leftarrow> shell_getline Pl env (lit Pl ''# '') s;
     (_, env, st, s) \<leftarrow> shell_execute_command rl rd bsize view Pl env st s;
     Some (env, st, s)
   }"

end
