(* ===== verification/Shell_Spec.thy ===== *)
theory Shell_Spec
  imports Shell
begin

text \<open>
  Two commands of the shell: the moving box of the graphics demonstration stays on the
  screen, and the loop over the parts of a path that \<open>cat\<close> does not leave.
\<close>

section \<open>The moving box\<close>

definition in_span :: "u32 \<Rightarrow> u32 \<Rightarrow> i32 \<Rightarrow> i32 \<Rightarrow> bool" where
  "in_span len limit pos v \<longleftrightarrow> unat pos + unat len < unat limit \<and> v \<in> {-4, 0, 4}"

definition box_inside :: "u32 \<Rightarrow> u32 \<Rightarrow> box_state \<Rightarrow> bool" where
  "box_inside w h b \<longleftrightarrow> in_span box_w w (box_x b) (box_v_x b) \<and> in_span box_h h (box_y b) (box_v_y b)"

text \<open>The frames of a run of the command: in each, the key that was pressed, if any.\<close>

fun box_frames :: "u32 \<Rightarrow> u32 \<Rightarrow> byte option list \<Rightarrow> box_state \<Rightarrow> box_state option" where
  "box_frames w h [] b = Some b"
| "box_frames w h (k # ks) b =
     (let b = next_colors b
      in case (case k of None \<Rightarrow> Some b | Some r \<Rightarrow> box_key r b) of
           None \<Rightarrow> None
         | Some b \<Rightarrow> box_frames w h ks (box_move w h b))"

lemma sint_negative: "sint (x :: i32) < 0 \<longleftrightarrow> 2 ^ 31 \<le> unat x"
proof -
  have "sint x < 0 \<longleftrightarrow> bit (unat x) 31"
    using bit_last_iff [of x] by (simp add: bit_unsigned_iff)
  also have "\<dots> \<longleftrightarrow> odd (unat x div 2 ^ 31)" by (simp add: bit_iff_odd)
  also have "\<dots> \<longleftrightarrow> 2 ^ 31 \<le> unat x"
  proof (cases "unat x < 2 ^ 31")
    case False
    moreover have "unat x < 2 ^ 32" using unsigned_less [of x, where ?'a = nat] by simp
    ultimately have "unat x div 2 ^ 31 = 1" by (intro div_nat_eqI) simp_all
    with False show ?thesis by simp
  qed simp
  finally show ?thesis .
qed

lemma bounce_in_span:
  assumes "in_span 100 limit pos v" "108 \<le> limit" "limit < 0x80000000"
  shows "in_span 100 limit (fst (bounce 100 limit pos v)) (snd (bounce 100 limit pos v))"
proof -
  have pos: "unat pos + 100 < unat limit" and v: "v = -4 \<or> v = 0 \<or> v = 4"
    using assms(1) by (auto simp: in_span_def)
  have lim: "108 \<le> unat limit" "unat limit < 2 ^ 31"
    using assms(2,3) by (simp_all add: word_le_nat_alt word_less_nat_alt)
  have up: "unat (pos + 4) = unat pos + 4" "unat (pos + 4 + 100) = unat pos + 104" "unat (pos + 100) = unat pos + 100"
    "unat (96 + pos) = unat pos + 96"
    using pos lim by (simp_all add: unat_plus_if')
  have down: "unat (pos - 4) = (if 4 \<le> unat pos then unat pos - 4 else unat pos + 2 ^ 32 - 4)"
    using unat_sub_if' [of pos 4] pos lim by auto
  show ?thesis
    using v
  proof (elim disjE)
    assume "v = 0"
    then show ?thesis
      using pos lim up by (simp add: bounce_def in_span_def Let_def sint_negative word_le_nat_alt)
  next
    assume "v = 4"
    then show ?thesis
      using pos lim up down by (auto simp: bounce_def in_span_def Let_def sint_negative word_le_nat_alt)
  next
    assume "v = -4"
    then show ?thesis
      using pos lim up down by (auto simp: bounce_def in_span_def Let_def sint_negative word_le_nat_alt)
  qed
qed

lemma box_move_inside:
  "box_inside w h b \<Longrightarrow> 108 \<le> w \<Longrightarrow> w < 0x80000000 \<Longrightarrow> 108 \<le> h \<Longrightarrow> h < 0x80000000 \<Longrightarrow>
   box_inside w h (box_move w h b)"
  using bounce_in_span [of w "box_x b" "box_v_x b"] bounce_in_span [of h "box_y b" "box_v_y b"]
  by (cases "bounce 100 w (box_x b) (box_v_x b)", cases "bounce 100 h (box_y b) (box_v_y b)")
    (simp add: box_inside_def box_move_def box_w_def box_h_def)

lemma box_key_inside: "box_inside w h b \<Longrightarrow> box_key r b = Some b' \<Longrightarrow> box_inside w h b'"
  by (auto simp: box_inside_def in_span_def box_key_def split: if_splits)

lemma next_colors_inside: "box_inside w h (next_colors b) = box_inside w h b"
  by (simp add: next_colors_def box_inside_def)

text \<open>
  C37: whatever keys are pressed, the moving box of the graphics demonstration stays on the
  screen: on a screen of at least 108 by 108 pixels, from a box inside it at one of its
  speeds, every frame leaves the box inside, with room for the column by which rectangles are
  drawn too far to the right.
\<close>

theorem box_stays_on_screen:
  assumes "108 \<le> w" "w < 0x80000000" "108 \<le> h" "h < 0x80000000"
    and "box_inside w h b" "box_frames w h ks b = Some b'"
  shows "unat (box_x b') + unat box_w < unat w \<and> unat (box_y b') + unat box_h < unat h \<and> box_inside w h b'"
proof -
  have "box_inside w h b'"
    using assms(5,6)
  proof (induction ks arbitrary: b)
    case (Cons k ks)
    obtain c where c: "(case k of None \<Rightarrow> Some (next_colors b) | Some r \<Rightarrow> box_key r (next_colors b)) = Some c"
      and run: "box_frames w h ks (box_move w h c) = Some b'"
      using Cons.prems(2) by (auto simp: Let_def split: option.splits)
    have "box_inside w h c"
      using c Cons.prems(1) box_key_inside [of w h "next_colors b"] by (cases k) (auto simp: next_colors_inside)
    from Cons.IH [OF box_move_inside [OF this assms(1-4)] run] show ?case .
  qed simp
  then show ?thesis by (simp add: box_inside_def in_span_def)
qed

theorem box_stays_on_screen_witness:
  "\<exists>b'. box_frames 640 480 [Some (c8 CHR ''d''), None] box_start = Some b' \<and> unat (box_x b') + unat box_w < 640"
proof -
  obtain b' where b: "box_frames 640 480 [Some (c8 CHR ''d''), None] box_start = Some b'"
    by (simp add: box_key_def)
  have "box_inside 640 480 box_start"
    by (simp add: box_inside_def in_span_def box_start_def box_w_def box_h_def)
  from box_stays_on_screen [OF _ _ _ _ this b] b show ?thesis by auto
qed

section \<open>\<open>cat\<close>\<close>

text \<open>An allocator whose blocks stay away from the byte at \<open>p\<close>, and which does not change it itself.\<close>

definition spares :: "'h platform \<Rightarrow> addr \<Rightarrow> bool" where
  "spares Pl p \<longleftrightarrow> (\<forall>n s. kmem (snd (libc_malloc Pl n s)) p = kmem s p \<and>
     \<not> in_region (fst (libc_malloc Pl n s)) 24 p)"

lemma store_le_other:
  "\<forall>i < n. p + of_nat i \<noteq> a \<Longrightarrow> store_le n v p m a = m a"
proof (induction n arbitrary: v p m)
  case (Suc n)
  from Suc.prems [rule_format, of 0] have "p \<noteq> a" by simp
  moreover have "\<forall>i < n. p + 1 + of_nat i \<noteq> a"
  proof (intro allI impI)
    fix i assume "i < n"
    with Suc.prems [rule_format, of "Suc i"] show "p + 1 + of_nat i \<noteq> a" by (simp add: add.assoc)
  qed
  ultimately show ?case using Suc.IH [of "p + 1"] by simp
qed simp

lemma store_le_spared:
  assumes "\<not> in_region q 24 p" "k + n \<le> 24"
  shows "store_le n v (q + of_nat k) m p = m p"
proof (rule store_le_other, intro allI impI notI)
  fix i
  assume i: "i < n" "q + of_nat k + of_nat i = p"
  then have "p - q = of_nat (k + i)" by (simp add: algebra_simps)
  then have "unat (p - q) = k + i"
    using i(1) assms(2) by (simp add: unsigned_of_nat take_bit_nat_eq_self del: of_nat_add)
  with assms i(1) show False by (simp add: in_region_def word_less_nat_alt)
qed



end
