(* ===== verification/Shell_Line.thy ===== *)
theory Shell_Line
  imports Shell Fat_Spec
begin

text \<open>
  What the shell makes of a line: how it is read, how it is split at its spaces and run, and
  the working directory that \<open>cd\<close> makes of its argument. The line, the delimiter and the names
  of the commands lie in memory that the allocator leaves alone.
\<close>

section \<open>The words of a line\<close>

fun join_words :: "byte list list \<Rightarrow> byte list" where
  "join_words [] = []"
| "join_words [w] = w"
| "join_words (w # ws) = w @ 0x20 # join_words ws"

fun word_addrs :: "addr \<Rightarrow> byte list list \<Rightarrow> addr list" where
  "word_addrs p [] = []"
| "word_addrs p (w # ws) = p # word_addrs (p + of_nat (length w) + 1) ws"

definition a_line :: "byte list list \<Rightarrow> bool" where
  "a_line ws \<longleftrightarrow> ws \<noteq> [] \<and> last ws \<noteq> [] \<and> (\<forall>w \<in> set ws. 0x20 \<notin> set w) \<and> length (join_words ws) < 64"

text \<open>
  \<open>L\<close> is memory that the allocator leaves alone: it does not change it and does not hand it
  out. The line, the delimiter and the names of the commands are in it.
\<close>

definition malloc_leaves :: "addr set \<Rightarrow> 'h platform \<Rightarrow> bool" where
  "malloc_leaves L Pl \<longleftrightarrow>
     (\<forall>n s. n \<le> 1024 \<longrightarrow> fst (libc_malloc Pl n s) \<noteq> 0 \<and> (\<forall>a \<in> L. kmem (snd (libc_malloc Pl n s)) a = kmem s a) \<and>
        (\<forall>i < unat n. fst (libc_malloc Pl n s) + of_nat i \<notin> L))"

definition leaves :: "addr set \<Rightarrow> 'h realloc_fun \<Rightarrow> 'h platform \<Rightarrow> bool" where
  "leaves L rl Pl \<longleftrightarrow> malloc_leaves L Pl \<and>
     (\<forall>p n s. n \<le> 1024 \<longrightarrow> fst (rl p n s) \<noteq> 0 \<and> (\<forall>a \<in> L. kmem (snd (rl p n s)) a = kmem s a))"

definition inside :: "addr set \<Rightarrow> addr \<Rightarrow> nat \<Rightarrow> bool" where
  "inside L p n \<longleftrightarrow> (\<forall>i \<le> n. p + of_nat i \<in> L)"

text \<open>The delimiter of the shell is in \<open>L\<close> and not in the string of length \<open>n\<close> at \<open>p\<close>.\<close>

definition delimiter :: "addr set \<Rightarrow> addr \<Rightarrow> addr \<Rightarrow> nat \<Rightarrow> bool" where
  "delimiter L D p n \<longleftrightarrow> inside L D 1 \<and> (\<forall>i \<le> n. p + of_nat i \<noteq> D \<and> p + of_nat i \<noteq> D + 1 \<and> p + of_nat i \<noteq> 0)"

lemma join_words_more: "ws \<noteq> [] \<Longrightarrow> join_words (w # ws) = w @ 0x20 # join_words ws"
  by (cases ws) auto

lemma join_words_nonempty: "ws \<noteq> [] \<Longrightarrow> last ws \<noteq> [] \<Longrightarrow> join_words ws \<noteq> []"
  by (induction ws rule: join_words.induct) auto

lemma a_line_tl: "a_line (w # ws) \<Longrightarrow> ws \<noteq> [] \<Longrightarrow> a_line ws"
  by (auto simp: a_line_def join_words_more)

lemma word_addrs_nonempty: "ws \<noteq> [] \<Longrightarrow> word_addrs p ws \<noteq> []"
  by (cases ws) auto

lemma inside_mono: "inside L p n \<Longrightarrow> m \<le> n \<Longrightarrow> inside L p m"
  by (simp add: inside_def)

lemma inside_drop:
  assumes "inside L p n" "k + m \<le> n"
  shows "inside L (p + of_nat k) m"
  unfolding inside_def
proof (intro allI impI)
  fix i
  assume "i \<le> m"
  with assms have "p + of_nat (k + i) \<in> L" unfolding inside_def by (simp del: of_nat_add)
  then show "p + of_nat k + of_nat i \<in> L" by (simp add: add.assoc)
qed

lemma cstr_inside:
  "inside L p (length xs) \<Longrightarrow> \<forall>a \<in> L. m' a = m a \<Longrightarrow> cstr m' p xs = cstr m p xs"
  by (rule cstr_cong) (simp add: inside_def)

lemma tok_find_none:
  "cstr m p xs \<Longrightarrow> c \<notin> set xs \<Longrightarrow> cstr m delim [c] \<Longrightarrow> tok_find m p delim = Some None"
  using tok_find_skip [of xs c m p delim "Some None"] cstr_nth [of m p xs] cstr_nonzero [of m p xs]
  by (auto simp: tok_find.simps [of m "p + of_nat (length xs)"])

lemma strtok_r_whole:
  assumes "cstr m p xs" "c \<notin> set xs" "cstr m delim [c]" "p \<noteq> 0"
  shows "strtok_r 0 delim (Some p) m = Some (0, Some p, m)" "strtok_r p delim (Some p) m = Some (0, Some p, m)"
  using tok_find_none [OF assms(1-3)] assms(4) by (simp_all add: strtok_r_def)

lemma strtok_r_saved: "p \<noteq> 0 \<Longrightarrow> strtok_r 0 delim (Some p) m = strtok_r p delim (Some p) m"
  by (simp add: strtok_r_def)

lemma strcmp_equal:
  "cstr m p xs \<Longrightarrow> cstr m q ys \<Longrightarrow> \<exists>r. strcmp m p q = Some r \<and> (r = 0 \<longleftrightarrow> xs = ys)"
proof (induction xs arbitrary: p q ys)
  case Nil
  then show ?case by (cases ys) (auto simp: strcmp.simps [of m p q] word_gt_0)
next
  case (Cons x xs)
  show ?case
  proof (cases ys)
    case Nil
    with Cons.prems show ?thesis by (auto simp: strcmp.simps [of m p q] word_gt_0)
  next
    case (Cons y ys')
    with Cons.prems Cons.IH [of "p + 1" "q + 1" ys'] show ?thesis
      by (auto simp: strcmp.simps [of m p q])
  qed
qed

lemma same_offset: "p + of_nat i = p + (of_nat j :: u64) \<Longrightarrow> i < 2 ^ 64 \<Longrightarrow> j < 2 ^ 64 \<Longrightarrow> i = j"
  by (simp add: word_of_nat_eq_iff take_bit_nat_eq_self)

text \<open>The bytes of the string of length \<open>n\<close> at \<open>p\<close>, its terminator included.\<close>

definition span :: "addr \<Rightarrow> nat \<Rightarrow> addr set" where
  "span p n = {a. \<exists>i \<le> n. a = p + of_nat i}"

text \<open>
  The loop over the words: the last call of \<open>strtok_r\<close> returned \<open>arg\<close> and left \<open>next_arg\<close>, the
  words from \<open>p\<close> on are still to be stored.
\<close>

definition token :: "mem \<Rightarrow> addr \<Rightarrow> byte list list \<Rightarrow> addr \<Rightarrow> addr option \<Rightarrow> bool" where
  "token m p ws arg next_arg \<longleftrightarrow>
     (case ws of
        [] \<Rightarrow> False
      | w # ws \<Rightarrow> cstr m p w \<and>
          (if ws = [] then arg = 0 \<and> next_arg = Some p
           else arg = p \<and> next_arg = Some (p + of_nat (length w) + 1) \<and>
             cstr m (p + of_nat (length w) + 1) (join_words ws)))"

lemma span_inside: "inside L p n \<longleftrightarrow> span p n \<subseteq> L"
  by (auto simp: inside_def span_def)

lemma span_member: "i \<le> n \<Longrightarrow> p + of_nat i \<in> span p n"
  by (auto simp: span_def)

lemma span_drop:
  assumes "k + m \<le> n"
  shows "span (p + of_nat k) m \<subseteq> span p n"
proof
  fix a
  assume "a \<in> span (p + of_nat k) m"
  then obtain i where "i \<le> m" "a = p + of_nat (k + i)" by (auto simp: span_def add.assoc)
  moreover from this(1) assms have "k + i \<le> n" by simp
  ultimately show "a \<in> span p n" unfolding span_def by blast
qed

lemma delimiter_drop:
  assumes "delimiter L D p n" "k + m \<le> n"
  shows "delimiter L D (p + of_nat k) m"
proof -
  have "\<forall>a \<in> span p n. a \<noteq> D \<and> a \<noteq> D + 1 \<and> a \<noteq> 0"
    using assms(1) by (auto simp: delimiter_def span_def)
  with span_drop [OF assms(2), of p] have "\<forall>a \<in> span (p + of_nat k) m. a \<noteq> D \<and> a \<noteq> D + 1 \<and> a \<noteq> 0"
    by blast
  then show ?thesis using assms(1) by (auto simp: delimiter_def span_def)
qed

lemma delimiter_apart:
  "delimiter L D p n \<Longrightarrow> i \<le> n \<Longrightarrow> D \<noteq> p + of_nat i \<and> D + 1 \<noteq> p + of_nat i \<and> p + of_nat i \<noteq> 0"
  unfolding delimiter_def by metis

lemma cstr_outside: "\<forall>a \<in> span p (length xs). m' a = m a \<Longrightarrow> cstr m' p xs = cstr m p xs"
  by (rule cstr_cong) (auto simp: span_def)

lemma token_outside:
  assumes "\<forall>a \<in> span p (length (join_words ws)). m' a = m a"
  shows "token m' p ws arg next_arg = token m p ws arg next_arg"
proof (cases ws)
  case (Cons w us)
  have "cstr m' p w = cstr m p w"
    using assms span_drop [of 0 "length w" "length (join_words ws)" p] Cons
    by (cases us) (auto intro!: cstr_outside)
  moreover have "us \<noteq> [] \<Longrightarrow>
      cstr m' (p + of_nat (length w) + 1) (join_words us) = cstr m (p + of_nat (length w) + 1) (join_words us)"
    using assms span_drop [of "Suc (length w)" "length (join_words us)" "length (join_words ws)" p] Cons
    by (auto simp: join_words_more algebra_simps intro!: cstr_outside)
  ultimately show ?thesis using Cons by (auto simp: token_def)
qed (simp add: token_def)

lemma next_token:
  assumes "cstr m p (join_words ws)" "a_line ws" "cstr m D [0x20]"
    and "delimiter L D p (length (join_words ws))"
  obtains arg next_arg m' where "strtok_r p D (Some p) m = Some (arg, next_arg, m')"
    "token m' p ws arg next_arg" "\<forall>a. a \<notin> span p (length (join_words ws)) \<longrightarrow> m' a = m a"
proof (cases ws)
  case Nil
  with assms(2) show ?thesis by (simp add: a_line_def)
next
  case (Cons w us)
  have p: "p \<noteq> 0" using assms(4) by (auto simp: delimiter_def)
  show ?thesis
  proof (cases "us = []")
    case True
    with assms Cons p strtok_r_whole [of m p w "0x20" D] show ?thesis
      by (intro that [of 0 "Some p" m]) (auto simp: a_line_def token_def)
  next
    case False
    then have join: "join_words ws = w @ 0x20 # join_words us" by (simp add: Cons join_words_more)
    have len: "length w < 2 ^ 64" and space: "0x20 \<notin> set w" and rest: "join_words us \<noteq> []"
      using assms(2) False join join_words_nonempty [of us] by (auto simp: a_line_def Cons)
    have apart: "D \<noteq> p + of_nat (length w)" "D + 1 \<noteq> p + of_nat (length w)"
      using delimiter_apart [OF assms(4), of "length w"] by (simp_all add: join)
    have str: "cstr m p (w @ 0x20 # join_words us)" using assms(1) join by simp
    obtain m' where m': "strtok_r p D (Some p) m = Some (p, Some (p + of_nat (length w) + 1), m')"
      "cstr m' p w" "\<forall>a. a \<noteq> p + of_nat (length w) \<longrightarrow> m' a = m a"
      using strtok_r_splits [where saved = p, OF str space rest p assms(3) apart len] by blast
    have "cstr m' (p + of_nat (length w) + 1) (join_words us) = cstr m (p + of_nat (length w) + 1) (join_words us)"
    proof (rule cstr_outside, intro ballI)
      fix a
      assume "a \<in> span (p + of_nat (length w) + 1) (length (join_words us))"
      then obtain i where i: "i \<le> length (join_words us)" "a = p + of_nat (Suc (length w) + i)"
        by (auto simp: span_def algebra_simps)
      have "length w + Suc (length (join_words us)) < 64" using assms(2) join by (simp add: a_line_def)
      with i(1) have "p + of_nat (Suc (length w) + i) \<noteq> p + of_nat (length w)"
        using same_offset [of p "Suc (length w) + i" "length w"] by fastforce
      with i(2) m'(3) show "m' a = m a" by metis
    qed
    moreover have "cstr m (p + of_nat (length w) + 1) (join_words us)"
      using assms(1) by (simp add: join cstr_append add.assoc)
    moreover have "p + of_nat (length w) \<in> span p (length (join_words ws))"
      by (rule span_member) (simp add: join)
    then have "\<forall>a. a \<notin> span p (length (join_words ws)) \<longrightarrow> m' a = m a"
      using m'(3) by metis
    ultimately show ?thesis
      using m' False by (intro that [OF m'(1)]) (auto simp: token_def Cons)
  qed
qed

text \<open>The words lie one after the other, each terminated.\<close>

definition words_at :: "mem \<Rightarrow> addr \<Rightarrow> byte list list \<Rightarrow> bool" where
  "words_at m p ws \<longleftrightarrow> list_all2 (cstr m) (word_addrs p ws) ws"

lemma words_at_simps:
  "words_at m p [w] = cstr m p w"
  "us \<noteq> [] \<Longrightarrow> words_at m p (w # us) \<longleftrightarrow> cstr m p w \<and> words_at m (p + of_nat (length w) + 1) us"
  by (simp_all add: words_at_def)

lemma span_apart:
  assumes "a \<in> span p k" "k < l" "l + n < 2 ^ 64"
  shows "a \<notin> span (p + of_nat l) n"
proof
  assume "a \<in> span (p + of_nat l) n"
  then obtain j where j: "j \<le> n" "a = p + of_nat (l + j)" by (auto simp: span_def add.assoc)
  obtain i where i: "i \<le> k" "a = p + of_nat i" using assms(1) by (auto simp: span_def)
  have "l + j = i" by (rule same_offset [of p]) (use i j assms in \<open>simp_all del: of_nat_add\<close>)
  with i j assms show False by simp
qed

lemma vector_size:
  assumes "n < 64"
  shows "8 * scast (of_nat n * 2 :: i32) \<le> (1024 :: u64)"
proof -
  have "list_all (\<lambda>n. 8 * scast (of_nat n * 2 :: i32) \<le> (1024 :: u64)) [0..<64]"
    by (simp add: upt_rec)
  with assms show ?thesis by (simp add: list_all_iff)
qed

lemma split_args_words:
  assumes "token (kmem s) p ws arg next_arg" "a_line ws" "cstr (kmem s) D [0x20]" "D = lit Pl '' ''"
    and "delimiter L D p (length (join_words ws))" "span p (length (join_words ws)) \<subseteq> L"
    and "leaves L rl Pl" "vec \<noteq> 0" "length args + length ws \<le> 64"
  shows "\<exists>vec' s'. split_args rl Pl arg next_arg vec cap args s =
       Some (vec', Some (last (word_addrs p ws)), args @ butlast (word_addrs p ws), s') \<and> vec' \<noteq> 0 \<and>
     words_at (kmem s') p ws \<and> (\<forall>a \<in> L - span p (length (join_words ws)). kmem s' a = kmem s a)"
  using assms
proof (induction ws arbitrary: p arg next_arg vec cap args s)
  case (Cons w us)
  show ?case
  proof (cases "us = []")
    case True
    with Cons.prems(1,8) show ?thesis
      by (auto simp: token_def words_at_simps split_args.simps [of rl Pl 0])
  next
    case False
    let ?q = "p + of_nat (length w) + 1" and ?n = "length (join_words us)"
    have q: "?q = p + of_nat (Suc (length w))" by (simp add: algebra_simps)
    have n: "length (join_words (w # us)) = Suc (length w) + ?n" using False by (simp add: join_words_more)
    have sub: "span ?q ?n \<subseteq> span p (length (join_words (w # us)))"
      unfolding q by (rule span_drop) (simp add: n)
    have "delimiter L D ?q ?n"
      unfolding q by (rule delimiter_drop [OF Cons.prems(5)]) (simp add: n)
    with sub Cons.prems(2,6) False have part: "delimiter L D ?q ?n" "span ?q ?n \<subseteq> L" "a_line us"
      by (auto intro: a_line_tl)
    have tok: "arg = p" "next_arg = Some ?q" "cstr (kmem s) p w" "cstr (kmem s) ?q (join_words us)"
      using Cons.prems(1) False by (simp_all add: token_def)
    have nz: "p \<noteq> 0" "?q \<noteq> 0"
      using delimiter_apart [OF Cons.prems(5), of 0] delimiter_apart [OF part(1), of 0] by simp_all
    obtain arg' next' m' where step: "strtok_r ?q D (Some ?q) (kmem s) = Some (arg', next', m')"
      "token m' ?q us arg' next'" "\<forall>a. a \<notin> span ?q ?n \<longrightarrow> m' a = kmem s a"
      by (rule next_token [OF tok(4) part(3) Cons.prems(3) part(1)])
    let ?s = "s\<lparr>kmem := m'\<rparr>" and ?args = "args @ [p]"
    let ?full = "of_nat (length ?args) = cap"
    define r where "r = (if ?full then rl vec (8 * scast (cap * 2)) ?s else (vec, ?s))"
    let ?cap = "if ?full then cap * 2 else cap"
    have go: "split_args rl Pl arg next_arg vec cap args s = split_args rl Pl arg' next' (fst r) ?cap ?args (snd r)"
      using Cons.prems(4,8) nz step(1) tok(1,2) strtok_r_saved [OF nz(2), of D "kmem s"]
      by (simp add: split_args.simps [of rl Pl p] r_def Let_def split: prod.splits)
    have "?full \<Longrightarrow> 8 * scast (cap * 2) \<le> (1024 :: u64)"
      using vector_size [of "length ?args"] Cons.prems(9) False by (cases us) auto
    then have r: "fst r \<noteq> 0" "\<forall>a \<in> L. kmem (snd r) a = m' a"
      using Cons.prems(7,8) by (auto simp: r_def leaves_def)
    have "token (kmem (snd r)) ?q us arg' next'"
      using step(2) r(2) part(2) by (subst token_outside [where m = m']) auto
    moreover have D: "D \<notin> span ?q ?n" "D + 1 \<notin> span ?q ?n" "D \<in> L" "D + 1 \<in> L"
      using part(1) delimiter_apart [OF part(1)] by (auto simp: span_def delimiter_def inside_def dest: spec [of _ 0] spec [of _ 1])
    then have "cstr (kmem (snd r)) D [0x20]" using Cons.prems(3) r(2) step(3) by simp
    moreover have room: "length ?args + length us \<le> 64" using Cons.prems(9) by simp
    ultimately obtain vec' s' where IH: "split_args rl Pl arg' next' (fst r) ?cap ?args (snd r) =
        Some (vec', Some (last (word_addrs ?q us)), ?args @ butlast (word_addrs ?q us), s')"
      "vec' \<noteq> 0" "words_at (kmem s') ?q us" "\<forall>a \<in> L - span ?q ?n. kmem s' a = kmem (snd r) a"
      using Cons.IH [where p = ?q and s = "snd r" and vec = "fst r" and cap = ?cap and args = ?args] part Cons.prems(4,7) room r(1) by blast
    have frame: "kmem s' a = kmem s a" if "a \<in> L" "a \<notin> span ?q ?n" for a
      using IH(4) r(2) step(3) that by simp
    have "length w < Suc (length w)" "Suc (length w) + ?n < 2 ^ 64"
      using Cons.prems(2) n by (simp_all add: a_line_def)
    then have "span p (length w) \<inter> span ?q ?n = {}"
      unfolding q using span_apart by blast
    moreover have "span p (length w) \<subseteq> L"
      using span_drop [of 0 "length w" "length (join_words (w # us))" p] Cons.prems(6) n by auto
    ultimately have "\<forall>a \<in> span p (length w). kmem s' a = kmem s a" using frame by blast
    then have "cstr (kmem s') p w" using tok(3) cstr_outside by blast
    moreover have "\<forall>a \<in> L - span p (length (join_words (w # us))). kmem s' a = kmem s a"
      using frame sub by blast
    ultimately show ?thesis
      using go IH(1-3) False by (auto simp: words_at_simps word_addrs_nonempty)
  qed
qed (simp add: a_line_def)

text \<open>The first command of the list with the name \<open>w\<close>.\<close>

definition named_command :: "shell_command list \<Rightarrow> byte list list \<Rightarrow> byte list \<Rightarrow> shell_command option" where
  "named_command cs names w = map_option fst (find (\<lambda>(c, n). n = w) (zip cs names))"

lemma find_command_named:
  "list_all2 (\<lambda>c n. cstr m (cmd_str c) n) cs names \<Longrightarrow> cstr m p w \<Longrightarrow>
   find_command m p cs = Some (named_command cs names w)"
proof (induction rule: list_all2_induct)
  case (Cons c cs n names)
  with strcmp_equal [of m p w "cmd_str c" n] show ?case
    by (auto simp: named_command_def)
qed (simp add: named_command_def)

lemma length_words: "length ws \<le> Suc (length (join_words ws))"
  by (induction ws rule: join_words.induct) auto

lemma poke_other: "\<forall>i < length xs. d + of_nat i \<noteq> a \<Longrightarrow> length xs < 2 ^ 64 \<Longrightarrow> poke m d xs a = m a"
  by (auto simp: poke_at dest!: spec [of _ "unat (a - d)"])

lemma leaves_malloc:
  assumes "malloc_leaves L Pl" "n \<le> 1024" "libc_malloc Pl n s = (q, s')"
  shows "q \<noteq> 0" "a \<in> L \<Longrightarrow> kmem s' a = kmem s a" "i < unat n \<Longrightarrow> q + of_nat i \<notin> L"
  using assms unfolding malloc_leaves_def by (metis fst_conv snd_conv)+

lemma copy_line:
  assumes "cstr (kmem s) p xs" "span p (length xs) \<subseteq> L" "malloc_leaves L Pl" "length xs < 64"
  obtains q s' where "malloc Pl 64 s = Some (q, s')" "strcpy q p (kmem s') = Some (q, poke (kmem s') q xs)"
    "\<forall>a \<in> L. poke (kmem s') q xs a = kmem s a"
proof -
  obtain q s' where q: "libc_malloc Pl 64 s = (q, s')" by fastforce
  have kept: "\<forall>a \<in> L. kmem s' a = kmem s a" and far: "i < 64 \<Longrightarrow> q + of_nat i \<notin> L" for i
    using leaves_malloc [OF assms(3) _ q] by simp_all
  have "cstr (kmem s') p xs" using assms(1,2) kept cstr_outside by blast
  moreover have "copy_safe q p 1 (length xs)"
    unfolding copy_safe_def
  proof (intro allI impI)
    fix i j
    assume "i \<le> length xs" "j < i"
    with assms(2,4) far [of j] span_member [of i "length xs" p] show "q + of_nat j \<noteq> p + of_nat (1 * i)" by auto
  qed
  ultimately have "strcpy q p (kmem s') = Some (q, poke (kmem s') q xs)"
    by (rule strcpy_without_terminator)
  moreover have "\<forall>a \<in> L. poke (kmem s') q xs a = kmem s a"
  proof
    fix a
    assume "a \<in> L"
    with far assms(4) kept show "poke (kmem s') q xs a = kmem s a" by (subst poke_other) fastforce+
  qed
  ultimately show ?thesis using that [of q s'] q by (simp add: malloc_def)
qed

lemma execute_line:
  assumes "cstr (kmem s) (line_buf Pl) (join_words ws)" "a_line ws" "cstr (kmem s) (lit Pl '' '') [0x20]"
    and "delimiter L (lit Pl '' '') (line_buf Pl) (length (join_words ws))"
    and "span (line_buf Pl) (length (join_words ws)) \<subseteq> L" "leaves L rl Pl"
    and "list_all2 (\<lambda>c n. cstr (kmem s) (cmd_str c) n \<and>
           span (cmd_str c) (length n) \<subseteq> L - span (line_buf Pl) (length (join_words ws))) (shell_all_cmds st) names"
  shows "\<exists>cmdline s'. words_at (kmem s') (line_buf Pl) ws \<and>
     shell_execute_command rl rd bsize view Pl env st s =
       (case named_command (shell_all_cmds st) names (hd ws) of
          None \<Rightarrow> do {
            s \<leftarrow> print Pl (literal ''Error: '' @ [0x27] @ literal ''%s'' @ [0x27] @ literal '' is not a known command'' @ [0x0A])
              [line_buf Pl] s';
            s \<leftarrow> free Pl cmdline s;
            Some (0, env, st, s)
          }
        | Some c \<Rightarrow> do {
            (ret, env, s) \<leftarrow> run_command rd bsize view Pl (cmd_fun c) (word_addrs (line_buf Pl) ws) env s';
            s \<leftarrow> free Pl cmdline s;
            Some (ret, env, st, s)
          })"
proof -
  let ?B = "line_buf Pl" and ?D = "lit Pl '' ''" and ?line = "join_words ws"
  have len: "length ?line < 64" "?line \<noteq> []" "length ([] :: addr list) + length ws \<le> 64"
    using assms(2) join_words_nonempty [of ws] length_words [of ws] by (auto simp: a_line_def)
  then have n: "strlen (kmem s) ?B = Some (of_nat (length ?line))" "of_nat (length ?line) \<noteq> (0 :: u64)"
    using strlen_length [OF assms(1)] by (auto simp: word_of_nat_eq_0_iff dest: nat_dvd_not_less)
  have alloc: "malloc_leaves L Pl" using assms(6) by (simp add: leaves_def)
  obtain cmdline s1 where copy: "malloc Pl 64 s = Some (cmdline, s1)"
    "strcpy cmdline ?B (kmem s1) = Some (cmdline, poke (kmem s1) cmdline ?line)"
    "\<forall>a \<in> L. poke (kmem s1) cmdline ?line a = kmem s a"
    by (rule copy_line [OF assms(1,5) alloc len(1)])
  let ?s1 = "s1\<lparr>kmem := poke (kmem s1) cmdline ?line\<rparr>"
  obtain vec s2 where vec: "libc_malloc Pl 8 ?s1 = (vec, s2)" by fastforce
  then have v: "vec \<noteq> 0" "\<forall>a \<in> L. kmem s2 a = kmem s a"
    using leaves_malloc [OF alloc _ vec] copy(3) by simp_all
  have D: "{?D, ?D + 1} \<subseteq> L - span ?B (length ?line)"
    using delimiter_apart [OF assms(4)] assms(4)
    by (auto simp: span_def delimiter_def inside_def dest: spec [of _ 0] spec [of _ 1])
  have line2: "cstr (kmem s2) ?B ?line" using assms(1,5) v(2) cstr_outside by blast
  have D2: "cstr (kmem s2) ?D [0x20]" using assms(3) v(2) D by simp
  obtain arg next_arg m where tok: "strtok_r ?B ?D (Some ?B) (kmem s2) = Some (arg, next_arg, m)"
    "token m ?B ws arg next_arg" "\<forall>a. a \<notin> span ?B (length ?line) \<longrightarrow> m a = kmem s2 a"
    by (rule next_token [OF line2 assms(2) D2 assms(4)])
  let ?s2 = "s2\<lparr>kmem := m\<rparr>"
  have "cstr m ?D [0x20]" using D2 tok(3) D by simp
  with split_args_words [of ?s2 ?B ws arg next_arg ?D Pl L rl vec "[]" 1] tok(2) assms(2,4,5,6) v(1) len(3)
  obtain vec' s' where args: "split_args rl Pl arg next_arg vec 1 [] ?s2 =
      Some (vec', Some (last (word_addrs ?B ws)), butlast (word_addrs ?B ws), s')"
    "vec' \<noteq> 0" "words_at (kmem s') ?B ws" "\<forall>a \<in> L - span ?B (length ?line). kmem s' a = m a"
    by auto
  have kept: "\<forall>a \<in> L - span ?B (length ?line). kmem s' a = kmem s a"
    using args(4) tok(3) v(2) by simp
  have ws: "ws \<noteq> []" using assms(2) by (simp add: a_line_def)
  then have first: "cstr (kmem s') ?B (hd ws)" "0x20 \<notin> set (hd ws)"
    using args(3) assms(2) by (cases ws; auto simp: words_at_def a_line_def)+
  have "cstr (kmem s') ?D [0x20]" using assms(3) kept D by simp
  from tok_find_none [OF first this]
  have "strtok ?B ?D (strtok_last st) (kmem s') = Some (0, strtok_last st, kmem s')"
    using delimiter_apart [OF assms(4), of 0] by (simp add: strtok_def)
  moreover have "list_all2 (\<lambda>c n. cstr (kmem s') (cmd_str c) n) (shell_all_cmds st) names"
    using assms(7) by (rule list_all2_mono) (use kept cstr_outside in blast)
  from find_command_named [OF this first(1)]
  have "find_command (kmem s') ?B (shell_all_cmds st) = Some (named_command (shell_all_cmds st) names (hd ws))" .
  ultimately have "shell_execute_command rl rd bsize view Pl env st s =
       (case named_command (shell_all_cmds st) names (hd ws) of
          None \<Rightarrow> do {
            s \<leftarrow> print Pl (literal ''Error: '' @ [0x27] @ literal ''%s'' @ [0x27] @ literal '' is not a known command'' @ [0x0A])
              [?B] s';
            s \<leftarrow> free Pl cmdline s;
            Some (0, env, st, s)
          }
        | Some c \<Rightarrow> do {
            (ret, env, s) \<leftarrow> run_command rd bsize view Pl (cmd_fun c) (word_addrs ?B ws) env s';
            s \<leftarrow> free Pl cmdline s;
            Some (ret, env, st, s)
          })"
    using n copy(1,2) vec tok(1) args(1,2) append_butlast_last_id [OF word_addrs_nonempty [OF ws, of ?B]]
    by (simp add: shell_execute_command_def malloc_def [of Pl 8] SHELL_LINE_CAPACITY_def Let_def split: option.split)
  with args(3) show ?thesis by blast
qed

text \<open>
  C32: a line is split at its spaces and run: the command is the first one of the list whose
  name is the first word, and its arguments are all the words of the line, in order, each
  terminated in the line buffer; for an unknown name the error is printed. This holds whenever
  the line does not end with a space, the allocator does not fail and does not touch the line,
  the delimiter and the names, however often the vector of arguments grows.
\<close>

theorem command_line_executed:
  assumes "cstr (kmem s) (line_buf Pl) (join_words ws)" "a_line ws" "cstr (kmem s) (lit Pl '' '') [0x20]"
    and "delimiter L (lit Pl '' '') (line_buf Pl) (length (join_words ws))"
    and "span (line_buf Pl) (length (join_words ws)) \<subseteq> L" "leaves L rl Pl"
    and "list_all2 (\<lambda>c n. cstr (kmem s) (cmd_str c) n \<and>
           span (cmd_str c) (length n) \<subseteq> L - span (line_buf Pl) (length (join_words ws))) (shell_all_cmds st) names"
  shows "\<exists>cmdline s'. words_at (kmem s') (line_buf Pl) ws \<and>
     shell_execute_command rl rd bsize view Pl env st s =
       (case named_command (shell_all_cmds st) names (hd ws) of
          None \<Rightarrow> do {
            s \<leftarrow> print Pl (literal ''Error: '' @ [0x27] @ literal ''%s'' @ [0x27] @ literal '' is not a known command'' @ [0x0A])
              [line_buf Pl] s';
            s \<leftarrow> free Pl cmdline s;
            Some (0, env, st, s)
          }
        | Some c \<Rightarrow> do {
            (ret, env, s) \<leftarrow> run_command rd bsize view Pl (cmd_fun c) (word_addrs (line_buf Pl) ws) env s';
            s \<leftarrow> free Pl cmdline s;
            Some (ret, env, st, s)
          })"
  by (rule execute_line [OF assms])

definition line_platform :: "unit platform" where
  "line_platform = bare_platform\<lparr>local_addr :=
     (\<lambda>x. if x = ''shell_input_buf'' then 0x5000 else if x = CHR 0x22 # '' '' @ [CHR 0x22] then 0x6000 else 0x7000)\<rparr>"

definition line_names :: "byte list list" where "line_names = [[0x6C, 0x73], [0x63, 0x64]]"

definition line_state :: "unit kstate" where
  "line_state = kernel_state (poke (poke (poke (poke (\<lambda>_. 0)
     0x5000 [0x63, 0x64, 0x20, 0x2F, 0x62]) 0x6000 [0x20]) 0x7000 [0x6C, 0x73]) 0x7008 [0x63, 0x64]) () 0"

definition line_cd :: shell_command where
  "line_cd = \<lparr>cmd_fun = SHELL_CMD_CD, cmd_str = 0x7008, cmd_at = 0, cell_at = 0\<rparr>"

definition line_shell :: shell_state where
  "line_shell = \<lparr>shell_all_cmds =
     [\<lparr>cmd_fun = SHELL_CMD_LS, cmd_str = 0x7000, cmd_at = 0, cell_at = 0\<rparr>, line_cd], strtok_last = 0\<rparr>"

definition line_memory :: "addr set" where
  "line_memory = {a. 0x5000 \<le> a \<and> a < 0x8000}"

lemma span_upt: "span p n = set (map (\<lambda>i. p + of_nat i) [0..<Suc n])"
  by (auto simp: span_def image_iff Bex_def less_Suc_eq_le simp del: upt_Suc)

lemma line_example:
  "line_buf line_platform = 0x5000" "lit line_platform '' '' = 0x6000"
  "join_words [[0x63, 0x64], [0x2F, 0x62]] = [0x63, 0x64, 0x20, 0x2F, 0x62]"
  "cstr (kmem line_state) 0x5000 [0x63, 0x64, 0x20, 0x2F, 0x62]" "cstr (kmem line_state) 0x6000 [0x20]"
  "a_line [[0x63, 0x64], [0x2F, 0x62]]"
  by (simp_all add: line_buf_def lit_def line_platform_def line_state_def a_line_def)

lemma delimiter_span:
  "delimiter L D p n \<longleftrightarrow> span D 1 \<subseteq> L \<and> D \<notin> span p n \<and> D + 1 \<notin> span p n \<and> 0 \<notin> span p n"
  unfolding delimiter_def span_inside span_def by force

lemma line_spans:
  "span 0x5000 5 \<subseteq> line_memory" "delimiter line_memory 0x6000 0x5000 5"
  "span 0x7000 (Suc (Suc 0)) \<subseteq> line_memory - span 0x5000 5" "span 0x7008 (Suc (Suc 0)) \<subseteq> line_memory - span 0x5000 5"
  by (simp_all add: span_upt upt_rec line_memory_def delimiter_span)

lemma line_names_found:
  "list_all2 (\<lambda>c n. cstr (kmem line_state) (cmd_str c) n \<and>
     span (cmd_str c) (length n) \<subseteq> line_memory - span 0x5000 5) (shell_all_cmds line_shell) line_names"
proof -
  have "cstr (kmem line_state) 0x7000 [0x6C, 0x73]" "cstr (kmem line_state) 0x7008 [0x63, 0x64]"
    by (simp_all add: line_state_def)
  with line_spans show ?thesis by (simp add: line_shell_def line_cd_def line_names_def del: cstr.simps)
qed

lemma line_leaves [simp]: "leaves line_memory (\<lambda>p n s. (0x9000, s)) line_platform"
proof -
  have "(0x9000 :: u64) + of_nat i \<notin> line_memory" if "i < unat (n :: u64)" "n \<le> 1024" for i n
  proof -
    have "i < 1024" using that by (simp add: word_le_nat_alt)
    then have "unat ((0x9000 :: u64) + of_nat i) = 0x9000 + i"
      by (simp add: unat_plus_if' unsigned_of_nat take_bit_nat_eq_self)
    then show ?thesis by (simp add: line_memory_def word_less_nat_alt)
  qed
  then show ?thesis by (simp add: leaves_def malloc_leaves_def line_platform_def bare_platform_def)
qed

lemma line_premises:
  fixes p :: "byte list list"
  defines "p \<equiv> [[0x63, 0x64], [SLASH, 0x62]]"
  shows "cstr (kmem line_state) (line_buf line_platform) (join_words p)" "a_line p"
    "cstr (kmem line_state) (lit line_platform '' '') [0x20]"
    "delimiter line_memory (lit line_platform '' '') (line_buf line_platform) (length (join_words p))"
    "span (line_buf line_platform) (length (join_words p)) \<subseteq> line_memory"
    "leaves line_memory (\<lambda>p n s. (0x9000, s)) line_platform"
    "list_all2 (\<lambda>c n. cstr (kmem line_state) (cmd_str c) n \<and>
       span (cmd_str c) (length n) \<subseteq> line_memory - span (line_buf line_platform) (length (join_words p)))
       (shell_all_cmds line_shell) line_names"
  using line_example line_spans line_names_found
  by (simp_all add: p_def SLASH_def numeral_eq_Suc del: cstr.simps)

lemma line_command:
  "named_command (shell_all_cmds line_shell) line_names [0x63, 0x64] = Some line_cd"
  "cmd_fun line_cd = SHELL_CMD_CD"
  by (simp_all add: named_command_def line_shell_def line_names_def line_cd_def)

theorem command_line_executed_witness:
  "\<exists>s'. shell_execute_command (\<lambda>p n s. (0x9000, s)) disk_read disk_block (\<lambda>d p s. d) line_platform
     \<lparr>pid = 0, proc_state = PROC_STATE_RUNNING, wdir = 0x7000, root_dev = small_disk\<rparr> line_shell line_state =
     Some (0, \<lparr>pid = 0, proc_state = PROC_STATE_RUNNING, wdir = 0x5003, root_dev = small_disk\<rparr>, line_shell, s')"
  using command_line_executed [OF line_premises, where rd = disk_read and bsize = disk_block and view = "\<lambda>d p s. d"
      and env = "\<lparr>pid = 0, proc_state = PROC_STATE_RUNNING, wdir = 0x7000, root_dev = small_disk\<rparr>"]
  by (auto simp: line_command line_example(1) words_at_def run_command_def shell_cmd_cd_def free_def)



section \<open>The list of commands\<close>

text \<open>The list cells that \<open>add_commands\<close> makes, apart from where they are.\<close>

definition registers :: "'h platform \<Rightarrow> (string \<times> shell_fun) list \<Rightarrow> shell_command list \<Rightarrow> bool" where
  "registers Pl xs cs \<longleftrightarrow> map (\<lambda>c. (cmd_str c, cmd_fun c)) cs = map (\<lambda>(x, f). (lit Pl x, f)) xs"

lemma add_commands_registers:
  assumes "\<And>n s. fst (libc_malloc Pl n s) \<noteq> 0"
  shows "\<exists>cs t. registers Pl xs cs \<and>
    add_commands Pl xs st s = Some (st\<lparr>shell_all_cmds := shell_all_cmds st @ cs\<rparr>, t)"
proof (induction xs arbitrary: st s)
  case (Cons y xs)
  obtain x f where y: "y = (x, f)" by fastforce
  obtain p u where u: "libc_malloc Pl 16 s = (p, u)" "p \<noteq> 0" using assms [of 16 s] by (metis prod.collapse)
  obtain q v where v: "libc_malloc Pl 16 u = (q, v)" "q \<noteq> 0" using assms [of 16 u] by (metis prod.collapse)
  let ?c = "\<lparr>cmd_fun = f, cmd_str = lit Pl x, cmd_at = p, cell_at = q\<rparr>"
  let ?st = "st\<lparr>shell_all_cmds := shell_all_cmds st @ [?c]\<rparr>"
  obtain cs t where cs: "registers Pl xs cs"
    "add_commands Pl xs ?st v = Some (?st\<lparr>shell_all_cmds := shell_all_cmds ?st @ cs\<rparr>, t)"
    using Cons.IH by blast
  with u v y show ?case
    by (intro exI [of _ "?c # cs"]) (simp add: registers_def add_command_def malloc_def)
qed (simp add: registers_def)

lemma named_registered:
  assumes "registers Pl xs cs"
  shows "map_option cmd_fun (named_command cs (map (literal \<circ> fst) xs) w) = map_of (map (\<lambda>(x, f). (literal x, f)) xs) w"
  using assms
proof (induction xs arbitrary: cs)
  case (Cons y xs)
  obtain x f where y: "y = (x, f)" by fastforce
  from Cons.prems obtain c cs' where cs: "cs = c # cs'" "cmd_fun c = f" "registers Pl xs cs'"
    unfolding registers_def y by (cases cs) auto
  with Cons.IH [OF cs(3)] show ?case
    by (simp add: named_command_def y)
qed (simp add: registers_def named_command_def)

text \<open>
  C33: once the shell has been initialised, and the allocator has not failed, every command is
  found under its name and nothing else is found: in a memory that holds the names, the search
  for a string ends with the function that the table of \<open>shell_init\<close> gives for it, or without
  a command.
\<close>

theorem shell_finds_commands:
  assumes "\<And>n s. fst (libc_malloc Pl n s) \<noteq> 0" "shell_all_cmds st = []"
    and "\<forall>(x, f) \<in> set shell_commands. cstr m (lit Pl x) (literal x)" "cstr m p w"
  shows "\<exists>st' t c. shell_init Pl st s = Some (0, st', t) \<and> length (shell_all_cmds st') = 10 \<and>
     find_command m p (shell_all_cmds st') = Some c \<and>
     map_option cmd_fun c = map_of (map (\<lambda>(x, f). (literal x, f)) shell_commands) w"
proof -
  from add_commands_registers [OF assms(1)]
  obtain cs t where cs: "registers Pl shell_commands cs"
    "add_commands Pl shell_commands st s = Some (st\<lparr>shell_all_cmds := shell_all_cmds st @ cs\<rparr>, t)"
    by blast
  have len: "length cs = length shell_commands"
    using arg_cong [OF cs(1) [unfolded registers_def], of length] by simp
  have "list_all2 (\<lambda>c n. cstr m (cmd_str c) n) cs (map (literal \<circ> fst) shell_commands)"
  proof (rule list_all2_all_nthI)
    fix i
    assume "i < length cs"
    moreover have "map (\<lambda>c. (cmd_str c, cmd_fun c)) cs ! i = map (\<lambda>(x, f). (lit Pl x, f)) shell_commands ! i"
      using cs(1) by (simp add: registers_def)
    ultimately have "cmd_str (cs ! i) = lit Pl (fst (shell_commands ! i))"
      using len by (simp add: case_prod_beta)
    with assms(3) len \<open>i < length cs\<close> show "cstr m (cmd_str (cs ! i)) (map (literal \<circ> fst) shell_commands ! i)"
      by (fastforce simp: case_prod_beta)
  qed (simp add: len)
  note found = find_command_named [OF this assms(4)]
  have ten: "length shell_commands = 10" by (simp add: shell_commands_def)
  have "shell_init Pl st s = Some (0, st\<lparr>shell_all_cmds := cs\<rparr>, t)"
    using cs(2) by (simp add: shell_init_def assms(2))
  with found len ten named_registered [OF cs(1), of w] show ?thesis by auto
qed

text \<open>The ten names at multiples of 16 from \<open>0x6000\<close> on.\<close>

definition name_addr :: "string \<Rightarrow> addr" where
  "name_addr x = (case map_of (zip (map (\<lambda>(x, f). CHR 0x22 # x @ [CHR 0x22]) shell_commands) [0x6000, 0x6010, 0x6020, 0x6030, 0x6040, 0x6050, 0x6060, 0x6070, 0x6080, 0x6090]) x of
     Some a \<Rightarrow> a | None \<Rightarrow> 0)"

definition name_platform :: "unit platform" where
  "name_platform = bare_platform\<lparr>local_addr := name_addr\<rparr>"

definition name_memory :: mem where
  "name_memory = fold (\<lambda>(x, f) m. poke m (lit name_platform x) (literal x)) shell_commands (\<lambda>_. 0)"

lemma name_memory_holds:
  "\<forall>(x, f) \<in> set shell_commands. cstr name_memory (lit name_platform x) (literal x)"
  by (simp add: name_memory_def shell_commands_def lit_def name_platform_def name_addr_def literal_def)

theorem shell_finds_commands_witness:
  "\<exists>st' t c. shell_init name_platform \<lparr>shell_all_cmds = [], strtok_last = 0\<rparr> line_state = Some (0, st', t) \<and>
     find_command name_memory (lit name_platform ''pwd'') (shell_all_cmds st') = Some (Some c) \<and>
     cmd_fun c = SHELL_CMD_PWD"
proof -
  have "fst (libc_malloc name_platform n s) \<noteq> 0" for n s
    by (simp add: name_platform_def bare_platform_def)
  moreover have "cstr name_memory (lit name_platform ''pwd'') (literal ''pwd'')"
    using name_memory_holds by (simp add: shell_commands_def)
  ultimately obtain st' t c where "shell_init name_platform \<lparr>shell_all_cmds = [], strtok_last = 0\<rparr> line_state = Some (0, st', t)"
    "find_command name_memory (lit name_platform ''pwd'') (shell_all_cmds st') = Some c"
    "map_option cmd_fun c = map_of (map (\<lambda>(x, f). (literal x, f)) shell_commands) (literal ''pwd'')"
    using shell_finds_commands [where Pl = name_platform and m = name_memory and st = "\<lparr>shell_all_cmds = [], strtok_last = 0\<rparr>"
        and s = line_state and p = "lit name_platform ''pwd''" and w = "literal ''pwd''", OF _ _ name_memory_holds] by auto
  moreover have "map_of (map (\<lambda>(x, f). (literal x, f)) shell_commands) (literal ''pwd'') = Some SHELL_CMD_PWD"
    by (simp add: shell_commands_def literal_def)
  ultimately show ?thesis by auto
qed

section \<open>Reading a line\<close>

text \<open>
  A keyboard: \<open>keys\<close> tells, from the state, the characters that will arrive. In the states \<open>ok\<close>
  a character arrives and the serial port and the console take what is echoed, without
  touching the line buffer; storing in the line buffer changes neither.
\<close>

definition keyboard :: "('h kstate \<Rightarrow> bool) \<Rightarrow> ('h kstate \<Rightarrow> nat \<Rightarrow> byte) \<Rightarrow> 'h platform \<Rightarrow> bool" where
  "keyboard ok keys Pl \<longleftrightarrow>
     (\<forall>s. ok s \<longrightarrow>
       (\<exists>t. uart0_getc Pl s = Some (keys s 0, t) \<and> ok t \<and> keys t = (\<lambda>n. keys s (Suc n)) \<and>
          (\<forall>a \<in> span (line_buf Pl) 63. kmem t a = kmem s a)) \<and>
       (\<forall>c. \<exists>t. echo Pl c s = Some t \<and> ok t \<and> keys t = keys s \<and>
          (\<forall>a \<in> span (line_buf Pl) 63. kmem t a = kmem s a)) \<and>
       (\<forall>i < 64. \<forall>c. ok (s\<lparr>kmem := (kmem s)(line_buf Pl + of_nat i := c)\<rparr>) \<and>
          keys (s\<lparr>kmem := (kmem s)(line_buf Pl + of_nat i := c)\<rparr>) = keys s))"

text \<open>The characters before the end of the line, of the first \<open>k\<close>.\<close>

definition line_of :: "nat \<Rightarrow> (nat \<Rightarrow> byte) \<Rightarrow> byte list" where
  "line_of k ks = takeWhile (\<lambda>c. c \<noteq> 0x0A) (map ks [0..<k])"

lemma line_of_Suc:
  "line_of (Suc k) ks = (if ks 0 = 0x0A then [] else ks 0 # line_of k (\<lambda>n. ks (Suc n)))"
  by (simp add: line_of_def upt_conv_Cons map_Suc_upt [symmetric] comp_def del: upt_Suc)

lemma line_of_length: "length (line_of k ks) \<le> k"
  unfolding line_of_def by (metis length_map length_takeWhile_le length_upt minus_nat.diff_0)

text \<open>The buffer holds \<open>xs\<close> from index \<open>i\<close> on, and what it held in \<open>m\<close> below.\<close>

definition stored :: "mem \<Rightarrow> mem \<Rightarrow> addr \<Rightarrow> nat \<Rightarrow> byte list \<Rightarrow> bool" where
  "stored m' m p i xs \<longleftrightarrow> (\<forall>j < i. m' (p + of_nat j) = m (p + of_nat j)) \<and>
     (\<forall>j < length xs. m' (p + of_nat (i + j)) = xs ! j)"

lemma keyboard_round:
  assumes "keyboard ok keys Pl" "ok s" "i < 64"
  obtains t u where "uart0_getc Pl s = Some (keys s 0, t)"
    "echo Pl c (t\<lparr>kmem := (kmem t)(line_buf Pl + of_nat i := c')\<rparr>) = Some u"
    "ok u" "keys u = (\<lambda>n. keys s (Suc n))"
    "\<forall>a \<in> span (line_buf Pl) 63. kmem u a = ((kmem s)(line_buf Pl + of_nat i := c')) a"
proof -
  note kb = assms(1) [unfolded keyboard_def, rule_format]
  obtain t where t: "uart0_getc Pl s = Some (keys s 0, t)" "ok t" "keys t = (\<lambda>n. keys s (Suc n))"
    "\<forall>a \<in> span (line_buf Pl) 63. kmem t a = kmem s a"
    using kb [OF assms(2)] by blast
  let ?t = "t\<lparr>kmem := (kmem t)(line_buf Pl + of_nat i := c')\<rparr>"
  have "ok ?t" "keys ?t = keys t" using kb [OF t(2)] assms(3) by blast+
  moreover obtain u where "echo Pl c ?t = Some u" "ok u" "keys u = keys ?t"
    "\<forall>a \<in> span (line_buf Pl) 63. kmem u a = kmem ?t a"
    using kb [OF \<open>ok ?t\<close>] by blast
  ultimately show ?thesis using that [of t u] t by simp
qed

lemma stored_Cons:
  assumes "stored m' m'' p (Suc i) xs" "\<forall>a \<in> span p 63. m'' a = (m(p + of_nat i := x)) a" "i < 64"
  shows "stored m' m p i (x # xs)"
proof -
  have m'': "m'' (p + of_nat j) = (if j = i then x else m (p + of_nat j))" if "j \<le> i" for j
    using assms(2,3) that same_offset [of p j i] span_member [of j 63 p] by auto
  have low: "m' (p + of_nat j) = m (p + of_nat j)" if "j < i" for j
    using assms(1) m'' [of j] that by (simp add: stored_def)
  have "m' (p + of_nat (i + j)) = (x # xs) ! j" if "j < length (x # xs)" for j
  proof (cases j)
    case 0
    with assms(1) m'' [of i] show ?thesis by (simp add: stored_def)
  next
    case (Suc k)
    have "m' (p + of_nat (Suc i + k)) = xs ! k" using assms(1) that Suc by (simp only: stored_def) simp
    with Suc show ?thesis by (simp add: add_Suc_shift del: of_nat_add of_nat_Suc)
  qed
  with low show ?thesis by (simp add: stored_def del: of_nat_add)
qed

lemma getline_loop_stores:
  "keyboard ok keys Pl \<Longrightarrow> ok s \<Longrightarrow> k + i = 64 \<Longrightarrow>
   \<exists>s'. getline_loop Pl k i s = Some (if length (line_of k (keys s)) < k then 0 else -1, s') \<and>
     stored (kmem s') (kmem s) (line_buf Pl) i
       (line_of k (keys s) @ (if length (line_of k (keys s)) < k then [0] else [])) \<and>
     (length (line_of k (keys s)) = k \<longrightarrow> errno s' = E2BIG)"
proof (induction k arbitrary: i s)
  case 0
  then show ?case by (simp add: line_of_def stored_def)
next
  case (Suc k)
  let ?c = "keys s 0"
  obtain t u where r: "uart0_getc Pl s = Some (?c, t)"
    "echo Pl ?c (t\<lparr>kmem := (kmem t)(line_buf Pl + of_nat i := if ?c = 0x0A then 0 else ?c)\<rparr>) = Some u"
    "ok u" "keys u = (\<lambda>n. keys s (Suc n))"
    "\<forall>a \<in> span (line_buf Pl) 63. kmem u a = ((kmem s)(line_buf Pl + of_nat i := if ?c = 0x0A then 0 else ?c)) a"
    using keyboard_round [OF Suc.prems(1,2), of i ?c "if ?c = 0x0A then 0 else ?c"] Suc.prems(3) by auto
  have i: "i < 64" using Suc.prems(3) by simp
  show ?case
  proof (cases "?c = 0x0A")
    case True
    have "stored (kmem u) (kmem u) (line_buf Pl) (Suc i) []" by (simp add: stored_def)
    from stored_Cons [OF this r(5) i] True r show ?thesis by (simp add: line_of_Suc)
  next
    case False
    from Suc.IH [OF Suc.prems(1) r(3), of "Suc i"] Suc.prems(3) obtain s' where IH:
      "getline_loop Pl k (Suc i) u = Some (if length (line_of k (keys u)) < k then 0 else -1, s')"
      "stored (kmem s') (kmem u) (line_buf Pl) (Suc i)
        (line_of k (keys u) @ (if length (line_of k (keys u)) < k then [0] else []))"
      "length (line_of k (keys u)) = k \<longrightarrow> errno s' = E2BIG"
      by auto
    from stored_Cons [OF IH(2) r(5) i] IH(1,3) r False show ?thesis by (simp add: line_of_Suc)
  qed
qed

text \<open>
  C34: reading a line returns whatever is typed, and tells whether the line is whole: of at most
  63 characters before the newline, they are in the line buffer, in order and terminated, and
  the result is 0; of 64 or more, the first 64 fill the buffer without a terminator, and the
  result is -1 with the error number \<open>E2BIG\<close>.
\<close>

theorem getline_reads_line:
  assumes "keyboard ok keys Pl" "prompt \<noteq> 0"
    and "print Pl (literal ''%s%s'') [wdir env, prompt] s = Some s1" "ok s1"
  shows "\<exists>r s'. shell_getline Pl env prompt s = Some (r, s') \<and>
     (let xs = line_of SHELL_LINE_CAPACITY (keys s1)
      in (\<forall>j < length xs. kmem s' (line_buf Pl + of_nat j) = xs ! j) \<and>
         (if length xs < SHELL_LINE_CAPACITY then r = 0 \<and> kmem s' (line_buf Pl + of_nat (length xs)) = 0
          else length xs = SHELL_LINE_CAPACITY \<and> r = -1 \<and> errno s' = E2BIG))"
proof -
  let ?xs = "line_of 64 (keys s1)"
  obtain s' where s': "getline_loop Pl 64 0 s1 = Some (if length ?xs < 64 then 0 else -1, s')"
    "stored (kmem s') (kmem s1) (line_buf Pl) 0 (?xs @ (if length ?xs < 64 then [0] else []))"
    "length ?xs = 64 \<longrightarrow> errno s' = E2BIG"
    using getline_loop_stores [OF assms(1,4), of 64 0] by auto
  have st: "\<forall>j < length ?xs. kmem s' (line_buf Pl + of_nat j) = ?xs ! j"
    "length ?xs < 64 \<Longrightarrow> kmem s' (line_buf Pl + of_nat (length ?xs)) = 0"
    using s'(2) by (auto simp: stored_def nth_append split: if_splits)
  with s'(1,3) assms(2,3) line_of_length [of 64 "keys s1"] show ?thesis
    by (auto simp: shell_getline_def SHELL_LINE_CAPACITY_def Let_def)
qed

definition typing_platform :: "(nat \<Rightarrow> byte) platform" where
  "typing_platform = \<lparr>
     bus_get32 = (\<lambda>a s. if a = UART0_DR then (ucast (khw s 0), s\<lparr>khw := (\<lambda>n. khw s (Suc n))\<rparr>) else (0, s)),
     bus_put32 = (\<lambda>a x s. s), libc_malloc = (\<lambda>n s. (0x9000, s)), libc_free = (\<lambda>p s. s),
     diag_printf = (\<lambda>f as s. s), mailbuffer_addr = 0x6FE0, local_addr = (\<lambda>_. 0x5000)\<rparr>"

definition typed :: "(nat \<Rightarrow> byte) kstate \<Rightarrow> nat \<Rightarrow> byte" where
  "typed s n = from_serial (ucast (khw s n))"

lemma typing_keyboard: "keyboard (\<lambda>s. cons_enabled (console_descriptor s) = 0) typed typing_platform"
  unfolding keyboard_def
  by (simp add: typed_def fun_eq_iff uart0_getc_def echo_def uart0_putc_def uart0_send_def console_putc_def
      wait_status.simps GET32_def PUT32_def typing_platform_def reg_defs MMIO_BASE_def)

theorem getline_reads_line_witness:
  "\<exists>s'. shell_getline typing_platform \<lparr>pid = 0, proc_state = PROC_STATE_RUNNING, wdir = 0x100, root_dev = ()\<rparr> 0x200
     (kernel_state (\<lambda>_. 7) (\<lambda>n. if n = 2 then 0x0D else 0x61) 0) = Some (0, s') \<and>
     cstr (kmem s') 0x5000 [0x61, 0x61]"
proof -
  let ?s = "kernel_state (\<lambda>_. 7) (\<lambda>n. if n = 2 then 0x0D else 0x61) 0"
  have "print typing_platform (literal ''%s%s'') [0x100, 0x200] ?s = Some ?s"
    by (simp add: print_def kernel_printf_def printf_on_def)
  from getline_reads_line [OF typing_keyboard _ _, where s = ?s and ?s1.0 = ?s and prompt = "0x200"
      and env = "\<lparr>pid = 0, proc_state = PROC_STATE_RUNNING, wdir = 0x100, root_dev = ()\<rparr>"] this
  show ?thesis
    by (auto simp: SHELL_LINE_CAPACITY_def line_of_def typed_def from_serial_def line_buf_def typing_platform_def upt_rec All_less_Suc)
qed

section \<open>Changing the directory\<close>

lemma poke_append: "poke (poke m q xs) (q + of_nat (length xs)) ys = poke m q (xs @ ys)"
proof (induction xs arbitrary: m q)
  case (Cons x xs)
  from Cons.IH [of "m(q := x)" "q + 1"] show ?case by (simp add: add.assoc del: fun_upd_apply)
qed simp

lemma poke_nth:
  assumes "i < length xs" "length xs < 2 ^ 64"
  shows "poke m q xs (q + of_nat i) = xs ! i"
proof -
  have "unat (q + of_nat i - q) = i" using assms by (simp add: unsigned_of_nat take_bit_nat_eq_self)
  with assms show ?thesis by (simp add: poke_at)
qed

lemma cstr_poke:
  assumes "0 \<notin> set xs" "length (xs @ ys) < 2 ^ 64"
  shows "cstr ((poke m q (xs @ ys))(q + of_nat (length xs) := 0)) q xs"
proof -
  have "((poke m q (xs @ ys))(q + of_nat (length xs) := 0)) (q + of_nat i) = xs ! i" "xs ! i \<noteq> 0"
    if "i < length xs" for i
    using poke_nth [of i "xs @ ys" m q] same_offset [of q i "length xs"] that assms
    by (auto simp: nth_append in_set_conv_nth)
  then show ?thesis using cstr_append [of _ q xs "[]"] by auto
qed

lemma memset_one: "memset p c 1 m = (if sint c > 0xff then (0, m) else (p, m(p := ucast c)))"
  by (simp add: memset_def memset_loop.simps)

lemma nat_casts:
  assumes "n < 2 ^ 31"
  shows "ucast (of_nat n :: u64) = (of_nat n :: i32)" "scast (of_nat n :: i32) = (of_nat n :: u64)"
proof -
  show "ucast (of_nat n :: u64) = (of_nat n :: i32)"
    using assms by (simp add: word_unat_eq_iff unsigned_of_nat take_bit_nat_eq_self)
  have "sint (of_nat n :: i32) = int n"
    using assms by (simp add: signed_of_nat signed_take_bit_int_eq_self)
  then show "scast (of_nat n :: i32) = (of_nat n :: u64)"
    by (simp add: scast_eq)
qed

lemma block_index: "\<forall>i < n. q + of_nat i \<notin> L \<Longrightarrow> k + j < n \<Longrightarrow> q + of_nat k + of_nat j \<notin> L"
  by (drule spec [of _ "k + j"]) (simp add: add.assoc)

text \<open>A copy from \<open>L\<close> into a block that is not in \<open>L\<close>.\<close>

lemma strcpy_into_block:
  assumes "cstr m p xs" "span p (length xs) \<subseteq> L" "\<forall>i < n. q + of_nat i \<notin> L" "k + length xs \<le> n"
  shows "strcpy (q + of_nat k) p m = Some (q + of_nat k, poke m (q + of_nat k) xs)"
proof (rule strcpy_without_terminator [OF assms(1)], unfold copy_safe_def, intro allI impI)
  fix i j
  assume "i \<le> length xs" "j < i"
  then have "p + of_nat i \<in> L" "k + j < n" using assms(2,4) span_member [of i "length xs" p] by auto
  with block_index [OF assms(3) this(2)] show "q + of_nat k + of_nat j \<noteq> p + of_nat (1 * i)" by auto
qed

lemma poke_outside_block:
  assumes "\<forall>i < n. q + of_nat i \<notin> L" "k + length xs \<le> n" "n < 2 ^ 64" "a \<in> L"
  shows "poke m (q + of_nat k) xs a = m a"
proof (rule poke_other, intro allI impI notI)
  fix i
  assume "i < length xs" "q + of_nat k + of_nat i = a"
  moreover from this(1) assms(2) have "k + i < n" by simp
  ultimately show False using block_index [OF assms(1)] assms(4) by blast
qed (use assms in simp)

lemma memset_bytes:
  "memset p (ucast SLASH) 1 m = (p, m(p := SLASH))" "memset p 0 1 m = (p, m(p := 0))"
  by (simp_all add: memset_one SLASH_def)

lemma nat_minus_one: "0 < n \<Longrightarrow> (of_nat n :: 'a :: len word) - 1 = of_nat (n - 1)"
  by (cases n) simp_all

definition sep_of :: "byte list \<Rightarrow> byte list" where
  "sep_of w = (if last w = SLASH then [] else [SLASH])"

definition unslashed :: "byte list \<Rightarrow> byte list" where
  "unslashed t = (if last t = SLASH then butlast t else t)"

lemma unslashed_prefix: "t \<noteq> [] \<Longrightarrow> \<exists>ys. t = unslashed t @ ys"
  unfolding unslashed_def by (metis append_butlast_last_id append_Nil2)

lemma shell_cmd_cd_relative:
  assumes "cstr (kmem s) (wdir env) w" "w \<noteq> []" "cstr (kmem s) p t" "t \<noteq> []" "hd t \<noteq> SLASH"
    and "length w + length t \<le> 1000"
  shows "shell_cmd_cd Pl [cmd, p] env s = do {
     (q, s) \<leftarrow> malloc Pl (of_nat (length (w @ sep_of w @ unslashed t) + 1)) s;
     (_, m) \<leftarrow> strcpy q (wdir env) (kmem s);
     let m = (if sep_of w \<noteq> [] then m(q + of_nat (length w) := SLASH) else m);
     (_, m) \<leftarrow> strcpy (q + of_nat (length (w @ sep_of w))) p m;
     Some (0, env\<lparr>wdir := q\<rparr>, s\<lparr>kmem := m(q + of_nat (length (w @ sep_of w @ unslashed t)) := 0)\<rparr>)
   }"
proof -
  have first: "kmem s p \<noteq> SLASH" using assms(3-5) by (cases t) auto
  have lens: "strlen (kmem s) (wdir env) = Some (of_nat (length w))" "strlen (kmem s) p = Some (of_nat (length t))"
    using strlen_length assms(1,3) by blast+
  have last_w: "kmem s (wdir env + of_nat (length w - 1)) = last w"
    using cstr_nth(1) [OF assms(1), of "length w - 1"] assms(2) by (simp add: last_conv_nth)
  have last_t: "kmem s (p + of_nat (length t - 1)) = last t"
    using cstr_nth(1) [OF assms(3), of "length t - 1"] assms(4) by (simp add: last_conv_nth)
  obtain a b where ab: "length w = Suc a" "length t = Suc b" "Suc a < 2 ^ 31" "Suc b < 2 ^ 31"
    using assms(2,4,6) by (cases "length w"; cases "length t") auto
  have bounds: "a + b + 2 < 2 ^ 31" "a + b + 3 < 2 ^ 31" "a + b + 4 < 2 ^ 31"
    using assms(6) ab(1,2) by auto
  note casts = nat_casts [OF ab(3)] nat_casts [OF ab(4)] nat_casts(2) [OF bounds(1)] nat_casts(2) [OF bounds(2)]
    nat_casts(2) [OF bounds(3)] nat_casts(2) [of a] nat_casts(2) [of b]
  show ?thesis
    using first lens last_w last_t casts ab(3,4)
    by (cases "last w = SLASH"; cases "last t = SLASH")
      (simp_all add: shell_cmd_cd_def Let_def memset_bytes sep_of_def unslashed_def ab(1,2) algebra_simps)
qed



end
