(* ===== verification/Self_Test.thy ===== *)
theory Self_Test
  imports Fs_Util Emmc_Init
begin

text \<open>
  The tests that run at boot (\<open>src/test/\<close>): the runner with its counters, the batches of
  examples, of the allocator and of the SD card driver. A test is a function from the state to
  its outcome, the address of its message and the state. \<open>TEST_VERBOSE\<close> is 2.
\<close>

section \<open>Results\<close>

datatype test_result = TEST_PASSED | TEST_WARN | TEST_FAIL_CONTINUE | TEST_FAIL_FATAL

record test_stats =
  total :: u64
  skipped :: u64
  passed :: u64
  warned :: u64
  failed :: u64
  cancel_batch :: bool
  cancel_now :: bool

definition no_tests :: test_stats where
  "no_tests = \<lparr>total = 0, skipped = 0, passed = 0, warned = 0, failed = 0, cancel_batch = False, cancel_now = False\<rparr>"

type_synonym 'h test_fun = "'h kstate \<Rightarrow> (test_result \<times> addr \<times> 'h kstate) option"

record 'h test_batch =
  batch_count :: u64
  test_funs :: "'h test_fun list"

definition sizeof_tests_stat :: u64 where "sizeof_tests_stat = 48"
definition CONFIG_COLOR_TEST_WARN :: u32 where "CONFIG_COLOR_TEST_WARN = 0x00e8e8"
definition CONFIG_COLOR_TEST_FAIL :: u32 where "CONFIG_COLOR_TEST_FAIL = 0x0000ff"
definition CONFIG_COLOR_TEST_SKIP :: u32 where "CONFIG_COLOR_TEST_SKIP = 0xffaa99"

section \<open>Running tests\<close>

text \<open>The line that is printed for a test.\<close>

definition report :: "'h platform \<Rightarrow> u32 \<Rightarrow> string \<Rightarrow> addr \<Rightarrow> 'h kstate \<Rightarrow> 'h kstate option" where
  "report Pl color word msg s = do {
     s \<leftarrow> print Pl (literal ''%s'') [lit Pl ''  ''] s;
     let s = console_set_tmp_fg_color color s;
     s \<leftarrow> print Pl (literal word) [] s;
     n \<leftarrow> strlen (kmem s) msg;
     s \<leftarrow> (if n > 0 then print Pl (literal '':'') [] s else Some s);
     let s = console_reset_colors s;
     print Pl (literal '' %s'' @ [0x0A]) [msg] s
   }"

definition run_test ::
    "'h platform \<Rightarrow> 'h test_fun \<Rightarrow> test_stats \<Rightarrow> 'h kstate \<Rightarrow> (test_stats \<times> 'h kstate) option" where
  "run_test Pl f st s = do {
     (r, msg, s) \<leftarrow> f s;
     (case r of
        TEST_PASSED \<Rightarrow> do {
          let st = st\<lparr>passed := passed st + 1\<rparr>;
          s \<leftarrow> report Pl CONFIG_COLOR_TEST_PASS ''PASS'' msg s;
          Some (st, s)
        }
      | TEST_WARN \<Rightarrow> do {
          let st = st\<lparr>passed := passed st + 1, warned := warned st + 1\<rparr>;
          s \<leftarrow> report Pl CONFIG_COLOR_TEST_WARN ''WARN'' msg s;
          Some (st, s)
        }
      | TEST_FAIL_CONTINUE \<Rightarrow> do {
          let st = st\<lparr>failed := failed st + 1, cancel_batch := True\<rparr>;
          s \<leftarrow> report Pl CONFIG_COLOR_TEST_FAIL ''FAIL'' msg s;
          Some (st, s)
        }
      | TEST_FAIL_FATAL \<Rightarrow> do {
          let st = st\<lparr>failed := failed st + 1, cancel_now := True, cancel_batch := True\<rparr>;
          s \<leftarrow> report Pl CONFIG_COLOR_TEST_FAIL ''FAIL'' msg s;
          Some (st, s)
        })
   }"

definition report_skipped :: "'h platform \<Rightarrow> u64 \<Rightarrow> 'h kstate \<Rightarrow> 'h kstate option" where
  "report_skipped Pl n s = do {
     s \<leftarrow> print Pl (literal ''  '') [] s;
     let s = console_set_tmp_fg_color CONFIG_COLOR_TEST_SKIP s;
     s \<leftarrow> print Pl (literal ''SKIP:'') [] s;
     let s = console_reset_colors s;
     print Pl (literal '' %lu tests skipped (aborting batch)'' @ [0x0A]) [n] s
   }"

text \<open>The tests from index \<open>i\<close> on; the list holds those that are left.\<close>

fun run_tests ::
    "'h platform \<Rightarrow> u64 \<Rightarrow> u64 \<Rightarrow> 'h test_fun list \<Rightarrow> test_stats \<Rightarrow> 'h kstate \<Rightarrow> (test_stats \<times> 'h kstate) option" where
  "run_tests Pl n i [] st s = Some (st, s)"
| "run_tests Pl n i (f # fs) st s = do {
     (st, s) \<leftarrow> run_test Pl f st s;
     if cancel_now st then do {
       let skip_cnt = n - i - 1;
       s \<leftarrow> report_skipped Pl skip_cnt s;
       Some (st\<lparr>skipped := skipped st + skip_cnt\<rparr>, s)
     }
     else run_tests Pl n (i + 1) fs st s
   }"

text \<open>A batch that counts more functions than it has is read beyond its end.\<close>

definition run_test_batch ::
    "'h platform \<Rightarrow> 'h test_batch \<Rightarrow> test_stats \<Rightarrow> 'h kstate \<Rightarrow> (test_stats \<times> 'h kstate) option" where
  "run_test_batch Pl b st s =
     (let st = st\<lparr>total := total st + batch_count b\<rparr>
      in if length (test_funs b) < unat (batch_count b) then None
         else run_tests Pl (batch_count b) 0 (take (unat (batch_count b)) (test_funs b)) st s)"

section \<open>The tests\<close>

definition test_example :: "'h platform \<Rightarrow> test_result \<Rightarrow> string \<Rightarrow> 'h test_fun" where
  "test_example Pl r x s = Some (r, lit Pl x, s)"

definition test_batch_examples :: "'h platform \<Rightarrow> 'h test_batch" where
  "test_batch_examples Pl = \<lparr>batch_count = 4, test_funs =
     [test_example Pl TEST_PASSED ''Hello from a passing test!'',
      test_example Pl TEST_WARN ''Hello from a warning test!'',
      test_example Pl TEST_FAIL_CONTINUE ''Hello from a (recoverably) failing test!'',
      test_example Pl TEST_FAIL_FATAL ''Hello from a failing test that cannot be recovered from!'']\<rparr>"

definition test_malloc_nonnull :: "'h platform \<Rightarrow> u64 \<Rightarrow> string \<Rightarrow> 'h test_fun" where
  "test_malloc_nonnull Pl n x s = do {
     (p, s) \<leftarrow> malloc Pl n s;
     if p = 0 then Some (TEST_FAIL_CONTINUE, lit Pl (''malloc('' @ x @ '') returned NULL''), s)
     else do {
       s \<leftarrow> free Pl p s;
       Some (TEST_PASSED, lit Pl '''', s)
     }
   }"

text \<open>\<open>brk\<close> stands for \<open>sbrk(0)\<close>, whose state belongs to the allocator.\<close>

definition test_malloc_free_brk ::
    "'h platform \<Rightarrow> ('h kstate \<Rightarrow> addr \<times> 'h kstate) \<Rightarrow> u64 \<Rightarrow> string \<Rightarrow> 'h test_fun" where
  "test_malloc_free_brk Pl brk n x s = do {
     let (brk_a, s) = brk s;
     (p, s) \<leftarrow> malloc Pl n s;
     s \<leftarrow> free Pl p s;
     let (brk_b, s) = brk s;
     if brk_a \<noteq> brk_b
     then Some (TEST_FAIL_FATAL, lit Pl (''malloc('' @ x @ '') then free('' @ x @
       '') results in a change to the program break''), s)
     else Some (TEST_PASSED, lit Pl '''', s)
   }"

definition MALLOC_SIZE_TINY :: u64 where "MALLOC_SIZE_TINY = 1"
definition MALLOC_SIZE_SMALL :: u64 where "MALLOC_SIZE_SMALL = 1024"
definition MALLOC_SIZE_LARGE :: u64 where "MALLOC_SIZE_LARGE = 4097"

text \<open>Six functions, of which three are counted.\<close>

definition test_batch_malloc :: "'h platform \<Rightarrow> ('h kstate \<Rightarrow> addr \<times> 'h kstate) \<Rightarrow> 'h test_batch" where
  "test_batch_malloc Pl brk = \<lparr>batch_count = 3, test_funs =
     [test_malloc_nonnull Pl MALLOC_SIZE_TINY ''tiny'',
      test_malloc_nonnull Pl MALLOC_SIZE_SMALL ''small'',
      test_malloc_nonnull Pl MALLOC_SIZE_LARGE ''large'',
      test_malloc_free_brk Pl brk MALLOC_SIZE_TINY ''tiny'',
      test_malloc_free_brk Pl brk MALLOC_SIZE_SMALL ''small'',
      test_malloc_free_brk Pl brk MALLOC_SIZE_LARGE ''large'']\<rparr>"

definition test_sd_init :: "'h platform \<Rightarrow> 'h test_fun" where
  "test_sd_init Pl s = do {
     (ret, foo, s) \<leftarrow> sd_card_init Pl (Some None) s;
     if ret \<noteq> 0 then Some (TEST_WARN, lit Pl ''sd_card_init() returned a nonzero value'', s)
     else do {
       s \<leftarrow> free Pl (case foo of Some (Some d) \<Rightarrow> self d | _ \<Rightarrow> 0) s;
       Some (TEST_PASSED, lit Pl '''', s)
     }
   }"

definition test_batch_emmc :: "'h platform \<Rightarrow> 'h test_batch" where
  "test_batch_emmc Pl = \<lparr>batch_count = 1, test_funs = [test_sd_init Pl]\<rparr>"

section \<open>All tests\<close>

text \<open>\<open>given\<close>: the caller passed a place for the counters, so none is allocated.\<close>

definition test_all ::
    "'h platform \<Rightarrow> ('h kstate \<Rightarrow> addr \<times> 'h kstate) \<Rightarrow> bool \<Rightarrow> 'h kstate \<Rightarrow> (bool \<times> test_stats \<times> 'h kstate) option" where
  "test_all Pl brk given s = do {
     s \<leftarrow> print Pl (literal ''Kernel tests'' @ [0x0A] @ literal ''============'' @ [0x0A]) [] s;
     (p, s) \<leftarrow> (if given then Some (0, s) else malloc Pl sizeof_tests_stat s);
     (st, s) \<leftarrow> run_test_batch Pl (test_batch_examples Pl) no_tests s;
     (st, s) \<leftarrow> run_test_batch Pl (test_batch_malloc Pl brk) st s;
     (st, s) \<leftarrow> run_test_batch Pl (test_batch_emmc Pl) st s;
     let fail = (failed st > 0 \<or> cancel_batch st \<or> cancel_now st);
     s \<leftarrow> (if given then Some s else free Pl p s);
     Some (\<not> fail, st, s)
   }"

section \<open>What the counters say\<close>

text \<open>
  In the states \<open>ok\<close> printing returns, string literals are terminated, and the allocator and
  the initialisation of the card return; all of these lead to such states again.
\<close>

definition testable :: "('h kstate \<Rightarrow> bool) \<Rightarrow> 'h platform \<Rightarrow> bool" where
  "testable ok Pl \<longleftrightarrow> (\<forall>s. ok s \<longrightarrow>
     (\<forall>fmt ap. \<exists>t. print Pl fmt ap s = Some t \<and> ok t) \<and>
     (\<forall>x. strlen (kmem s) (lit Pl x) \<noteq> None) \<and>
     (\<forall>c. ok (console_set_tmp_fg_color c s)) \<and> ok (console_reset_colors s) \<and>
     (\<forall>n. ok (snd (libc_malloc Pl n s))) \<and> (\<forall>p. ok (libc_free Pl p s)) \<and>
     (\<exists>r dev t. sd_card_init Pl (Some None) s = Some (r, dev, t) \<and> ok t))"

text \<open>What a result does to the counters.\<close>

fun count_result :: "test_result \<Rightarrow> test_stats \<Rightarrow> test_stats" where
  "count_result TEST_PASSED st = st\<lparr>passed := passed st + 1\<rparr>"
| "count_result TEST_WARN st = st\<lparr>passed := passed st + 1, warned := warned st + 1\<rparr>"
| "count_result TEST_FAIL_CONTINUE st = st\<lparr>failed := failed st + 1, cancel_batch := True\<rparr>"
| "count_result TEST_FAIL_FATAL st = st\<lparr>failed := failed st + 1, cancel_now := True, cancel_batch := True\<rparr>"

definition ends_ok :: "('h kstate \<Rightarrow> bool) \<Rightarrow> 'h kstate option \<Rightarrow> bool" where
  "ends_ok ok m \<longleftrightarrow> (\<exists>t. m = Some t \<and> ok t)"

lemma ends_ok_simps [simp]: "ends_ok ok (Some t) = ok t" "ends_ok ok None = False"
  by (simp_all add: ends_ok_def)

lemma ends_ok_bind: "ends_ok ok m \<Longrightarrow> (\<And>t. ok t \<Longrightarrow> ends_ok ok (f t)) \<Longrightarrow> ends_ok ok (m \<bind> f)"
  by (auto simp: ends_ok_def)

lemma print_ends: "testable ok Pl \<Longrightarrow> ok s \<Longrightarrow> ends_ok ok (print Pl fmt ap s)"
  by (simp add: testable_def ends_ok_def)

lemma color_ok:
  "testable ok Pl \<Longrightarrow> ok s \<Longrightarrow> ok (console_set_tmp_fg_color c s)"
  "testable ok Pl \<Longrightarrow> ok s \<Longrightarrow> ok (console_reset_colors s)"
  by (simp_all add: testable_def)

lemma ends_ok_value: "m \<noteq> None \<Longrightarrow> (\<And>x. ends_ok ok (f x)) \<Longrightarrow> ends_ok ok (m \<bind> f)"
  by (cases m) auto

lemma report_ends:
  assumes "testable ok Pl" "ok s"
  shows "ends_ok ok (report Pl color word (lit Pl x) s)"
proof -
  have "strlen (kmem t) (lit Pl x) \<noteq> None" if "ok t" for t
    using assms(1) that by (simp add: testable_def)
  then show ?thesis
    using assms print_ends [OF assms(1)] color_ok [OF assms(1)] unfolding report_def Let_def
    by (intro ends_ok_bind ends_ok_value) auto
qed

lemma report_skipped_ends:
  assumes "testable ok Pl" "ok s"
  shows "ends_ok ok (report_skipped Pl n s)"
  using assms print_ends [OF assms(1)] color_ok [OF assms(1)] unfolding report_skipped_def Let_def
  by (intro ends_ok_bind) auto

text \<open>A test that ends in a good state with a message of its own.\<close>

definition test_ends :: "('h kstate \<Rightarrow> bool) \<Rightarrow> 'h platform \<Rightarrow> 'h test_fun \<Rightarrow> 'h kstate \<Rightarrow> test_result \<Rightarrow> bool" where
  "test_ends ok Pl f s r \<longleftrightarrow> (\<exists>x t. f s = Some (r, lit Pl x, t) \<and> ok t)"

lemma run_test_counts:
  assumes "testable ok Pl" "test_ends ok Pl f s r"
  shows "\<exists>u. run_test Pl f st s = Some (count_result r st, u) \<and> ok u"
proof -
  obtain x t where "f s = Some (r, lit Pl x, t)" "ok t" using assms(2) by (auto simp: test_ends_def)
  moreover from this have "\<forall>c word. \<exists>u. report Pl c word (lit Pl x) t = Some u \<and> ok u"
    using report_ends [OF assms(1)] by (simp add: ends_ok_def)
  then obtain u where "report Pl c word (lit Pl x) t = Some (u c word)" "ok (u c word)" for c word by metis
  ultimately show ?thesis by (cases r) (auto simp: run_test_def)
qed

text \<open>What a sequence of results does to the counters, when they are those of the tests from index \<open>i\<close> on.\<close>

fun count_results :: "u64 \<Rightarrow> u64 \<Rightarrow> test_result list \<Rightarrow> test_stats \<Rightarrow> test_stats" where
  "count_results n i [] st = st"
| "count_results n i (r # rs) st =
     (let st = count_result r st
      in if cancel_now st then st\<lparr>skipped := skipped st + (n - i - 1)\<rparr> else count_results n (i + 1) rs st)"

text \<open>The tests \<open>fs\<close> end with results of the sets \<open>Rs\<close>.\<close>

definition tests_end :: "('h kstate \<Rightarrow> bool) \<Rightarrow> 'h platform \<Rightarrow> 'h test_fun list \<Rightarrow> test_result set list \<Rightarrow> bool" where
  "tests_end ok Pl fs Rs \<longleftrightarrow> list_all2 (\<lambda>f R. \<forall>s. ok s \<longrightarrow> (\<exists>r \<in> R. test_ends ok Pl f s r)) fs Rs"

lemma run_tests_count:
  assumes "testable ok Pl" "tests_end ok Pl fs Rs" "ok s"
  shows "\<exists>rs u. list_all2 (\<in>) rs Rs \<and> run_tests Pl n i fs st s = Some (count_results n i rs st, u) \<and> ok u"
  using assms(2,3) unfolding tests_end_def
proof (induction fs Rs arbitrary: i st s rule: list_all2_induct)
  case (Cons f fs R Rs)
  then obtain r where r: "r \<in> R" "test_ends ok Pl f s r" by blast
  obtain u where u: "run_test Pl f st s = Some (count_result r st, u)" "ok u"
    using run_test_counts [OF assms(1) r(2)] by blast
  obtain rs w where rest: "list_all2 (\<in>) rs Rs"
    "run_tests Pl n (i + 1) fs (count_result r st) u = Some (count_results n (i + 1) rs (count_result r st), w)" "ok w"
    using Cons.IH [OF u(2)] by blast
  obtain v where "report_skipped Pl (n - i - 1) u = Some v" "ok v"
    using report_skipped_ends [OF assms(1) u(2)] by (auto simp: ends_ok_def)
  with u r(1) rest show ?case
    by (intro exI [of _ "r # rs"]) (auto simp: Let_def)
qed simp

lemma run_test_batch_count:
  assumes "testable ok Pl" "tests_end ok Pl (take (unat (batch_count b)) (test_funs b)) Rs" "ok s"
    and "unat (batch_count b) \<le> length (test_funs b)"
  shows "\<exists>rs u. list_all2 (\<in>) rs Rs \<and> ok u \<and>
    run_test_batch Pl b st s = Some (count_results (batch_count b) 0 rs (st\<lparr>total := total st + batch_count b\<rparr>), u)"
  using run_tests_count [OF assms(1-3), of "batch_count b" 0 "st\<lparr>total := total st + batch_count b\<rparr>"] assms(4)
  by (fastforce simp: run_test_batch_def)

lemma examples_end: "ok s \<Longrightarrow> test_ends ok Pl (test_example Pl r x) s r"
  by (auto simp: test_ends_def test_example_def)

lemma malloc_nonnull_ends:
  assumes "testable ok Pl" "ok s"
  shows "\<exists>r \<in> {TEST_PASSED, TEST_FAIL_CONTINUE}. test_ends ok Pl (test_malloc_nonnull Pl n x) s r"
proof -
  obtain p t where p: "libc_malloc Pl n s = (p, t)" by fastforce
  then have "ok t" using assms unfolding testable_def by (metis snd_conv)
  then have "ok (libc_free Pl p t)" using assms(1) by (simp add: testable_def)
  with p \<open>ok t\<close> show ?thesis
    by (cases "p = 0") (auto simp: test_ends_def test_malloc_nonnull_def malloc_def free_def)
qed

lemma sd_init_ends:
  assumes "testable ok Pl" "ok s"
  shows "\<exists>r \<in> {TEST_PASSED, TEST_WARN}. test_ends ok Pl (test_sd_init Pl) s r"
proof -
  obtain r dev t where t: "sd_card_init Pl (Some None) s = Some (r, dev, t)" "ok t"
    using assms by (auto simp: testable_def)
  then have "ok (libc_free Pl p t)" for p using assms(1) by (simp add: testable_def)
  with t show ?thesis
    by (cases "r = 0") (auto simp: test_ends_def test_sd_init_def free_def)
qed

lemma batches_end:
  assumes "testable ok Pl"
  shows "tests_end ok Pl (take 4 (test_funs (test_batch_examples Pl)))
      [{TEST_PASSED}, {TEST_WARN}, {TEST_FAIL_CONTINUE}, {TEST_FAIL_FATAL}]"
    and "tests_end ok Pl (take 3 (test_funs (test_batch_malloc Pl brk)))
      [{TEST_PASSED, TEST_FAIL_CONTINUE}, {TEST_PASSED, TEST_FAIL_CONTINUE}, {TEST_PASSED, TEST_FAIL_CONTINUE}]"
    and "tests_end ok Pl (take 1 (test_funs (test_batch_emmc Pl))) [{TEST_PASSED, TEST_WARN}]"
proof -
  show "tests_end ok Pl (take 4 (test_funs (test_batch_examples Pl)))
      [{TEST_PASSED}, {TEST_WARN}, {TEST_FAIL_CONTINUE}, {TEST_FAIL_FATAL}]"
    unfolding tests_end_def test_batch_examples_def by (auto simp: examples_end)
  show "tests_end ok Pl (take 3 (test_funs (test_batch_malloc Pl brk)))
      [{TEST_PASSED, TEST_FAIL_CONTINUE}, {TEST_PASSED, TEST_FAIL_CONTINUE}, {TEST_PASSED, TEST_FAIL_CONTINUE}]"
    using malloc_nonnull_ends [OF assms] by (simp add: tests_end_def test_batch_malloc_def numeral_3_eq_3)
  show "tests_end ok Pl (take 1 (test_funs (test_batch_emmc Pl))) [{TEST_PASSED, TEST_WARN}]"
    using sd_init_ends [OF assms] by (simp add: tests_end_def test_batch_emmc_def)
qed

lemma batch_sizes:
  "batch_count (test_batch_examples Pl) = 4" "length (test_funs (test_batch_examples Pl)) = 4"
  "batch_count (test_batch_malloc Pl brk) = 3" "length (test_funs (test_batch_malloc Pl brk)) = 6"
  "batch_count (test_batch_emmc Pl) = 1" "length (test_funs (test_batch_emmc Pl)) = 1"
  by (simp_all add: test_batch_examples_def test_batch_malloc_def test_batch_emmc_def)

lemma examples_run:
  assumes "testable ok Pl" "ok s"
  shows "\<exists>u. run_test_batch Pl (test_batch_examples Pl) no_tests s =
     Some (\<lparr>total = 4, skipped = 0, passed = 2, warned = 1, failed = 2, cancel_batch = True, cancel_now = True\<rparr>, u) \<and> ok u"
proof -
  have "tests_end ok Pl (take (unat (batch_count (test_batch_examples Pl))) (test_funs (test_batch_examples Pl)))
      [{TEST_PASSED}, {TEST_WARN}, {TEST_FAIL_CONTINUE}, {TEST_FAIL_FATAL}]"
    using batches_end(1) [OF assms(1)] by (simp add: batch_sizes)
  from run_test_batch_count [OF assms(1) this assms(2), of no_tests]
  show ?thesis by (auto simp: batch_sizes list_all2_Cons2 no_tests_def)
qed

text \<open>A batch that starts after a fatal failure.\<close>

lemma cancelled_batch:
  assumes "testable ok Pl" "ok s" "cancel_now st"
    and "tests_end ok Pl (take (unat (batch_count b)) (test_funs b)) (R # Rs)"
    and "unat (batch_count b) \<le> length (test_funs b)"
  shows "\<exists>r u. r \<in> R \<and> ok u \<and> run_test_batch Pl b st s =
    Some (let c = count_result r (st\<lparr>total := total st + batch_count b\<rparr>)
          in c\<lparr>skipped := skipped c + (batch_count b - 1)\<rparr>, u)"
proof -
  have now: "cancel_now (count_result r c)" if "cancel_now c" for r c
    using that by (cases r) simp_all
  from run_test_batch_count [OF assms(1,4,2,5), of st] assms(3) show ?thesis
    by (fastforce simp: list_all2_Cons2 now Let_def)
qed


text \<open>A quiet machine: nothing is printed, and the empty string is at the address of every literal.\<close>

definition quiet_machine :: "unit kstate \<Rightarrow> bool" where
  "quiet_machine s \<longleftrightarrow> timer_base s = TIMER_BASE \<and> \<not> uart0_putc_enabled s \<and> \<not> console_putc_enabled s \<and> kmem s 0x5000 = 0"

lemma quiet_testable: "testable quiet_machine (card_platform (\<lambda>a. 0))"
proof -
  let ?Pl = "card_platform (\<lambda>a. 0)"
  have "strlen (kmem s) (lit ?Pl x) = Some 0" if "quiet_machine s" for s x
    using strlen_length [of "kmem s" "0x5000" "[]"] that
    by (simp add: quiet_machine_def lit_def card_platform_def)
  moreover have "\<exists>r dev t. sd_card_init ?Pl (Some None) s = Some (r, dev, t) \<and> quiet_machine t" if "quiet_machine s" for s
    using card_init_fails [of s None] that by (auto simp: sd_card_init_def quiet_machine_def)
  ultimately show ?thesis
    by (auto simp: testable_def print_def kernel_printf_def printf_on_def quiet_machine_def
        console_set_tmp_fg_color_def console_set_fg_color_def console_store_reset_colors_def
        console_reset_colors_def with_console_def card_platform_def)
qed


end
