(* ===== verification/Syscall.thy ===== *)
theory Syscall
  imports Power_Off Console
begin

text \<open>
  System calls: the table of handlers (\<open>src/kernel/sys.c\<close> and \<open>include/unistd.h\<close>), the entry
  points in \<open>src/calls/calls.S\<close>, the demonstration call of \<open>src/calls/calls.c\<close>, and \<open>abort\<close> of
  \<open>src/libc/stdlib.c\<close>. The exception that \<open>svc\<close> raises leads straight to the handler, as the
  vector of \<open>exceptions.S\<close> does for an exception of this class from the current level.
\<close>

section \<open>The table\<close>

datatype syscall_fn = SYS_NI_SYSCALL

definition NR_syscalls :: nat where "NR_syscalls = 443"

text \<open>One entry per line of \<open>unistd.h\<close>, for the numbers 0 to 442 in order.\<close>

definition sys_call_table :: "syscall_fn list" where
  "sys_call_table = map (\<lambda>nr. SYS_NI_SYSCALL) [0..<443]"

definition sys_ni_syscall :: u64 where "sys_ni_syscall = 0"

definition call_syscall :: "syscall_fn \<Rightarrow> u64" where
  "call_syscall f = (case f of SYS_NI_SYSCALL \<Rightarrow> sys_ni_syscall)"

section \<open>Entry\<close>

text \<open>The handler loads the entry of the table without a check; beyond its end there is none.\<close>

definition sys_call_handler :: "u64 \<Rightarrow> 'h kstate \<Rightarrow> (u64 \<times> 'h kstate) option" where
  "sys_call_handler nr s =
     (if unat nr < length sys_call_table then Some (call_syscall (sys_call_table ! unat nr), s) else None)"

text \<open>The branches \<open>bgt\<close> and \<open>blt\<close> compare signed numbers.\<close>

definition syscall :: "u64 \<Rightarrow> 'h kstate \<Rightarrow> (u64 \<times> 'h kstate) option" where
  "syscall nr s =
     (if sint nr > int NR_syscalls then Some (-1, s\<lparr>errno := EINVAL\<rparr>)
      else if sint nr < 0 then Some (-1, s\<lparr>errno := EINVAL\<rparr>)
      else sys_call_handler nr s)"

fun hello_lines :: "'h platform \<Rightarrow> (string \<times> u64) list \<Rightarrow> 'h kstate \<Rightarrow> 'h kstate option" where
  "hello_lines Pl [] s = Some s"
| "hello_lines Pl ((x, v) # xs) s = do {
     (_, s) \<leftarrow> uart0_printf Pl (literal (x @ ''%#lx'') @ [0x0A]) [v] s;
     hello_lines Pl xs s
   }"

definition syscall_hello ::
    "'h platform \<Rightarrow> u64 \<Rightarrow> u64 \<Rightarrow> u64 \<Rightarrow> u64 \<Rightarrow> u64 \<Rightarrow> u64 \<Rightarrow> u64 \<Rightarrow> 'h kstate \<Rightarrow> (u64 \<times> 'h kstate) option" where
  "syscall_hello Pl nr x1 x2 x3 x4 x5 x6 s = do {
     (_, s) \<leftarrow> uart0_printf Pl (literal ''syscall_hello args:'' @ [0x0A]) [] s;
     s \<leftarrow> hello_lines Pl [(''nr:   '', nr), (''arg1: '', x1), (''arg2: '', x2), (''arg3: '', x3),
       (''arg4: '', x4), (''arg5: '', x5), (''arg6: '', x6)] s;
     Some (x1 + x2 + x3 + x4 + x5 + x6, s)
   }"

section \<open>\<open>abort\<close>\<close>

definition abort :: "'h platform \<Rightarrow> 'h kstate \<Rightarrow> 'h kstate option" where
  "abort Pl s = do {
     s \<leftarrow> uart0_puts Pl (lit Pl (''abort() called'' @ [CHR 0x0A])) s;
     spin s
   }"

section \<open>Which numbers are served\<close>

lemma call_table: "i < 443 \<Longrightarrow> call_syscall (sys_call_table ! i) = 0"
  by (simp add: sys_call_table_def call_syscall_def sys_ni_syscall_def)

text \<open>
  C40: every system call from 0 to 442 returns 0 and changes nothing; negative numbers and
  numbers above 443 return -1 with the error \<open>EINVAL\<close>; and 443, one past the last, passes the
  check although the table has no entry for it.
\<close>

theorem syscall_result:
  "syscall nr s =
     (if 0 \<le> sint nr \<and> sint nr < 443 then Some (0, s)
      else if sint nr = 443 then None
      else Some (-1, s\<lparr>errno := EINVAL\<rparr>))"
proof -
  have "unat nr = nat (sint nr)" if "0 \<le> sint nr"
    using that sint_lt [of nr] by (simp add: nat_uint_eq [symmetric] uint_take_bit_sint take_bit_int_eq_self)
  then show ?thesis
    by (auto simp: syscall_def sys_call_handler_def NR_syscalls_def sys_call_table_def
        call_syscall_def sys_ni_syscall_def)
qed

end
