(* ===== verification/Kernel_Main.thy ===== *)
theory Kernel_Main
  imports Shell_Line Self_Test Syscall Strerror
begin

text \<open>
  \<open>kernel_main\<close> (\<open>src/kernel/main.c\<close>): the order in which the parts of the kernel are started, and
  the endless loop of the shell. The current exception level and the initial value of the
  uninitialised pointer \<open>dev\<close> are parameters; local variables whose address is taken are in RAM
  at the addresses the platform gives.
\<close>

section \<open>Tags of the queries\<close>

definition MBOX_TAG_GET_FIRMWARE_VER :: u32 where "MBOX_TAG_GET_FIRMWARE_VER = 0x00000001"
definition MBOX_TAG_GET_BOARD_MODEL :: u32 where "MBOX_TAG_GET_BOARD_MODEL = 0x00010001"
definition MBOX_TAG_GET_BOARD_REVISION :: u32 where "MBOX_TAG_GET_BOARD_REVISION = 0x00010002"
definition MBOX_TAG_GET_MAC_ADDRESS :: u32 where "MBOX_TAG_GET_MAC_ADDRESS = 0x00010003"
definition MBOX_TAG_GET_SERIAL_NUMBER :: u32 where "MBOX_TAG_GET_SERIAL_NUMBER = 0x00010004"
definition MBOX_TAG_GET_ARM_MEMORY :: u32 where "MBOX_TAG_GET_ARM_MEMORY = 0x00010005"
definition MBOX_TAG_GET_GPU_MEMORY :: u32 where "MBOX_TAG_GET_GPU_MEMORY = 0x00010006"

definition FG_COLOR :: u32 where "FG_COLOR = 0xe0e0e0"
definition BG_COLOR :: u32 where "BG_COLOR = 0x202020"

text \<open>A format and a string literal that end with a newline.\<close>

definition line :: "string \<Rightarrow> byte list" where "line x = literal x @ [0x0A]"
definition line_lit :: "'h platform \<Rightarrow> string \<Rightarrow> addr" where "line_lit Pl x = lit Pl (x @ [CHR 0x0A])"

definition puts_line :: "'h platform \<Rightarrow> string \<Rightarrow> 'h kstate \<Rightarrow> 'h kstate option" where
  "puts_line Pl x s = uart0_puts Pl (line_lit Pl x) s"

text \<open>A local variable of \<open>kernel_main\<close>, as an argument of \<open>printf\<close>.\<close>

definition local32 :: "'h platform \<Rightarrow> string \<Rightarrow> u64 \<Rightarrow> 'h kstate \<Rightarrow> u64" where
  "local32 Pl x off s = ucast (get_local Pl x off s)"

section \<open>Board information\<close>

text \<open>A property call without input; the answer goes to the variable \<open>x\<close>.\<close>

definition board_query ::
    "'h platform \<Rightarrow> u32 \<Rightarrow> u64 \<Rightarrow> string \<Rightarrow> string \<Rightarrow> ('h kstate \<Rightarrow> 'h kstate option) \<Rightarrow> 'h kstate \<Rightarrow> 'h kstate option" where
  "board_query Pl tag n x what shown s = do {
     (err, s) \<leftarrow> mbox_prop_call Pl (local_addr Pl ''kernel_main.mbox'') tag n 0 (local_addr Pl x) s;
     if err \<noteq> MBOX_SUCCESS then puts_line Pl (''Unable to query serial ('' @ what @ '')!'') s
     else shown s
   }"

definition board_info :: "'h platform \<Rightarrow> 'h kstate \<Rightarrow> 'h kstate option" where
  "board_info Pl s = do {
     s \<leftarrow> board_query Pl MBOX_TAG_GET_FIRMWARE_VER 4 ''kernel_main.firmware_version'' ''firmware version''
       (\<lambda>s. print Pl (line ''Firmware version: %x'') [local32 Pl ''kernel_main.firmware_version'' 0 s] s) s;
     s \<leftarrow> board_query Pl MBOX_TAG_GET_BOARD_MODEL 4 ''kernel_main.board_model'' ''board model''
       (\<lambda>s. print Pl (line ''Board model: %d (%#x)'')
          [local32 Pl ''kernel_main.board_model'' 0 s, local32 Pl ''kernel_main.board_model'' 0 s] s) s;
     s \<leftarrow> board_query Pl MBOX_TAG_GET_BOARD_REVISION 4 ''kernel_main.board_revision'' ''board revision''
       (\<lambda>s. print Pl (line ''Board revision: %d'') [local32 Pl ''kernel_main.board_revision'' 0 s] s) s;
     s \<leftarrow> board_query Pl MBOX_TAG_GET_MAC_ADDRESS 6 ''kernel_main.MAC_address'' ''MAC address''
       (\<lambda>s. do {
          s \<leftarrow> uart0_puts Pl (lit Pl ''MAC address: '') s;
          s \<leftarrow> uart0_rnhex Pl (local_addr Pl ''kernel_main.MAC_address'') 6 (lit Pl '':'') s;
          puts_line Pl '''' s
        }) s;
     s \<leftarrow> board_query Pl MBOX_TAG_GET_SERIAL_NUMBER 8 ''kernel_main.serial_number'' ''serial number''
       (\<lambda>s. print Pl (line ''Serial number: %lx'') [field (kmem s) (local_addr Pl ''kernel_main.serial_number'') 8] s) s;
     puts_line Pl '''' s
   }"

definition memory_info :: "'h platform \<Rightarrow> 'h kstate \<Rightarrow> 'h kstate option" where
  "memory_info Pl s = do {
     s \<leftarrow> board_query Pl MBOX_TAG_GET_ARM_MEMORY 8 ''kernel_main.ARM_mem'' ''ARM memory''
       (\<lambda>s. print Pl (literal ''ARM memory:'' @ [0x0A] @ literal ''Base address: %p'' @ [0x0A] @ line ''Size: %x'')
          [local32 Pl ''kernel_main.ARM_mem'' 0 s, local32 Pl ''kernel_main.ARM_mem'' 4 s] s) s;
     s \<leftarrow> puts_line Pl '''' s;
     s \<leftarrow> board_query Pl MBOX_TAG_GET_GPU_MEMORY 8 ''kernel_main.GPU_mem'' ''GPU memory''
       (\<lambda>s. print Pl (literal ''GPU memory:'' @ [0x0A] @ literal ''Base address: %p'' @ [0x0A] @ line ''Size: %x'')
          [local32 Pl ''kernel_main.GPU_mem'' 0 s, local32 Pl ''kernel_main.GPU_mem'' 4 s] s) s;
     puts_line Pl '''' s
   }"

section \<open>The screen\<close>

definition show_dims :: "'h platform \<Rightarrow> string \<Rightarrow> string \<Rightarrow> 'h kstate \<Rightarrow> 'h kstate option" where
  "show_dims Pl fmt x s = print Pl (line fmt) [local32 Pl x 0 s, local32 Pl x 4 s] s"

definition display_info :: "'h platform \<Rightarrow> 'h kstate \<Rightarrow> 'h kstate option" where
  "display_info Pl s = do {
     (err, s) \<leftarrow> fb_dims Pl FB_ATTR_GET 0 (local_addr Pl ''kernel_main.display_info'') s;
     s \<leftarrow> (if err \<noteq> FB_SUCCESS then puts_line Pl ''Unable to query serial (Physical display dimensions)!'' s
            else show_dims Pl ''Display (in memory): %dx%d'' ''kernel_main.display_info'' s);
     (err, s) \<leftarrow> fb_vdims Pl FB_ATTR_GET 0 (local_addr Pl ''kernel_main.virt_display_info'') s;
     s \<leftarrow> (if err \<noteq> FB_SUCCESS then puts_line Pl ''Unable to query serial (Virtual display dimensions)!'' s
            else show_dims Pl ''Display (to monitor): %dx%d'' ''kernel_main.virt_display_info'' s);
     s \<leftarrow> print Pl [0x0A] [] s;
     (err, s) \<leftarrow> fb_bit_depth Pl FB_ATTR_GET (local_addr Pl ''kernel_main.bit_depth'') (local_addr Pl ''kernel_main.bit_depth_result'') s;
     if err \<noteq> FB_SUCCESS
     then print Pl (literal ''Error - unable to get bit depth!'' @ [0x0A] @ line ''Err code: %#lx'') [err] s
     else print Pl (line ''Bit depth: %d'') [local32 Pl ''kernel_main.bit_depth_result'' 0 s] s
   }"

definition screen_message :: "u32 \<Rightarrow> u32 list" where
  "screen_message depth =
     [80, MBOX_REQUEST,
      MBOX_TAG_FB_SET_DIMS, 8, 0, 640, 480,
      MBOX_TAG_FB_SET_VIRT_DIMS, 8, 0, 640, 480,
      MBOX_TAG_FB_SET_DEPTH, 4, 0, depth,
      MBOX_TAG_LAST, 0, 0, 0]"

text \<open>The message announces its own size, and the answer to the third tag is where \<open>set_screen\<close> looks.\<close>

lemma screen_message_size:
  "screen_message depth ! 0 = 4 * of_nat (length (screen_message depth))" "screen_message depth ! 15 = depth"
  by (simp_all add: screen_message_def)

text \<open>The endless loops after a fatal error: the port is echoed, or nothing happens.\<close>

partial_function (option) echo_forever :: "'h platform \<Rightarrow> 'h kstate \<Rightarrow> 'h kstate option" where
  "echo_forever Pl s = do {
     (c, s) \<leftarrow> uart0_getc Pl s;
     s \<leftarrow> uart0_putc Pl (ucast c) s;
     echo_forever Pl s
   }"

definition set_screen :: "'h platform \<Rightarrow> 'h kstate \<Rightarrow> 'h kstate option" where
  "set_screen Pl s = do {
     let depth = 24;
     let mbox = local_addr Pl ''kernel_main.mbox'';
     (_, s) \<leftarrow> fb_release Pl s;
     s \<leftarrow> print Pl (line ''Setting physical/virtual display size to 640x480, and bit depth to %d...'') [ucast depth] s;
     let s = s\<lparr>kmem := store_words mbox 0 (screen_message depth) (kmem s)\<rparr>;
     (r, s) \<leftarrow> mbox_call_raw Pl mbox s;
     if r = 0 then do {
       s \<leftarrow> print Pl (line ''Error running combined VC mailbox call.'') [] s;
       echo_forever Pl s
     }
     else if get_word (kmem s) mbox 15 \<noteq> depth
     then print Pl (line ''Error setting pixel depth to %d, it is instead set to %d'')
            [ucast depth, ucast (get_word (kmem s) mbox 15)] s
     else Some s
   }"

definition start_screen :: "'h platform \<Rightarrow> 'h kstate \<Rightarrow> 'h kstate option" where
  "start_screen Pl s = do {
     s \<leftarrow> print Pl (line ''Requesting a framebuffer...'') [] s;
     (err, s) \<leftarrow> fb_alloc Pl 16 s;
     if err \<noteq> FB_SUCCESS then do {
       s \<leftarrow> print Pl (line ''Error requesting a framebuffer.'') [] s;
       echo_forever Pl s
     }
     else do {
       (_, s) \<leftarrow> fb_dims Pl FB_ATTR_GET 0 (local_addr Pl ''kernel_main.display_info'') s;
       let s = console_set_fg_color FG_COLOR (console_set_bg_color BG_COLOR s);
       (_, s) \<leftarrow> set_rectangle Pl 0 0 (get_local Pl ''kernel_main.display_info'' 0 s) (get_local Pl ''kernel_main.display_info'' 4 s) BG_COLOR s;
       s \<leftarrow> print Pl (line ''Got framebuffer at %p of size %d.'')
         [ucast (base_addr (framebuf s)), ucast (mem_size (framebuf s))] s;
       s \<leftarrow> show_dims Pl ''Display dimensions: %dx%d'' ''kernel_main.display_info'' s;
       (_, s) \<leftarrow> fb_get_pitch Pl (local_addr Pl ''kernel_main.pitch'') s;
       s \<leftarrow> print Pl (line ''Pitch: %d'') [local32 Pl ''kernel_main.pitch'' 0 s] s;
       print Pl [0x0A, 0x0A] [] s
     }
   }"

section \<open>Tests at boot\<close>

definition show_count :: "'h platform \<Rightarrow> string \<Rightarrow> u32 \<Rightarrow> u64 \<Rightarrow> 'h kstate \<Rightarrow> 'h kstate option" where
  "show_count Pl x color n s = do {
     s \<leftarrow> print Pl (literal x) [] s;
     s \<leftarrow> print Pl (literal ''%lu'') [n] (console_set_tmp_fg_color color s);
     Some (console_reset_colors s)
   }"

definition run_boot_tests :: "'h platform \<Rightarrow> ('h kstate \<Rightarrow> addr \<times> 'h kstate) \<Rightarrow> 'h kstate \<Rightarrow> 'h kstate option" where
  "run_boot_tests Pl brk s = do {
     (_, st, s) \<leftarrow> test_all Pl brk True s;
     s \<leftarrow> print Pl [0x0A] [] s;
     s \<leftarrow> print Pl (line ''Test results (%lu total tests)'') [total st] s;
     s \<leftarrow> show_count Pl ''Passed: '' CONFIG_COLOR_TEST_PASS (passed st) s;
     s \<leftarrow> show_count Pl '', Warnings: '' CONFIG_COLOR_TEST_WARN (warned st) s;
     s \<leftarrow> show_count Pl '', Failed: '' CONFIG_COLOR_TEST_FAIL (failed st) s;
     s \<leftarrow> show_count Pl '', Skipped: '' CONFIG_COLOR_TEST_SKIP (skipped st) s;
     s \<leftarrow> print Pl [0x0A] [] s;
     print Pl [0x0A] [] s
   }"

definition try_syscall :: "'h platform \<Rightarrow> i32 \<Rightarrow> 'h kstate \<Rightarrow> (i32 \<times> 'h kstate) option" where
  "try_syscall Pl i s = do {
     s \<leftarrow> print Pl (line ''Running syscall(%#x)...'') [ucast i] s;
     (r, s) \<leftarrow> syscall (scast i) s;
     s \<leftarrow> print Pl (line ''System call returned %d'') [ucast (ucast r :: i32)] s;
     Some (ucast r, s)
   }"

lemma sint_minus_53: "0 < sint (i :: i32) \<Longrightarrow> sint (i - 53) = sint i - 53"
  using sint_lt [of i] by (simp add: sint_word_ariths(2) signed_take_bit_int_eq_self)

function syscall_loop :: "'h platform \<Rightarrow> i32 \<Rightarrow> 'h kstate \<Rightarrow> (i32 \<times> 'h kstate) option" where
  "syscall_loop Pl i s =
     (if sint i > 0 then do {
        (_, s) \<leftarrow> try_syscall Pl i s;
        syscall_loop Pl (i - 53) s
      }
      else Some (i, s))"
  by pat_completeness auto
termination
  by (relation "measure (\<lambda>(Pl, i, s). nat (sint i))") (simp_all add: sint_minus_53)

definition run_syscalls :: "'h platform \<Rightarrow> u64 \<Rightarrow> 'h kstate \<Rightarrow> 'h kstate option" where
  "run_syscalls Pl el s = do {
     s \<leftarrow> print Pl (line ''Current Exception Level: %ld'') [el] s;
     (i, s) \<leftarrow> syscall_loop Pl 442 s;
     (r, s) \<leftarrow> try_syscall Pl i s;
     s \<leftarrow> (if r \<noteq> 0 then print Pl (line ''errno: %d'') [errno s] s else Some s);
     print Pl [0x0A] [] s
   }"

definition try_malloc :: "'h platform \<Rightarrow> u64 \<Rightarrow> 'h kstate \<Rightarrow> (addr \<times> 'h kstate) option" where
  "try_malloc Pl n s = do {
     (p, s) \<leftarrow> malloc Pl n s;
     s \<leftarrow> print Pl (line ''malloc(%d) returned %p'') [n, p] s;
     Some (p, s)
   }"

definition run_mallocs :: "'h platform \<Rightarrow> 'h kstate \<Rightarrow> 'h kstate option" where
  "run_mallocs Pl s = do {
     (p, s) \<leftarrow> try_malloc Pl (100 * 4) s;
     s \<leftarrow> free Pl p s;
     (p, s) \<leftarrow> try_malloc Pl 257 s;
     s \<leftarrow> free Pl p s;
     (a, s) \<leftarrow> try_malloc Pl 4094 s;
     (b, s) \<leftarrow> try_malloc Pl 4094 s;
     s \<leftarrow> free Pl a s;
     s \<leftarrow> free Pl b s;
     s \<leftarrow> print Pl (literal ''Finished freeing all malloc'' @ [0x27] @ line ''d memory'') [] s;
     print Pl [0x0A] [] s
   }"

declare syscall_loop.simps [simp del]

section \<open>The SD card\<close>

text \<open>The call through the pointer \<open>read\<close> of the device, and its block size.\<close>

definition dev_read :: "(emmc_block_dev, 'h) reader" where
  "dev_read Pl d p n b s =
     (case read_fn (bd d) of
        Fn_sd_read \<Rightarrow> sd_read Pl d p n b s
      | Fn_sd_write \<Rightarrow> sd_write Pl d p n b s
      | Fn_null \<Rightarrow> None)"

definition dev_block_size :: "emmc_block_dev \<Rightarrow> u64" where
  "dev_block_size d = bd_block_size (bd d)"

definition fatal_prefix :: "'h platform \<Rightarrow> 'h kstate \<Rightarrow> 'h kstate option" where
  "fatal_prefix Pl s = do {
     s \<leftarrow> print Pl (literal ''ERR ('') [] s;
     s \<leftarrow> print Pl (literal ''FATAL'') [] (console_set_tmp_fg_color CONFIG_COLOR_TEST_FAIL s);
     Some (console_reset_colors s)
   }"

definition init_sd_card ::
    "'h platform \<Rightarrow> emmc_block_dev option \<Rightarrow> 'h kstate \<Rightarrow> (emmc_block_dev \<times> 'h kstate) option" where
  "init_sd_card Pl dev s = do {
     (err, dev, s) \<leftarrow> sd_card_init Pl (Some dev) s;
     if err \<noteq> 0 then do {
       s \<leftarrow> fatal_prefix Pl s;
       s \<leftarrow> print Pl (line ''): failed to initialise SD card - sd_card_init() returned %d'') [of_int err] s;
       s \<leftarrow> spin s;
       None
     }
     else
       (case dev of
          Some (Some d) \<Rightarrow> Some (d, s)
        | _ \<Rightarrow> None)
   }"

definition show_volume :: "'h platform \<Rightarrow> exfat_superblock \<Rightarrow> 'h kstate \<Rightarrow> 'h kstate option" where
  "show_volume Pl sb s = do {
     s \<leftarrow> print Pl (line ''SD card exFAT properties (from boot block)'') [] s;
     s \<leftarrow> print Pl (line ''Volume serial number    %#x'') [ucast (volume_serialnumber sb)] s;
     s \<leftarrow> print Pl (line ''FS version              %#hx'') [ucast (fs_revision sb)] s;
     s \<leftarrow> print Pl (line ''Sector size             %ld'') [sectorsize sb] s;
     s \<leftarrow> print Pl (line ''Cluster size            %#ld'') [sectorsize sb * clustersize sb] s;
     s \<leftarrow> print Pl (line ''Sectors count           %#ld'') [volume_length sb] s;
     s \<leftarrow> print Pl (line ''Clusters Count          %#d'') [ucast (cluster_count sb)] s;
     s \<leftarrow> print Pl (line ''First sector            %#ld'') [partition_offset sb] s;
     s \<leftarrow> print Pl (line ''FAT first sector        %#d'') [ucast (fat_offset sb)] s;
     s \<leftarrow> print Pl (line ''Fat sectors count       %#d'') [ucast (fat_length sb)] s;
     s \<leftarrow> print Pl (line ''First cluster sector    %#d'') [ucast (clusterheap_offset sb)] s;
     s \<leftarrow> print Pl (line ''Root directory cluster  %d'') [ucast (rootdir_start sb)] s;
     s \<leftarrow> print Pl (line ''FATs count              %hhd'') [ucast (fat_cnt sb)] s;
     s \<leftarrow> print Pl (line ''Allocated space         %hhd%%'') [ucast (use_percent sb)] s;
     print Pl [0x0A] [] s
   }"

definition read_volume ::
    "'h platform \<Rightarrow> emmc_block_dev \<Rightarrow> 'h kstate \<Rightarrow> (emmc_block_dev \<times> 'h kstate) option" where
  "read_volume Pl d s = do {
     (err, sb, d, s) \<leftarrow> exfat_read_boot_block dev_read dev_block_size Pl d
       (local_super (kmem s) (local_addr Pl ''kernel_main.exfat_info'')) s;
     if err \<noteq> 0 then do {
       s \<leftarrow> fatal_prefix Pl s;
       s \<leftarrow> print Pl (literal ''): Failed to read SD boot block: '' @ [0x27] @ literal ''%s'' @ [0x27]
             @ line '' (Error %d)'') [lit Pl (strerror (ucast (errno s))), errno s] s;
       s \<leftarrow> spin s;
       None
     }
     else do {
       s \<leftarrow> show_volume Pl sb s;
       Some (d, s)
     }
   }"

section \<open>The whole kernel\<close>

definition say_hello :: "'h platform \<Rightarrow> u64 \<Rightarrow> 'h kstate \<Rightarrow> 'h kstate option" where
  "say_hello Pl el s = do {
     s \<leftarrow> uart0_init Pl s;
     s \<leftarrow> puts_line Pl ''Hello world'' s;
     s \<leftarrow> print Pl (line ''Current Exception Level: %ld'') [el] s;
     (_, s) \<leftarrow> console_init Pl s;
     Some (console_set_fg_color 0xffffff s)
   }"

text \<open>Everything before the loop of the shell; \<open>el\<close> is what \<open>GET_EL\<close> returns.\<close>

definition kernel_start ::
    "'h platform \<Rightarrow> u64 \<Rightarrow> ('h kstate \<Rightarrow> addr \<times> 'h kstate) \<Rightarrow> emmc_block_dev option \<Rightarrow> shell_state \<Rightarrow> 'h kstate \<Rightarrow>
     (emmc_block_dev process_env \<times> shell_state \<times> 'h kstate) option" where
  "kernel_start Pl el brk dev st s = do {
     s \<leftarrow> say_hello Pl el s;
     s \<leftarrow> board_info Pl s;
     s \<leftarrow> memory_info Pl s;
     s \<leftarrow> display_info Pl s;
     s \<leftarrow> set_screen Pl s;
     s \<leftarrow> start_screen Pl s;
     s \<leftarrow> run_boot_tests Pl brk s;
     s \<leftarrow> run_syscalls Pl el s;
     s \<leftarrow> run_mallocs Pl s;
     (d, s) \<leftarrow> init_sd_card Pl dev s;
     (d, s) \<leftarrow> read_volume Pl d s;
     let env = \<lparr>pid = 0, proc_state = PROC_STATE_RUNNING, wdir = lit Pl ''/'', root_dev = d\<rparr>;
     (_, st, s) \<leftarrow> shell_init Pl st s;
     Some (env, st, s)
   }"

partial_function (option) shell_loop ::
    "'h realloc_fun \<Rightarrow> (emmc_block_dev \<Rightarrow> addr \<Rightarrow> 'h kstate \<Rightarrow> emmc_block_dev) \<Rightarrow> 'h platform \<Rightarrow>
     emmc_block_dev process_env \<Rightarrow> shell_state \<Rightarrow> 'h kstate \<Rightarrow> 'h kstate option" where
  "shell_loop rl view Pl env st s = do {
     (env, st, s) \<leftarrow> shell_round rl dev_read dev_block_size view Pl env st s;
     shell_loop rl view Pl env st s
   }"

definition kernel_main ::
    "'h realloc_fun \<Rightarrow> (emmc_block_dev \<Rightarrow> addr \<Rightarrow> 'h kstate \<Rightarrow> emmc_block_dev) \<Rightarrow> 'h platform \<Rightarrow> u64 \<Rightarrow>
     ('h kstate \<Rightarrow> addr \<times> 'h kstate) \<Rightarrow> emmc_block_dev option \<Rightarrow> shell_state \<Rightarrow> 'h kstate \<Rightarrow> 'h kstate option" where
  "kernel_main rl view Pl el brk dev st s = do {
     (env, st, s) \<leftarrow> kernel_start Pl el brk dev st s;
     shell_loop rl view Pl env st s
   }"

text \<open>Neither the loop of the shell nor the kernel returns, whatever the user types.\<close>

lemma shell_loop_never_returns: "shell_loop rl view Pl env st s = None"
proof -
  have False if "shell_loop rl view Pl env st s = Some y" for y
    by (rule shell_loop.raw_induct [where P = "\<lambda>_ _ _ _ _ _ _. False", OF _ that])
      (simp add: bind_eq_Some_conv case_prod_beta, metis)
  then show ?thesis by (cases "shell_loop rl view Pl env st s") simp_all
qed

lemma kernel_main_never_returns: "kernel_main rl view Pl el brk dev st s = None"
  by (simp add: kernel_main_def shell_loop_never_returns split: Option.bind_splits)

section \<open>Left over from debugging\<close>

text \<open>The enumerators are numbered from 0 in the order of the list. \<open>delay\<close> only counts.\<close>

definition dirent_type_names :: "string list" where
  "dirent_type_names =
     [''Invalid directory entry type'', ''End of directory'', ''Allocation Bitmap'', ''Up-case table'',
      ''Volume label'', ''File'', ''Volume GUID'', ''Stream extension'', ''File name'',
      ''Vendor extension'', ''Vendor allocation'', ''TexFAT padding'']"

definition dbg_exfat_dirent_str :: "byte \<Rightarrow> string" where
  "dbg_exfat_dirent_str x =
     (if unat x < length dirent_type_names then dirent_type_names ! unat x
      else ''Unknown directory entry type'')"

end
