(* ===== verification/Spec2Isabelle.thy ===== *)
theory Spec2Isabelle
  imports Timer CString Strerror Heap Mbox Emmc_Data Printf_Spec Uart Power_Off Fat_Dir Console_Spec
    Shell_Spec Shell_Line Self_Test Syscall Kernel_Main
begin

text \<open>
  YtrewqOS, a kernel for the Raspberry Pi 3 (AArch64, one core, no MMU, no interrupts): a
  translation of its C code into definitions, and what holds of them.

  \<^bold>\<open>The program.\<close> \<open>kernel_main\<close> (\<open>src/kernel/main.c\<close>) starts the serial port and the text
  console, asks the VideoCore for the board, the memory and the screen, draws, runs the tests,
  tries the system calls and the allocator, initialises the SD card, reads the boot sector of
  its exFAT volume, and enters the loop of the shell. Everything the drivers do is done by
  polling registers; nothing runs concurrently except the devices. The layers, from below:
  bytes and strings; the bus, the timer and the mailbox; the serial ports, the frame buffer and
  the SD card; \<open>printf\<close> and the console above the ports and the frame buffer; exFAT above the SD
  card; the shell, the tests and the system calls above all of them.

  \<^bold>\<open>Machine and state.\<close> \<open>Machine\<close> defines the state every operation takes and returns:
  \<open>kmem\<close>, RAM as a total map from 64-bit addresses to bytes; \<open>errno\<close>; the static variables of
  the drivers; and \<open>khw\<close>, an opaque value that stands for all devices. The record \<open>platform\<close>
  holds what is not C code of this repository: the bus accessors \<open>GET32\<close> and \<open>PUT32\<close> of
  \<open>src/boot/boot.S\<close>, as functions that may change \<open>khw\<close> and RAM in any way (the VideoCore writes
  its answers to RAM); \<open>malloc\<close> and \<open>free\<close> of the vendored allocator; the addresses that the
  compiler and the linker choose for automatic variables whose address is taken, for static
  buffers and for string literals. Nothing is assumed of a platform in a definition; a
  theorem that relies on some behaviour of it states that as a hypothesis, and its witness
  gives a concrete platform. Further parameters are \<open>realloc\<close>, \<open>sbrk(0)\<close>, the exception level that
  \<open>GET_EL\<close> returns, the linker symbols \<open>_start\<close> and \<open>__end\<close>, and the value of the pointer \<open>dev\<close>
  that \<open>kernel_main\<close> does not initialise.

  \<^bold>\<open>Conventions.\<close> Integers have their C width (\<open>byte\<close>, \<open>u16\<close>, \<open>u32\<close>, \<open>i32\<close>, \<open>u64\<close> are word
  types, signed comparisons go through \<open>sint\<close>); an \<open>int\<close> result that is only 0, -1 or a size is
  an \<open>int\<close>. A structure is a record, an enumeration a datatype or its numbers, a pointer an
  address, and where the code follows pointers to structures that it alone owns (the list of
  commands, of directory entries, the vector of arguments) the list of these. A routine that
  may fail to return is an \<open>option\<close>: \<open>None\<close> is a computation that does not return, or that does
  something the C language gives no meaning to (a store through a null pointer, a read past the
  arguments). Loops that wait on a device or run to a byte in memory are \<open>partial_function
  (option)\<close>; loops bounded by a counter are recursive functions that terminate, some of them
  over an explicit number of steps left, which is the bound in the code. No fuel is used.
  Expressions are translated with the conversions of the C language, one \<open>ucast\<close> or \<open>scast\<close> each.
  Macros are taken as configured: \<open>EMMC_DEBUG\<close>, \<open>SDMA_SUPPORT\<close> and \<open>SD_CARD_INTERRUPTS\<close> off,
  1.8 V and writing on, \<open>TEST_VERBOSE\<close> 2. Delays made of \<open>nop\<close> instructions have no effect and
  are left out.

  \<^bold>\<open>Theories.\<close>

  \<^item> \<open>Prelude\<close>: machine integers, byte memory, the accesses of \<open>include/kernel/util.h\<close>, C
    strings in memory (\<open>cstr m p xs\<close>), address ranges, and the rules for partial correctness
    (\<open>wlp\<close>: if it returns, then; \<open>wp\<close>: it returns and). \<open>Machine\<close>: the state, the platform,
    \<open>mmio_read\<close> and \<open>mmio_write\<close> of \<open>src/drivers/mmio.c\<close>; \<open>confined W Pl\<close> and \<open>frame W\<close> say that
    RAM changes inside \<open>W\<close> only.

  \<^item> \<open>CString\<close> and \<open>Strerror\<close>: \<open>src/libc/string.c\<close>, every routine, stubs included.
    Lemmas: which bytes each routine changes, what it returns on terminated strings, that it
    returns; \<open>strcmp\<close> against the lexicographic order.

  \<^item> \<open>Timer\<close>: \<open>src/kernel/timer.c\<close> and \<open>TIMEOUT_WAIT\<close>. \<open>Heap\<close>: \<open>src/mm/heap.c\<close>. \<open>Mbox\<close>:
    \<open>src/drivers/mbox.c\<close>. Lemmas: when waits return and what has then passed; that blocks are
    disjoint; the layout of messages and what a successful call means.

  \<^item> \<open>Emmc_Regs\<close>, \<open>Emmc_Clock\<close>, \<open>Emmc_Command\<close>, \<open>Emmc_Init\<close>, \<open>Emmc_Data\<close>:
    \<open>src/drivers/SD/emmc.c\<close>, with the registers of \<open>include/drivers/hw/eMMC.h\<close>. The long bodies
    of \<open>sd_issue_command_int\<close> and \<open>sd_card_init\<close> are cut into stages at their own comments, in
    their order. Lemmas: framing of every stage; outcome of a command; transfer of blocks against
    the queue of words at the data port; that the driver only transfers in the transfer state.
    \<open>Block\<close> is the interface \<open>struct block_device\<close> as the locale \<open>block_reader\<close>; \<open>Emmc_Data\<close>
    interprets it with \<open>sd_read\<close>.

  \<^item> \<open>Printf\<close> and \<open>Printf_Spec\<close>: \<open>src/lib/io/printf.c\<close>; the relation \<open>renders\<close> between a
    format, its arguments and its text; the locale \<open>char_sink\<close> for what an output device keeps
    while it is printed to. \<open>Uart\<close>: both serial ports, which interpret it. \<open>Power_Off\<close>:
    \<open>src/drivers/power/power.c\<close>.

  \<^item> \<open>Framebuf\<close>, \<open>Framebuf_Spec\<close>: \<open>src/kernel/framebuf.c\<close> and
    \<open>src/drivers/graphics/fb_pixels.c\<close>; exactly which bytes a rectangle changes. \<open>Font\<close>,
    \<open>Console\<close>, \<open>Console_Spec\<close>: the font, \<open>src/drivers/graphics/console.c\<close> and
    \<open>src/kernel/printf.c\<close>; the console's cursor against the relation \<open>cursor_steps\<close>, which
    knows nothing of pixels.

  \<^item> \<open>Fat\<close>, \<open>Fat_Spec\<close>, \<open>Fat_Dir\<close>: \<open>src/fs/fat.c\<close> over an arbitrary block device; the
    decoding of the boot sector and of entries against their layout on the volume; the directory
    reader against the relation \<open>dir_lists\<close>, which says what a directory is; the functions that
    lead from a file to its bytes. \<open>Fs_Util\<close>: \<open>src/fs/util.c\<close>.

  \<^item> \<open>Shell\<close>, \<open>Shell_Line\<close>, \<open>Shell_Spec\<close>: \<open>src/kernel/shell.c\<close>; what becomes of a line from
    the keyboard to the command (reading, splitting, finding, running), of the working directory,
    of the moving box and of \<open>cat\<close>. \<open>Self_Test\<close>: \<open>src/test/\<close>. \<open>Syscall\<close>: \<open>src/kernel/sys.c\<close>,
    \<open>src/calls/\<close> and \<open>abort\<close>. \<open>Kernel_Main\<close>: \<open>src/kernel/main.c\<close>, which composes the rest.

  \<^bold>\<open>What is shown.\<close> The properties, numbered from C1, stand in the theory of the code they are
  about, each in front of its theorem. By subject:

  \<^item> the SD card (C1 to C10, C13): readiness before data, results, confinement of writes,
    transfers word for word, removal, announcement of application commands, the clock, and the
    wait that has no timeout;
  \<^item> output (C11, C12, C28 to C31): \<open>printf\<close> prints the text its format means, decimal numbers
    read back, the cursor, rectangles and glyphs;
  \<^item> mailbox, break, timer and strings (C14 to C20);
  \<^item> exFAT (C21 to C27): the boot sector, the table, entries, names, reading, directories;
  \<^item> the shell, the tests and the system calls (C32 to C40).

  Several properties state exactly how the code departs from what it is for: a deadline beyond the wrap of the
  counter is never reached (C19), the block looked up for an entry of the allocation table is the wrong one
  (C22), a short read runs away (C25), a rectangle is one column off (C30), \<open>cd\<close> keeps a pointer
  into the line buffer (C36), \<open>cat\<close> does not return (C38), the number one past the last system
  call passes the check (C40). The others say that the code does what it should, under the
  hypotheses they name.

  \<^bold>\<open>Not modelled.\<close> \<open>src/mm/malloc.c\<close> is Doug Lea's allocator, vendored; the kernel relies on its
  \<open>malloc\<close>, \<open>free\<close> and \<open>realloc\<close> only through their C interface, which is how they appear
  here. \<open>src/boot/boot.S\<close> and \<open>src/calls/exceptions.S\<close> set up exception levels, stacks and
  vectors and save registers, for which the model has no state; of the assembly, the entry of
  the system calls is translated, and the bus accessors are parameters. \<open>quick_memcpy\<close> is
  declared and defined nowhere; \<open>qmemcpy\<close> takes it as a parameter. Of \<open>include/unistd.h\<close> the table of system calls is
  modelled, whose entries are all the same function; the rest of it declares numbers. Cycle
  counts, caches and the order in which a device sees two accesses to different registers are
  not expressed: accesses happen in the order of the program.
\<close>

end
